(* ===== verification/Prelude.thy ===== *)
theory Prelude
  imports Main
begin

text \<open>
  Shared ground of the development: the exceptions the Python code raises, results as
  values of a sum type, calls that may raise and change the world they run in, the string
  operations the sources use, and generic lemmas on these.  Every component theory imports
  this one.
\<close>

section \<open>Exceptions and results\<close>

text \<open>
  An exception is a value.  \<open>ValueError\<close>, \<open>RuntimeError\<close>, \<open>IntegrityError\<close> and
  \<open>AccountWriterFenceError\<close> carry the constant part of their message (or the error code);
  interpolated parts of messages are diagnostics and are left out.  \<open>OtherException\<close> stands
  for every exception class the code does not name.
\<close>

datatype exn =
    ValueError string
  | RuntimeError string
  | IntegrityError string
  | DivisionByZero
  | ExchangeTimeout
  | BinanceAdapterUnavailable
  | ProtectionTimeout
  | ProtectionSubmissionError
  | ExitTimeout
  | ReduceOnlyAlreadyFlat
  | AccountWriterFenceError string
  | FillNormalizationError string
  | OtherException string

type_synonym 'a res = "exn + 'a"

abbreviation ok :: "'a \<Rightarrow> 'a res" where
  "ok \<equiv> Inr"

abbreviation raise :: "exn \<Rightarrow> 'a res" where
  "raise \<equiv> Inl"

text \<open>Sequencing: an exception stops the computation, as an uncaught \<open>raise\<close> does.\<close>

definition bindR :: "'a res \<Rightarrow> ('a \<Rightarrow> 'b res) \<Rightarrow> 'b res" where
  "bindR r f = (case r of Inl e \<Rightarrow> Inl e | Inr x \<Rightarrow> f x)"

text \<open>\<open>if bad: raise e\<close> followed by the rest of the function.\<close>

definition guardR :: "bool \<Rightarrow> exn \<Rightarrow> 'a res \<Rightarrow> 'a res" where
  "guardR bad e rest = (if bad then Inl e else rest)"

named_theorems res_simps \<open>how results compose\<close>
named_theorems call_defs \<open>the definitions of the calls that touch the world\<close>

lemma bindR_simps [simp, res_simps]:
  "bindR (Inl e) f = Inl e"
  "bindR (Inr x) f = f x"
  by (simp_all add: bindR_def)

lemma bindR_Inr_iff [res_simps]: "bindR r f = Inr y \<longleftrightarrow> (\<exists>x. r = Inr x \<and> f x = Inr y)"
  by (cases r) auto

lemma bindR_Inl_iff:
  "bindR r f = Inl e \<longleftrightarrow> r = Inl e \<or> (\<exists>x. r = Inr x \<and> f x = Inl e)"
  by (cases r) auto

lemma guardR_simps [simp]:
  "guardR True e r = Inl e"
  "guardR False e r = r"
  by (simp_all add: guardR_def)

lemma guardR_Inr_iff [res_simps]: "guardR b e r = Inr y \<longleftrightarrow> \<not> b \<and> r = Inr y"
  by (simp add: guardR_def)

lemma guardR_Inl_iff: "guardR b e r = Inl e' \<longleftrightarrow> (b \<and> e' = e) \<or> (\<not> b \<and> r = Inl e')"
  by (auto simp: guardR_def)

lemma guardR_cong [fundef_cong]:
  "\<lbrakk>b = b'; e = e'; \<not> b' \<Longrightarrow> r = r'\<rbrakk> \<Longrightarrow> guardR b e r = guardR b' e' r'"
  by (simp add: guardR_def)

definition is_ok :: "'a res \<Rightarrow> bool" where
  "is_ok r = (case r of Inl _ \<Rightarrow> False | Inr _ \<Rightarrow> True)"

lemma is_ok_simps [simp]: "\<not> is_ok (Inl e)" "is_ok (Inr x)"
  by (simp_all add: is_ok_def)

lemma is_ok_iff: "is_ok r \<longleftrightarrow> (\<exists>x. r = Inr x)"
  by (cases r) auto

section \<open>Calls into the world\<close>

text \<open>
  A call into code outside the module (the exchange adapter) takes the state of the world
  and gives back a result or an exception, and the new state of the world.
\<close>

type_synonym ('w, 'a) call = "'w \<Rightarrow> 'a res \<times> 'w"

text \<open>Sequencing of calls, a pure step inside a call, and the handlers of \<open>try ... except\<close>.\<close>

definition returnC :: "'a \<Rightarrow> ('w, 'a) call" where
  "returnC x w = (Inr x, w)"

definition pureC :: "'a res \<Rightarrow> ('w, 'a) call" where
  "pureC r w = (r, w)"

definition bindC :: "('w, 'a) call \<Rightarrow> ('a \<Rightarrow> ('w, 'b) call) \<Rightarrow> ('w, 'b) call" where
  "bindC m f w = (case m w of (Inl e, w') \<Rightarrow> (Inl e, w') | (Inr x, w') \<Rightarrow> f x w')"

definition catchC :: "('w, 'a) call \<Rightarrow> (exn \<Rightarrow> ('w, 'a) call) \<Rightarrow> ('w, 'a) call" where
  "catchC m h w = (case m w of (Inl e, w') \<Rightarrow> h e w' | (Inr x, w') \<Rightarrow> (Inr x, w'))"

text \<open>\<open>except ... as e: raise ... from e\<close>: the exception is replaced, the state stays.\<close>

definition raise_as :: "(exn \<Rightarrow> exn) \<Rightarrow> ('w, 'a) call \<Rightarrow> ('w, 'a) call" where
  "raise_as g m = catchC m (\<lambda>e. pureC (Inl (g e)))"

lemma call_simps [simp]:
  "returnC x w = (Inr x, w)" "pureC r w = (r, w)"
  "bindC (pureC (Inl e)) f w = (Inl e, w)" "bindC (pureC (Inr x)) f w = f x w"
  "bindC (returnC x) f w = f x w"
  by (simp_all add: returnC_def pureC_def bindC_def)

text \<open>
  \<open>if bad: raise e\<close>, \<open>x = ...; if x is None: raise e\<close>, a step that reads the state it runs in,
  and an assignment to it.
\<close>

definition guardC :: "bool \<Rightarrow> exn \<Rightarrow> ('w, 'a) call \<Rightarrow> ('w, 'a) call" where
  "guardC bad e m w = (if bad then (Inl e, w) else m w)"

definition someC :: "'b option \<Rightarrow> exn \<Rightarrow> ('b \<Rightarrow> ('w, 'a) call) \<Rightarrow> ('w, 'a) call" where
  "someC x e f w = (case x of None \<Rightarrow> (Inl e, w) | Some y \<Rightarrow> f y w)"

definition readC :: "('w \<Rightarrow> ('w, 'a) call) \<Rightarrow> ('w, 'a) call" where
  "readC f w = f w w"

definition modifyC :: "('w \<Rightarrow> 'w) \<Rightarrow> ('w, unit) call" where
  "modifyC f w = (Inr (), f w)"

lemma guard_call_simps [simp]:
  "guardC True e m w = (Inl e, w)" "guardC False e m w = m w"
  "someC None e f w = (Inl e, w)" "someC (Some x) e f w = f x w"
  "readC k w = k w w" "modifyC g w = (Inr (), g w)"
  "bindC (modifyC g) h w = h () (g w)"
  by (simp_all add: guardC_def someC_def readC_def modifyC_def bindC_def)

lemma guardC_iff:
  "guardC b e m w = (r, w') \<longleftrightarrow> (b \<and> r = Inl e \<and> w' = w) \<or> (\<not> b \<and> m w = (r, w'))"
  by (auto simp: guardC_def)

lemma someC_iff:
  "someC x e f w = (r, w') \<longleftrightarrow>
     (x = None \<and> r = Inl e \<and> w' = w) \<or> (\<exists>y. x = Some y \<and> f y w = (r, w'))"
  by (cases x) (auto simp: someC_def)

lemma bindC_Inr_iff:
  "bindC m f w = (Inr y, w') \<longleftrightarrow> (\<exists>x w1. m w = (Inr x, w1) \<and> f x w1 = (Inr y, w'))"
  by (auto simp: bindC_def split: prod.splits sum.splits)

lemma bindC_Inl_iff:
  "bindC m f w = (Inl e, w') \<longleftrightarrow> m w = (Inl e, w') \<or> (\<exists>x w1. m w = (Inr x, w1) \<and> f x w1 = (Inl e, w'))"
  by (auto simp: bindC_def split: prod.splits sum.splits)

lemma raise_as_Inr_iff [simp]: "raise_as g m w = (Inr x, w') \<longleftrightarrow> m w = (Inr x, w')"
  by (cases "m w"; cases "fst (m w)") (auto simp: raise_as_def catchC_def)

lemma raise_as_Inl_iff: "raise_as g m w = (Inl e, w') \<longleftrightarrow> (\<exists>x. m w = (Inl x, w') \<and> e = g x)"
  by (cases "m w"; cases "fst (m w)") (auto simp: raise_as_def catchC_def)

lemma bindC_step: "m w = (Inr x, w1) \<Longrightarrow> bindC m f w = f x w1"
  by (simp add: bindC_def)

lemma raise_as_apply:
  "raise_as g m w = (case m w of (Inl e, w') \<Rightarrow> (Inl (g e), w') | (Inr x, w') \<Rightarrow> (Inr x, w'))"
  by (simp add: raise_as_def catchC_def split: prod.splits sum.splits)

section \<open>Strings\<close>

text \<open>A Python string is modelled by its UTF-8 bytes; \<open>bool(s)\<close> is being non-empty.\<close>

definition lower_char :: "char \<Rightarrow> char" where
  "lower_char c = (let n = (of_char c :: nat) in
     if 65 \<le> n \<and> n \<le> 90 then char_of (n + 32) else c)"

definition lower :: "string \<Rightarrow> string" where
  "lower s = map lower_char s"

text \<open>\<open>xs.split(sep, 1)[0]\<close>: the part before the first separator.\<close>

definition split_head :: "char \<Rightarrow> string \<Rightarrow> string" where
  "split_head c s = takeWhile (\<lambda>d. d \<noteq> c) s"

text \<open>
  \<open>key.rsplit(sep, 1)\<close>: what is before the last separator, \<open>None\<close> when there is none (then
  unpacking the result into two names raises).
\<close>

definition rsplit_head :: "char \<Rightarrow> string \<Rightarrow> string option" where
  "rsplit_head c s =
     (if c \<in> set s then Some (rev (tl (dropWhile (\<lambda>d. d \<noteq> c) (rev s)))) else None)"

lemma split_head_append [simp]:
  "c \<notin> set p \<Longrightarrow> split_head c (p @ c # s) = p"
  by (auto simp: split_head_def takeWhile_append2 takeWhile_tail)

lemma rsplit_head_append [simp]:
  assumes "c \<notin> set d"
  shows "rsplit_head c (s @ c # d) = Some s"
proof -
  have "\<forall>x\<in>set (rev d). x \<noteq> c" using assms by auto
  then have "dropWhile (\<lambda>x. x \<noteq> c) (rev d @ c # rev s) = c # rev s"
    by (subst dropWhile_append2) auto
  then show ?thesis by (simp add: rsplit_head_def)
qed

text \<open>Decimal digits of a natural number, as \<open>str\<close> prints an int.\<close>

definition digit_char :: "nat \<Rightarrow> char" where
  "digit_char n = char_of (48 + n mod 10)"

fun nat_str :: "nat \<Rightarrow> string" where
  "nat_str n = (if n < 10 then [digit_char n] else nat_str (n div 10) @ [digit_char n])"

declare nat_str.simps [simp del]

definition int_str :: "int \<Rightarrow> string" where
  "int_str i = (if i < 0 then CHR ''-'' # nat_str (nat (- i)) else nat_str (nat i))"

definition digit_chars :: "char set" where
  "digit_chars = set ''0123456789''"

lemma digit_char_in: "digit_char n \<in> digit_chars"
proof -
  have "n mod 10 \<in> set [0..<10]" by simp
  moreover have "\<forall>k\<in>set [0..<10]. char_of (48 + k) \<in> digit_chars"
    by (simp add: digit_chars_def upt_rec) code_simp
  ultimately show ?thesis unfolding digit_char_def by blast
qed

lemma set_nat_str: "set (nat_str n) \<subseteq> digit_chars"
  by (induction n rule: nat_str.induct) (subst nat_str.simps, auto simp: digit_char_in)

lemma set_int_str: "0 \<le> i \<Longrightarrow> set (int_str i) \<subseteq> digit_chars"
  by (simp add: int_str_def set_nat_str)

lemma nat_str_not_Nil [simp]: "nat_str n \<noteq> []" "[] \<noteq> nat_str n"
  by (subst nat_str.simps, simp)+

lemma length_nat_str_le: "length (nat_str n) \<le> Suc k \<longleftrightarrow> n < 10 ^ Suc k"
proof (induction k arbitrary: n)
  case 0
  show ?case by (subst nat_str.simps) simp
next
  case (Suc k)
  show ?case
  proof (cases "n < 10")
    case True
    then have "n < 10 ^ Suc (Suc k)" by (rule less_le_trans) simp
    with True show ?thesis by (subst nat_str.simps) simp
  next
    case False
    then show ?thesis using Suc [of "n div 10"]
      by (subst nat_str.simps) (auto simp: less_mult_imp_div_less div_less_iff_less_mult mult.commute)
  qed
qed

lemma digit_char_inj: "digit_char m = digit_char n \<Longrightarrow> m mod 10 = n mod 10"
proof -
  assume "digit_char m = digit_char n"
  then have "(of_char (digit_char m) :: nat) = of_char (digit_char n)" by simp
  moreover have "(48 + m mod 10) mod 256 = 48 + m mod 10" "(48 + n mod 10) mod 256 = 48 + n mod 10"
    by (simp_all add: mod_less)
  ultimately show ?thesis by (simp add: digit_char_def of_char_of)
qed

lemma nat_str_inj: "nat_str m = nat_str n \<Longrightarrow> m = n"
proof (induction m arbitrary: n rule: nat_str.induct)
  case (1 m)
  have ms: "nat_str m = (if m < 10 then [] else nat_str (m div 10)) @ [digit_char m]"
    and ns: "nat_str n = (if n < 10 then [] else nat_str (n div 10)) @ [digit_char n]"
    by (subst nat_str.simps, simp)+
  from 1 ms ns have d: "digit_char m = digit_char n"
    and r: "(if m < 10 then [] else nat_str (m div 10)) = (if n < 10 then [] else nat_str (n div 10))"
    by auto
  from d have e: "m mod 10 = n mod 10" by (rule digit_char_inj)
  show ?case
  proof (cases "m < 10")
    case True
    with r have "n < 10" by (auto split: if_splits)
    with True e show ?thesis by simp
  next
    case False
    with r have "\<not> n < 10" "nat_str (m div 10) = nat_str (n div 10)" by (auto split: if_splits)
    with 1 False have "m div 10 = n div 10" by blast
    with e show ?thesis by (metis div_mult_mod_eq)
  qed
qed

lemma int_str_inj: "0 \<le> i \<Longrightarrow> 0 \<le> j \<Longrightarrow> int_str i = int_str j \<Longrightarrow> i = j"
  by (auto simp: int_str_def dest: nat_str_inj)

section \<open>Lists\<close>

section \<open>Reading text\<close>

text \<open>\<open>s.strip()\<close>, \<open>s.upper()\<close> and \<open>int(s)\<close> on ASCII text; \<open>int\<close> raises where the result is \<open>None\<close>.\<close>

definition is_space :: "char \<Rightarrow> bool" where
  "is_space c = (let n = (of_char c :: nat) in (9 \<le> n \<and> n \<le> 13) \<or> (28 \<le> n \<and> n \<le> 32))"

definition strip :: "string \<Rightarrow> string" where
  "strip s = rev (dropWhile is_space (rev (dropWhile is_space s)))"

definition upper_char :: "char \<Rightarrow> char" where
  "upper_char c = (let n = (of_char c :: nat) in
     if 97 \<le> n \<and> n \<le> 122 then char_of (n - 32) else c)"

definition upper :: "string \<Rightarrow> string" where
  "upper s = map upper_char s"

definition digit_value :: "char \<Rightarrow> int" where
  "digit_value c = int (of_char c) - 48"

text \<open>Digits with single underscores between them; the flag tells whether a digit came before.\<close>

fun read_digits :: "bool \<Rightarrow> int \<Rightarrow> string \<Rightarrow> int option" where
  "read_digits after acc [] = (if after then Some acc else None)"
| "read_digits after acc (c # cs) =
     (if c \<in> digit_chars then read_digits True (acc * 10 + digit_value c) cs
      else if c = CHR ''_'' \<and> after then read_digits False acc cs
      else None)"

definition py_int :: "string \<Rightarrow> int option" where
  "py_int s =
     (case strip s of
        [] \<Rightarrow> None
      | c # cs \<Rightarrow>
          if c = CHR ''-'' then map_option uminus (read_digits False 0 cs)
          else if c = CHR ''+'' then read_digits False 0 cs
          else read_digits False 0 (c # cs))"

lemma digit_char_value: "digit_value (digit_char n) = int (n mod 10)"
proof -
  have "n mod 10 \<in> set [0..<10]" by simp
  moreover have "\<forall>k\<in>set [0..<10]. digit_value (char_of (48 + k)) = int k"
    by (simp add: digit_value_def upt_rec)
  ultimately have "digit_value (char_of (48 + n mod 10)) = int (n mod 10)" by blast
  then show ?thesis by (simp add: digit_char_def)
qed

lemma read_digits_append:
  "set xs \<subseteq> digit_chars \<Longrightarrow> xs \<noteq> [] \<Longrightarrow> c \<in> digit_chars \<Longrightarrow>
     read_digits a acc (xs @ [c]) = map_option (\<lambda>v. v * 10 + digit_value c) (read_digits a acc xs)"
proof (induction xs arbitrary: a acc)
  case (Cons x xs)
  then show ?case by (cases "xs = []") auto
qed simp

lemma read_digits_nat_str: "read_digits a 0 (nat_str n) = Some (int n)"
proof (induction n rule: nat_str.induct)
  case (1 n)
  show ?case
  proof (cases "n < 10")
    case True
    then show ?thesis by (subst nat_str.simps) (simp add: digit_char_in digit_char_value)
  next
    case False
    have "read_digits a 0 (nat_str n) = read_digits a 0 (nat_str (n div 10) @ [digit_char n])"
      using False by (subst nat_str.simps) simp
    also have "\<dots> = Some (int (n div 10) * 10 + int (n mod 10))"
      using 1 False by (subst read_digits_append) (simp_all add: set_nat_str digit_char_in digit_char_value)
    finally show ?thesis using of_nat_add [of "n div 10 * 10" "n mod 10", where 'a = int] by simp
  qed
qed

lemma digits_no_space: "c \<in> digit_chars \<Longrightarrow> \<not> is_space c \<and> c \<noteq> CHR ''-'' \<and> c \<noteq> CHR ''+''"
  by (auto simp: digit_chars_def is_space_def)

lemma strip_id: "\<lbrakk>s = [] \<or> \<not> is_space (hd s) \<and> \<not> is_space (last s)\<rbrakk> \<Longrightarrow> strip s = s"
proof (cases s)
  case (Cons c cs)
  assume a: "s = [] \<or> \<not> is_space (hd s) \<and> \<not> is_space (last s)"
  with Cons have "dropWhile is_space s = s" by simp
  moreover have "rev s = last s # rev (butlast s)" using Cons by (metis append_butlast_last_id rev_eq_Cons_iff rev_rev_ident list.discI)
  then have "dropWhile is_space (rev s) = rev s" using a Cons by simp
  ultimately show ?thesis by (simp add: strip_def)
qed (simp add: strip_def)

lemma strip_int_str [simp]: "strip (int_str n) = int_str n" "int_str n \<noteq> []"
proof -
  have "hd (nat_str k) \<in> digit_chars" "last (nat_str k) \<in> digit_chars" for k
    using set_nat_str [of k] by auto
  then show "strip (int_str n) = int_str n" "int_str n \<noteq> []"
    using digits_no_space by (auto simp: int_str_def is_space_def intro!: strip_id)
qed

text \<open>Reading back the decimal text of an integer.\<close>

lemma py_int_int_str [simp]: "py_int (int_str n) = Some n"
proof (cases "n < 0")
  case True
  then have s: "int_str n = CHR ''-'' # nat_str (nat (- n))" by (simp add: int_str_def)
  then have "strip (CHR ''-'' # nat_str (nat (- n))) = CHR ''-'' # nat_str (nat (- n))"
    using strip_int_str(1) [of n] by simp
  with True s show ?thesis by (simp add: py_int_def read_digits_nat_str)
next
  case False
  then have s: "int_str n = nat_str (nat n)" by (simp add: int_str_def)
  then have "strip (nat_str (nat n)) = nat_str (nat n)" using strip_int_str(1) [of n] by simp
  moreover obtain c cs where c: "nat_str (nat n) = c # cs" by (cases "nat_str (nat n)") auto
  moreover have "c \<in> digit_chars" using set_nat_str [of "nat n"] c by auto
  moreover have "read_digits False 0 (c # cs) = Some n"
    using read_digits_nat_str [of False "nat n"] c False by simp
  ultimately show ?thesis using s digits_no_space [of c] by (simp add: py_int_def)
qed

section \<open>Lists\<close>

text \<open>\<open>tuple(dict.fromkeys(xs))\<close>: duplicates dropped, the first occurrence kept.\<close>

fun dict_fromkeys :: "'a list \<Rightarrow> 'a list" where
  "dict_fromkeys [] = []"
| "dict_fromkeys (x # xs) = x # filter (\<lambda>y. y \<noteq> x) (dict_fromkeys xs)"

lemma set_dict_fromkeys [simp]: "set (dict_fromkeys xs) = set xs"
  by (induction xs) auto

lemma distinct_dict_fromkeys [simp]: "distinct (dict_fromkeys xs)"
  by (induction xs) auto

lemma dict_fromkeys_distinct: "distinct xs \<Longrightarrow> dict_fromkeys xs = xs"
  by (induction xs) (auto simp: filter_id_conv)

end
