(* ===== verification/Enums.thy ===== *)
theory Enums
  imports Prelude
begin

text \<open>
  The enumerations of the V2 engine (\<open>domain/enums.py\<close>), of the candidates
  (\<open>domain/candidates.py\<close>), and of the two older execution state machines
  (\<open>shared/models\<close>).  A \<open>StrEnum\<close> class is a datatype with the members as constructors;
  members of different classes share names, so the development writes them qualified.
\<close>

datatype V2IntentState =
    INTENT_CREATED | EXCHANGE_SUBMITTING | EXCHANGE_UNKNOWN | EXCHANGE_ACKNOWLEDGED
  | FILLED | REJECTED | CANCELLED | EXPIRED

datatype V2PositionState =
    POSITION_PROJECTED | PROTECTED | REDUCING | CLOSED | QUARANTINED

datatype V2ProtectionState =
    PROTECTION_INTENT | PROTECTION_SUBMITTING | PROTECTION_ACTIVE | PROTECTION_TRIGGERED
  | PROTECTION_FILLED | PROTECTION_CANCELLED | PROTECTION_FAILED | PROTECTION_UNKNOWN

datatype V2ExecutionMode = BINANCE_TESTNET | LOCAL_PAPER

datatype V2CandidateType = PRIMARY | SAMPLING | RESEARCH

datatype CandidateLane = PRODUCTION | TESTNET_SAMPLING | SHADOW

datatype CandidateSide = LONG | SHORT

text \<open>The execution lifecycle of the older gateway (\<open>shared/models/trading.py\<close>).\<close>

datatype ExecutionState =
    INTENT_CREATED | NORMALIZED | SUBMITTING | SUBMITTED | PARTIALLY_FILLED | FILLED
  | PROTECTION_PENDING | PROTECTED | CANCELED | REJECTED | UNKNOWN | RECOVERY_REQUIRED | CLOSED

text \<open>The exchange-first order lifecycle (\<open>shared/models/execution_truth.py\<close>).\<close>

datatype ExchangeOrderState =
    INTENT_CREATED | PRETRADE_APPROVED | EXCHANGE_SUBMITTING | EXCHANGE_ACKNOWLEDGED
  | PARTIALLY_FILLED | FILLED | POSITION_PROJECTED | PROTECTION_SUBMITTING | PROTECTED
  | PRETRADE_REJECTED | EXCHANGE_REJECTED | EXCHANGE_UNKNOWN | PROTECTION_FAILED
  | EMERGENCY_CLOSE_PENDING | DUST_REMAINS | CLOSED

end
