(* ===== verification/Py_Decimal.thy ===== *)
theory Py_Decimal
  imports Complex_Main Prelude
begin

text \<open>
  Python's \<open>decimal.Decimal\<close> in the default context, the number type of the whole engine:
  28 significant digits, ties to even.  A finite decimal is the rational it denotes; every
  arithmetic operation computes exactly and then rounds to the context, as the standard
  prescribes.  Comparisons, \<open>min\<close>, \<open>max\<close> and \<open>to_integral_value\<close> do not round.  Signalling
  values (NaN, infinities) and exponents beyond the context's limits are outside the model.
\<close>

type_synonym dec = rat

section \<open>Rounding to an integer\<close>

definition round_half_even :: "rat \<Rightarrow> int" where
  "round_half_even x =
     (let f = \<lfloor>x\<rfloor>; r = x - of_int f in
      if r < 1 / 2 then f else if 1 / 2 < r then f + 1 else if even f then f else f + 1)"

datatype rounding = ROUND_DOWN | ROUND_FLOOR | ROUND_CEILING

definition to_integral_value :: "rounding \<Rightarrow> dec \<Rightarrow> dec" where
  "to_integral_value m x =
     (case m of
        ROUND_FLOOR \<Rightarrow> of_int \<lfloor>x\<rfloor>
      | ROUND_CEILING \<Rightarrow> of_int \<lceil>x\<rceil>
      | ROUND_DOWN \<Rightarrow> (if 0 \<le> x then of_int \<lfloor>x\<rfloor> else of_int \<lceil>x\<rceil>))"

section \<open>The context: 28 significant digits\<close>

function ndigits :: "int \<Rightarrow> nat" where
  "ndigits n = (if n < 10 then 1 else Suc (ndigits (n div 10)))"
  by auto
termination by (relation "measure nat") auto

declare ndigits.simps [simp del]

text \<open>The exponent of the leading digit.\<close>

definition adjusted :: "rat \<Rightarrow> int" where
  "adjusted x =
     (let q = quotient_of \<bar>x\<bar>;
          k = int (ndigits (fst q)) - int (ndigits (snd q))
      in if 10 powi k \<le> \<bar>x\<bar> then k else k - 1)"

definition ulp :: "rat \<Rightarrow> rat" where
  "ulp x = 10 powi (adjusted x - 27)"

definition ctx_round :: "rat \<Rightarrow> dec" where
  "ctx_round x = (if x = 0 then 0 else of_int (round_half_even (x / ulp x)) * ulp x)"

definition is_dec :: "rat \<Rightarrow> bool" where
  "is_dec x \<longleftrightarrow> ctx_round x = x"

definition dadd :: "dec \<Rightarrow> dec \<Rightarrow> dec" where "dadd x y = ctx_round (x + y)"
definition dsub :: "dec \<Rightarrow> dec \<Rightarrow> dec" where "dsub x y = ctx_round (x - y)"
definition dmul :: "dec \<Rightarrow> dec \<Rightarrow> dec" where "dmul x y = ctx_round (x * y)"
definition dneg :: "dec \<Rightarrow> dec" where "dneg x = ctx_round (- x)"
definition dabs :: "dec \<Rightarrow> dec" where "dabs x = ctx_round \<bar>x\<bar>"

text \<open>Division where the divisor is known not to be zero, and with the check Python makes.\<close>

definition ddiv :: "dec \<Rightarrow> dec \<Rightarrow> dec" where "ddiv x y = ctx_round (x / y)"

definition ddivR :: "dec \<Rightarrow> dec \<Rightarrow> dec res" where
  "ddivR x y = (if y = 0 then Inl DivisionByZero else Inr (ddiv x y))"

text \<open>\<open>sum((\<dots>), Decimal("0"))\<close>: a left fold of rounding additions.\<close>

definition dsum :: "dec list \<Rightarrow> dec" where
  "dsum xs = foldl dadd 0 xs"

section \<open>Rounding to an integer: facts\<close>

lemma round_half_even_of_int [simp]: "round_half_even (of_int k) = k"
  by (simp add: round_half_even_def)

lemma round_half_even_near: "\<bar>of_int (round_half_even x) - x\<bar> \<le> 1 / 2"
  by (simp add: round_half_even_def Let_def abs_if) linarith

lemma round_half_even_mono:
  assumes "x \<le> y"
  shows "round_half_even x \<le> round_half_even y"
proof (cases "\<lfloor>x\<rfloor> = \<lfloor>y\<rfloor>")
  case True
  with assms show ?thesis by (auto simp: round_half_even_def Let_def)
next
  case False
  then have "\<lfloor>x\<rfloor> + 1 \<le> \<lfloor>y\<rfloor>" using floor_mono [OF assms] by linarith
  moreover have "round_half_even x \<le> \<lfloor>x\<rfloor> + 1" "\<lfloor>y\<rfloor> \<le> round_half_even y"
    by (auto simp: round_half_even_def Let_def)
  ultimately show ?thesis by linarith
qed

lemma round_half_even_minus: "round_half_even (- x) = - round_half_even x"
proof (cases "x = of_int \<lfloor>x\<rfloor>")
  case True
  then show ?thesis by (metis of_int_minus round_half_even_of_int)
next
  case False
  then have c: "\<lceil>x\<rceil> = \<lfloor>x\<rfloor> + 1" by (metis ceiling_altdef)
  then have f: "\<lfloor>- x\<rfloor> = - \<lfloor>x\<rfloor> - 1" by (simp add: ceiling_def)
  show ?thesis unfolding round_half_even_def Let_def f by auto
qed

lemma to_integral_floor_le [simp]: "to_integral_value ROUND_FLOOR x \<le> x"
  and to_integral_ceiling_ge [simp]: "x \<le> to_integral_value ROUND_CEILING x"
  by (simp_all add: to_integral_value_def le_of_int_ceiling)

lemma to_integral_down_nonneg [simp]:
  "0 \<le> x \<Longrightarrow> to_integral_value ROUND_DOWN x \<le> x"
  "0 \<le> x \<Longrightarrow> 0 \<le> to_integral_value ROUND_DOWN x"
  by (simp_all add: to_integral_value_def)

lemma to_integral_down_neg: "x < 0 \<Longrightarrow> to_integral_value ROUND_DOWN x \<le> 0"
  by (simp add: to_integral_value_def)

lemma to_integral_is_int: "\<exists>k. to_integral_value m x = of_int k"
  by (cases m) (auto simp: to_integral_value_def)

section \<open>The leading digit\<close>

lemma ndigits_bounds: "0 < n \<Longrightarrow> 10 ^ (ndigits n - 1) \<le> n \<and> n < 10 ^ ndigits n"
proof (induction n rule: ndigits.induct)
  case (1 n)
  show ?case
  proof (cases "n < 10")
    case True
    with 1 show ?thesis by (simp add: ndigits.simps [of n])
  next
    case False
    define m where "m = n div 10"
    have "0 < m" using False by (simp add: m_def pos_imp_zdiv_pos_iff)
    with False 1 have IH: "10 ^ (ndigits m - 1) \<le> m" "m < 10 ^ ndigits m"
      by (auto simp: m_def)
    have "1 \<le> ndigits m" by (simp add: ndigits.simps [of m])
    then have p: "10 ^ ndigits m = 10 * (10::int) ^ (ndigits m - 1)"
      by (cases "ndigits m") auto
    have n: "10 * m \<le> n" "n < 10 * (m + 1)" by (auto simp: m_def)
    have "m + 1 \<le> 10 ^ ndigits m" using IH by simp
    then have up: "10 * (m + 1) \<le> 10 * 10 ^ ndigits m" by (rule mult_left_mono) simp
    have "10 * 10 ^ (ndigits m - 1) \<le> 10 * m" using IH(1) by (rule mult_left_mono) simp
    then have "10 ^ ndigits m \<le> n" "n < 10 * 10 ^ ndigits m"
      using p n up by linarith+
    with False show ?thesis by (simp add: ndigits.simps [of n] m_def [symmetric])
  qed
qed

lemma ten_powi_diff: "(10::rat) powi (int a - int b) = 10 ^ a / 10 ^ b"
  by (subst power_int_diff) simp_all

lemma quotient_digits:
  assumes "0 < n" and "0 < d"
  defines "k \<equiv> int (ndigits n) - int (ndigits d)"
  shows "(10::rat) powi (k - 1) < of_int n / of_int d" "of_int n / of_int d < (10::rat) powi (k + 1)"
proof -
  have n: "10 ^ (ndigits n - 1) \<le> n" "n < 10 ^ ndigits n"
    and d: "10 ^ (ndigits d - 1) \<le> d" "d < 10 ^ ndigits d"
    using ndigits_bounds assms by auto
  have ge: "1 \<le> ndigits n" "1 \<le> ndigits d" by (simp_all add: ndigits.simps)
  have n': "(10::rat) ^ (ndigits n - 1) \<le> of_int n" "of_int n < (10::rat) ^ ndigits n"
    and d': "(10::rat) ^ (ndigits d - 1) \<le> of_int d" "of_int d < (10::rat) ^ ndigits d"
    using n d by (metis of_int_le_iff of_int_less_iff of_int_numeral of_int_power)+
  have "(10::rat) ^ (ndigits n - 1) / 10 ^ ndigits d < of_int n / of_int d"
    using n' d' assms(1,2) by (intro frac_less2) auto
  moreover have "(10::rat) powi (k - 1) = 10 ^ (ndigits n - 1) / 10 ^ ndigits d"
  proof -
    have "k - 1 = int (ndigits n - 1) - int (ndigits d)" using ge by (simp add: k_def)
    then show ?thesis by (simp only: ten_powi_diff)
  qed
  ultimately show "(10::rat) powi (k - 1) < of_int n / of_int d" by simp
  have "of_int n / of_int d < (10::rat) ^ ndigits n / 10 ^ (ndigits d - 1)"
    using n' d' assms(1,2) by (intro frac_less) auto
  moreover have "(10::rat) powi (k + 1) = 10 ^ ndigits n / 10 ^ (ndigits d - 1)"
  proof -
    have "k + 1 = int (ndigits n) - int (ndigits d - 1)" using ge by (simp add: k_def)
    then show ?thesis by (simp only: ten_powi_diff)
  qed
  ultimately show "of_int n / of_int d < (10::rat) powi (k + 1)" by simp
qed

lemma adjusted_bounds:
  assumes "x \<noteq> 0"
  shows "10 powi adjusted x \<le> \<bar>x\<bar>" "\<bar>x\<bar> < 10 powi (adjusted x + 1)"
proof -
  obtain n d where q: "quotient_of \<bar>x\<bar> = (n, d)" by (cases "quotient_of \<bar>x\<bar>") auto
  have d: "0 < d" using q by (rule quotient_of_denom_pos)
  have x: "\<bar>x\<bar> = of_int n / of_int d" using q by (rule quotient_of_div)
  have n: "0 < n"
  proof -
    have "0 < (of_int n / of_int d :: rat)" using assms by (simp flip: x)
    with d show ?thesis by (simp add: zero_less_divide_iff)
  qed
  define k where "k = int (ndigits n) - int (ndigits d)"
  have b: "(10::rat) powi (k - 1) < \<bar>x\<bar>" "\<bar>x\<bar> < (10::rat) powi (k + 1)"
    using quotient_digits [of n d] n d unfolding x k_def by auto
  have a: "adjusted x = (if 10 powi k \<le> \<bar>x\<bar> then k else k - 1)"
    by (simp add: adjusted_def q k_def Let_def)
  show "10 powi adjusted x \<le> \<bar>x\<bar>" "\<bar>x\<bar> < 10 powi (adjusted x + 1)"
    using a b by auto
qed

lemma adjusted_minus [simp]: "adjusted (- x) = adjusted x"
  by (simp add: adjusted_def)

lemma ulp_pos [simp]: "0 < ulp x" and ulp_nonzero [simp]: "ulp x \<noteq> 0"
  by (simp_all add: ulp_def)

lemma ulp_minus [simp]: "ulp (- x) = ulp x"
  by (simp add: ulp_def)

lemma powi_eq_ulp: "(10::rat) powi adjusted x = 10 ^ 27 * ulp x"
  "(10::rat) powi (adjusted x + 1) = 10 ^ 28 * ulp x"
proof -
  have "(10::rat) powi adjusted x = 10 powi (27 + (adjusted x - 27))" by simp
  also have "\<dots> = 10 ^ 27 * ulp x" unfolding ulp_def by (subst power_int_add) auto
  finally show "(10::rat) powi adjusted x = 10 ^ 27 * ulp x" .
  then show "(10::rat) powi (adjusted x + 1) = 10 ^ 28 * ulp x"
    by (subst power_int_add) auto
qed

lemma adjusted_mono: "0 < x \<Longrightarrow> x \<le> y \<Longrightarrow> adjusted x \<le> adjusted y"
proof (rule ccontr)
  assume *: "0 < x" "x \<le> y" "\<not> adjusted x \<le> adjusted y"
  then have "(10::rat) powi (adjusted y + 1) \<le> 10 powi adjusted x"
    by (intro power_int_increasing) auto
  with * adjusted_bounds [of x] adjusted_bounds [of y] show False by auto
qed

section \<open>The context rounding: the laws the arithmetic rests on\<close>

lemma ctx_round_0 [simp]: "ctx_round 0 = 0"
  by (simp add: ctx_round_def)

lemma ctx_round_minus: "ctx_round (- x) = - ctx_round x"
  by (simp add: ctx_round_def round_half_even_minus)

lemma ctx_round_range:
  assumes "0 < x"
  shows "10 powi adjusted x \<le> ctx_round x" "ctx_round x \<le> 10 powi (adjusted x + 1)"
proof -
  let ?u = "ulp x"
  have b: "10 ^ 27 * ?u \<le> x" "x < 10 ^ 28 * ?u"
    using adjusted_bounds [of x] assms by (auto simp: powi_eq_ulp)
  then have q: "of_int (10 ^ 27) \<le> x / ?u" "x / ?u \<le> of_int (10 ^ 28)"
    by (auto simp: field_simps)
  have "10 ^ 27 \<le> round_half_even (x / ?u)"
    using round_half_even_mono [OF q(1)] by (simp only: round_half_even_of_int)
  moreover have "round_half_even (x / ?u) \<le> 10 ^ 28"
    using round_half_even_mono [OF q(2)] by (simp only: round_half_even_of_int)
  ultimately have "of_int (10 ^ 27) \<le> (of_int (round_half_even (x / ?u)) :: rat)"
    "(of_int (round_half_even (x / ?u)) :: rat) \<le> of_int (10 ^ 28)"
    unfolding of_int_le_iff by auto
  then show "10 powi adjusted x \<le> ctx_round x" "ctx_round x \<le> 10 powi (adjusted x + 1)"
    using assms unfolding powi_eq_ulp ctx_round_def by auto
qed

lemma ctx_round_mono_pos:
  assumes "0 < x" "x \<le> y"
  shows "ctx_round x \<le> ctx_round y"
proof (cases "adjusted x = adjusted y")
  case True
  then have u: "ulp x = ulp y" by (simp add: ulp_def)
  have "x / ulp y \<le> y / ulp y" using assms by (simp add: divide_right_mono less_imp_le)
  then have "round_half_even (x / ulp y) \<le> round_half_even (y / ulp y)"
    by (rule round_half_even_mono)
  then show ?thesis
    using assms by (simp add: ctx_round_def u mult_right_mono less_imp_le)
next
  case False
  then have "adjusted x + 1 \<le> adjusted y" using adjusted_mono [OF assms] by linarith
  then have "(10::rat) powi (adjusted x + 1) \<le> 10 powi adjusted y"
    by (intro power_int_increasing) auto
  with ctx_round_range [of x] ctx_round_range [of y] assms show ?thesis by auto
qed

lemma ctx_round_pos: "0 < x \<Longrightarrow> 0 < ctx_round x"
  using ctx_round_range(1) [of x] by (metis less_le_trans zero_less_power_int zero_less_numeral)

lemma ctx_round_neg: "x < 0 \<Longrightarrow> ctx_round x < 0"
  using ctx_round_pos [of "- x"] by (simp add: ctx_round_minus)

lemma ctx_round_mono: "x \<le> y \<Longrightarrow> ctx_round x \<le> ctx_round y"
proof -
  assume xy: "x \<le> y"
  consider "0 < x" | "y < 0" | "x \<le> 0" "0 \<le> y" by linarith
  then show ?thesis
  proof cases
    case 1
    with xy show ?thesis by (rule ctx_round_mono_pos [rotated])
  next
    case 2
    then show ?thesis
      using ctx_round_mono_pos [of "- y" "- x"] xy by (simp add: ctx_round_minus)
  next
    case 3
    then show ?thesis
      using ctx_round_pos [of y] ctx_round_neg [of x]
      by (metis ctx_round_0 less_eq_rat_def order_trans)
  qed
qed

text \<open>A number with at most 28 significant digits is left alone.\<close>

lemma ctx_round_exact:
  assumes "x = of_int m * 10 powi e" and "\<bar>m\<bar> \<le> 10 ^ 28"
  shows "ctx_round x = x"
proof (cases "x = 0")
  case False
  then have m0: "m \<noteq> 0" using assms by auto
  consider (big) "\<bar>m\<bar> = 10 ^ 28" | (small) "\<bar>m\<bar> < 10 ^ 28" using assms(2) by linarith
  then obtain k where k: "x / ulp x = of_int k"
  proof cases
    case big
    then have ax: "\<bar>x\<bar> = 10 powi (e + 28)"
      using assms(1) by (simp add: abs_mult power_int_add flip: of_int_abs)
    then have "adjusted x = e + 28"
    proof -
      have "(10::rat) powi adjusted x \<le> 10 powi (e + 28)" "(10::rat) powi (e + 28) < 10 powi (adjusted x + 1)"
        using adjusted_bounds [OF False] ax by auto
      then have "\<not> e + 28 < adjusted x" "\<not> adjusted x + 1 \<le> e + 28"
        using power_int_strict_increasing [of "e + 28" "adjusted x" "10::rat"]
          power_int_increasing [of "adjusted x + 1" "e + 28" "10::rat"] by auto
      then show ?thesis by linarith
    qed
    then have "10 powi e = ulp x / 10"
      by (simp add: ulp_def power_int_add)
    then have "x = of_int m * (ulp x / 10)" using assms(1) by simp
    then have "x / ulp x = of_int m / 10" by (metis nonzero_divide_eq_eq times_divide_eq_left times_divide_eq_right ulp_nonzero)
    moreover have "m = 10 ^ 28 \<or> m = - (10 ^ 28)" using big by linarith
    then have "of_int m / 10 = (of_int (10 ^ 27) :: rat) \<or> of_int m / 10 = (of_int (- (10 ^ 27)) :: rat)"
      by auto
    ultimately show ?thesis
      using that [of "10 ^ 27"] that [of "- (10 ^ 27)"] by metis
  next
    case small
    have "adjusted x - 27 \<le> e"
    proof (rule ccontr)
      assume "\<not> adjusted x - 27 \<le> e"
      then have "(10::rat) powi (e + 28) \<le> 10 powi adjusted x"
        by (intro power_int_increasing) auto
      moreover have "\<bar>x\<bar> < 10 powi (e + 28)"
      proof -
        have "of_int \<bar>m\<bar> < (of_int (10 ^ 28) :: rat)" using small unfolding of_int_less_iff .
        then have "of_int \<bar>m\<bar> * 10 powi e < (10 ^ 28 :: rat) * 10 powi e"
          by (intro mult_strict_right_mono) auto
        then show ?thesis using assms(1) by (simp add: abs_mult power_int_add)
      qed
      ultimately show False using adjusted_bounds(1) [OF False] by linarith
    qed
    then obtain j where j: "e = (adjusted x - 27) + int j" by (metis zle_iff_zadd)
    then have "10 powi e = ulp x * 10 ^ j" by (simp add: ulp_def power_int_add)
    then have "x = of_int m * (ulp x * 10 ^ j)" using assms(1) by metis
    then have "x = of_int (m * 10 ^ j) * ulp x" by (simp only: of_int_mult of_int_power of_int_numeral mult_ac)
    then have "x / ulp x = of_int (m * 10 ^ j)" by (metis nonzero_divide_eq_eq ulp_nonzero)
    then show ?thesis by (rule that)
  qed
  then show ?thesis using False by (simp add: ctx_round_def) (metis ulp_nonzero nonzero_eq_divide_eq)
qed simp

lemma ctx_round_form:
  "\<exists>m e. ctx_round x = of_int m * 10 powi e \<and> \<bar>m\<bar> \<le> 10 ^ 28"
proof (cases "x = 0")
  case True
  then show ?thesis by (intro exI [of _ 0]) simp
next
  case False
  let ?m = "round_half_even (x / ulp x)"
  have "10 ^ 27 * ulp x \<le> \<bar>x\<bar>" "\<bar>x\<bar> < 10 ^ 28 * ulp x"
    using adjusted_bounds [OF False] by (auto simp: powi_eq_ulp)
  then have "\<bar>x / ulp x\<bar> \<le> of_int (10 ^ 28)" by (simp add: abs_divide field_simps)
  then have "x / ulp x \<le> of_int (10 ^ 28)" "of_int (- (10 ^ 28)) \<le> x / ulp x"
    unfolding abs_le_iff of_int_minus by linarith+
  then have "?m \<le> 10 ^ 28" "- (10 ^ 28) \<le> ?m"
    using round_half_even_mono [of "x / ulp x" "of_int (10 ^ 28)"]
      round_half_even_mono [of "of_int (- (10 ^ 28))" "x / ulp x"]
    by (simp_all only: round_half_even_of_int)
  moreover have "ctx_round x = of_int ?m * 10 powi (adjusted x - 27)"
    using False by (simp add: ctx_round_def ulp_def)
  ultimately show ?thesis by (intro exI [of _ ?m] exI [of _ "adjusted x - 27"]) auto
qed

lemma ctx_round_idem: "ctx_round (ctx_round x) = ctx_round x"
  using ctx_round_form [of x] ctx_round_exact by metis

section \<open>The arithmetic context as an interface\<close>

text \<open>
  What the engine's arithmetic needs of a rounding: it is monotone, idempotent, symmetric and
  does not lose a number entirely.  The services' lemmas rest on these laws only.
\<close>

locale dec_context =
  fixes rnd :: "rat \<Rightarrow> rat"
  assumes rnd_mono: "x \<le> y \<Longrightarrow> rnd x \<le> rnd y"
    and rnd_idem: "rnd (rnd x) = rnd x"
    and rnd_minus: "rnd (- x) = - rnd x"
    and rnd_nonzero: "x \<noteq> 0 \<Longrightarrow> rnd x \<noteq> 0"
begin

lemma rnd_zero: "rnd 0 = 0"
  using rnd_minus [of 0] by simp

lemma rnd_pos_iff: "0 < rnd x \<longleftrightarrow> 0 < x"
  using rnd_mono [of 0 x] rnd_mono [of x 0] rnd_nonzero [of x] rnd_zero
  by (metis less_eq_rat_def linorder_not_le)

lemma rnd_neg_iff: "rnd x < 0 \<longleftrightarrow> x < 0"
  using rnd_pos_iff [of "- x"] by (simp add: rnd_minus)

lemma rnd_nonneg_iff: "0 \<le> rnd x \<longleftrightarrow> 0 \<le> x"
  using rnd_neg_iff [of x] by (simp add: not_less [symmetric])

lemma rnd_nonpos_iff: "rnd x \<le> 0 \<longleftrightarrow> x \<le> 0"
  using rnd_pos_iff [of x] by (simp add: not_less [symmetric])

lemma rnd_eq_0_iff: "rnd x = 0 \<longleftrightarrow> x = 0"
  using rnd_nonzero rnd_zero by auto

lemma rnd_le_fix: "rnd y = y \<Longrightarrow> x \<le> y \<Longrightarrow> rnd x \<le> y"
  using rnd_mono [of x y] by simp

lemma fix_le_rnd: "rnd y = y \<Longrightarrow> y \<le> x \<Longrightarrow> y \<le> rnd x"
  using rnd_mono [of y x] by simp

lemma rnd_less_imp: "rnd x < rnd y \<Longrightarrow> x < y"
  using rnd_mono [of y x] by (meson not_less)

lemma rnd_abs: "rnd \<bar>x\<bar> = \<bar>rnd x\<bar>"
  using rnd_nonneg_iff [of x] rnd_neg_iff [of x] by (auto simp: abs_if rnd_minus)

end

interpretation ctx: dec_context ctx_round
proof
  fix x y :: rat
  show "x \<le> y \<Longrightarrow> ctx_round x \<le> ctx_round y" by (rule ctx_round_mono)
  show "ctx_round (ctx_round x) = ctx_round x" by (rule ctx_round_idem)
  show "ctx_round (- x) = - ctx_round x" by (rule ctx_round_minus)
  show "x \<noteq> 0 \<Longrightarrow> ctx_round x \<noteq> 0"
    using ctx_round_pos [of x] ctx_round_neg [of x] by (cases "0 < x") auto
qed

section \<open>The operations\<close>

named_theorems dec_simps \<open>signs and closure of the decimal operations\<close>

lemma is_dec_ops [simp, dec_simps]:
  "is_dec (ctx_round x)" "is_dec 0" "is_dec (dadd x y)" "is_dec (dsub x y)" "is_dec (dmul x y)"
  "is_dec (ddiv x y)" "is_dec (dneg x)" "is_dec (dabs x)"
  by (simp_all add: is_dec_def dadd_def dsub_def dmul_def ddiv_def dneg_def dabs_def ctx.rnd_idem)

lemma is_dec_of_int: "\<bar>k\<bar> \<le> 10 ^ 28 \<Longrightarrow> is_dec (of_int k)"
  unfolding is_dec_def by (rule ctx_round_exact [of _ k 0]) simp_all

lemma is_dec_scaled: "\<bar>m\<bar> \<le> 10 ^ 28 \<Longrightarrow> is_dec (of_int m / 10 ^ e)"
  unfolding is_dec_def
  by (rule ctx_round_exact [of _ m "- int e"]) (simp_all add: power_int_minus divide_inverse)

lemma is_dec_one [simp]: "is_dec 1"
  using is_dec_of_int [of 1] by simp

lemma is_dec_uminus [simp]: "is_dec (- x) \<longleftrightarrow> is_dec x"
  by (simp add: is_dec_def ctx_round_minus)

lemma is_dec_abs [simp]: "is_dec x \<Longrightarrow> is_dec \<bar>x\<bar>"
  by (simp add: abs_if)

lemma dneg_dec [simp]: "is_dec x \<Longrightarrow> dneg x = - x"
  by (simp add: dneg_def is_dec_def ctx_round_minus)

lemma dabs_dec [simp]: "is_dec x \<Longrightarrow> dabs x = \<bar>x\<bar>"
  by (simp add: dabs_def is_dec_def ctx.rnd_abs)

lemma dsub_sign [simp, dec_simps]:
  "0 < dsub x y \<longleftrightarrow> y < x" "dsub x y < 0 \<longleftrightarrow> x < y" "0 \<le> dsub x y \<longleftrightarrow> y \<le> x"
  "dsub x y \<le> 0 \<longleftrightarrow> x \<le> y" "dsub x y = 0 \<longleftrightarrow> x = y"
  by (auto simp: dsub_def ctx.rnd_pos_iff ctx.rnd_neg_iff ctx.rnd_nonneg_iff ctx.rnd_nonpos_iff
      ctx.rnd_eq_0_iff)

lemma dabs_sign [simp, dec_simps]:
  "0 \<le> dabs x" "0 < dabs x \<longleftrightarrow> x \<noteq> 0" "dabs x = 0 \<longleftrightarrow> x = 0" "dabs x \<le> 0 \<longleftrightarrow> x = 0"
  by (simp_all add: dabs_def ctx.rnd_nonneg_iff ctx.rnd_pos_iff ctx.rnd_eq_0_iff ctx.rnd_nonpos_iff)

lemma dadd_pos: "0 \<le> x \<Longrightarrow> 0 < y \<Longrightarrow> 0 < dadd x y" "0 < x \<Longrightarrow> 0 \<le> y \<Longrightarrow> 0 < dadd x y"
  by (simp_all add: dadd_def ctx.rnd_pos_iff)

lemma dadd_nonneg: "0 \<le> x \<Longrightarrow> 0 \<le> y \<Longrightarrow> 0 \<le> dadd x y"
  by (simp add: dadd_def ctx.rnd_nonneg_iff)

lemma dadd_ge: "is_dec x \<Longrightarrow> 0 \<le> y \<Longrightarrow> x \<le> dadd x y" "is_dec y \<Longrightarrow> 0 \<le> x \<Longrightarrow> y \<le> dadd x y"
  by (simp_all add: dadd_def is_dec_def ctx.fix_le_rnd)

lemma dsub_le: "is_dec x \<Longrightarrow> 0 \<le> y \<Longrightarrow> dsub x y \<le> x"
  by (simp add: dsub_def is_dec_def ctx.rnd_le_fix)

lemma dmul_pos: "0 < x \<Longrightarrow> 0 < y \<Longrightarrow> 0 < dmul x y"
  by (simp add: dmul_def ctx.rnd_pos_iff)

lemma dmul_nonneg: "0 \<le> x \<Longrightarrow> 0 \<le> y \<Longrightarrow> 0 \<le> dmul x y"
  by (simp add: dmul_def ctx.rnd_nonneg_iff)

lemma dmul_mono: "0 \<le> x \<Longrightarrow> x \<le> x' \<Longrightarrow> 0 \<le> y \<Longrightarrow> y \<le> y' \<Longrightarrow> dmul x y \<le> dmul x' y'"
  unfolding dmul_def by (intro ctx.rnd_mono mult_mono) auto

lemma dmul_le_right: "is_dec y \<Longrightarrow> 0 \<le> y \<Longrightarrow> x \<le> 1 \<Longrightarrow> dmul x y \<le> y"
  unfolding dmul_def is_dec_def by (rule ctx.rnd_le_fix) (auto intro: mult_right_mono [of x 1 y, simplified])

lemma ddiv_pos: "0 < x \<Longrightarrow> 0 < y \<Longrightarrow> 0 < ddiv x y"
  by (simp add: ddiv_def ctx.rnd_pos_iff)

lemma ddiv_nonneg: "0 \<le> x \<Longrightarrow> 0 \<le> y \<Longrightarrow> 0 \<le> ddiv x y"
  by (simp add: ddiv_def ctx.rnd_nonneg_iff)

lemma ddivR_simps [simp]: "ddivR x y = Inr z \<longleftrightarrow> y \<noteq> 0 \<and> z = ddiv x y" "y \<noteq> 0 \<Longrightarrow> ddivR x y = Inr (ddiv x y)"
  by (auto simp: ddivR_def)

lemma dsum_simps [simp]: "dsum [] = 0" "dsum (xs @ [x]) = dadd (dsum xs) x"
  by (simp_all add: dsum_def)

lemma is_dec_dsum [simp]: "is_dec (dsum xs)"
  by (cases xs rule: rev_cases) simp_all

lemma dsum_nonneg: "\<forall>x\<in>set xs. 0 \<le> x \<Longrightarrow> 0 \<le> dsum xs"
  by (induction xs rule: rev_induct) (auto intro: dadd_nonneg)

lemma dsum_ge_elem: "\<forall>x\<in>set xs. 0 \<le> x \<Longrightarrow> x \<in> set xs \<Longrightarrow> is_dec x \<Longrightarrow> x \<le> dsum xs"
proof (induction xs rule: rev_induct)
  case (snoc y ys)
  have nn: "0 \<le> dsum ys" "0 \<le> y" using snoc.prems dsum_nonneg by auto
  show ?case
  proof (cases "x \<in> set ys")
    case True
    with snoc have "x \<le> dsum ys" by auto
    also have "\<dots> \<le> dadd (dsum ys) y" using nn by (intro dadd_ge) simp_all
    finally show ?thesis by simp
  next
    case False
    with snoc.prems have "y = x" by auto
    with snoc.prems nn show ?thesis by (auto intro: dadd_ge)
  qed
qed simp

section \<open>Whole steps\<close>

text \<open>
  Quantities and prices on an exchange have a fixed number of decimal places.  On such numbers,
  with at most 27 digits, a quotient is rounded down (or up) to a whole number exactly, although
  the quotient itself is rounded to the context first.
\<close>

definition scaled :: "nat \<Rightarrow> dec \<Rightarrow> bool" where
  "scaled k x \<longleftrightarrow> (\<exists>a. x = of_int a / 10 ^ k \<and> \<bar>a\<bar> < 10 ^ 27)"

lemma ctx_round_error: "\<bar>ctx_round x - x\<bar> \<le> \<bar>x\<bar> / (2 * 10 ^ 27)"
proof (cases "x = 0")
  case False
  let ?q = "x / ulp x"
  have "\<bar>of_int (round_half_even ?q) - ?q\<bar> * ulp x \<le> 1 / 2 * ulp x"
    by (rule mult_right_mono [OF round_half_even_near]) (simp add: less_imp_le)
  moreover have "ctx_round x - x = (of_int (round_half_even ?q) - ?q) * ulp x"
    using False by (simp add: ctx_round_def left_diff_distrib)
  moreover have "\<bar>(of_int (round_half_even ?q) - ?q) * ulp x\<bar> = \<bar>of_int (round_half_even ?q) - ?q\<bar> * ulp x"
    unfolding abs_mult using ulp_pos [of x] by (simp only: abs_of_pos)
  ultimately have "\<bar>ctx_round x - x\<bar> \<le> ulp x / 2" by (simp only:) simp
  moreover have "10 ^ 27 * ulp x \<le> \<bar>x\<bar>"
    using adjusted_bounds(1) [OF False] by (simp only: powi_eq_ulp)
  ultimately show ?thesis by simp
qed simp

lemma quotient_not_crossing:
  fixes a b :: int
  assumes "0 \<le> a" "a < 10 ^ 27" "0 < b"
  defines "x \<equiv> of_int a / (of_int b :: rat)"
  shows "\<lfloor>ctx_round x\<rfloor> = \<lfloor>x\<rfloor>" "\<lceil>ctx_round x\<rceil> = \<lceil>x\<rceil>"
proof -
  have b: "0 < (of_int b :: rat)" using assms by simp
  have a: "(of_int a :: rat) < 10 ^ 27" using assms(2) by (metis of_int_less_iff of_int_numeral of_int_power)
  have x0: "0 \<le> x" using assms by (simp add: x_def)
  have "\<bar>x\<bar> / (2 * 10 ^ 27) < 1 / (2 * of_int b)"
    using b a x0 by (simp add: x_def field_simps)
  moreover have "1 / (2 * of_int b) \<le> (1 / of_int b :: rat)" using b by (simp add: field_simps)
  ultimately have err: "\<bar>ctx_round x - x\<bar> < 1 / of_int b"
    using ctx_round_error [of x] by linarith
  have fl: "\<lfloor>x\<rfloor> = a div b" by (simp add: x_def floor_divide_of_int_eq)
  have ab: "a div b \<le> a" "0 \<le> a div b"
    using assms zdiv_mono2 [of a 1 b] by (simp_all add: pos_imp_zdiv_nonneg_iff)
  have dec_le: "is_dec (of_int k)" if "0 \<le> k" "k \<le> a + 1" for k
    using that assms(2) by (intro is_dec_of_int) simp
  have "a = a div b * b + a mod b" by simp
  moreover have "a mod b < b" using assms(3) by simp
  ultimately have "a < a div b * b + b" by linarith
  then have "a < (a div b + 1) * b" by (simp add: distrib_right)
  then have "a + 1 \<le> (a div b + 1) * b" by simp
  then have "of_int (a + 1) \<le> (of_int ((a div b + 1) * b) :: rat)" by (simp only: of_int_le_iff)
  then have up: "x + 1 / of_int b \<le> of_int (a div b + 1)"
    using b by (simp add: x_def field_simps)
  show "\<lfloor>ctx_round x\<rfloor> = \<lfloor>x\<rfloor>"
  proof (rule floor_unique)
    have "of_int \<lfloor>x\<rfloor> \<le> x" by simp
    moreover have "ctx_round (of_int \<lfloor>x\<rfloor>) = of_int \<lfloor>x\<rfloor>"
      using dec_le [of "\<lfloor>x\<rfloor>"] ab fl by (simp add: is_dec_def)
    ultimately show "of_int \<lfloor>x\<rfloor> \<le> ctx_round x" by (rule ctx.fix_le_rnd [rotated])
    show "ctx_round x < of_int \<lfloor>x\<rfloor> + 1" using up err fl by simp
  qed
  define c where "c = \<lceil>x\<rceil>"
  have c: "x \<le> of_int c" "of_int c < x + 1" "0 \<le> c" "c \<le> a + 1"
  proof -
    show "x \<le> of_int c" unfolding c_def by (rule le_of_int_ceiling)
    show "of_int c < x + 1" using ceiling_correct [of x] unfolding c_def by simp
    show "0 \<le> c" using x0 ceiling_mono [of 0 x] unfolding c_def by simp
    have "c \<le> \<lfloor>x\<rfloor> + 1" unfolding c_def by (simp add: ceiling_le_iff) linarith
    then show "c \<le> a + 1" using ab fl by simp
  qed
  have "(c - 1) * b < a"
  proof -
    have "of_int (c - 1) < x" using c by simp
    then have "of_int ((c - 1) * b) < (of_int a :: rat)" using b by (simp add: x_def field_simps)
    then show ?thesis by (simp only: of_int_less_iff)
  qed
  then have "(c - 1) * b + 1 \<le> a" by simp
  then have "of_int ((c - 1) * b + 1) \<le> (of_int a :: rat)" by (simp only: of_int_le_iff)
  then have "of_int ((c - 1) * b + 1) / of_int b \<le> x"
    unfolding x_def using b by (intro divide_right_mono) simp_all
  then have lo: "of_int c - 1 + 1 / of_int b \<le> x" using b by (simp add: add_divide_distrib)
  show "\<lceil>ctx_round x\<rceil> = \<lceil>x\<rceil>"
  proof (rule ceiling_unique)
    show "of_int \<lceil>x\<rceil> - 1 < ctx_round x" using lo err by (simp add: c_def)
    have "ctx_round (of_int c) = of_int c" using dec_le [of c] c by (simp add: is_dec_def)
    then show "ctx_round x \<le> of_int \<lceil>x\<rceil>" using c(1) unfolding c_def by (rule ctx.rnd_le_fix)
  qed
qed

lemma scaled_signs: "0 \<le> (of_int a / 10 ^ k :: rat) \<longleftrightarrow> 0 \<le> a" "0 < (of_int a / 10 ^ k :: rat) \<longleftrightarrow> 0 < a"
proof -
  have p: "0 < (10 ^ k :: rat)" by simp
  show "0 \<le> (of_int a / 10 ^ k :: rat) \<longleftrightarrow> 0 \<le> a"
    using pos_le_divide_eq [OF p, of 0 "of_int a"] by simp
  show "0 < (of_int a / 10 ^ k :: rat) \<longleftrightarrow> 0 < a"
    using pos_less_divide_eq [OF p, of 0 "of_int a"] by simp
qed

lemma scaled_quotient:
  assumes "scaled k x" "scaled k s" "0 \<le> x" "0 < s"
  shows "\<lfloor>ddiv x s\<rfloor> = \<lfloor>x / s\<rfloor>" "\<lceil>ddiv x s\<rceil> = \<lceil>x / s\<rceil>"
proof -
  obtain a b where x: "x = of_int a / 10 ^ k" "\<bar>a\<bar> < 10 ^ 27" and s: "s = of_int b / 10 ^ k"
    using assms by (auto simp: scaled_def)
  have "x / s = of_int a / of_int b" using x s by simp
  moreover have "0 \<le> a" "0 < b" using assms x s by (simp_all add: scaled_signs)
  ultimately show "\<lfloor>ddiv x s\<rfloor> = \<lfloor>x / s\<rfloor>" "\<lceil>ddiv x s\<rceil> = \<lceil>x / s\<rceil>"
    using quotient_not_crossing [of a b] x(2) unfolding ddiv_def by auto
qed

lemma scaled_is_dec: "scaled k x \<Longrightarrow> is_dec x"
  unfolding scaled_def using is_dec_scaled by fastforce

text \<open>Whole steps up to a scaled quantity are exact: the multiplication does not round.\<close>

lemma floor_steps_exact:
  assumes "scaled k x" "scaled k s" "0 \<le> x" "0 < s"
  shows "dmul (to_integral_value ROUND_DOWN (ddiv x s)) s = of_int \<lfloor>x / s\<rfloor> * s"
    "of_int \<lfloor>x / s\<rfloor> * s \<le> x" "x < of_int \<lfloor>x / s\<rfloor> * s + s"
proof -
  obtain a b where x: "x = of_int a / 10 ^ k" "\<bar>a\<bar> < 10 ^ 27" and s: "s = of_int b / 10 ^ k"
    using assms by (auto simp: scaled_def)
  have pos: "0 \<le> a" "0 < b" using assms x s by (simp_all add: scaled_signs)
  have "0 \<le> x / s" using assms by simp
  then have i: "to_integral_value ROUND_DOWN (ddiv x s) = of_int \<lfloor>x / s\<rfloor>"
    using scaled_quotient(1) [OF assms] assms by (simp add: to_integral_value_def ddiv_nonneg)
  show le: "of_int \<lfloor>x / s\<rfloor> * s \<le> x"
    using of_int_floor_le [of "x / s"] by (simp only: pos_le_divide_eq [OF assms(4)])
  show "x < of_int \<lfloor>x / s\<rfloor> * s + s"
    using floor_correct [of "x / s"]
    by (simp only: pos_divide_less_eq [OF assms(4)]) (simp add: distrib_right)
  have e: "of_int \<lfloor>x / s\<rfloor> * s = of_int (\<lfloor>x / s\<rfloor> * b) / 10 ^ k" using s by simp
  have "of_int (\<lfloor>x / s\<rfloor> * b) \<le> (of_int a :: rat)"
    using le x(1) unfolding e by (simp add: divide_le_cancel del: of_int_mult)
  then have "\<lfloor>x / s\<rfloor> * b \<le> a" by (simp only: of_int_le_iff)
  moreover have "0 \<le> \<lfloor>x / s\<rfloor> * b" using pos \<open>0 \<le> x / s\<close> by simp
  ultimately have "is_dec (of_int \<lfloor>x / s\<rfloor> * s)"
    unfolding e using x(2) by (intro is_dec_scaled) simp
  then show "dmul (to_integral_value ROUND_DOWN (ddiv x s)) s = of_int \<lfloor>x / s\<rfloor> * s"
    unfolding i dmul_def is_dec_def .
qed

lemma ceil_steps_exact:
  assumes "scaled k x" "scaled k s" "0 \<le> x" "0 < s"
  shows "dmul (to_integral_value ROUND_CEILING (ddiv x s)) s = of_int \<lceil>x / s\<rceil> * s"
    "x \<le> of_int \<lceil>x / s\<rceil> * s" "of_int \<lceil>x / s\<rceil> * s < x + s"
proof -
  obtain a b where x: "x = of_int a / 10 ^ k" "\<bar>a\<bar> < 10 ^ 27" and s: "s = of_int b / 10 ^ k" "\<bar>b\<bar> < 10 ^ 27"
    using assms by (auto simp: scaled_def)
  have pos: "0 \<le> a" "0 < b" using assms x s by (simp_all add: scaled_signs)
  have i: "to_integral_value ROUND_CEILING (ddiv x s) = of_int \<lceil>x / s\<rceil>"
    using scaled_quotient(2) [OF assms] by (simp add: to_integral_value_def)
  show ge: "x \<le> of_int \<lceil>x / s\<rceil> * s"
    using le_of_int_ceiling [of "x / s"] by (simp only: pos_divide_le_eq [OF assms(4)])
  show lt: "of_int \<lceil>x / s\<rceil> * s < x + s"
  proof -
    have "of_int \<lceil>x / s\<rceil> < x / s + 1" using ceiling_correct [of "x / s"] by simp
    then have "of_int \<lceil>x / s\<rceil> * s < (x / s + 1) * s" using assms(4) by (rule mult_strict_right_mono)
    also have "(x / s + 1) * s = x + s" using assms(4) by (simp add: distrib_right)
    finally show ?thesis .
  qed
  have e: "of_int \<lceil>x / s\<rceil> * s = of_int (\<lceil>x / s\<rceil> * b) / 10 ^ k" using s by simp
  have "of_int (\<lceil>x / s\<rceil> * b) < (of_int (a + b) :: rat)"
    using lt x(1) s(1) unfolding e by (simp add: divide_less_cancel add_divide_distrib [symmetric] del: of_int_mult)
  then have "\<lceil>x / s\<rceil> * b < a + b" by (simp only: of_int_less_iff)
  moreover have "0 \<le> \<lceil>x / s\<rceil> * b" using pos assms ceiling_mono [of 0 "x / s"] by simp
  ultimately have "is_dec (of_int \<lceil>x / s\<rceil> * s)"
    unfolding e using x(2) s(2) by (intro is_dec_scaled) simp
  then show "dmul (to_integral_value ROUND_CEILING (ddiv x s)) s = of_int \<lceil>x / s\<rceil> * s"
    unfolding i dmul_def is_dec_def .
qed

text \<open>The same with the floor rounding, which agrees with rounding towards zero here.\<close>

lemma floor_mode_exact:
  assumes "scaled k x" "scaled k s" "0 \<le> x" "0 < s"
  shows "dmul (to_integral_value ROUND_FLOOR (ddiv x s)) s = of_int \<lfloor>x / s\<rfloor> * s"
proof -
  have "0 \<le> ddiv x s" using assms by (simp add: ddiv_nonneg)
  then have "to_integral_value ROUND_FLOOR (ddiv x s) = to_integral_value ROUND_DOWN (ddiv x s)"
    by (simp add: to_integral_value_def)
  with floor_steps_exact(1) [OF assms] show ?thesis by simp
qed

lemma scaled_diff: "\<lbrakk>scaled k x; scaled k y; 0 \<le> x; 0 \<le> y\<rbrakk> \<Longrightarrow> scaled k (x - y)"
proof -
  assume *: "scaled k x" "scaled k y" "0 \<le> x" "0 \<le> y"
  then obtain a b where ab: "x = of_int a / 10 ^ k" "\<bar>a\<bar> < 10 ^ 27" "y = of_int b / 10 ^ k" "\<bar>b\<bar> < 10 ^ 27"
    unfolding scaled_def by blast
  then have "0 \<le> a" "0 \<le> b" using * by (simp_all add: scaled_signs)
  with ab have "x - y = of_int (a - b) / 10 ^ k \<and> \<bar>a - b\<bar> < 10 ^ 27" by (simp add: diff_divide_distrib)
  then show ?thesis unfolding scaled_def by blast
qed

end
