(* ===== verification/Candidates.thy ===== *)
theory Candidates
  imports Enums Py_Decimal
begin

text \<open>
  The trade candidate contract (\<open>domain/candidates.py\<close>): a relative risk plan for one symbol
  and bar, checked when it is built, from which absolute protection prices are computed only
  after a real fill.
\<close>

section \<open>The candidate\<close>

definition EXECUTION_UNIVERSE :: "string set" where
  "EXECUTION_UNIVERSE = {''BTC/USDT'', ''ETH/USDT''}"

text \<open>\<open>CandidateLane(s)\<close>, with the \<open>ValueError\<close> of an unknown value as \<open>None\<close>.\<close>

definition CandidateLane_of :: "string \<Rightarrow> CandidateLane option" where
  "CandidateLane_of s =
     (if s = ''PRODUCTION'' then Some CandidateLane.PRODUCTION
      else if s = ''TESTNET_SAMPLING'' then Some CandidateLane.TESTNET_SAMPLING
      else if s = ''SHADOW'' then Some CandidateLane.SHADOW else None)"

record TradeCandidate =
  tc_candidate_id :: string
  tc_cycle_id :: string
  tc_strategy_id :: string
  tc_strategy_version :: string
  tc_lane :: CandidateLane
  tc_candidate_type :: V2CandidateType
  tc_symbol :: string
  tc_side :: string
  tc_signal_candle_close_time :: int
  tc_signal_reference_price :: dec
  tc_confidence :: dec
  tc_stop_distance :: dec
  tc_take_profit_distance :: "dec option"
  tc_max_entry_drift_bps :: dec
  tc_expires_at :: int
  tc_non_promotable :: bool
  tc_signal_context :: "(string \<times> string) list"

text \<open>
  \<open>__post_init__\<close>: the lane arrives as a string and is replaced by the enumeration member.
\<close>

definition TradeCandidate_post_init :: "string \<Rightarrow> TradeCandidate \<Rightarrow> TradeCandidate res" where
  "TradeCandidate_post_init lane_arg c =
     (case CandidateLane_of lane_arg of
        None \<Rightarrow> Inl (ValueError ''TradeCandidate lane must be PRODUCTION, TESTNET_SAMPLING, or SHADOW'')
      | Some lane \<Rightarrow>
         guardR (tc_side c \<notin> {''LONG'', ''SHORT''})
           (ValueError ''TradeCandidate side must be LONG or SHORT'') (
         guardR (tc_signal_reference_price c \<le> 0)
           (ValueError ''signal_reference_price must be > 0'') (
         guardR (tc_stop_distance c \<le> 0) (ValueError ''stop_distance must be > 0'') (
         guardR (case tc_take_profit_distance c of None \<Rightarrow> False | Some d \<Rightarrow> d \<le> 0)
           (ValueError ''take_profit_distance must be > 0 when set'') (
         guardR (tc_max_entry_drift_bps c \<le> 0) (ValueError ''max_entry_drift_bps must be > 0'') (
         guardR (\<not> (0 \<le> tc_confidence c \<and> tc_confidence c \<le> 1))
           (ValueError ''confidence must be within [0, 1]'') (
         guardR (tc_expires_at c \<le> tc_signal_candle_close_time c)
           (ValueError ''expires_at must be after signal_candle_close_time'') (
         guardR (tc_candidate_type c = V2CandidateType.SAMPLING \<and> \<not> tc_non_promotable c)
           (ValueError ''SAMPLING candidates must be non_promotable'') (
         guardR (lane = CandidateLane.TESTNET_SAMPLING \<and> \<not> tc_non_promotable c)
           (ValueError ''TESTNET_SAMPLING candidates must be non_promotable'') (
         guardR (lane = CandidateLane.SHADOW \<and> tc_candidate_type c \<noteq> V2CandidateType.RESEARCH)
           (ValueError ''SHADOW lane is reserved for RESEARCH candidates'') (
         guardR (tc_candidate_type c = V2CandidateType.RESEARCH \<and> lane \<noteq> CandidateLane.SHADOW)
           (ValueError ''RESEARCH candidates must use the SHADOW lane'') (
         guardR (tc_candidate_type c = V2CandidateType.RESEARCH \<and> \<not> tc_non_promotable c)
           (ValueError ''RESEARCH candidates must be non_promotable'')
         (Inr (c\<lparr>tc_lane := lane\<rparr>))))))))))))))"

definition direction :: "TradeCandidate \<Rightarrow> string" where
  "direction c = (if tc_side c = ''LONG'' then ''long'' else ''short'')"

definition is_expired :: "TradeCandidate \<Rightarrow> int \<Rightarrow> bool" where
  "is_expired c now \<longleftrightarrow> now \<ge> tc_expires_at c"

text \<open>\<open>self.take_profit_distance\<close> as a condition: set and not zero.\<close>

definition truthy_dec :: "dec option \<Rightarrow> dec option" where
  "truthy_dec d = (case d of None \<Rightarrow> None | Some x \<Rightarrow> if x = 0 then None else Some x)"

definition resolve_protection_prices :: "TradeCandidate \<Rightarrow> dec \<Rightarrow> (dec \<times> dec option) res" where
  "resolve_protection_prices c average_fill_price =
     guardR (average_fill_price \<le> 0) (ValueError ''average_fill_price must be > 0'')
       (let stop = (if tc_side c = ''LONG'' then dsub average_fill_price (tc_stop_distance c)
                    else dadd average_fill_price (tc_stop_distance c));
            take = map_option
                     (if tc_side c = ''LONG'' then dadd average_fill_price else dsub average_fill_price)
                     (truthy_dec (tc_take_profit_distance c))
        in guardR (stop \<le> 0) (ValueError ''resolved stop price must be > 0'')
          (guardR (case take of None \<Rightarrow> False | Some t \<Rightarrow> t \<le> 0)
            (ValueError ''resolved take-profit price must be > 0'')
            (Inr (stop, take))))"

definition drift_bps_from :: "TradeCandidate \<Rightarrow> dec \<Rightarrow> dec res" where
  "drift_bps_from c pre_submit_price =
     guardR (pre_submit_price \<le> 0) (ValueError ''pre_submit_price must be > 0'')
       (let delta = dabs (dsub pre_submit_price (tc_signal_reference_price c))
        in bindR (ddivR delta (tc_signal_reference_price c)) (\<lambda>q. Inr (dmul q 10000)))"

definition drift_within_tolerance :: "TradeCandidate \<Rightarrow> dec \<Rightarrow> bool res" where
  "drift_within_tolerance c pre_submit_price =
     bindR (drift_bps_from c pre_submit_price) (\<lambda>d. Inr (d \<le> tc_max_entry_drift_bps c))"

section \<open>Well-formed candidates\<close>

definition lane_value :: "CandidateLane \<Rightarrow> string" where
  "lane_value l = (case l of CandidateLane.PRODUCTION \<Rightarrow> ''PRODUCTION''
     | CandidateLane.TESTNET_SAMPLING \<Rightarrow> ''TESTNET_SAMPLING'' | CandidateLane.SHADOW \<Rightarrow> ''SHADOW'')"

lemma CandidateLane_of_value [simp]: "CandidateLane_of (lane_value l) = Some l"
  by (cases l) (simp_all add: lane_value_def CandidateLane_of_def)

definition wf_candidate :: "TradeCandidate \<Rightarrow> bool" where
  "wf_candidate c \<longleftrightarrow> tc_side c \<in> {''LONG'', ''SHORT''} \<and> 0 < tc_signal_reference_price c
     \<and> 0 < tc_stop_distance c \<and> (\<forall>d. tc_take_profit_distance c = Some d \<longrightarrow> 0 < d)
     \<and> 0 < tc_max_entry_drift_bps c \<and> 0 \<le> tc_confidence c \<and> tc_confidence c \<le> 1
     \<and> tc_signal_candle_close_time c < tc_expires_at c
     \<and> (tc_non_promotable c \<or>
          tc_candidate_type c = V2CandidateType.PRIMARY \<and> tc_lane c = CandidateLane.PRODUCTION)
     \<and> (tc_lane c = CandidateLane.SHADOW \<longleftrightarrow> tc_candidate_type c = V2CandidateType.RESEARCH)"

lemma post_init_Inr:
  "TradeCandidate_post_init l c = Inr c' \<longleftrightarrow>
     (\<exists>lane. CandidateLane_of l = Some lane \<and> c' = c\<lparr>tc_lane := lane\<rparr> \<and> wf_candidate c')"
proof (cases "CandidateLane_of l")
  case (Some lane)
  have tp: "(\<forall>d. tc_take_profit_distance c = Some d \<longrightarrow> 0 < d) \<longleftrightarrow>
      \<not> (case tc_take_profit_distance c of None \<Rightarrow> False | Some d \<Rightarrow> d \<le> 0)"
    by (auto split: option.splits)
  have "TradeCandidate_post_init l c = Inr c' \<longleftrightarrow> c' = c\<lparr>tc_lane := lane\<rparr> \<and> wf_candidate (c\<lparr>tc_lane := lane\<rparr>)"
    unfolding TradeCandidate_post_init_def Some option.case guardR_Inr_iff wf_candidate_def
    by (cases lane; cases "tc_candidate_type c") (auto simp: tp not_le)
  then show ?thesis using Some by auto
qed (simp add: TradeCandidate_post_init_def)

section \<open>Properties\<close>

text \<open>
  A candidate exists only if it is well formed: construction succeeds exactly when the
  lane names a lane and the completed record has a positive stop, reference and drift, a
  confidence in \<open>[0, 1]\<close>, an expiry after the bar, promotable only as PRIMARY in PRODUCTION,
  and research candidates exactly in the shadow lane.
\<close>

theorem candidate_construction:
  "(\<exists>c'. TradeCandidate_post_init l c = Inr c') \<longleftrightarrow>
     (\<exists>lane. CandidateLane_of l = Some lane \<and> wf_candidate (c\<lparr>tc_lane := lane\<rparr>))"
  by (auto simp: post_init_Inr)

lemma resolve_Inr:
  assumes "wf_candidate c" "resolve_protection_prices c p = Inr (stop, tp)"
  shows "0 < p \<and> 0 < stop \<and>
    stop = (if tc_side c = ''LONG'' then dsub p (tc_stop_distance c) else dadd p (tc_stop_distance c)) \<and>
    tp = map_option (\<lambda>d. if tc_side c = ''LONG'' then dadd p d else dsub p d) (tc_take_profit_distance c) \<and>
    (\<forall>t. tp = Some t \<longrightarrow> 0 < t)"
proof -
  have t: "truthy_dec (tc_take_profit_distance c) = tc_take_profit_distance c"
    using assms(1) by (auto simp: truthy_dec_def wf_candidate_def split: option.splits)
  show ?thesis
    using assms(2) unfolding resolve_protection_prices_def Let_def t
    by (cases "tc_take_profit_distance c") (auto simp: guardR_Inr_iff split: if_splits)
qed

text \<open>
  Protection prices lie on the right side of the fill: for a well-formed candidate and a
  price \<open>p\<close> that fits the decimal context, a long gets \<open>0 < stop \<le> p \<le> tp\<close>, a short
  \<open>0 < tp \<le> p \<le> stop\<close>, and where the context does not have to round, the distances are
  exactly the candidate's.
\<close>

theorem protection_prices_geometry:
  assumes "wf_candidate c" "is_dec p" "resolve_protection_prices c p = Inr (stop, tp)"
  shows "0 < stop \<and> (tc_side c = ''LONG'' \<longrightarrow> stop \<le> p \<and> (\<forall>t. tp = Some t \<longrightarrow> p \<le> t))
    \<and> (tc_side c = ''SHORT'' \<longrightarrow> p \<le> stop \<and> (\<forall>t. tp = Some t \<longrightarrow> 0 < t \<and> t \<le> p))
    \<and> (tp = None \<longleftrightarrow> tc_take_profit_distance c = None)
    \<and> (tc_side c = ''LONG'' \<and> is_dec (p - tc_stop_distance c) \<longrightarrow> p - stop = tc_stop_distance c)
    \<and> (tc_side c = ''SHORT'' \<and> is_dec (p + tc_stop_distance c) \<longrightarrow> stop - p = tc_stop_distance c)"
proof -
  note r = resolve_Inr [OF assms(1,3)]
  have d: "0 < tc_stop_distance c" "\<And>d. tc_take_profit_distance c = Some d \<Longrightarrow> 0 < d"
    using assms(1) by (auto simp: wf_candidate_def)
  show ?thesis
    using r d assms(2) by (auto simp: dsub_le dadd_ge dsub_def [of p "tc_stop_distance c"]
        dadd_def [of p "tc_stop_distance c"] is_dec_def ctx.rnd_le_fix ctx.fix_le_rnd less_imp_le)
qed

definition demo_candidate :: TradeCandidate where
  "demo_candidate = \<lparr>tc_candidate_id = ''c1'', tc_cycle_id = ''y1'', tc_strategy_id = ''s'',
     tc_strategy_version = ''1'', tc_lane = CandidateLane.TESTNET_SAMPLING,
     tc_candidate_type = V2CandidateType.SAMPLING, tc_symbol = ''BTC/USDT'', tc_side = ''LONG'',
     tc_signal_candle_close_time = 0, tc_signal_reference_price = 100, tc_confidence = 1 / 2,
     tc_stop_distance = 5, tc_take_profit_distance = Some 10, tc_max_entry_drift_bps = 20,
     tc_expires_at = 900000000, tc_non_promotable = True, tc_signal_context = []\<rparr>"

lemma demo_candidate_wf: "wf_candidate demo_candidate"
  by (simp add: wf_candidate_def demo_candidate_def)

lemma is_dec_numeral_small: "numeral n \<le> (10 ^ 28 :: int) \<Longrightarrow> is_dec (numeral n)"
  using is_dec_of_int [of "numeral n"] by simp

theorem protection_prices_geometry_witness:
  "resolve_protection_prices demo_candidate 100 = Inr (95, Some 110) \<and> (0::dec) < 95 \<and> (95::dec) \<le> 100"
proof -
  have r: "resolve_protection_prices demo_candidate 100 = Inr (95, Some 110)"
    by code_simp
  have "is_dec 100" by (rule is_dec_numeral_small) simp
  from protection_prices_geometry [OF demo_candidate_wf this r] r show ?thesis
    by (simp add: demo_candidate_def)
qed

end
