(* ===== verification/Sha256.thy ===== *)
theory Sha256
  imports "HOL-Library.Word" Prelude
begin

text \<open>
  \<open>hashlib.sha256(\<dots>).hexdigest()\<close> of the standard library, on bytes, with 32-bit words that
  wrap.  The client order ids are built from it, so their length and alphabet are facts of
  this definition and not assumptions.
\<close>

unbundle bit_operations_syntax

type_synonym w32 = "32 word"

definition rotr :: "nat \<Rightarrow> w32 \<Rightarrow> w32" where
  "rotr n x = drop_bit n x OR push_bit (32 - n) x"

definition big_sigma0 :: "w32 \<Rightarrow> w32" where
  "big_sigma0 x = rotr 2 x XOR rotr 13 x XOR rotr 22 x"

definition big_sigma1 :: "w32 \<Rightarrow> w32" where
  "big_sigma1 x = rotr 6 x XOR rotr 11 x XOR rotr 25 x"

definition small_sigma0 :: "w32 \<Rightarrow> w32" where
  "small_sigma0 x = rotr 7 x XOR rotr 18 x XOR drop_bit 3 x"

definition small_sigma1 :: "w32 \<Rightarrow> w32" where
  "small_sigma1 x = rotr 17 x XOR rotr 19 x XOR drop_bit 10 x"

definition ch :: "w32 \<Rightarrow> w32 \<Rightarrow> w32 \<Rightarrow> w32" where
  "ch x y z = (x AND y) XOR (NOT x AND z)"

definition maj :: "w32 \<Rightarrow> w32 \<Rightarrow> w32 \<Rightarrow> w32" where
  "maj x y z = (x AND y) XOR (x AND z) XOR (y AND z)"

definition round_constants :: "w32 list" where
  "round_constants = [
    1116352408, 1899447441, 3049323471, 3921009573, 961987163, 1508970993, 2453635748, 2870763221,
    3624381080, 310598401, 607225278, 1426881987, 1925078388, 2162078206, 2614888103, 3248222580,
    3835390401, 4022224774, 264347078, 604807628, 770255983, 1249150122, 1555081692, 1996064986,
    2554220882, 2821834349, 2952996808, 3210313671, 3336571891, 3584528711, 113926993, 338241895,
    666307205, 773529912, 1294757372, 1396182291, 1695183700, 1986661051, 2177026350, 2456956037,
    2730485921, 2820302411, 3259730800, 3345764771, 3516065817, 3600352804, 4094571909, 275423344,
    430227734, 506948616, 659060556, 883997877, 958139571, 1322822218, 1537002063, 1747873779,
    1955562222, 2024104815, 2227730452, 2361852424, 2428436474, 2756734187, 3204031479, 3329325298]"

datatype digest = Digest w32 w32 w32 w32 w32 w32 w32 w32

definition initial_digest :: digest where
  "initial_digest = Digest 0x6a09e667 0xbb67ae85 0x3c6ef372 0xa54ff53a
                           0x510e527f 0x9b05688c 0x1f83d9ab 0x5be0cd19"

text \<open>The message schedule: sixteen words of the block, extended to sixty-four.\<close>

definition extend_step :: "w32 list \<Rightarrow> w32 list" where
  "extend_step w = (let t = length w in
     w @ [small_sigma1 (w ! (t - 2)) + w ! (t - 7) + small_sigma0 (w ! (t - 15)) + w ! (t - 16)])"

definition schedule :: "w32 list \<Rightarrow> w32 list" where
  "schedule block = (extend_step ^^ 48) block"

fun compress_step :: "digest \<Rightarrow> w32 \<times> w32 \<Rightarrow> digest" where
  "compress_step (Digest a b c d e f g h) (k, w) =
     (let t1 = h + big_sigma1 e + ch e f g + k + w;
          t2 = big_sigma0 a + maj a b c
      in Digest (t1 + t2) a b c (d + t1) e f g)"

fun add_digest :: "digest \<Rightarrow> digest \<Rightarrow> digest" where
  "add_digest (Digest a b c d e f g h) (Digest a' b' c' d' e' f' g' h') =
     Digest (a + a') (b + b') (c + c') (d + d') (e + e') (f + f') (g + g') (h + h')"

definition compress :: "digest \<Rightarrow> w32 list \<Rightarrow> digest" where
  "compress dg block =
     add_digest dg (foldl compress_step dg (zip round_constants (schedule block)))"

text \<open>Padding: a one bit, zeros, and the length in bits as a 64-bit big-endian number.\<close>

definition pad :: "nat list \<Rightarrow> nat list" where
  "pad bs = (let n = length bs in
     bs @ [128] @ replicate ((119 - n mod 64) mod 64) 0 @
     map (\<lambda>i. (8 * n div 256 ^ (7 - i)) mod 256) [0..<8])"

fun be_words :: "nat list \<Rightarrow> w32 list" where
  "be_words (a # b # c # d # bs) =
     of_nat (((a * 256 + b) * 256 + c) * 256 + d) # be_words bs"
| "be_words _ = []"

fun blocks :: "'a list \<Rightarrow> 'a list list" where
  "blocks xs = (if xs = [] then [] else take 16 xs # blocks (drop 16 xs))"

declare blocks.simps [simp del]

definition sha256 :: "string \<Rightarrow> digest" where
  "sha256 s = foldl compress initial_digest (blocks (be_words (pad (map of_char s))))"

section \<open>The hexadecimal digest\<close>

definition hex_digit :: "nat \<Rightarrow> char" where
  "hex_digit n = (if n < 10 then char_of (48 + n) else char_of (87 + n))"

definition hex_word :: "w32 \<Rightarrow> string" where
  "hex_word w = map (\<lambda>i. hex_digit (unat w div 16 ^ (7 - i) mod 16)) [0..<8]"

fun hex_digest :: "digest \<Rightarrow> string" where
  "hex_digest (Digest a b c d e f g h) =
     hex_word a @ hex_word b @ hex_word c @ hex_word d @ hex_word e @ hex_word f @ hex_word g @ hex_word h"

definition sha256_hex :: "string \<Rightarrow> string" where
  "sha256_hex s = hex_digest (sha256 s)"

lemma length_hex_word [simp]: "length (hex_word w) = 8"
  by (simp add: hex_word_def)

lemma length_sha256_hex [simp]: "length (sha256_hex s) = 64"
  by (cases "sha256 s") (simp add: sha256_hex_def)

definition hex_chars :: "char set" where
  "hex_chars = set ''0123456789abcdef''"

lemma hex_digit_chars: "n < 16 \<Longrightarrow> hex_digit n \<in> hex_chars"
proof -
  assume "n < 16"
  then have "n \<in> set [0..<16]" by simp
  moreover have "\<forall>n\<in>set [0..<16]. hex_digit n \<in> hex_chars"
    by (simp add: hex_digit_def hex_chars_def upt_rec char_of_def) code_simp
  ultimately show ?thesis by blast
qed

lemma set_hex_word: "set (hex_word w) \<subseteq> hex_chars"
  by (auto simp: hex_word_def intro: hex_digit_chars)

lemma set_sha256_hex: "set (sha256_hex s) \<subseteq> hex_chars"
  using set_hex_word by (cases "sha256 s") (simp add: sha256_hex_def)

end
