(* ===== verification/Client_Order_Id.thy ===== *)
theory Client_Order_Id
  imports Sha256 "HOL-Library.Sublist"
begin

text \<open>
  Deterministic client order ids (\<open>domain/client_order_id.py\<close>): the handle by which an order
  whose submission timed out is found again.  A string is its bytes; the ids themselves are
  ASCII.
\<close>

section \<open>Minting and parsing\<close>

definition MAX_CLIENT_ORDER_ID_LENGTH :: nat where
  "MAX_CLIENT_ORDER_ID_LENGTH = 36"

definition id_chars :: "char set" where
  "id_chars = set ''ABCDEFGHIJKLMNOPQRSTUVWXYZabcdefghijklmnopqrstuvwxyz0123456789-''"

text \<open>
  \<open>re.compile(r"^[A-Za-z0-9-]+$").match\<close>: the dollar also matches before one final newline.
\<close>

definition CLIENT_ORDER_ID_PATTERN :: "string \<Rightarrow> bool" where
  "CLIENT_ORDER_ID_PATTERN s =
     (let body = (if s \<noteq> [] \<and> last s = CHR 0x0A then butlast s else s)
      in body \<noteq> [] \<and> (\<forall>c\<in>set body. c \<in> id_chars))"

datatype OrderLegKind = ENTRY | EXIT | STOP | TARGET

fun PREFIX_BY_LEG :: "OrderLegKind \<Rightarrow> string" where
  "PREFIX_BY_LEG OrderLegKind.ENTRY = ''A2E''"
| "PREFIX_BY_LEG OrderLegKind.EXIT = ''A2X''"
| "PREFIX_BY_LEG OrderLegKind.STOP = ''A2S''"
| "PREFIX_BY_LEG OrderLegKind.TARGET = ''A2T''"

fun join_with :: "char \<Rightarrow> string list \<Rightarrow> string" where
  "join_with c [] = []"
| "join_with c [p] = p"
| "join_with c (p # ps) = p @ c # join_with c ps"

definition hash :: "string list \<Rightarrow> nat \<Rightarrow> string" where
  "hash parts n = take n (sha256_hex (join_with (CHR 0x1F) parts))"

definition validate_id :: "string \<Rightarrow> string res" where
  "validate_id client_order_id =
     guardR (length client_order_id > MAX_CLIENT_ORDER_ID_LENGTH)
       (ValueError ''client order id exceeds the exchange limit'')
       (guardR (\<not> CLIENT_ORDER_ID_PATTERN client_order_id)
         (ValueError ''client order id contains characters outside [A-Za-z0-9-]'')
         (Inr client_order_id))"

definition entry_client_order_id :: "string \<Rightarrow> int \<Rightarrow> string res" where
  "entry_client_order_id intent_id leg =
     guardR (intent_id = []) (ValueError ''intent_id is required'')
       (guardR (leg < 1) (ValueError ''leg must be >= 1'')
         (let digest = hash [intent_id, int_str leg] 20
          in validate_id (PREFIX_BY_LEG OrderLegKind.ENTRY @ ''-'' @ digest @ ''-'' @ int_str leg)))"

definition exit_client_order_id :: "string \<Rightarrow> int \<Rightarrow> string res" where
  "exit_client_order_id position_id attempt =
     guardR (position_id = []) (ValueError ''position_id is required'')
       (guardR (attempt < 1) (ValueError ''attempt must be >= 1'')
         (let digest = hash [position_id, int_str attempt] 20
          in validate_id (PREFIX_BY_LEG OrderLegKind.EXIT @ ''-'' @ digest @ ''-'' @ int_str attempt)))"

definition stop_client_order_id :: "string \<Rightarrow> int \<Rightarrow> string res" where
  "stop_client_order_id position_id revision =
     guardR (position_id = []) (ValueError ''position_id is required'')
       (guardR (revision < 1) (ValueError ''revision must be >= 1'')
         (let digest = hash [position_id, ''stop'', int_str revision] 18
          in validate_id (PREFIX_BY_LEG OrderLegKind.STOP @ ''-'' @ digest)))"

definition target_client_order_id :: "string \<Rightarrow> int \<Rightarrow> string res" where
  "target_client_order_id position_id revision =
     guardR (position_id = []) (ValueError ''position_id is required'')
       (guardR (revision < 1) (ValueError ''revision must be >= 1'')
         (let digest = hash [position_id, ''target'', int_str revision] 18
          in validate_id (PREFIX_BY_LEG OrderLegKind.TARGET @ ''-'' @ digest)))"

text \<open>The loop over the prefix dictionary, in its insertion order.\<close>

definition leg_kind_of :: "string \<Rightarrow> OrderLegKind option" where
  "leg_kind_of client_order_id =
     (let prefix = split_head (CHR ''-'') client_order_id
      in List.find (\<lambda>leg. prefix = PREFIX_BY_LEG leg)
           [OrderLegKind.ENTRY, OrderLegKind.EXIT, OrderLegKind.STOP, OrderLegKind.TARGET])"

definition is_v2_client_order_id :: "string \<Rightarrow> bool" where
  "is_v2_client_order_id client_order_id = (leg_kind_of client_order_id \<noteq> None)"

section \<open>Facts\<close>

lemma length_hash [simp]: "n \<le> 64 \<Longrightarrow> length (hash ps n) = n"
  by (simp add: hash_def)

lemma set_hash: "set (hash ps n) \<subseteq> hex_chars"
  using set_sha256_hex set_take_subset unfolding hash_def by fast

lemma hex_sub_id: "hex_chars \<subseteq> id_chars" and digit_sub_id: "digit_chars \<subseteq> id_chars"
  by (simp_all add: hex_chars_def digit_chars_def id_chars_def)

lemma prefix_chars: "set (PREFIX_BY_LEG k @ ''-'') \<subseteq> id_chars"
  by (cases k) (simp_all add: id_chars_def)

lemma newline_not_id: "CHR 0x0A \<notin> id_chars"
  by (simp add: id_chars_def)

lemma pattern_ok: "s \<noteq> [] \<Longrightarrow> set s \<subseteq> id_chars \<Longrightarrow> CLIENT_ORDER_ID_PATTERN s"
  using newline_not_id last_in_set by (fastforce simp: CLIENT_ORDER_ID_PATTERN_def)

lemma minted_chars:
  "set d \<subseteq> id_chars \<Longrightarrow> set (PREFIX_BY_LEG k @ ''-'' @ hash ps n @ d) \<subseteq> id_chars"
  using prefix_chars [of k] set_hash [of ps n] hex_sub_id by auto

lemma leg_kind_of_minted [simp]: "leg_kind_of (PREFIX_BY_LEG k @ CHR ''-'' # s) = Some k"
  by (cases k) (simp_all add: leg_kind_of_def split_head_def Let_def)

lemma validate_id_Inr:
  "validate_id s = Inr t \<longleftrightarrow> t = s \<and> length s \<le> 36 \<and> CLIENT_ORDER_ID_PATTERN s"
  by (auto simp: validate_id_def guardR_Inr_iff MAX_CLIENT_ORDER_ID_LENGTH_def)

lemma length_prefix [simp]: "length (PREFIX_BY_LEG k) = 3"
  by (cases k) simp_all

lemma length_leg_str: "1 \<le> leg \<Longrightarrow> length (int_str leg) \<le> 11 \<longleftrightarrow> leg < 10 ^ 11"
proof -
  assume "1 \<le> leg"
  then have "int_str leg = nat_str (nat leg)" by (simp add: int_str_def)
  then have "length (int_str leg) \<le> Suc 10 \<longleftrightarrow> nat leg < 10 ^ Suc 10"
    by (simp only: length_nat_str_le)
  also have "\<dots> \<longleftrightarrow> leg < 10 ^ 11" using \<open>1 \<le> leg\<close> by (simp add: nat_less_iff)
  finally show ?thesis by simp
qed

lemma leg_str_chars: "1 \<le> leg \<Longrightarrow> set (''-'' @ int_str leg) \<subseteq> id_chars"
  using set_int_str [of leg] digit_sub_id by (auto simp: id_chars_def)

lemma numbered_id_Inr:
  assumes "1 \<le> leg"
  shows "validate_id (PREFIX_BY_LEG k @ ''-'' @ hash ps 20 @ ''-'' @ int_str leg) = Inr cid \<longleftrightarrow>
    leg < 10 ^ 11 \<and> cid = PREFIX_BY_LEG k @ ''-'' @ hash ps 20 @ ''-'' @ int_str leg"
  using pattern_ok [OF _ minted_chars [OF leg_str_chars [OF assms]], of k ps 20]
    length_leg_str [OF assms] by (auto simp: validate_id_Inr)

lemma revision_id_Inr:
  "validate_id (PREFIX_BY_LEG k @ ''-'' @ hash ps 18) = Inr cid \<longleftrightarrow>
    cid = PREFIX_BY_LEG k @ ''-'' @ hash ps 18"
  using pattern_ok [OF _ minted_chars [of "[]" k ps 18]] by (auto simp: validate_id_Inr)

lemma entry_id_Inr:
  "entry_client_order_id i leg = Inr cid \<longleftrightarrow> i \<noteq> [] \<and> 1 \<le> leg \<and> leg < 10 ^ 11 \<and>
     cid = ''A2E-'' @ hash [i, int_str leg] 20 @ ''-'' @ int_str leg"
  using numbered_id_Inr [of leg OrderLegKind.ENTRY "[i, int_str leg]" cid]
  by (auto simp: entry_client_order_id_def guardR_Inr_iff Let_def)

lemma exit_id_Inr:
  "exit_client_order_id p a = Inr cid \<longleftrightarrow> p \<noteq> [] \<and> 1 \<le> a \<and> a < 10 ^ 11 \<and>
     cid = ''A2X-'' @ hash [p, int_str a] 20 @ ''-'' @ int_str a"
  using numbered_id_Inr [of a OrderLegKind.EXIT "[p, int_str a]" cid]
  by (auto simp: exit_client_order_id_def guardR_Inr_iff Let_def)

lemma stop_id_Inr:
  "stop_client_order_id p r = Inr cid \<longleftrightarrow> p \<noteq> [] \<and> 1 \<le> r \<and>
     cid = ''A2S-'' @ hash [p, ''stop'', int_str r] 18"
  using revision_id_Inr [of OrderLegKind.STOP "[p, ''stop'', int_str r]" cid]
  by (auto simp: stop_client_order_id_def guardR_Inr_iff Let_def)

lemma target_id_Inr:
  "target_client_order_id p r = Inr cid \<longleftrightarrow> p \<noteq> [] \<and> 1 \<le> r \<and>
     cid = ''A2T-'' @ hash [p, ''target'', int_str r] 18"
  using revision_id_Inr [of OrderLegKind.TARGET "[p, ''target'', int_str r]" cid]
  by (auto simp: target_client_order_id_def guardR_Inr_iff Let_def)

lemmas minted_ids = entry_id_Inr exit_id_Inr stop_id_Inr target_id_Inr

text \<open>The minting functions, by the leg they mint for.\<close>

fun mint :: "OrderLegKind \<Rightarrow> string \<Rightarrow> int \<Rightarrow> string res" where
  "mint OrderLegKind.ENTRY i n = entry_client_order_id i n"
| "mint OrderLegKind.EXIT i n = exit_client_order_id i n"
| "mint OrderLegKind.STOP i n = stop_client_order_id i n"
| "mint OrderLegKind.TARGET i n = target_client_order_id i n"

lemma mint_shape: "mint k i n = Inr cid \<Longrightarrow> \<exists>s. cid = PREFIX_BY_LEG k @ CHR ''-'' # s"
  by (cases k) (auto simp: minted_ids)

lemma mint_valid: "mint k i n = Inr cid \<Longrightarrow> validate_id cid = Inr cid"
  by (cases k) (auto simp: entry_client_order_id_def exit_client_order_id_def
      stop_client_order_id_def target_client_order_id_def guardR_Inr_iff Let_def validate_id_Inr)

section \<open>Properties\<close>

text \<open>
  C35.  Every minted client order id is accepted by the exchange and tells its leg: it has at
  most 36 characters, all from \<open>[A-Za-z0-9-]\<close>, \<open>leg_kind_of\<close> reads the leg back, and ids of
  different legs never collide.
\<close>

theorem minted_id_safe:
  assumes "mint k i n = Inr cid"
  shows "length cid \<le> 36 \<and> cid \<noteq> [] \<and> set cid \<subseteq> id_chars \<and> leg_kind_of cid = Some k
    \<and> is_v2_client_order_id cid \<and> (\<forall>k' i' n'. mint k' i' n' = Inr cid \<longrightarrow> k' = k)"
proof (intro conjI allI impI)
  obtain s where s: "cid = PREFIX_BY_LEG k @ CHR ''-'' # s" using mint_shape [OF assms] by auto
  then show leg: "leg_kind_of cid = Some k" by simp
  then show "is_v2_client_order_id cid" by (simp add: is_v2_client_order_id_def)
  show "cid \<noteq> []" using s by simp
  show "length cid \<le> 36" using mint_valid [OF assms] by (simp add: validate_id_Inr)
  show "set cid \<subseteq> id_chars"
  proof (cases k)
    case ENTRY
    with assms show ?thesis
      using minted_chars [OF leg_str_chars, of n k "[i, int_str n]" 20] by (auto simp: minted_ids)
  next
    case EXIT
    with assms show ?thesis
      using minted_chars [OF leg_str_chars, of n k "[i, int_str n]" 20] by (auto simp: minted_ids)
  next
    case STOP
    with assms show ?thesis
      using minted_chars [of "[]" k "[i, ''stop'', int_str n]" 18] by (auto simp: minted_ids)
  next
    case TARGET
    with assms show ?thesis
      using minted_chars [of "[]" k "[i, ''target'', int_str n]" 18] by (auto simp: minted_ids)
  qed
  show "k' = k" if "mint k' i' n' = Inr cid" for k' i' n'
    using mint_shape [OF that] leg by auto
qed

theorem minted_id_safe_witness:
  "\<exists>cid. mint OrderLegKind.STOP ''pos-1'' 1 = Inr cid \<and> length cid \<le> 36
     \<and> leg_kind_of cid = Some OrderLegKind.STOP"
proof -
  have "mint OrderLegKind.STOP ''pos-1'' 1 = Inr (''A2S-'' @ hash [''pos-1'', ''stop'', int_str 1] 18)"
    by (simp add: stop_id_Inr)
  with minted_id_safe [OF this] show ?thesis by blast
qed

text \<open>
  Minting fails only on bad input: an id is minted exactly when the identifier is given
  and the leg number is at least one and, for the numbered entry and exit ids, below
  \<open>10\<^sup>11\<close>; and the number in an entry or exit id separates different legs of one
  intent and different attempts of one position, whatever the hash does.
\<close>

theorem minting_defined:
  "((\<exists>cid. mint k i n = Inr cid) \<longleftrightarrow>
      i \<noteq> [] \<and> 1 \<le> n \<and> (k \<in> {OrderLegKind.ENTRY, OrderLegKind.EXIT} \<longrightarrow> n < 10 ^ 11))
   \<and> (k \<in> {OrderLegKind.ENTRY, OrderLegKind.EXIT} \<and> mint k i n = Inr cid \<and> mint k i' n' = Inr cid
        \<longrightarrow> n = n')"
proof (intro conjI impI)
  show "(\<exists>cid. mint k i n = Inr cid) \<longleftrightarrow>
      i \<noteq> [] \<and> 1 \<le> n \<and> (k \<in> {OrderLegKind.ENTRY, OrderLegKind.EXIT} \<longrightarrow> n < 10 ^ 11)"
    by (cases k) (auto simp: minted_ids)
  assume *: "k \<in> {OrderLegKind.ENTRY, OrderLegKind.EXIT} \<and> mint k i n = Inr cid \<and> mint k i' n' = Inr cid"
  then have "int_str n = int_str n'" "0 \<le> n" "0 \<le> n'"
    by (auto simp: minted_ids append_eq_append_conv)
  then show "n = n'" by (metis int_str_inj)
qed

theorem minting_defined_witness:
  "(\<exists>cid. mint OrderLegKind.EXIT ''p'' 2 = Inr cid) \<and> \<not> (\<exists>cid. mint OrderLegKind.EXIT ''p'' 0 = Inr cid)"
  using minting_defined [of OrderLegKind.EXIT "''p''" 2] minting_defined [of OrderLegKind.EXIT "''p''" 0]
  by simp

end
