(* ===== verification/Exchange.thy ===== *)
theory Exchange
  imports Py_Decimal
begin

text \<open>
  What crosses the boundary to the exchange: the commands the services issue
  (\<open>domain/commands.py\<close>), the snapshots (\<open>infrastructure/market_snapshot_provider.py\<close>) and the
  receipts (\<open>infrastructure/binance_adapter.py\<close>).  The services take the adapter as an argument;
  here it is a record of its methods, each a call that may raise and that changes the world.
\<close>

section \<open>Commands, snapshots, receipts\<close>

record SubmitEntryToExchange =
  se_intent_id :: string
  se_quantity :: dec
  se_leverage :: int
  se_client_order_id :: string

record SubmitProtectionOrders =
  sp_position_id :: string
  sp_stop_loss_price :: dec
  sp_take_profit_price :: "dec option"
  sp_stop_client_order_id :: string
  sp_tp_client_order_id :: "string option"

record SubmitReduceOnlyExit =
  sr_position_id :: string
  sr_exit_reason :: string
  sr_reduce_quantity :: dec
  sr_client_order_id :: string
  sr_is_emergency :: bool

record PreSubmitMarketSnapshot =
  ms_symbol :: string
  ms_current_price :: dec
  ms_atr :: dec
  ms_last_update :: int
  ms_tick_size :: dec
  ms_step_size :: dec
  ms_min_notional :: dec

definition mk_PreSubmitMarketSnapshot :: "PreSubmitMarketSnapshot \<Rightarrow> PreSubmitMarketSnapshot res" where
  "mk_PreSubmitMarketSnapshot s =
     guardR (ms_current_price s \<le> 0) (ValueError ''current_price must be > 0'') (
     guardR (ms_atr s < 0) (ValueError ''atr must be >= 0'') (
     guardR (ms_tick_size s \<le> 0) (ValueError ''tick_size must be > 0'') (
     guardR (ms_step_size s \<le> 0) (ValueError ''step_size must be > 0'') (
     guardR (ms_min_notional s \<le> 0) (ValueError ''min_notional must be > 0'') (Inr s)))))"

definition wf_market :: "PreSubmitMarketSnapshot \<Rightarrow> bool" where
  "wf_market s \<longleftrightarrow> 0 < ms_current_price s \<and> 0 \<le> ms_atr s \<and> 0 < ms_tick_size s
     \<and> 0 < ms_step_size s \<and> 0 < ms_min_notional s"

lemma mk_PreSubmitMarketSnapshot_Inr:
  "mk_PreSubmitMarketSnapshot s = Inr s' \<longleftrightarrow> s' = s \<and> wf_market s"
  by (auto simp: mk_PreSubmitMarketSnapshot_def guardR_Inr_iff wf_market_def)

record ExchangePositionSnapshot =
  xp_symbol :: string
  xp_direction :: string
  xp_quantity :: dec
  xp_entry_price :: dec
  xp_mark_price :: dec
  xp_unrealized_pnl :: dec
  xp_leverage :: "int option"

record ExchangeOrderSnapshot =
  xo_exchange_order_id :: string
  xo_client_order_id :: "string option"
  xo_symbol :: string
  xo_side :: string
  xo_order_type :: string
  xo_quantity :: dec
  xo_price :: "dec option"
  xo_status :: string
  xo_reduce_only :: bool

record AuthoritativeAccountSnapshot =
  as_balance :: dec
  as_equity :: dec
  as_positions :: "ExchangePositionSnapshot list"
  as_pending_orders :: "ExchangeOrderSnapshot list"
  as_snapshot_timestamp :: int

definition mk_AuthoritativeAccountSnapshot ::
    "AuthoritativeAccountSnapshot \<Rightarrow> AuthoritativeAccountSnapshot res" where
  "mk_AuthoritativeAccountSnapshot s =
     guardR (as_equity s < 0) (ValueError ''equity cannot be negative'') (Inr s)"

record ExchangeOrderReceipt =
  or_exchange_order_id :: string
  or_client_order_id :: string
  or_symbol :: string
  or_side :: string
  or_order_type :: string
  or_quantity :: dec
  or_price :: "dec option"
  or_status :: string
  or_acknowledged_at :: int
  or_reduce_only :: bool

record ExchangeFillReceipt =
  ef_exchange_order_id :: string
  ef_trade_id :: string
  ef_filled_quantity :: dec
  ef_fill_price :: dec
  ef_fee :: dec
  ef_fill_timestamp :: int

section \<open>The adapter\<close>

record 'w adapter =
  submit_market_order ::
    "SubmitEntryToExchange \<Rightarrow> string \<Rightarrow> string \<Rightarrow> ('w, ExchangeOrderReceipt) call"
  fetch_fills :: "string \<Rightarrow> string \<Rightarrow> ('w, ExchangeFillReceipt list) call"
  submit_protection ::
    "SubmitProtectionOrders \<Rightarrow> string \<Rightarrow> string \<Rightarrow> dec \<Rightarrow>
     ('w, ExchangeOrderReceipt \<times> ExchangeOrderReceipt option) call"
  submit_reduce_only_exit ::
    "SubmitReduceOnlyExit \<Rightarrow> string \<Rightarrow> string \<Rightarrow> ('w, ExchangeOrderReceipt) call"
  fetch_authoritative_snapshot :: "('w, AuthoritativeAccountSnapshot) call"
  cancel_order :: "string \<Rightarrow> string \<Rightarrow> ('w, ExchangeOrderReceipt) call"
  query_order_by_client_id :: "string \<Rightarrow> string \<Rightarrow> ('w, ExchangeOrderReceipt option) call"

text \<open>
  A recording adapter: it does what the given one does and writes down, in order, the calls
  that can change something at the exchange.  Statements about what a service sends are
  statements about this record.
\<close>

datatype exchange_call =
    MarketOrder SubmitEntryToExchange string string
  | ProtectionOrders SubmitProtectionOrders string string dec
  | ReduceOnlyOrder SubmitReduceOnlyExit string string
  | CancelOrder string string

definition logged_call ::
    "exchange_call \<Rightarrow> ('w, 'a) call \<Rightarrow> ('w \<times> exchange_call list, 'a) call" where
  "logged_call c m = (\<lambda>(w, l). case m w of (r, w') \<Rightarrow> (r, (w', l @ [c])))"

definition silent_call :: "('w, 'a) call \<Rightarrow> ('w \<times> exchange_call list, 'a) call" where
  "silent_call m = (\<lambda>(w, l). case m w of (r, w') \<Rightarrow> (r, (w', l)))"

definition logged :: "'w adapter \<Rightarrow> ('w \<times> exchange_call list) adapter" where
  "logged a = \<lparr>
     submit_market_order = (\<lambda>c s d. logged_call (MarketOrder c s d) (submit_market_order a c s d)),
     fetch_fills = (\<lambda>s x. silent_call (fetch_fills a s x)),
     submit_protection =
       (\<lambda>c s d q. logged_call (ProtectionOrders c s d q) (submit_protection a c s d q)),
     submit_reduce_only_exit =
       (\<lambda>c s d. logged_call (ReduceOnlyOrder c s d) (submit_reduce_only_exit a c s d)),
     fetch_authoritative_snapshot = silent_call (fetch_authoritative_snapshot a),
     cancel_order = (\<lambda>s x. logged_call (CancelOrder s x) (cancel_order a s x)),
     query_order_by_client_id = (\<lambda>s x. silent_call (query_order_by_client_id a s x))\<rparr>"

lemma logged_call_apply [simp]:
  "logged_call c m (w, l) = (fst (m w), (snd (m w), l @ [c]))"
  by (simp add: logged_call_def split: prod.splits)

lemma silent_call_apply [simp]: "silent_call m (w, l) = (fst (m w), (snd (m w), l))"
  by (simp add: silent_call_def split: prod.splits)

lemma logged_simps [simp]:
  "submit_market_order (logged a) c s d = logged_call (MarketOrder c s d) (submit_market_order a c s d)"
  "fetch_fills (logged a) s x = silent_call (fetch_fills a s x)"
  "submit_protection (logged a) p s d q = logged_call (ProtectionOrders p s d q) (submit_protection a p s d q)"
  "submit_reduce_only_exit (logged a) r s d =
     logged_call (ReduceOnlyOrder r s d) (submit_reduce_only_exit a r s d)"
  "fetch_authoritative_snapshot (logged a) = silent_call (fetch_authoritative_snapshot a)"
  "cancel_order (logged a) s x = logged_call (CancelOrder s x) (cancel_order a s x)"
  "query_order_by_client_id (logged a) s x = silent_call (query_order_by_client_id a s x)"
  by (simp_all add: logged_def)

section \<open>Aggregating fills\<close>

text \<open>
  \<open>_aggregate_fills\<close>, written out twice in the sources with the same body (entry and exit
  service): quantity, volume-weighted price, fee, trade ids and the latest time.
\<close>

record fill_totals =
  ft_quantity :: dec
  ft_notional :: dec
  ft_fee :: dec
  ft_trade_ids :: "string list"
  ft_last_timestamp :: "int option"

definition add_fill :: "fill_totals \<Rightarrow> ExchangeFillReceipt \<Rightarrow> fill_totals" where
  "add_fill t f = \<lparr>
     ft_quantity = dadd (ft_quantity t) (ef_filled_quantity f),
     ft_notional = dadd (ft_notional t) (dmul (ef_filled_quantity f) (ef_fill_price f)),
     ft_fee = dadd (ft_fee t) (ef_fee f),
     ft_trade_ids = ft_trade_ids t @ [ef_trade_id f],
     ft_last_timestamp = (case ft_last_timestamp t of
        None \<Rightarrow> Some (ef_fill_timestamp f)
      | Some s \<Rightarrow> if ef_fill_timestamp f > s then Some (ef_fill_timestamp f) else Some s)\<rparr>"

definition no_fills :: fill_totals where
  "no_fills = \<lparr>ft_quantity = 0, ft_notional = 0, ft_fee = 0, ft_trade_ids = [], ft_last_timestamp = None\<rparr>"

definition aggregate_fills ::
    "ExchangeFillReceipt list \<Rightarrow> dec \<times> dec option \<times> dec \<times> string list \<times> int option" where
  "aggregate_fills fills =
     (let t = foldl add_fill no_fills fills;
          vwap = (if ft_quantity t > 0 then Some (ddiv (ft_notional t) (ft_quantity t)) else None)
      in (ft_quantity t, vwap, ft_fee t, ft_trade_ids t, ft_last_timestamp t))"

lemma foldl_add_fill:
  "ft_quantity (foldl add_fill t fs) = foldl dadd (ft_quantity t) (map ef_filled_quantity fs)"
  "ft_trade_ids (foldl add_fill t fs) = ft_trade_ids t @ map ef_trade_id fs"
  by (induction fs arbitrary: t) (simp_all add: add_fill_def)

lemma aggregate_quantity: "fst (aggregate_fills fs) = dsum (map ef_filled_quantity fs)"
  by (simp add: aggregate_fills_def Let_def foldl_add_fill no_fills_def dsum_def)

lemma aggregate_trade_ids: "fst (snd (snd (snd (aggregate_fills fs)))) = map ef_trade_id fs"
  by (simp add: aggregate_fills_def Let_def foldl_add_fill no_fills_def)

lemma foldl_notional_pos:
  assumes "\<forall>f\<in>set fs. 0 < ef_filled_quantity f \<and> 0 < ef_fill_price f" "0 \<le> ft_notional t"
  shows "0 \<le> ft_notional (foldl add_fill t fs) \<and> (fs \<noteq> [] \<or> 0 < ft_notional t \<longrightarrow> 0 < ft_notional (foldl add_fill t fs))"
  using assms
proof (induction fs arbitrary: t)
  case (Cons f fs)
  have "0 < ft_notional (add_fill t f)"
    using Cons.prems by (simp add: add_fill_def dadd_pos dmul_pos)
  with Cons.IH [of "add_fill t f"] Cons.prems show ?case by simp
qed simp

text \<open>With positive fills, the aggregate quantity and price are positive.\<close>

lemma aggregate_pos:
  assumes "\<forall>f\<in>set fs. 0 < ef_filled_quantity f \<and> 0 < ef_fill_price f" "fs \<noteq> []"
  shows "0 < fst (aggregate_fills fs)" "\<exists>v. fst (snd (aggregate_fills fs)) = Some v \<and> 0 < v"
proof -
  obtain ys y where y: "fs = ys @ [y]" using assms(2) by (cases fs rule: rev_cases) auto
  have "0 \<le> dsum (map ef_filled_quantity ys)"
    using assms(1) y by (intro dsum_nonneg) (auto simp: less_imp_le)
  then show q: "0 < fst (aggregate_fills fs)"
    using assms(1) y by (simp add: aggregate_quantity dadd_pos)
  have "0 < ft_notional (foldl add_fill no_fills fs)"
    using foldl_notional_pos [OF assms(1), of no_fills] assms(2) by (simp add: no_fills_def)
  with q show "\<exists>v. fst (snd (aggregate_fills fs)) = Some v \<and> 0 < v"
    by (simp add: aggregate_fills_def Let_def ddiv_pos)
qed

section \<open>A concrete adapter for examples\<close>

text \<open>
  A scripted exchange over a world without state: submissions give a fixed receipt or raise the
  given exception, reads give the given fills and account.
\<close>

definition scripted_receipt :: ExchangeOrderReceipt where
  "scripted_receipt = \<lparr>or_exchange_order_id = ''42'', or_client_order_id = ''c'', or_symbol = ''BTC/USDT'',
     or_side = ''buy'', or_order_type = ''market'', or_quantity = 1, or_price = None,
     or_status = ''new'', or_acknowledged_at = 1, or_reduce_only = False\<rparr>"

definition scripted :: "exn option \<Rightarrow> ExchangeFillReceipt list \<Rightarrow> AuthoritativeAccountSnapshot res \<Rightarrow> unit adapter" where
  "scripted failure fills account = (let answer = (case failure of None \<Rightarrow> Inr scripted_receipt | Some e \<Rightarrow> Inl e) in
     \<lparr>submit_market_order = (\<lambda>_ _ _ w. (answer, w)),
      fetch_fills = (\<lambda>_ _ w. (Inr fills, w)),
      submit_protection = (\<lambda>_ _ _ _ w. (bindR answer (\<lambda>r. Inr (r, None)), w)),
      submit_reduce_only_exit = (\<lambda>_ _ _ w. (answer, w)),
      fetch_authoritative_snapshot = (\<lambda>w. (account, w)),
      cancel_order = (\<lambda>_ _ w. (answer, w)),
      query_order_by_client_id = (\<lambda>_ _ w. (Inr None, w))\<rparr>)"

definition scripted_fill :: "dec \<Rightarrow> ExchangeFillReceipt" where
  "scripted_fill q = \<lparr>ef_exchange_order_id = ''42'', ef_trade_id = ''t1'', ef_filled_quantity = q,
     ef_fill_price = 100, ef_fee = 0, ef_fill_timestamp = 7\<rparr>"

lemma scripted_simps [simp]:
  "submit_market_order (scripted None fs acc) c s d w = (Inr scripted_receipt, w)"
  "submit_market_order (scripted (Some e) fs acc) c s d w = (Inl e, w)"
  "fetch_fills (scripted x fs acc) s i w = (Inr fs, w)"
  "submit_reduce_only_exit (scripted None fs acc) r s d w = (Inr scripted_receipt, w)"
  "submit_reduce_only_exit (scripted (Some e) fs acc) r s d w = (Inl e, w)"
  "submit_protection (scripted None fs acc) p s d q w = (Inr (scripted_receipt, None), w)"
  "submit_protection (scripted (Some e) fs acc) p s d q w = (Inl e, w)"
  "fetch_authoritative_snapshot (scripted x fs acc) w = (acc, w)"
  "cancel_order (scripted None fs acc) s i w = (Inr scripted_receipt, w)"
  "cancel_order (scripted (Some e) fs acc) s i w = (Inl e, w)"
  by (simp_all add: scripted_def Let_def)

end
