(* ===== verification/Reconciliation.thy ===== *)
theory Reconciliation
  imports Client_Order_Id Exchange
begin

text \<open>
  Fail-closed reconciliation of the exchange snapshot with the local projection
  (\<open>application/reconciliation_service.py\<close>).  The loops of \<open>reconcile\<close> only append to their
  accumulators and, apart from the matched ids, never read them; each loop body is a function
  that gives what it appends.  Detail texts are left out.
\<close>

section \<open>Views and results\<close>

datatype ReconciliationStatus = HEALTHY | DEGRADED | UNAVAILABLE | RECOVERY_REQUIRED

datatype DiscrepancyCode =
    SNAPSHOT_UNAVAILABLE | EXTERNAL_POSITION_UNCLAIMABLE | LOCAL_POSITION_MISSING_AT_EXCHANGE
  | QUANTITY_MISMATCH | DIRECTION_MISMATCH | MANAGED_POSITION_UNPROTECTED
  | PROTECTION_ORDER_MISSING_AT_EXCHANGE | UNKNOWN_ORDER_PRESENT | ORPHAN_V2_CLIENT_ORDER_AT_EXCHANGE
  | CONFIRMED_ENTRY_FILL_UNPROJECTED | QUARANTINED_ENTRY_LIFECYCLE | MANUAL_BASELINE_DRIFT

record LocalPositionView =
  lp_position_id :: string
  lp_symbol :: string
  lp_direction :: string
  lp_quantity :: dec
  lp_state :: string
  lp_claim_keys :: "string set"
  lp_has_active_protection :: bool
  lp_protection_exchange_order_ids :: "string set"
  lp_protection_order_refs :: "(string \<times> string \<times> string) list"
  lp_entry_price :: dec
  lp_original_stop_price :: "dec option"
  lp_current_stop_price :: "dec option"
  lp_protection_id :: "string option"
  lp_protection_policy :: string
  lp_protection_version :: int

record LocalIntentView =
  li_intent_id :: string
  li_symbol :: string
  li_client_order_id :: string
  li_state :: string
  li_has_confirmed_entry_fill :: bool
  li_has_quarantined_lifecycle :: bool

text \<open>The baseline dictionary is iterated, so it is an association list.\<close>

record LocalStateView =
  ls_positions :: "LocalPositionView list"
  ls_intents :: "LocalIntentView list"
  ls_known_client_order_ids :: "string set"
  ls_external_baseline_positions :: "(string \<times> dec) list"
  ls_historical_ledger_gap_intent_ids :: "string set"

record Discrepancy =
  d_code :: DiscrepancyCode
  d_symbol :: "string option"
  d_local_position_id :: "string option"
  d_exchange_ref :: "string option"

record ReconciliationResult =
  rr_status :: ReconciliationStatus
  rr_discrepancies :: "Discrepancy list"
  rr_entry_blocked_symbols :: "string set"
  rr_quarantine_candidates :: "string list"
  rr_recovery_required_refs :: "string list"
  rr_unavailable_reason :: "string option"
  rr_reconciled_at :: "int option"
  rr_snapshot_positions :: "(string \<times> string \<times> dec) list"
  rr_historical_ledger_integrity :: string
  rr_historical_gap_count :: nat

definition entry_allowed_globally :: "ReconciliationResult \<Rightarrow> bool" where
  "entry_allowed_globally r \<longleftrightarrow> rr_status r = ReconciliationStatus.HEALTHY"

definition entry_allowed_for :: "ReconciliationResult \<Rightarrow> string \<Rightarrow> bool" where
  "entry_allowed_for r symbol =
     (if rr_status r \<in> {ReconciliationStatus.UNAVAILABLE, ReconciliationStatus.RECOVERY_REQUIRED}
      then False else symbol \<notin> rr_entry_blocked_symbols r)"

definition reduce_only_exit_allowed :: "ReconciliationResult \<Rightarrow> bool" where
  "reduce_only_exit_allowed r = True"

definition QUANTITY_TOLERANCE :: dec where
  "QUANTITY_TOLERANCE = 1 / 100000000"

definition unavailable :: "string \<Rightarrow> int option \<Rightarrow> ReconciliationResult" where
  "unavailable reason reconciled_at = \<lparr>
     rr_status = ReconciliationStatus.UNAVAILABLE,
     rr_discrepancies = [\<lparr>d_code = DiscrepancyCode.SNAPSHOT_UNAVAILABLE, d_symbol = None,
                          d_local_position_id = None, d_exchange_ref = None\<rparr>],
     rr_entry_blocked_symbols = {}, rr_quarantine_candidates = [], rr_recovery_required_refs = [],
     rr_unavailable_reason = Some reason, rr_reconciled_at = reconciled_at,
     rr_snapshot_positions = [], rr_historical_ledger_integrity = ''HEALTHY'',
     rr_historical_gap_count = 0\<rparr>"

text \<open>Both branches of the consistency test give the position back: identity alone claims.\<close>

definition claim_exchange_position ::
    "LocalPositionView list \<Rightarrow> string set \<Rightarrow> LocalPositionView option" where
  "claim_exchange_position local_positions exchange_claim_refs =
     (if exchange_claim_refs = {} then None
      else List.find (\<lambda>p. lp_claim_keys p \<inter> exchange_claim_refs \<noteq> {}) local_positions)"

section \<open>What the loops append\<close>

record findings =
  fd_discrepancies :: "Discrepancy list"
  fd_entry_blocked :: "string list"
  fd_quarantine :: "string list"
  fd_recovery_refs :: "string list"
  fd_matched :: "string list"

definition no_findings :: findings where
  "no_findings = \<lparr>fd_discrepancies = [], fd_entry_blocked = [], fd_quarantine = [],
     fd_recovery_refs = [], fd_matched = []\<rparr>"

definition join_findings :: "findings \<Rightarrow> findings \<Rightarrow> findings" where
  "join_findings a b = \<lparr>fd_discrepancies = fd_discrepancies a @ fd_discrepancies b,
     fd_entry_blocked = fd_entry_blocked a @ fd_entry_blocked b,
     fd_quarantine = fd_quarantine a @ fd_quarantine b,
     fd_recovery_refs = fd_recovery_refs a @ fd_recovery_refs b,
     fd_matched = fd_matched a @ fd_matched b\<rparr>"

definition all_findings :: "findings list \<Rightarrow> findings" where
  "all_findings fs = foldr join_findings fs no_findings"

text \<open>
  One discrepancy with its entry block, and the reference it adds to the recovery list, if any.
\<close>

definition flag ::
    "DiscrepancyCode \<Rightarrow> string \<Rightarrow> string option \<Rightarrow> string option \<Rightarrow> string list \<Rightarrow> findings" where
  "flag code symbol pid ref recovery = \<lparr>
     fd_discrepancies = [\<lparr>d_code = code, d_symbol = Some symbol, d_local_position_id = pid,
                          d_exchange_ref = ref\<rparr>],
     fd_entry_blocked = [symbol], fd_quarantine = [], fd_recovery_refs = recovery, fd_matched = []\<rparr>"

definition flag_if :: "bool \<Rightarrow> findings \<Rightarrow> findings" where
  "flag_if c f = (if c then f else no_findings)"

definition intent_findings :: "LocalIntentView \<Rightarrow> findings" where
  "intent_findings i = join_findings
     (flag_if (li_has_confirmed_entry_fill i)
        (flag DiscrepancyCode.CONFIRMED_ENTRY_FILL_UNPROJECTED (li_symbol i) None
           (Some (li_intent_id i)) [li_intent_id i]))
     (flag_if (li_has_quarantined_lifecycle i)
        (flag DiscrepancyCode.QUARANTINED_ENTRY_LIFECYCLE (li_symbol i) None
           (Some (li_intent_id i)) [li_intent_id i]))"

definition position_key :: "string \<Rightarrow> string \<Rightarrow> string" where
  "position_key symbol direction = symbol @ '':'' @ direction"

definition baseline_of :: "LocalStateView \<Rightarrow> ExchangePositionSnapshot \<Rightarrow> dec option" where
  "baseline_of ls p =
     map_of (ls_external_baseline_positions ls) (position_key (xp_symbol p) (xp_direction p))"

definition claim_of ::
    "LocalStateView \<Rightarrow> (string \<rightharpoonup> string set) \<Rightarrow> ExchangePositionSnapshot \<Rightarrow> LocalPositionView option" where
  "claim_of ls claim_refs p =
     claim_exchange_position (ls_positions ls)
       (case claim_refs (position_key (xp_symbol p) (xp_direction p)) of None \<Rightarrow> {} | Some r \<Rightarrow> r)"

definition opt_dec :: "dec option \<Rightarrow> dec" where
  "opt_dec d = (case d of None \<Rightarrow> 0 | Some x \<Rightarrow> x)"

text \<open>The part of the loop body after an exchange position was claimed.\<close>

definition claimed_findings ::
    "AuthoritativeAccountSnapshot \<Rightarrow> dec option \<Rightarrow> ExchangePositionSnapshot \<Rightarrow> LocalPositionView \<Rightarrow> findings" where
  "claimed_findings snapshot baseline p claimed =
     (let key = position_key (xp_symbol p) (xp_direction p);
          exchange_order_ids = set (map xo_exchange_order_id (as_pending_orders snapshot));
          missing_protection = lp_protection_exchange_order_ids claimed - exchange_order_ids
      in all_findings [
           no_findings\<lparr>fd_matched := [lp_position_id claimed]\<rparr>,
           flag_if (lp_direction claimed \<noteq> xp_direction p)
             (flag DiscrepancyCode.DIRECTION_MISMATCH (xp_symbol p) (Some (lp_position_id claimed)) (Some key) []),
           flag_if (dabs (dsub (dadd (lp_quantity claimed) (opt_dec baseline)) (xp_quantity p)) > QUANTITY_TOLERANCE)
             (flag DiscrepancyCode.QUANTITY_MISMATCH (xp_symbol p) (Some (lp_position_id claimed)) (Some key) []),
           flag_if (\<not> lp_has_active_protection claimed)
             (flag DiscrepancyCode.MANAGED_POSITION_UNPROTECTED (xp_symbol p)
                (Some (lp_position_id claimed)) None [lp_position_id claimed]),
           flag_if (lp_has_active_protection claimed \<and> missing_protection \<noteq> {})
             (flag DiscrepancyCode.PROTECTION_ORDER_MISSING_AT_EXCHANGE (xp_symbol p)
                (Some (lp_position_id claimed)) None [lp_position_id claimed])])"

definition position_findings ::
    "LocalStateView \<Rightarrow> (string \<rightharpoonup> string set) \<Rightarrow> AuthoritativeAccountSnapshot \<Rightarrow>
     ExchangePositionSnapshot \<Rightarrow> findings" where
  "position_findings ls claim_refs snapshot p =
     (let key = position_key (xp_symbol p) (xp_direction p);
          baseline = baseline_of ls p;
          reduced = (case baseline of None \<Rightarrow> False
                     | Some b \<Rightarrow> dadd (xp_quantity p) QUANTITY_TOLERANCE < b);
          drift = flag_if reduced
                    (flag DiscrepancyCode.MANUAL_BASELINE_DRIFT (xp_symbol p) None (Some key) [])
      in case claim_of ls claim_refs p of
           None \<Rightarrow>
             (if reduced then drift
              else if (case baseline of None \<Rightarrow> False
                       | Some b \<Rightarrow> dabs (dsub (xp_quantity p) b) \<le> QUANTITY_TOLERANCE)
              then no_findings
              else (flag DiscrepancyCode.EXTERNAL_POSITION_UNCLAIMABLE (xp_symbol p) None (Some key) [])
                     \<lparr>fd_quarantine := [key]\<rparr>)
         | Some claimed \<Rightarrow> join_findings drift (claimed_findings snapshot baseline p claimed))"

definition local_findings :: "string set \<Rightarrow> LocalPositionView \<Rightarrow> findings" where
  "local_findings matched p =
     flag_if (lp_state p \<notin> {''CLOSED'', ''QUARANTINED''} \<and> lp_position_id p \<notin> matched)
       (flag DiscrepancyCode.LOCAL_POSITION_MISSING_AT_EXCHANGE (lp_symbol p)
          (Some (lp_position_id p)) None [lp_position_id p])"

text \<open>\<open>symbol, _direction = key.rsplit(":", 1)\<close> raises when the key has no colon.\<close>

definition baseline_findings :: "string set \<Rightarrow> string \<times> dec \<Rightarrow> findings res" where
  "baseline_findings exchange_position_keys kb =
     (if fst kb \<in> exchange_position_keys then Inr no_findings
      else case rsplit_head (CHR '':'') (fst kb) of
             None \<Rightarrow> Inl (ValueError ''not enough values to unpack'')
           | Some symbol \<Rightarrow>
               Inr (flag DiscrepancyCode.MANUAL_BASELINE_DRIFT symbol None (Some (fst kb)) []))"

fun all_resR :: "'a res list \<Rightarrow> 'a list res" where
  "all_resR [] = Inr []"
| "all_resR (r # rs) = bindR r (\<lambda>x. bindR (all_resR rs) (\<lambda>xs. Inr (x # xs)))"

definition order_findings :: "LocalStateView \<Rightarrow> ExchangeOrderSnapshot \<Rightarrow> findings" where
  "order_findings ls o' =
     (case xo_client_order_id o' of
        None \<Rightarrow> flag DiscrepancyCode.UNKNOWN_ORDER_PRESENT (xo_symbol o') None
                 (Some (xo_exchange_order_id o')) [xo_exchange_order_id o']
      | Some client_id \<Rightarrow>
          flag_if (client_id \<notin> ls_known_client_order_ids ls \<and> is_v2_client_order_id client_id)
            (flag DiscrepancyCode.ORPHAN_V2_CLIENT_ORDER_AT_EXCHANGE (xo_symbol o') None
               (Some (xo_exchange_order_id o')) [xo_exchange_order_id o']))"

definition RECOVERY_CODES :: "DiscrepancyCode set" where
  "RECOVERY_CODES = {DiscrepancyCode.MANAGED_POSITION_UNPROTECTED,
     DiscrepancyCode.PROTECTION_ORDER_MISSING_AT_EXCHANGE, DiscrepancyCode.UNKNOWN_ORDER_PRESENT,
     DiscrepancyCode.ORPHAN_V2_CLIENT_ORDER_AT_EXCHANGE, DiscrepancyCode.CONFIRMED_ENTRY_FILL_UNPROJECTED,
     DiscrepancyCode.QUARANTINED_ENTRY_LIFECYCLE, DiscrepancyCode.LOCAL_POSITION_MISSING_AT_EXCHANGE}"

definition resolve_status :: "Discrepancy list \<Rightarrow> ReconciliationStatus" where
  "resolve_status ds =
     (if ds = [] then ReconciliationStatus.HEALTHY
      else if d_code ` set ds \<inter> RECOVERY_CODES \<noteq> {} then ReconciliationStatus.RECOVERY_REQUIRED
      else ReconciliationStatus.DEGRADED)"

definition exchange_keys :: "AuthoritativeAccountSnapshot \<Rightarrow> string set" where
  "exchange_keys snapshot =
     set (map (\<lambda>p. position_key (xp_symbol p) (xp_direction p)) (as_positions snapshot))"

definition reconcile ::
    "AuthoritativeAccountSnapshot option \<Rightarrow> LocalStateView \<Rightarrow> string option \<Rightarrow> int option \<Rightarrow>
     (string \<rightharpoonup> string set) \<Rightarrow> ReconciliationResult res" where
  "reconcile snapshot ls unavailable_reason reconciled_at claim_refs =
     (case snapshot of
        None \<Rightarrow> Inr (unavailable
                  (case unavailable_reason of None \<Rightarrow> ''exchange snapshot unavailable''
                   | Some r \<Rightarrow> if r = [] then ''exchange snapshot unavailable'' else r) reconciled_at)
      | Some s \<Rightarrow>
         (let of_intents = all_findings (map intent_findings (ls_intents ls));
              of_positions = all_findings (map (position_findings ls claim_refs s) (as_positions s));
              of_local = all_findings (map (local_findings (set (fd_matched of_positions))) (ls_positions ls));
              of_orders = all_findings (map (order_findings ls) (as_pending_orders s))
          in bindR (all_resR (map (baseline_findings (exchange_keys s)) (ls_external_baseline_positions ls)))
               (\<lambda>baselines.
                  let f = all_findings [of_intents, of_positions, of_local, all_findings baselines, of_orders]
                  in Inr \<lparr>rr_status = resolve_status (fd_discrepancies f),
                          rr_discrepancies = fd_discrepancies f,
                          rr_entry_blocked_symbols = set (fd_entry_blocked f),
                          rr_quarantine_candidates = fd_quarantine f,
                          rr_recovery_required_refs = dict_fromkeys (fd_recovery_refs f),
                          rr_unavailable_reason = None, rr_reconciled_at = reconciled_at,
                          rr_snapshot_positions =
                            map (\<lambda>p. (xp_symbol p, xp_direction p, xp_quantity p)) (as_positions s),
                          rr_historical_ledger_integrity =
                            (if ls_historical_ledger_gap_intent_ids ls \<noteq> {} then ''DEGRADED'' else ''HEALTHY''),
                          rr_historical_gap_count = card (ls_historical_ledger_gap_intent_ids ls)\<rparr>)))"

section \<open>Facts about findings\<close>

lemma no_findings_simps [simp]:
  "fd_discrepancies no_findings = []" "fd_entry_blocked no_findings = []"
  "fd_quarantine no_findings = []" "fd_recovery_refs no_findings = []" "fd_matched no_findings = []"
  by (simp_all add: no_findings_def)

lemma join_findings_simps [simp]:
  "fd_discrepancies (join_findings a b) = fd_discrepancies a @ fd_discrepancies b"
  "fd_entry_blocked (join_findings a b) = fd_entry_blocked a @ fd_entry_blocked b"
  "fd_quarantine (join_findings a b) = fd_quarantine a @ fd_quarantine b"
  "fd_recovery_refs (join_findings a b) = fd_recovery_refs a @ fd_recovery_refs b"
  "fd_matched (join_findings a b) = fd_matched a @ fd_matched b"
  by (simp_all add: join_findings_def)

lemma all_findings_simps [simp]:
  "fd_discrepancies (all_findings fs) = concat (map fd_discrepancies fs)"
  "fd_entry_blocked (all_findings fs) = concat (map fd_entry_blocked fs)"
  "fd_quarantine (all_findings fs) = concat (map fd_quarantine fs)"
  "fd_recovery_refs (all_findings fs) = concat (map fd_recovery_refs fs)"
  "fd_matched (all_findings fs) = concat (map fd_matched fs)"
  by (induction fs) (simp_all add: all_findings_def)

lemma flag_simps [simp]:
  "fd_discrepancies (flag c s p r v) =
     [\<lparr>d_code = c, d_symbol = Some s, d_local_position_id = p, d_exchange_ref = r\<rparr>]"
  "fd_entry_blocked (flag c s p r v) = [s]" "fd_matched (flag c s p r v) = []"
  "fd_quarantine (flag c s p r v) = []" "fd_recovery_refs (flag c s p r v) = v"
  by (simp_all add: flag_def)

text \<open>Every discrepancy blocks entry in its symbol, and nothing else does.\<close>

definition symbols_blocked :: "findings \<Rightarrow> bool" where
  "symbols_blocked f \<longleftrightarrow> map Some (fd_entry_blocked f) = map d_symbol (fd_discrepancies f)"

lemma symbols_blocked_intros [simp]:
  "symbols_blocked no_findings" "symbols_blocked (flag c s p r v)"
  "symbols_blocked a \<Longrightarrow> symbols_blocked b \<Longrightarrow> symbols_blocked (join_findings a b)"
  "symbols_blocked f \<Longrightarrow> symbols_blocked (flag_if cond f)"
  "symbols_blocked f \<Longrightarrow> symbols_blocked (f\<lparr>fd_quarantine := q\<rparr>)"
  "symbols_blocked f \<Longrightarrow> symbols_blocked (f\<lparr>fd_matched := q\<rparr>)"
  by (simp_all add: symbols_blocked_def flag_if_def)

lemma symbols_blocked_all: "\<forall>f\<in>set fs. symbols_blocked f \<Longrightarrow> symbols_blocked (all_findings fs)"
  by (induction fs) (auto simp: symbols_blocked_def)

lemma intent_findings_blocked: "symbols_blocked (intent_findings i)"
  by (simp add: intent_findings_def)

lemma position_findings_blocked: "symbols_blocked (position_findings ls refs s p)"
  by (auto simp: position_findings_def claimed_findings_def Let_def symbols_blocked_all split: option.splits)

lemma local_findings_blocked: "symbols_blocked (local_findings m p)"
  by (simp add: local_findings_def)

lemma order_findings_blocked: "symbols_blocked (order_findings ls x)"
  by (simp add: order_findings_def split: option.splits)

lemma all_resR_Inr: "all_resR rs = Inr xs \<longleftrightarrow> rs = map Inr xs"
proof (induction rs arbitrary: xs)
  case (Cons r rs)
  then show ?case by (cases r; cases xs) (auto simp: bindR_Inr_iff)
qed auto

lemma baseline_findings_blocked:
  "all_resR (map (baseline_findings ks) kbs) = Inr fs \<Longrightarrow> \<forall>f\<in>set fs. symbols_blocked f"
proof
  fix f assume "all_resR (map (baseline_findings ks) kbs) = Inr fs" "f \<in> set fs"
  then have "Inr f \<in> set (map (baseline_findings ks) kbs)" by (auto simp: all_resR_Inr)
  then show "symbols_blocked f" by (auto simp: baseline_findings_def split: if_splits option.splits)
qed

lemmas findings_blocked = intent_findings_blocked position_findings_blocked local_findings_blocked
  order_findings_blocked

section \<open>Properties\<close>

lemma reconcile_Some:
  assumes "reconcile (Some s) ls ur ra refs = Inr r"
  obtains baselines f where
    "all_resR (map (baseline_findings (exchange_keys s)) (ls_external_baseline_positions ls)) = Inr baselines"
    "f = all_findings [all_findings (map intent_findings (ls_intents ls)),
           all_findings (map (position_findings ls refs s) (as_positions s)),
           all_findings (map (local_findings (set (fd_matched
             (all_findings (map (position_findings ls refs s) (as_positions s)))))) (ls_positions ls)),
           all_findings baselines, all_findings (map (order_findings ls) (as_pending_orders s))]"
    "rr_status r = resolve_status (fd_discrepancies f)" "rr_discrepancies r = fd_discrepancies f"
    "rr_entry_blocked_symbols r = set (fd_entry_blocked f)"
  using assms by (auto simp: reconcile_def Let_def bindR_Inr_iff)

lemma reconcile_blocked:
  assumes "reconcile (Some s) ls ur ra refs = Inr r"
  shows "Some ` rr_entry_blocked_symbols r = d_symbol ` set (rr_discrepancies r)
    \<and> rr_status r = resolve_status (rr_discrepancies r)"
proof -
  from assms show ?thesis
  proof (rule reconcile_Some)
    fix bs f
    assume b: "all_resR (map (baseline_findings (exchange_keys s)) (ls_external_baseline_positions ls)) = Inr bs"
      and f: "f = all_findings [all_findings (map intent_findings (ls_intents ls)),
           all_findings (map (position_findings ls refs s) (as_positions s)),
           all_findings (map (local_findings (set (fd_matched
             (all_findings (map (position_findings ls refs s) (as_positions s)))))) (ls_positions ls)),
           all_findings bs, all_findings (map (order_findings ls) (as_pending_orders s))]"
      and r: "rr_status r = resolve_status (fd_discrepancies f)" "rr_discrepancies r = fd_discrepancies f"
        "rr_entry_blocked_symbols r = set (fd_entry_blocked f)"
    have "symbols_blocked f"
      unfolding f using baseline_findings_blocked [OF b]
      by (intro symbols_blocked_all) (auto intro!: symbols_blocked_all simp: findings_blocked)
    then have "Some ` set (fd_entry_blocked f) = d_symbol ` set (fd_discrepancies f)"
      unfolding symbols_blocked_def by (metis set_map)
    with r show ?thesis by simp
  qed
qed

lemma resolve_status_simps:
  "resolve_status ds = ReconciliationStatus.HEALTHY \<longleftrightarrow> ds = []"
  "resolve_status ds \<noteq> ReconciliationStatus.UNAVAILABLE"
  "resolve_status ds = ReconciliationStatus.RECOVERY_REQUIRED \<longleftrightarrow> (\<exists>d\<in>set ds. d_code d \<in> RECOVERY_CODES)"
  by (auto simp: resolve_status_def)

text \<open>
  C22.  Reconciliation fails closed: entry is allowed for a symbol exactly when a snapshot was
  obtained, no discrepancy requires recovery, and none concerns that symbol; the status is
  HEALTHY exactly when a snapshot was obtained and nothing was found; and a reduce-only exit is
  allowed in every case.
\<close>

theorem reconcile_fail_closed:
  assumes "reconcile snap ls ur ra refs = Inr r"
  shows "(entry_allowed_for r symb \<longleftrightarrow> snap \<noteq> None
        \<and> (\<forall>d\<in>set (rr_discrepancies r). d_code d \<notin> RECOVERY_CODES \<and> d_symbol d \<noteq> Some symb))
    \<and> (entry_allowed_globally r \<longleftrightarrow> snap \<noteq> None \<and> rr_discrepancies r = [])
    \<and> (snap = None \<longrightarrow> rr_discrepancies r \<noteq> [])
    \<and> reduce_only_exit_allowed r"
proof (cases snap)
  case None
  with assms show ?thesis
    by (auto simp: reconcile_def unavailable_def entry_allowed_for_def entry_allowed_globally_def
        reduce_only_exit_allowed_def)
next
  case (Some s)
  have b: "Some ` rr_entry_blocked_symbols r = d_symbol ` set (rr_discrepancies r)"
    and st: "rr_status r = resolve_status (rr_discrepancies r)"
    using reconcile_blocked assms Some by auto
  have "symb \<in> rr_entry_blocked_symbols r \<longleftrightarrow> (\<exists>d\<in>set (rr_discrepancies r). d_symbol d = Some symb)"
    using b by (metis (mono_tags, lifting) image_iff option.inject)
  then show ?thesis
    unfolding entry_allowed_for_def entry_allowed_globally_def reduce_only_exit_allowed_def st
    using Some by (auto simp: resolve_status_simps)
qed

text \<open>An exchange position that reconciliation can explain.\<close>

definition explained ::
    "LocalStateView \<Rightarrow> (string \<rightharpoonup> string set) \<Rightarrow> AuthoritativeAccountSnapshot \<Rightarrow> ExchangePositionSnapshot \<Rightarrow> bool" where
  "explained ls refs s p \<longleftrightarrow>
     (case claim_of ls refs p of
        None \<Rightarrow> (\<exists>b. baseline_of ls p = Some b \<and> dabs (dsub (xp_quantity p) b) \<le> QUANTITY_TOLERANCE)
      | Some c \<Rightarrow> lp_direction c = xp_direction p
          \<and> dabs (dsub (dadd (lp_quantity c) (opt_dec (baseline_of ls p))) (xp_quantity p)) \<le> QUANTITY_TOLERANCE
          \<and> lp_has_active_protection c
          \<and> lp_protection_exchange_order_ids c \<subseteq> xo_exchange_order_id ` set (as_pending_orders s))"

lemma position_findings_none:
  "fd_discrepancies (position_findings ls refs s p) = [] \<Longrightarrow> explained ls refs s p"
  by (auto simp: position_findings_def claimed_findings_def Let_def explained_def flag_if_def
      split: option.splits if_splits)

lemma position_findings_matched:
  "x \<in> set (fd_matched (position_findings ls refs s p)) \<Longrightarrow>
     \<exists>c. claim_of ls refs p = Some c \<and> lp_position_id c = x"
  by (auto simp: position_findings_def claimed_findings_def Let_def flag_if_def
      split: option.splits if_splits)

text \<open>When nothing is found, exchange positions are explained and open local ones are matched.\<close>

lemma healthy_positions:
  assumes "reconcile (Some s) ls ur ra refs = Inr r" "rr_status r = ReconciliationStatus.HEALTHY"
  shows "(\<forall>p\<in>set (as_positions s). explained ls refs s p)
    \<and> (\<forall>l\<in>set (ls_positions ls). lp_state l \<notin> {''CLOSED'', ''QUARANTINED''} \<longrightarrow>
         (\<exists>p\<in>set (as_positions s). \<exists>c. claim_of ls refs p = Some c \<and> lp_position_id c = lp_position_id l))"
proof -
  let ?ps = "all_findings (map (position_findings ls refs s) (as_positions s))"
  obtain bs f where f: "f = all_findings [all_findings (map intent_findings (ls_intents ls)), ?ps,
         all_findings (map (local_findings (set (fd_matched ?ps))) (ls_positions ls)),
         all_findings bs, all_findings (map (order_findings ls) (as_pending_orders s))]"
    and r: "rr_status r = resolve_status (fd_discrepancies f)"
    by (rule reconcile_Some [OF assms(1)])
  have "fd_discrepancies f = []" using assms(2) r by (simp add: resolve_status_simps)
  then have p: "\<forall>p\<in>set (as_positions s). fd_discrepancies (position_findings ls refs s p) = []"
    and l: "\<forall>l\<in>set (ls_positions ls). fd_discrepancies (local_findings (set (fd_matched ?ps)) l) = []"
    unfolding f by auto
  have "\<forall>l\<in>set (ls_positions ls). lp_state l \<notin> {''CLOSED'', ''QUARANTINED''} \<longrightarrow> lp_position_id l \<in> set (fd_matched ?ps)"
    using l by (auto simp: local_findings_def flag_if_def split: if_splits)
  then have "\<forall>l\<in>set (ls_positions ls). lp_state l \<notin> {''CLOSED'', ''QUARANTINED''} \<longrightarrow>
      (\<exists>p\<in>set (as_positions s). \<exists>c. claim_of ls refs p = Some c \<and> lp_position_id c = lp_position_id l)"
    using position_findings_matched by fastforce
  with p position_findings_none show ?thesis by blast
qed

text \<open>
  C3.  A HEALTHY status means that everything is explained: every exchange position is either
  the operator's captured baseline or claimed by a local position of the same direction and
  quantity (up to the tolerance, with the baseline) whose protection is active and whose
  recorded protection orders all rest at the exchange; every open local position is matched by
  an exchange position; every resting order carries a client id that is known or not this
  engine's; no intent has an unprojected fill or a quarantined lifecycle; no symbol is blocked.
\<close>

theorem reconcile_healthy_explained:
  assumes "reconcile (Some s) ls ur ra refs = Inr r" "rr_status r = ReconciliationStatus.HEALTHY"
  shows "(\<forall>p\<in>set (as_positions s). explained ls refs s p)
    \<and> (\<forall>l\<in>set (ls_positions ls). lp_state l \<notin> {''CLOSED'', ''QUARANTINED''} \<longrightarrow>
         (\<exists>p\<in>set (as_positions s). \<exists>c. claim_of ls refs p = Some c \<and> lp_position_id c = lp_position_id l))
    \<and> (\<forall>x\<in>set (as_pending_orders s). \<exists>cid. xo_client_order_id x = Some cid
         \<and> (cid \<in> ls_known_client_order_ids ls \<or> \<not> is_v2_client_order_id cid))
    \<and> (\<forall>i\<in>set (ls_intents ls). \<not> li_has_confirmed_entry_fill i \<and> \<not> li_has_quarantined_lifecycle i)
    \<and> rr_entry_blocked_symbols r = {}"
proof -
  let ?ps = "all_findings (map (position_findings ls refs s) (as_positions s))"
  obtain bs f where f: "f = all_findings [all_findings (map intent_findings (ls_intents ls)), ?ps,
         all_findings (map (local_findings (set (fd_matched ?ps))) (ls_positions ls)),
         all_findings bs, all_findings (map (order_findings ls) (as_pending_orders s))]"
    and r: "rr_status r = resolve_status (fd_discrepancies f)" "rr_discrepancies r = fd_discrepancies f"
    by (rule reconcile_Some [OF assms(1)])
  have none: "fd_discrepancies f = []" using assms(2) r by (simp add: resolve_status_simps)
  then have i: "\<forall>i\<in>set (ls_intents ls). fd_discrepancies (intent_findings i) = []"
    and x: "\<forall>x\<in>set (as_pending_orders s). fd_discrepancies (order_findings ls x) = []"
    unfolding f by auto
  have "rr_entry_blocked_symbols r = {}" using reconcile_blocked [OF assms(1)] none r by simp
  moreover have "\<forall>i\<in>set (ls_intents ls). \<not> li_has_confirmed_entry_fill i \<and> \<not> li_has_quarantined_lifecycle i"
    using i by (auto simp: intent_findings_def flag_if_def split: if_splits)
  moreover have "\<forall>x\<in>set (as_pending_orders s). \<exists>cid. xo_client_order_id x = Some cid
      \<and> (cid \<in> ls_known_client_order_ids ls \<or> \<not> is_v2_client_order_id cid)"
    using x by (auto simp: order_findings_def flag_if_def split: option.splits if_splits)
  ultimately show ?thesis using healthy_positions [OF assms] by blast
qed

definition demo_position :: LocalPositionView where
  "demo_position = \<lparr>lp_position_id = ''p1'', lp_symbol = ''BTC/USDT'', lp_direction = ''long'',
     lp_quantity = 2, lp_state = ''PROTECTED'', lp_claim_keys = {''p1'', ''77''},
     lp_has_active_protection = True, lp_protection_exchange_order_ids = {''88''},
     lp_protection_order_refs = [], lp_entry_price = 100, lp_original_stop_price = Some 95,
     lp_current_stop_price = Some 95, lp_protection_id = Some ''r1'', lp_protection_policy = ''P1'',
     lp_protection_version = 0\<rparr>"

definition demo_local :: LocalStateView where
  "demo_local = \<lparr>ls_positions = [demo_position], ls_intents = [], ls_known_client_order_ids = {''A2S-x''},
     ls_external_baseline_positions = [], ls_historical_ledger_gap_intent_ids = {}\<rparr>"

definition demo_snapshot :: AuthoritativeAccountSnapshot where
  "demo_snapshot = \<lparr>as_balance = 1000, as_equity = 1000,
     as_positions = [\<lparr>xp_symbol = ''BTC/USDT'', xp_direction = ''long'', xp_quantity = 2,
        xp_entry_price = 100, xp_mark_price = 101, xp_unrealized_pnl = 2, xp_leverage = None\<rparr>],
     as_pending_orders = [\<lparr>xo_exchange_order_id = ''88'', xo_client_order_id = Some ''A2S-x'',
        xo_symbol = ''BTC/USDT'', xo_side = ''sell'', xo_order_type = ''stop_market'', xo_quantity = 2,
        xo_price = Some 95, xo_status = ''new'', xo_reduce_only = True\<rparr>],
     as_snapshot_timestamp = 5\<rparr>"

definition demo_refs :: "string \<rightharpoonup> string set" where
  "demo_refs = [''BTC/USDT:long'' \<mapsto> {''77''}]"

lemma demo_reconciled:
  "\<exists>r. reconcile (Some demo_snapshot) demo_local None None demo_refs = Inr r
     \<and> rr_status r = ReconciliationStatus.HEALTHY"
proof -
  have q: "dabs (dsub (dadd 2 0) 2) \<le> QUANTITY_TOLERANCE" by code_simp
  have "fd_discrepancies (position_findings demo_local demo_refs demo_snapshot
      (hd (as_positions demo_snapshot))) = []"
    using q by (simp add: demo_snapshot_def demo_local_def demo_refs_def demo_position_def
        position_findings_def claimed_findings_def claim_of_def claim_exchange_position_def
        baseline_of_def position_key_def flag_if_def opt_dec_def Let_def)
  moreover have "fd_matched (position_findings demo_local demo_refs demo_snapshot
      (hd (as_positions demo_snapshot))) = [''p1'']"
    using q by (simp add: demo_snapshot_def demo_local_def demo_refs_def demo_position_def
        position_findings_def claimed_findings_def claim_of_def claim_exchange_position_def
        baseline_of_def position_key_def flag_if_def opt_dec_def Let_def)
  ultimately show ?thesis
    by (simp add: reconcile_def Let_def demo_snapshot_def demo_local_def demo_position_def
        local_findings_def order_findings_def flag_if_def resolve_status_def)
qed

theorem reconcile_healthy_explained_witness:
  "\<exists>r. reconcile (Some demo_snapshot) demo_local None None demo_refs = Inr r
     \<and> (\<forall>p\<in>set (as_positions demo_snapshot). explained demo_local demo_refs demo_snapshot p)"
  using demo_reconciled reconcile_healthy_explained by blast

theorem reconcile_fail_closed_witness:
  "\<exists>r. reconcile None demo_local None None demo_refs = Inr r \<and> \<not> entry_allowed_for r ''BTC/USDT''"
proof -
  obtain r where r: "reconcile None demo_local None None demo_refs = Inr r" by (simp add: reconcile_def)
  from reconcile_fail_closed [OF r, of "''BTC/USDT''"] r show ?thesis by blast
qed

end
