(* ===== verification/Funnel.thy ===== *)
theory Funnel
  imports Prelude "HOL-Library.List_Lexorder" "HOL-Library.Char_ord" "HOL-Library.Product_Lexorder"
begin

text \<open>
  The decision funnel (\<open>observability/decision_funnel.py\<close>): the builder that accumulates the
  stages of one evaluation and is sealed once, and the reason codes shared by the services.
  Clock readings and fresh identifiers are arguments; metric values arrive as strings.
\<close>

section \<open>Stages, outcomes, reason codes\<close>

datatype FunnelStage =
    CYCLE_STARTED | DATA_AVAILABLE | CANDLE_CLOSED | DATA_FRESH | TIMEFRAMES_ALIGNED
  | REGIME_EVALUATED | ENTRY_SIGNAL_EVALUATED | CANDIDATE_CREATED | META_LABEL_EVALUATED
  | MANIFEST_EVALUATED | RECONCILIATION_HEALTHY | RISK_APPROVED | AI_REVIEWED
  | PRICE_DRIFT_APPROVED | INTENT_CREATED | EXCHANGE_SUBMITTED | EXCHANGE_FILLED
  | POSITION_PROJECTED | PROTECTION_CONFIRMED

datatype StageOutcome = PASSED | SKIPPED | REJECTED | ERROR

definition is_terminal :: "StageOutcome \<Rightarrow> bool" where
  "is_terminal s \<longleftrightarrow> s \<in> {StageOutcome.SKIPPED, StageOutcome.REJECTED, StageOutcome.ERROR}"

datatype DecisionReasonCode =
    OK | CANDIDATE_READY | ENTRY_INTENT_CREATED
  | NO_MARKET_DATA | NO_CLOSED_CANDLE | DUPLICATE_DECISION | MARKET_DATA_STALE | INSUFFICIENT_HISTORY
  | SINGLE_TIMEFRAME_LANE | FOUR_HOUR_DIRECTION_CONFLICT | MULTI_TIMEFRAME_DISAGREEMENT
  | ONE_HOUR_REGIME_RANGE | REGIME_NOT_ELIGIBLE
  | NO_ENTRY_SIGNAL | RSI_OUTSIDE_RANGE | MACD_DIRECTION_MISMATCH | EMA_DIRECTION_MISMATCH
  | ATR_NOT_POSITIVE | SIGNAL_CONFIDENCE_BELOW_THRESHOLD
  | CANDIDATE_EXPIRED | CANDIDATE_CONSTRUCTION_FAILED | SYMBOL_NOT_IN_EXECUTION_UNIVERSE
  | META_LABEL_BET_SKIPPED | META_LABEL_NOT_CONFIGURED | MANIFEST_NOT_ELIGIBLE | MANIFEST_UNAVAILABLE
  | NO_AUTHORIZED_PRODUCTION_STRATEGY | NET_EDGE_AFTER_COST_NEGATIVE | NO_TRADE_COST_INEFFICIENT
  | RECONCILIATION_UNAVAILABLE | RECONCILIATION_DEGRADED | RECOVERY_REQUIRED
  | UNMANAGED_EXTERNAL_POSITION | MANUAL_POSITION_DIRECTION_CONFLICT | RISK_LIMIT_EXCEEDED
  | ENTRY_KILL_SWITCH_ACTIVE | POSITION_ALREADY_OPEN | DAILY_TRADE_LIMIT_REACHED | SYMBOL_COOLDOWN_ACTIVE
  | AI_PROVIDER_UNAVAILABLE | AI_ADVISORY_VETO | AI_REVIEW_DISABLED
  | PRICE_DRIFT_EXCEEDED | SHADOW_MODE_NO_SUBMIT | EXCHANGE_UNAVAILABLE | EXCHANGE_REJECTED
  | EXCHANGE_UNKNOWN | PROTECTION_FAILED
  | INTERNAL_ERROR

section \<open>The builder\<close>

record FunnelStageRecord =
  sr_stage :: FunnelStage
  sr_outcome :: StageOutcome
  sr_reason_code :: DecisionReasonCode
  sr_detail :: string
  sr_metrics :: "(string \<times> string) list"
  sr_recorded_at :: "int option"

record DecisionFunnelRecord =
  fn_funnel_id :: string
  fn_cycle_id :: string
  fn_symbol :: string
  fn_lane :: string
  fn_strategy_id :: string
  fn_strategy_version :: string
  fn_terminal_stage :: FunnelStage
  fn_reason_code :: DecisionReasonCode
  fn_stages :: "FunnelStageRecord list"
  fn_bar_timestamp :: "int option"
  fn_candidate_id :: "string option"
  fn_created_at :: "int option"

definition terminal_outcome :: "DecisionFunnelRecord \<Rightarrow> StageOutcome option" where
  "terminal_outcome r = (if fn_stages r \<noteq> [] then Some (sr_outcome (last (fn_stages r))) else None)"

definition created_candidate :: "DecisionFunnelRecord \<Rightarrow> bool" where
  "created_candidate r \<longleftrightarrow>
     fn_candidate_id r \<noteq> None \<and> fn_reason_code r = DecisionReasonCode.CANDIDATE_READY"

definition stage_for :: "DecisionFunnelRecord \<Rightarrow> FunnelStage \<Rightarrow> FunnelStageRecord option" where
  "stage_for r stage = List.find (\<lambda>s. sr_stage s = stage) (fn_stages r)"

record DecisionFunnelBuilder =
  fb_funnel_id :: string
  fb_cycle_id :: string
  fb_symbol :: string
  fb_lane :: string
  fb_strategy_id :: string
  fb_strategy_version :: string
  fb_stages :: "FunnelStageRecord list"
  fb_bar_timestamp :: "int option"
  fb_candidate_id :: "string option"
  fb_built :: bool
  fb_created_at :: int

definition build_funnel_record ::
    "string \<Rightarrow> string \<Rightarrow> string \<Rightarrow> string \<Rightarrow> string \<Rightarrow> string option \<Rightarrow> string \<Rightarrow> int \<Rightarrow> DecisionFunnelBuilder" where
  "build_funnel_record cycle_id symbol lane strategy_id strategy_version funnel_id fresh_id now = \<lparr>
     fb_funnel_id = (case funnel_id of None \<Rightarrow> fresh_id | Some i \<Rightarrow> if i = [] then fresh_id else i),
     fb_cycle_id = cycle_id, fb_symbol = symbol, fb_lane = lane, fb_strategy_id = strategy_id,
     fb_strategy_version = strategy_version, fb_stages = [], fb_bar_timestamp = None,
     fb_candidate_id = None, fb_built = False, fb_created_at = now\<rparr>"

definition record_stage ::
    "FunnelStage \<Rightarrow> StageOutcome \<Rightarrow> DecisionReasonCode \<Rightarrow> string \<Rightarrow> (string \<times> string) list \<Rightarrow> int \<Rightarrow>
     DecisionFunnelBuilder \<Rightarrow> FunnelStageRecord res \<times> DecisionFunnelBuilder" where
  "record_stage stage outcome reason_code detail metrics now b =
     (if fb_built b then (Inl (RuntimeError ''DecisionFunnelBuilder already built; cannot record''), b)
      else (let r = \<lparr>sr_stage = stage, sr_outcome = outcome, sr_reason_code = reason_code,
                     sr_detail = detail, sr_metrics = sort metrics, sr_recorded_at = Some now\<rparr>
            in (Inr r, b\<lparr>fb_stages := fb_stages b @ [r]\<rparr>)))"

definition set_decision_bar :: "int \<Rightarrow> DecisionFunnelBuilder \<Rightarrow> DecisionFunnelBuilder" where
  "set_decision_bar t b = b\<lparr>fb_bar_timestamp := Some t\<rparr>"

definition set_candidate :: "string \<Rightarrow> DecisionFunnelBuilder \<Rightarrow> DecisionFunnelBuilder" where
  "set_candidate i b = b\<lparr>fb_candidate_id := Some i\<rparr>"

definition build_funnel ::
    "FunnelStage \<Rightarrow> DecisionReasonCode \<Rightarrow> DecisionFunnelBuilder \<Rightarrow>
     DecisionFunnelRecord res \<times> DecisionFunnelBuilder" where
  "build_funnel terminal_stage reason_code b =
     (if fb_built b then (Inl (RuntimeError ''DecisionFunnelBuilder already built''), b)
      else if fb_stages b = []
        then (Inl (RuntimeError ''DecisionFunnelBuilder has no recorded stages''), b)
      else (Inr \<lparr>fn_funnel_id = fb_funnel_id b, fn_cycle_id = fb_cycle_id b, fn_symbol = fb_symbol b,
                fn_lane = fb_lane b, fn_strategy_id = fb_strategy_id b,
                fn_strategy_version = fb_strategy_version b, fn_terminal_stage = terminal_stage,
                fn_reason_code = reason_code, fn_stages = fb_stages b,
                fn_bar_timestamp = fb_bar_timestamp b, fn_candidate_id = fb_candidate_id b,
                fn_created_at = Some (fb_created_at b)\<rparr>,
            b\<lparr>fb_built := True\<rparr>))"

section \<open>Sequences of builder calls\<close>

datatype funnel_op =
    Record FunnelStage StageOutcome DecisionReasonCode string "(string \<times> string) list" int
  | SetBar int
  | SetCandidate string
  | Build FunnelStage DecisionReasonCode

fun funnel_step :: "funnel_op \<Rightarrow> DecisionFunnelBuilder \<Rightarrow> DecisionFunnelBuilder" where
  "funnel_step (Record st oc rc dt ms t) b = snd (record_stage st oc rc dt ms t b)"
| "funnel_step (SetBar t) b = set_decision_bar t b"
| "funnel_step (SetCandidate i) b = set_candidate i b"
| "funnel_step (Build st rc) b = snd (build_funnel st rc b)"

definition funnel_run :: "funnel_op list \<Rightarrow> DecisionFunnelBuilder \<Rightarrow> DecisionFunnelBuilder" where
  "funnel_run ops b = fold funnel_step ops b"

lemma funnel_step_built:
  "fb_built b \<Longrightarrow> fb_built (funnel_step opn b) \<and> fb_stages (funnel_step opn b) = fb_stages b"
  by (cases opn) (auto simp: record_stage_def build_funnel_def set_decision_bar_def set_candidate_def)

lemma funnel_run_built:
  "fb_built b \<Longrightarrow> fb_built (funnel_run ops b) \<and> fb_stages (funnel_run ops b) = fb_stages b"
  unfolding funnel_run_def
proof (induction ops arbitrary: b)
  case (Cons opn ops)
  with funnel_step_built [of b opn] show ?case by simp
qed simp

text \<open>
  A funnel is sealed exactly once and never silently extended: building needs at least one
  recorded stage and gives a record with exactly the stages recorded so far, in order; after
  it, whatever calls follow, every further build and every further recording raises and the
  recorded stages stay as they were.
\<close>

theorem funnel_sealed_once:
  assumes "build_funnel st rc b = (Inr r, b')"
  shows "fn_stages r = fb_stages b \<and> fn_stages r \<noteq> []
    \<and> terminal_outcome r = Some (sr_outcome (last (fb_stages b)))
    \<and> fst (build_funnel st' rc' (funnel_run ops b')) = Inl (RuntimeError ''DecisionFunnelBuilder already built'')
    \<and> record_stage sg oc rc'' dt ms t (funnel_run ops b') =
        (Inl (RuntimeError ''DecisionFunnelBuilder already built; cannot record''), funnel_run ops b')
    \<and> fb_stages (funnel_run ops b') = fn_stages r"
proof -
  have b: "\<not> fb_built b" "fb_stages b \<noteq> []" "b' = b\<lparr>fb_built := True\<rparr>" "fn_stages r = fb_stages b"
    using assms by (auto simp: build_funnel_def split: if_splits)
  have "fb_built b'" "fb_stages b' = fb_stages b" using b by simp_all
  with funnel_run_built [of b' ops] b show ?thesis
    by (simp add: terminal_outcome_def build_funnel_def record_stage_def)
qed

definition demo_builder :: DecisionFunnelBuilder where
  "demo_builder = funnel_run [Record FunnelStage.CYCLE_STARTED StageOutcome.PASSED DecisionReasonCode.OK [] [] 1]
     (build_funnel_record ''y'' ''BTC/USDT'' ''PRODUCTION'' ''s'' ''1'' None ''f'' 0)"

theorem funnel_sealed_once_witness:
  "\<exists>r b'. build_funnel FunnelStage.CYCLE_STARTED DecisionReasonCode.NO_MARKET_DATA demo_builder = (Inr r, b')
     \<and> length (fn_stages r) = 1 \<and> fb_stages (funnel_run [SetBar 3] b') = fn_stages r"
proof -
  obtain r b' where rb: "build_funnel FunnelStage.CYCLE_STARTED DecisionReasonCode.NO_MARKET_DATA
      demo_builder = (Inr r, b')"
    by (simp add: build_funnel_def demo_builder_def funnel_run_def build_funnel_record_def record_stage_def Let_def)
  have "length (fb_stages demo_builder) = 1"
    by (simp add: demo_builder_def funnel_run_def build_funnel_record_def record_stage_def Let_def)
  with funnel_sealed_once [OF rb, of _ _ "[SetBar 3]"] rb show ?thesis by auto
qed

end
