(* ===== verification/Runtime_Lock.thy ===== *)
theory Runtime_Lock
  imports Enums
begin

text \<open>
  Engine activation (\<open>infrastructure/runtime_lock.py\<close>): which engine may write, resolved from
  the settings the deployment gives.  The warnings are messages and are left out.
\<close>

datatype EngineActivation = DISABLED | SHADOW | ACTIVE

text \<open>The four settings the function reads; a missing engine flag means \<open>legacy\<close>.\<close>

record Settings =
  cfg_automated_trading_engine :: "string option"
  cfg_binance_use_testnet :: bool
  cfg_live_trading_enabled :: bool
  cfg_binance_auto_execute :: bool

record EngineActivationConfig =
  ea_v2_activation :: EngineActivation
  ea_execution_mode :: V2ExecutionMode
  ea_allow_legacy_writer :: bool

definition resolve_engine_activation :: "Settings \<Rightarrow> EngineActivationConfig res" where
  "resolve_engine_activation settings =
     (let engine_flag = lower (case cfg_automated_trading_engine settings of
                                 None \<Rightarrow> ''legacy'' | Some f \<Rightarrow> f) in
      guardR (\<not> cfg_binance_use_testnet settings)
        (ValueError ''V2 automated trading requires BINANCE_USE_TESTNET=true'') (
      guardR (cfg_live_trading_enabled settings)
        (ValueError ''V2 automated trading requires LIVE_TRADING_ENABLED=false'') (
      bindR (if engine_flag = ''legacy'' then Inr (EngineActivation.DISABLED, True)
             else if engine_flag = ''v2_shadow'' then Inr (EngineActivation.SHADOW, True)
             else if engine_flag = ''v2_active'' then Inr (EngineActivation.ACTIVE, False)
             else Inl (ValueError ''Invalid AUTOMATED_TRADING_ENGINE''))
        (\<lambda>(v2_activation, allow_legacy).
          let execution_mode = (if cfg_binance_auto_execute settings
                then V2ExecutionMode.BINANCE_TESTNET else V2ExecutionMode.LOCAL_PAPER) in
          guardR (v2_activation = EngineActivation.ACTIVE \<and> allow_legacy)
            (ValueError ''Configuration error: V2 is ACTIVE but Legacy Writer is also enabled'')
            (Inr \<lparr>ea_v2_activation = v2_activation, ea_execution_mode = execution_mode,
                  ea_allow_legacy_writer = allow_legacy\<rparr>)))))"

text \<open>
  At most one engine writes and never to the main network: whenever activation resolves,
  the testnet flag is on and live trading is off, and the older writer is allowed exactly when
  V2 is not ACTIVE; resolution fails for every other configuration.
\<close>

theorem engine_activation_exclusive:
  "(resolve_engine_activation s = Inr c \<longrightarrow>
      cfg_binance_use_testnet s \<and> \<not> cfg_live_trading_enabled s
      \<and> (ea_allow_legacy_writer c \<longleftrightarrow> ea_v2_activation c \<noteq> EngineActivation.ACTIVE)
      \<and> (ea_execution_mode c = V2ExecutionMode.BINANCE_TESTNET \<longleftrightarrow> cfg_binance_auto_execute s))
   \<and> ((\<exists>c. resolve_engine_activation s = Inr c) \<longleftrightarrow>
      cfg_binance_use_testnet s \<and> \<not> cfg_live_trading_enabled s \<and>
      lower (case cfg_automated_trading_engine s of None \<Rightarrow> ''legacy'' | Some f \<Rightarrow> f)
        \<in> {''legacy'', ''v2_shadow'', ''v2_active''})"
  by (auto simp: resolve_engine_activation_def Let_def guardR_Inr_iff bindR_Inr_iff)

definition demo_settings :: Settings where
  "demo_settings = \<lparr>cfg_automated_trading_engine = Some ''V2_Active'', cfg_binance_use_testnet = True,
     cfg_live_trading_enabled = False, cfg_binance_auto_execute = True\<rparr>"

theorem engine_activation_exclusive_witness:
  "\<exists>c. resolve_engine_activation demo_settings = Inr c \<and> \<not> ea_allow_legacy_writer c"
proof -
  have "resolve_engine_activation demo_settings = Inr \<lparr>ea_v2_activation = EngineActivation.ACTIVE,
      ea_execution_mode = V2ExecutionMode.BINANCE_TESTNET, ea_allow_legacy_writer = False\<rparr>"
    by code_simp
  with engine_activation_exclusive [of demo_settings] show ?thesis by fastforce
qed

end
