(* ===== verification/Entry.thy ===== *)
theory Entry
  imports Candidates Reconciliation Funnel Runtime_Lock
begin

text \<open>
  The entry gate and the exchange-first entry (\<open>application/entry_service.py\<close>).  The gate is a
  pure function of a runtime context; the execution calls the adapter at most once with an
  order and turns every outcome into a status.  Detail texts are left out.
\<close>

section \<open>The gate\<close>

definition MIN_DRIFT_CEILING_BPS :: dec where "MIN_DRIFT_CEILING_BPS = 20"
definition ATR_DRIFT_FRACTION :: dec where "ATR_DRIFT_FRACTION = 25 / 100"

datatype EntryDecision = APPROVED | BLOCKED

record EntryGateResult =
  eg_decision :: EntryDecision
  eg_reason_code :: DecisionReasonCode
  eg_blocks :: "DecisionReasonCode list"
  eg_drift_bps :: "dec option"
  eg_drift_ceiling_bps :: "dec option"

definition eg_approved :: "EntryGateResult \<Rightarrow> bool" where
  "eg_approved g \<longleftrightarrow> eg_decision g = EntryDecision.APPROVED"

record EntryRuntimeContext =
  rc_engine_activation :: EngineActivation
  rc_execution_mode :: V2ExecutionMode
  rc_reconciliation_status :: ReconciliationStatus
  rc_entry_blocked_symbols :: "string set"
  rc_entry_kill_switch_active :: bool
  rc_recovery_entry_blocked :: bool
  rc_open_position_symbols :: "string set"
  rc_symbol_cooldown_active :: bool
  rc_daily_trade_limit_reached :: bool
  rc_manifest_eligible :: bool
  rc_net_edge_after_cost_bps :: "dec option"
  rc_theoretical_net_payoff :: "dec option"
  rc_cost_r :: "dec option"
  rc_risk_budget_available :: bool
  rc_ai_advisory_veto :: bool
  rc_now :: "int option"

definition drift_ceiling_bps :: "TradeCandidate \<Rightarrow> PreSubmitMarketSnapshot \<Rightarrow> dec" where
  "drift_ceiling_bps candidate snapshot =
     (let atr_component =
            (if ms_atr snapshot > 0 \<and> tc_signal_reference_price candidate > 0
             then dmul (ddiv (dmul ATR_DRIFT_FRACTION (ms_atr snapshot))
                             (tc_signal_reference_price candidate)) 10000
             else 0);
          ceil = max MIN_DRIFT_CEILING_BPS atr_component
      in if tc_max_entry_drift_bps candidate > 0
         then min ceil (tc_max_entry_drift_bps candidate) else ceil)"

text \<open>\<open>if c: blocks.append(r)\<close>.\<close>

definition block_if :: "bool \<Rightarrow> DecisionReasonCode \<Rightarrow> DecisionReasonCode list" where
  "block_if c r = (if c then [r] else [])"

definition research_candidate :: "TradeCandidate \<Rightarrow> bool" where
  "research_candidate c \<longleftrightarrow>
     tc_lane c = CandidateLane.SHADOW \<or> tc_candidate_type c = V2CandidateType.RESEARCH"

text \<open>The checks that do not need a price, in the order of the code.\<close>

definition context_blocks :: "TradeCandidate \<Rightarrow> EntryRuntimeContext \<Rightarrow> DecisionReasonCode list" where
  "context_blocks candidate runtime =
     block_if (research_candidate candidate) DecisionReasonCode.SHADOW_MODE_NO_SUBMIT
   @ block_if (rc_engine_activation runtime = EngineActivation.DISABLED)
       DecisionReasonCode.SHADOW_MODE_NO_SUBMIT
   @ block_if (rc_entry_kill_switch_active runtime) DecisionReasonCode.ENTRY_KILL_SWITCH_ACTIVE
   @ (if rc_reconciliation_status runtime = ReconciliationStatus.UNAVAILABLE
      then [DecisionReasonCode.RECONCILIATION_UNAVAILABLE]
      else if rc_reconciliation_status runtime = ReconciliationStatus.RECOVERY_REQUIRED
      then [DecisionReasonCode.RECOVERY_REQUIRED] else [])
   @ block_if (rc_recovery_entry_blocked runtime) DecisionReasonCode.RECOVERY_REQUIRED
   @ block_if (tc_symbol candidate \<in> rc_entry_blocked_symbols runtime)
       DecisionReasonCode.UNMANAGED_EXTERNAL_POSITION
   @ block_if (tc_symbol candidate \<in> rc_open_position_symbols runtime)
       DecisionReasonCode.POSITION_ALREADY_OPEN
   @ block_if (rc_symbol_cooldown_active runtime) DecisionReasonCode.SYMBOL_COOLDOWN_ACTIVE
   @ block_if (rc_daily_trade_limit_reached runtime) DecisionReasonCode.DAILY_TRADE_LIMIT_REACHED
   @ block_if (\<not> rc_manifest_eligible runtime) DecisionReasonCode.MANIFEST_NOT_ELIGIBLE
   @ block_if (case rc_net_edge_after_cost_bps runtime of None \<Rightarrow> False | Some e \<Rightarrow> e \<le> 0)
       DecisionReasonCode.NET_EDGE_AFTER_COST_NEGATIVE
   @ block_if (case rc_theoretical_net_payoff runtime of None \<Rightarrow> False | Some p \<Rightarrow> p < 115 / 100)
       DecisionReasonCode.NO_TRADE_COST_INEFFICIENT
   @ block_if (\<not> rc_risk_budget_available runtime) DecisionReasonCode.RISK_LIMIT_EXCEEDED
   @ block_if (rc_ai_advisory_veto runtime) DecisionReasonCode.AI_ADVISORY_VETO
   @ block_if (case rc_now runtime of None \<Rightarrow> False | Some t \<Rightarrow> is_expired candidate t)
       DecisionReasonCode.CANDIDATE_EXPIRED"

definition evaluate_entry ::
    "TradeCandidate \<Rightarrow> EntryRuntimeContext \<Rightarrow> PreSubmitMarketSnapshot option \<Rightarrow> EntryGateResult res" where
  "evaluate_entry candidate runtime snapshot =
     bindR (case snapshot of
              None \<Rightarrow> Inr (None, None)
            | Some s \<Rightarrow> bindR (drift_bps_from candidate (ms_current_price s))
                 (\<lambda>d. Inr (Some d, Some (drift_ceiling_bps candidate s))))
       (\<lambda>(drift, ceil).
          let blocks = context_blocks candidate runtime
                @ block_if (case (drift, ceil) of (Some d, Some c) \<Rightarrow> d > c | _ \<Rightarrow> False)
                    DecisionReasonCode.PRICE_DRIFT_EXCEEDED
          in if blocks \<noteq> []
             then Inr \<lparr>eg_decision = EntryDecision.BLOCKED, eg_reason_code = hd blocks,
                       eg_blocks = blocks, eg_drift_bps = drift, eg_drift_ceiling_bps = ceil\<rparr>
             else Inr \<lparr>eg_decision = EntryDecision.APPROVED, eg_reason_code = DecisionReasonCode.OK,
                       eg_blocks = [], eg_drift_bps = drift, eg_drift_ceiling_bps = ceil\<rparr>)"

section \<open>Execution\<close>

datatype EntryExecutionStatus =
    NOT_ATTEMPTED | SHADOW_REHEARSED | FILLED | PARTIALLY_FILLED | ACKNOWLEDGED_UNFILLED
  | REJECTED | UNKNOWN

record EntryExecutionResult =
  er_status :: EntryExecutionStatus
  er_intent_state :: V2IntentState
  er_client_order_id :: string
  er_reason_code :: DecisionReasonCode
  er_exchange_order_id :: "string option"
  er_trade_ids :: "string list"
  er_filled_quantity :: dec
  er_average_fill_price :: "dec option"
  er_total_fee :: dec
  er_fill_timestamp :: "int option"
  er_fill_source :: string
  er_requested_quantity :: dec
  er_guard_exchange_order_id :: "string option"
  er_guard_client_order_id :: "string option"

text \<open>The dataclass with its default values.\<close>

definition entry_result ::
    "EntryExecutionStatus \<Rightarrow> V2IntentState \<Rightarrow> string \<Rightarrow> DecisionReasonCode \<Rightarrow> dec \<Rightarrow> EntryExecutionResult" where
  "entry_result status intent_state client_order_id reason_code requested_quantity = \<lparr>
     er_status = status, er_intent_state = intent_state, er_client_order_id = client_order_id,
     er_reason_code = reason_code, er_exchange_order_id = None, er_trade_ids = [],
     er_filled_quantity = 0, er_average_fill_price = None, er_total_fee = 0,
     er_fill_timestamp = None, er_fill_source = ''BINANCE_USER_TRADE'',
     er_requested_quantity = requested_quantity, er_guard_exchange_order_id = None,
     er_guard_client_order_id = None\<rparr>"

definition position_projectable :: "EntryExecutionResult \<Rightarrow> bool" where
  "position_projectable r \<longleftrightarrow>
     er_status r \<in> {EntryExecutionStatus.FILLED, EntryExecutionStatus.PARTIALLY_FILLED}
     \<and> (\<exists>x. er_exchange_order_id r = Some x \<and> x \<noteq> [])
     \<and> (er_trade_ids r \<noteq> [] \<or> er_fill_source r = ''BINANCE_ORDER_STATUS_RECOVERY'')
     \<and> er_filled_quantity r > 0
     \<and> (\<exists>p. er_average_fill_price r = Some p \<and> p > 0)"

lemma position_projectable_code [code]:
  "position_projectable r \<longleftrightarrow>
     er_status r \<in> {EntryExecutionStatus.FILLED, EntryExecutionStatus.PARTIALLY_FILLED}
     \<and> (case er_exchange_order_id r of None \<Rightarrow> False | Some x \<Rightarrow> x \<noteq> [])
     \<and> (er_trade_ids r \<noteq> [] \<or> er_fill_source r = ''BINANCE_ORDER_STATUS_RECOVERY'')
     \<and> er_filled_quantity r > 0
     \<and> (case er_average_fill_price r of None \<Rightarrow> False | Some p \<Rightarrow> p > 0)"
  by (auto simp: position_projectable_def split: option.splits)

definition requires_client_order_id_recovery :: "EntryExecutionResult \<Rightarrow> bool" where
  "requires_client_order_id_recovery r \<longleftrightarrow> er_status r = EntryExecutionStatus.UNKNOWN"

definition round_quantity_to_step :: "dec \<Rightarrow> dec \<Rightarrow> dec res" where
  "round_quantity_to_step quantity step_size =
     guardR (step_size \<le> 0) (ValueError ''step_size must be > 0'')
       (Inr (dmul (to_integral_value ROUND_DOWN (ddiv quantity step_size)) step_size))"

record margin_guard =
  mg_margin_equity :: "dec option"
  mg_max_margin_fraction :: "dec option"
  mg_enforce_margin_ceiling :: bool

text \<open>
  The condition of the post-fill margin guard, with the division by the leverage that raises on
  zero; the earlier conjuncts short-circuit it.
\<close>

definition over_margin :: "margin_guard \<Rightarrow> dec \<Rightarrow> dec \<Rightarrow> int \<Rightarrow> bool res" where
  "over_margin g filled_quantity vwap leverage =
     (case (mg_enforce_margin_ceiling g, mg_margin_equity g, mg_max_margin_fraction g) of
        (True, Some equity, Some fraction) \<Rightarrow>
          (if equity > 0
           then bindR (ddivR (dmul filled_quantity vwap) (of_int leverage))
                  (\<lambda>m. Inr (m > dmul equity fraction))
           else Inr False)
      | _ \<Rightarrow> Inr False)"

text \<open>The unwind of an over-margin fill; every exception of the submission is swallowed.\<close>

definition margin_unwind ::
    "'w adapter \<Rightarrow> TradeCandidate \<Rightarrow> string \<Rightarrow> dec \<Rightarrow> 'w \<Rightarrow> (string option \<times> string) res \<times> 'w" where
  "margin_unwind adapter candidate intent_id filled_quantity w =
     (let guard_position_id = ''margin-guard:'' @ intent_id in
      case exit_client_order_id guard_position_id 1 of
        Inl e \<Rightarrow> (Inl e, w)
      | Inr guard_client_order_id \<Rightarrow>
          (case submit_reduce_only_exit adapter
                  \<lparr>sr_position_id = guard_position_id, sr_exit_reason = ''CANARY_MARGIN_CEILING'',
                   sr_reduce_quantity = filled_quantity, sr_client_order_id = guard_client_order_id,
                   sr_is_emergency = True\<rparr>
                  (tc_symbol candidate) (if tc_side candidate = ''LONG'' then ''sell'' else ''buy'') w of
             (Inl e, w') \<Rightarrow> (Inr (None, guard_client_order_id), w')
           | (Inr receipt, w') \<Rightarrow> (Inr (Some (or_exchange_order_id receipt), guard_client_order_id), w')))"

text \<open>What follows an acknowledged order: fills are read, aggregated, guarded, and reported.\<close>

definition after_acknowledgement ::
    "'w adapter \<Rightarrow> TradeCandidate \<Rightarrow> string \<Rightarrow> string \<Rightarrow> dec \<Rightarrow> int \<Rightarrow> margin_guard \<Rightarrow>
     ExchangeOrderReceipt \<Rightarrow> 'w \<Rightarrow> EntryExecutionResult res \<times> 'w" where
  "after_acknowledgement adapter candidate intent_id client_order_id normalized_quantity leverage g receipt w =
     (case fetch_fills adapter (tc_symbol candidate) (or_exchange_order_id receipt) w of
        (Inl e, w1) \<Rightarrow>
          (if e = BinanceAdapterUnavailable \<or> e = ExchangeTimeout
           then (Inr ((entry_result EntryExecutionStatus.ACKNOWLEDGED_UNFILLED
                        V2IntentState.EXCHANGE_ACKNOWLEDGED client_order_id
                        DecisionReasonCode.EXCHANGE_UNKNOWN normalized_quantity)
                      \<lparr>er_exchange_order_id := Some (or_exchange_order_id receipt)\<rparr>), w1)
           else (Inl e, w1))
      | (Inr fills, w1) \<Rightarrow>
          (case aggregate_fills fills of (filled_quantity, vwap, total_fee, trade_ids, fill_timestamp) \<Rightarrow>
             (case vwap of
                None \<Rightarrow>
                  (Inr ((entry_result EntryExecutionStatus.ACKNOWLEDGED_UNFILLED
                          V2IntentState.EXCHANGE_ACKNOWLEDGED client_order_id
                          DecisionReasonCode.OK normalized_quantity)
                        \<lparr>er_exchange_order_id := Some (or_exchange_order_id receipt)\<rparr>), w1)
              | Some price \<Rightarrow>
                 if trade_ids = [] \<or> filled_quantity \<le> 0
                 then (Inr ((entry_result EntryExecutionStatus.ACKNOWLEDGED_UNFILLED
                              V2IntentState.EXCHANGE_ACKNOWLEDGED client_order_id
                              DecisionReasonCode.OK normalized_quantity)
                            \<lparr>er_exchange_order_id := Some (or_exchange_order_id receipt)\<rparr>), w1)
                 else
                   (case over_margin g filled_quantity price leverage of
                      Inl e \<Rightarrow> (Inl e, w1)
                    | Inr True \<Rightarrow>
                        (case margin_unwind adapter candidate intent_id filled_quantity w1 of
                           (Inl e, w2) \<Rightarrow> (Inl e, w2)
                         | (Inr (guard_exchange_order_id, guard_client_order_id), w2) \<Rightarrow>
                             (Inr ((entry_result EntryExecutionStatus.REJECTED V2IntentState.REJECTED
                                     client_order_id DecisionReasonCode.RISK_LIMIT_EXCEEDED
                                     normalized_quantity)
                                   \<lparr>er_exchange_order_id := Some (or_exchange_order_id receipt),
                                    er_trade_ids := trade_ids, er_filled_quantity := filled_quantity,
                                    er_average_fill_price := Some price, er_total_fee := total_fee,
                                    er_fill_timestamp := fill_timestamp,
                                    er_guard_exchange_order_id := guard_exchange_order_id,
                                    er_guard_client_order_id := Some guard_client_order_id\<rparr>), w2))
                    | Inr False \<Rightarrow>
                        (Inr ((entry_result
                                (if filled_quantity < normalized_quantity
                                 then EntryExecutionStatus.PARTIALLY_FILLED
                                 else EntryExecutionStatus.FILLED)
                                V2IntentState.FILLED client_order_id DecisionReasonCode.OK
                                normalized_quantity)
                              \<lparr>er_exchange_order_id := Some (or_exchange_order_id receipt),
                               er_trade_ids := trade_ids, er_filled_quantity := filled_quantity,
                               er_average_fill_price := Some price, er_total_fee := total_fee,
                               er_fill_timestamp := fill_timestamp\<rparr>), w1)))))"

definition execute_entry ::
    "TradeCandidate \<Rightarrow> EntryGateResult \<Rightarrow> PreSubmitMarketSnapshot \<Rightarrow> 'w adapter \<Rightarrow> string \<Rightarrow> dec \<Rightarrow>
     int \<Rightarrow> EngineActivation \<Rightarrow> margin_guard \<Rightarrow> 'w \<Rightarrow> EntryExecutionResult res \<times> 'w" where
  "execute_entry candidate gate_result snapshot adapter intent_id quantity leverage engine_activation g w =
     (case entry_client_order_id intent_id 1 of
        Inl e \<Rightarrow> (Inl e, w)
      | Inr client_order_id \<Rightarrow>
         if research_candidate candidate
         then (Inr (entry_result EntryExecutionStatus.NOT_ATTEMPTED V2IntentState.INTENT_CREATED
                      client_order_id DecisionReasonCode.SHADOW_MODE_NO_SUBMIT quantity), w)
         else if \<not> eg_approved gate_result
         then (Inr (entry_result EntryExecutionStatus.NOT_ATTEMPTED V2IntentState.INTENT_CREATED
                      client_order_id (eg_reason_code gate_result) quantity), w)
         else
          (case round_quantity_to_step quantity (ms_step_size snapshot) of
             Inl e \<Rightarrow> (Inl e, w)
           | Inr normalized_quantity \<Rightarrow>
              if normalized_quantity \<le> 0
              then (Inr (entry_result EntryExecutionStatus.NOT_ATTEMPTED V2IntentState.INTENT_CREATED
                           client_order_id DecisionReasonCode.RISK_LIMIT_EXCEEDED quantity), w)
              else if dmul normalized_quantity (ms_current_price snapshot) < ms_min_notional snapshot
              then (Inr (entry_result EntryExecutionStatus.NOT_ATTEMPTED V2IntentState.INTENT_CREATED
                           client_order_id DecisionReasonCode.RISK_LIMIT_EXCEEDED normalized_quantity), w)
              else if engine_activation \<noteq> EngineActivation.ACTIVE
              then (Inr (entry_result EntryExecutionStatus.SHADOW_REHEARSED V2IntentState.INTENT_CREATED
                           client_order_id DecisionReasonCode.SHADOW_MODE_NO_SUBMIT normalized_quantity), w)
              else
               (case submit_market_order adapter
                       \<lparr>se_intent_id = intent_id, se_quantity = normalized_quantity,
                        se_leverage = leverage, se_client_order_id = client_order_id\<rparr>
                       (tc_symbol candidate) (if tc_side candidate = ''LONG'' then ''buy'' else ''sell'') w of
                  (Inl e, w1) \<Rightarrow>
                    (if e = ExchangeTimeout
                     then (Inr (entry_result EntryExecutionStatus.UNKNOWN V2IntentState.EXCHANGE_UNKNOWN
                                  client_order_id DecisionReasonCode.EXCHANGE_UNKNOWN normalized_quantity), w1)
                     else if e = BinanceAdapterUnavailable
                     then (Inr (entry_result EntryExecutionStatus.REJECTED V2IntentState.REJECTED
                                  client_order_id DecisionReasonCode.EXCHANGE_UNAVAILABLE
                                  normalized_quantity), w1)
                     else (Inl e, w1))
                | (Inr receipt, w1) \<Rightarrow>
                    after_acknowledgement adapter candidate intent_id client_order_id
                      normalized_quantity leverage g receipt w1)))"

section \<open>Facts\<close>

lemma block_if_simps [simp]: "block_if c r = [] \<longleftrightarrow> \<not> c" "set (block_if c r) = (if c then {r} else {})"
  by (simp_all add: block_if_def)

text \<open>Rounding to the step: never up, and by less than one step.\<close>

lemma round_quantity_exact:
  assumes "scaled k q" "scaled k s" "0 \<le> q" "0 < s"
  shows "round_quantity_to_step q s = Inr (of_int \<lfloor>q / s\<rfloor> * s)"
  using floor_steps_exact(1) [OF assms] assms by (simp add: round_quantity_to_step_def)

lemma execute_entry_silent:
  assumes "research_candidate c \<or> \<not> eg_approved g \<or> act \<noteq> EngineActivation.ACTIVE"
  shows "snd (execute_entry c g s a i q l act mg w) = w"
    "fst (execute_entry c g s a i q l act mg w) = Inr r \<Longrightarrow>
       er_status r \<in> {EntryExecutionStatus.NOT_ATTEMPTED, EntryExecutionStatus.SHADOW_REHEARSED}
       \<and> er_intent_state r = V2IntentState.INTENT_CREATED"
  using assms by (auto simp: execute_entry_def entry_result_def split: sum.splits if_splits)

section \<open>Properties\<close>

text \<open>What the entry gate promises to check, as a conjunction.\<close>

definition entry_conditions :: "TradeCandidate \<Rightarrow> EntryRuntimeContext \<Rightarrow> bool" where
  "entry_conditions c rt \<longleftrightarrow>
      \<not> research_candidate c \<and> rc_engine_activation rt \<noteq> EngineActivation.DISABLED
      \<and> \<not> rc_entry_kill_switch_active rt
      \<and> rc_reconciliation_status rt \<in> {ReconciliationStatus.HEALTHY, ReconciliationStatus.DEGRADED}
      \<and> \<not> rc_recovery_entry_blocked rt \<and> tc_symbol c \<notin> rc_entry_blocked_symbols rt
      \<and> tc_symbol c \<notin> rc_open_position_symbols rt \<and> \<not> rc_symbol_cooldown_active rt
      \<and> \<not> rc_daily_trade_limit_reached rt \<and> rc_manifest_eligible rt
      \<and> (\<forall>e. rc_net_edge_after_cost_bps rt = Some e \<longrightarrow> 0 < e)
      \<and> (\<forall>p. rc_theoretical_net_payoff rt = Some p \<longrightarrow> 115 / 100 \<le> p)
      \<and> rc_risk_budget_available rt \<and> \<not> rc_ai_advisory_veto rt
      \<and> (\<forall>t. rc_now rt = Some t \<longrightarrow> t < tc_expires_at c)"

lemma context_blocks_Nil: "context_blocks c rt = [] \<longleftrightarrow> entry_conditions c rt"
  unfolding context_blocks_def entry_conditions_def is_expired_def append_is_Nil_conv
  by (cases "rc_reconciliation_status rt"; cases "rc_net_edge_after_cost_bps rt";
      cases "rc_theoretical_net_payoff rt"; cases "rc_now rt") (simp_all add: not_le not_less)

text \<open>
  The entry gate approves exactly when every check passes: no research candidate, engine
  not disabled, no kill switch, reconciliation neither UNAVAILABLE nor RECOVERY_REQUIRED, no
  recovery block, the symbol neither blocked nor already open, no throttle, an eligible
  manifest, a positive edge and a net payoff of at least 1.15 where they are known, budget left,
  no veto, not expired, and, with a snapshot, a drift within the ceiling.  A refusal lists the
  failed checks and reports the first.
\<close>

theorem entry_gate_exact:
  assumes "evaluate_entry c rt snap = Inr g"
  shows "(eg_approved g \<longleftrightarrow> entry_conditions c rt
      \<and> (\<forall>s. snap = Some s \<longrightarrow> (\<exists>d. drift_bps_from c (ms_current_price s) = Inr d
            \<and> d \<le> drift_ceiling_bps c s)))
    \<and> (\<not> eg_approved g \<longrightarrow> eg_blocks g \<noteq> [] \<and> eg_reason_code g = hd (eg_blocks g))"
proof (cases snap)
  case None
  with assms show ?thesis unfolding context_blocks_Nil [symmetric]
    by (auto simp: evaluate_entry_def eg_approved_def Let_def split: if_splits)
next
  case (Some s)
  with assms obtain d where d: "drift_bps_from c (ms_current_price s) = Inr d"
    by (auto simp: evaluate_entry_def bindR_Inr_iff)
  with assms Some show ?thesis unfolding context_blocks_Nil [symmetric]
    by (auto simp: evaluate_entry_def eg_approved_def Let_def split: if_splits)
qed

definition demo_context :: EntryRuntimeContext where
  "demo_context = \<lparr>rc_engine_activation = EngineActivation.ACTIVE,
     rc_execution_mode = V2ExecutionMode.BINANCE_TESTNET,
     rc_reconciliation_status = ReconciliationStatus.HEALTHY, rc_entry_blocked_symbols = {},
     rc_entry_kill_switch_active = False, rc_recovery_entry_blocked = False,
     rc_open_position_symbols = {''ETH/USDT''}, rc_symbol_cooldown_active = False,
     rc_daily_trade_limit_reached = False, rc_manifest_eligible = True,
     rc_net_edge_after_cost_bps = Some 3, rc_theoretical_net_payoff = Some 2, rc_cost_r = None,
     rc_risk_budget_available = True, rc_ai_advisory_veto = False, rc_now = Some 1\<rparr>"

definition demo_market :: PreSubmitMarketSnapshot where
  "demo_market = \<lparr>ms_symbol = ''BTC/USDT'', ms_current_price = 100, ms_atr = 1, ms_last_update = 0,
     ms_tick_size = 1 / 10, ms_step_size = 1 / 1000, ms_min_notional = 5\<rparr>"

theorem entry_gate_exact_witness:
  "\<exists>g. evaluate_entry demo_candidate demo_context None = Inr g \<and> eg_approved g"
proof -
  have "is_ok (evaluate_entry demo_candidate demo_context None)"
    by (simp add: evaluate_entry_def Let_def)
  then obtain g where g: "evaluate_entry demo_candidate demo_context None = Inr g"
    by (auto simp: is_ok_iff)
  from entry_gate_exact [OF g] have "eg_approved g"
    by (simp add: entry_conditions_def demo_context_def demo_candidate_def research_candidate_def)
  with g show ?thesis by blast
qed

text \<open>
  Nothing is sent when nothing may be sent: a research candidate, a refused gate, or an
  engine that is not ACTIVE leaves the world untouched, whatever the adapter would do, and the
  result says that the intent was not submitted.
\<close>

theorem no_entry_without_permission:
  assumes "research_candidate c \<or> \<not> eg_approved g \<or> act \<noteq> EngineActivation.ACTIVE"
  shows "snd (execute_entry c g s a i q l act mg w) = w
    \<and> (\<forall>r. fst (execute_entry c g s a i q l act mg w) = Inr r \<longrightarrow>
         er_status r \<in> {EntryExecutionStatus.NOT_ATTEMPTED, EntryExecutionStatus.SHADOW_REHEARSED}
         \<and> er_intent_state r = V2IntentState.INTENT_CREATED \<and> \<not> position_projectable r)"
  using execute_entry_silent [OF assms, of s a i q l mg w]
  by (auto simp: position_projectable_def)

definition demo_gate :: EntryGateResult where
  "demo_gate = \<lparr>eg_decision = EntryDecision.APPROVED, eg_reason_code = DecisionReasonCode.OK,
     eg_blocks = [], eg_drift_bps = None, eg_drift_ceiling_bps = None\<rparr>"

definition no_guard :: margin_guard where
  "no_guard = \<lparr>mg_margin_equity = None, mg_max_margin_fraction = None, mg_enforce_margin_ceiling = False\<rparr>"

theorem no_entry_without_permission_witness:
  "snd (execute_entry demo_candidate demo_gate demo_market (scripted None [] (Inl ExchangeTimeout)) ''i1'' 1 3
      EngineActivation.SHADOW no_guard ()) = ()
   \<and> (EngineActivation.SHADOW \<noteq> EngineActivation.ACTIVE)"
  using no_entry_without_permission [of demo_candidate demo_gate EngineActivation.SHADOW demo_market
      "scripted None [] (Inl ExchangeTimeout)" "''i1''" 1 3 no_guard "()"] by simp

section \<open>What is sent, and what it proves\<close>

definition entry_side :: "TradeCandidate \<Rightarrow> string" where
  "entry_side c = (if tc_side c = ''LONG'' then ''buy'' else ''sell'')"

definition unwind_side :: "TradeCandidate \<Rightarrow> string" where
  "unwind_side c = (if tc_side c = ''LONG'' then ''sell'' else ''buy'')"

definition entry_command :: "string \<Rightarrow> dec \<Rightarrow> int \<Rightarrow> string \<Rightarrow> SubmitEntryToExchange" where
  "entry_command i n l cid =
     \<lparr>se_intent_id = i, se_quantity = n, se_leverage = l, se_client_order_id = cid\<rparr>"

text \<open>The conditions under which an order leaves the process, with its quantity and its id.\<close>

definition submits ::
    "TradeCandidate \<Rightarrow> EntryGateResult \<Rightarrow> PreSubmitMarketSnapshot \<Rightarrow> string \<Rightarrow> dec \<Rightarrow> EngineActivation \<Rightarrow>
     dec \<Rightarrow> string \<Rightarrow> bool" where
  "submits c g s i q act n cid \<longleftrightarrow> \<not> research_candidate c \<and> eg_approved g
     \<and> act = EngineActivation.ACTIVE \<and> round_quantity_to_step q (ms_step_size s) = Inr n \<and> 0 < n
     \<and> ms_min_notional s \<le> dmul n (ms_current_price s) \<and> entry_client_order_id i 1 = Inr cid"

lemma execute_entry_submits:
  assumes "submits c g s i q act n cid"
  shows "execute_entry c g s a i q l act mg w =
    (case submit_market_order a (entry_command i n l cid) (tc_symbol c) (entry_side c) w of
       (Inl e, w1) \<Rightarrow>
         (if e = ExchangeTimeout
          then (Inr (entry_result EntryExecutionStatus.UNKNOWN V2IntentState.EXCHANGE_UNKNOWN
                       cid DecisionReasonCode.EXCHANGE_UNKNOWN n), w1)
          else if e = BinanceAdapterUnavailable
          then (Inr (entry_result EntryExecutionStatus.REJECTED V2IntentState.REJECTED
                       cid DecisionReasonCode.EXCHANGE_UNAVAILABLE n), w1)
          else (Inl e, w1))
     | (Inr receipt, w1) \<Rightarrow> after_acknowledgement a c i cid n l mg receipt w1)"
  using assms by (simp add: execute_entry_def submits_def entry_command_def entry_side_def not_le not_less)

lemma execute_entry_not_submitted:
  assumes "\<nexists>n cid. submits c g s i q act n cid"
  shows "snd (execute_entry c g s a i q l act mg w) = w
    \<and> (\<forall>r. fst (execute_entry c g s a i q l act mg w) = Inr r \<longrightarrow>
         er_status r \<in> {EntryExecutionStatus.NOT_ATTEMPTED, EntryExecutionStatus.SHADOW_REHEARSED}
         \<and> er_intent_state r = V2IntentState.INTENT_CREATED)"
proof (cases "research_candidate c \<or> \<not> eg_approved g \<or> act \<noteq> EngineActivation.ACTIVE")
  case True
  show ?thesis using execute_entry_silent [OF True, of s a i q l mg w] by simp
next
  case go: False
  show ?thesis
  proof (cases "entry_client_order_id i 1")
    case cid: (Inr cid)
    show ?thesis
    proof (cases "round_quantity_to_step q (ms_step_size s)")
      case (Inr n)
      have "\<not> submits c g s i q act n cid" using assms by metis
      with go cid Inr have "n \<le> 0 \<or> dmul n (ms_current_price s) < ms_min_notional s"
        unfolding submits_def by linarith
      then show ?thesis
      proof
        assume "n \<le> 0"
        with go cid Inr show ?thesis by (simp add: execute_entry_def entry_result_def)
      next
        assume "dmul n (ms_current_price s) < ms_min_notional s"
        with go cid Inr show ?thesis
          by (cases "n \<le> 0") (simp_all add: execute_entry_def entry_result_def)
      qed
    qed (use go cid in \<open>simp add: execute_entry_def\<close>)
  qed (simp add: execute_entry_def)
qed

lemma margin_unwind_log:
  "snd (snd (margin_unwind (logged a) c i f (w, l))) = l
   \<or> (\<exists>cmd. snd (snd (margin_unwind (logged a) c i f (w, l))) = l @ [ReduceOnlyOrder cmd (tc_symbol c) (unwind_side c)]
        \<and> sr_reduce_quantity cmd = f)"
  by (auto simp: margin_unwind_def Let_def unwind_side_def split: sum.splits prod.splits)

text \<open>After the acknowledgement at most one more order is sent: the reduce-only unwind.\<close>

lemma after_acknowledgement_log:
  "snd (snd (after_acknowledgement (logged a) c i cid n lev mg rc (w, l))) = l
   \<or> (\<exists>cmd. snd (snd (after_acknowledgement (logged a) c i cid n lev mg rc (w, l)))
        = l @ [ReduceOnlyOrder cmd (tc_symbol c) (unwind_side c)])"
proof (cases "fst (fetch_fills a (tc_symbol c) (or_exchange_order_id rc) w)")
  case (Inl e)
  then show ?thesis by (simp add: after_acknowledgement_def)
next
  case (Inr fills)
  let ?w = "snd (fetch_fills a (tc_symbol c) (or_exchange_order_id rc) w)"
  obtain fq v tf ts t where ag: "aggregate_fills fills = (fq, v, tf, ts, t)" by (cases "aggregate_fills fills") auto
  show ?thesis
    using margin_unwind_log [of a c i fq ?w l] Inr ag
    by (auto simp: after_acknowledgement_def split: sum.splits prod.splits option.splits bool.splits)
qed

text \<open>
  C2.  At most one entry order is ever sent, the right one: either nothing reaches the
  exchange, or exactly one market order does, for the candidate's symbol and side, with the
  quantity floored to the step (positive and above the minimum notional) and the intent's own
  client order id, followed by nothing or by one reduce-only order on the opposite side; and
  then the gate had approved, the engine was ACTIVE and the candidate was no research
  candidate.
\<close>

theorem entry_sends_at_most_one_order:
  assumes "execute_entry c g s (logged a) i q lev act mg (w, []) = (r, (w', sent))"
  shows "sent = [] \<or> (\<exists>n cid. submits c g s i q act n cid
     \<and> (sent = [MarketOrder (entry_command i n lev cid) (tc_symbol c) (entry_side c)]
        \<or> (\<exists>cmd. sent = [MarketOrder (entry_command i n lev cid) (tc_symbol c) (entry_side c),
                           ReduceOnlyOrder cmd (tc_symbol c) (unwind_side c)])))"
proof (cases "\<exists>n cid. submits c g s i q act n cid")
  case True
  then obtain n cid where sub: "submits c g s i q act n cid" by metis
  let ?mo = "MarketOrder (entry_command i n lev cid) (tc_symbol c) (entry_side c)"
  let ?m = "submit_market_order a (entry_command i n lev cid) (tc_symbol c) (entry_side c) w"
  have "sent = [?mo] \<or> (\<exists>cmd. sent = [?mo, ReduceOnlyOrder cmd (tc_symbol c) (unwind_side c)])"
  proof (cases "fst ?m")
    case (Inl e)
    then show ?thesis using assms unfolding execute_entry_submits [OF sub] by (auto split: if_splits)
  next
    case (Inr rc)
    then show ?thesis using assms after_acknowledgement_log [of a c i cid n lev mg rc "snd ?m" "[?mo]"]
      unfolding execute_entry_submits [OF sub] by auto
  qed
  with sub show ?thesis by blast
next
  case False
  then show ?thesis using assms execute_entry_not_submitted [OF False, of "logged a" lev mg "(w, [])"] by simp
qed

lemma after_acknowledgement_result:
  assumes "after_acknowledgement a c i cid n lev mg rc w = (Inr r, w')"
  shows "er_client_order_id r = cid \<and> er_exchange_order_id r = Some (or_exchange_order_id rc)
    \<and> er_requested_quantity r = n \<and> er_fill_source r = ''BINANCE_USER_TRADE''
    \<and> (er_intent_state r = V2IntentState.FILLED \<longleftrightarrow>
         er_status r \<in> {EntryExecutionStatus.FILLED, EntryExecutionStatus.PARTIALLY_FILLED})
    \<and> (er_status r = EntryExecutionStatus.ACKNOWLEDGED_UNFILLED \<and>
          er_intent_state r = V2IntentState.EXCHANGE_ACKNOWLEDGED \<or>
       er_status r \<in> {EntryExecutionStatus.FILLED, EntryExecutionStatus.PARTIALLY_FILLED,
         EntryExecutionStatus.REJECTED} \<and>
       (\<exists>fills. fst (fetch_fills a (tc_symbol c) (or_exchange_order_id rc) w) = Inr fills
          \<and> er_filled_quantity r = dsum (map ef_filled_quantity fills)
          \<and> er_trade_ids r = map ef_trade_id fills \<and> er_trade_ids r \<noteq> [] \<and> 0 < er_filled_quantity r
          \<and> er_average_fill_price r = fst (snd (aggregate_fills fills))
          \<and> (er_status r = EntryExecutionStatus.FILLED \<longrightarrow> n \<le> er_filled_quantity r)
          \<and> (er_status r = EntryExecutionStatus.PARTIALLY_FILLED \<longrightarrow> er_filled_quantity r < n)))"
proof -
  let ?ff = "fetch_fills a (tc_symbol c) (or_exchange_order_id rc) w"
  obtain x w1 where ff: "?ff = (x, w1)" by (cases ?ff) auto
  show ?thesis
  proof (cases x)
    case (Inl e)
    with assms ff show ?thesis by (auto simp: after_acknowledgement_def entry_result_def split: if_splits)
  next
    case (Inr fills)
    obtain fq v tf ts t where ag: "aggregate_fills fills = (fq, v, tf, ts, t)"
      by (cases "aggregate_fills fills") auto
    have fq: "fq = dsum (map ef_filled_quantity fills)" "ts = map ef_trade_id fills"
      using aggregate_quantity [of fills] aggregate_trade_ids [of fills] ag by auto
    show ?thesis
      using assms ff Inr ag fq
      by (auto simp: after_acknowledgement_def entry_result_def
          split: option.splits if_splits sum.splits prod.splits bool.splits)
  qed
qed

text \<open>
  C7.  A position is projected only from exchange evidence: when the result is projectable, an
  order was acknowledged and the exchange reported fills of that very order; the result's
  quantity is the sum of those fills and never the requested one, its trade ids are theirs and
  there is at least one, its exchange order id is the acknowledged one, and its intent state is
  FILLED.
\<close>

theorem projection_needs_fills:
  assumes "execute_entry c g s a i q lev act mg w = (Inr r, w')" "position_projectable r"
  shows "\<exists>n cid rc w1 fills. submits c g s i q act n cid
    \<and> submit_market_order a (entry_command i n lev cid) (tc_symbol c) (entry_side c) w = (Inr rc, w1)
    \<and> fst (fetch_fills a (tc_symbol c) (or_exchange_order_id rc) w1) = Inr fills
    \<and> er_filled_quantity r = dsum (map ef_filled_quantity fills) \<and> 0 < er_filled_quantity r
    \<and> er_trade_ids r = map ef_trade_id fills \<and> fills \<noteq> []
    \<and> er_exchange_order_id r = Some (or_exchange_order_id rc) \<and> er_client_order_id r = cid
    \<and> er_intent_state r = V2IntentState.FILLED"
proof (cases "\<exists>n cid. submits c g s i q act n cid")
  case True
  then obtain n cid where sub: "submits c g s i q act n cid" by metis
  let ?m = "submit_market_order a (entry_command i n lev cid) (tc_symbol c) (entry_side c) w"
  obtain x w1 where m: "?m = (x, w1)" by (cases ?m) auto
  show ?thesis
  proof (cases x)
    case (Inl e)
    then show ?thesis using assms m unfolding execute_entry_submits [OF sub]
      by (auto simp: position_projectable_def entry_result_def split: if_splits)
  next
    case (Inr rc)
    then have "after_acknowledgement a c i cid n lev mg rc w1 = (Inr r, w')"
      using assms m unfolding execute_entry_submits [OF sub] by simp
    from after_acknowledgement_result [OF this] assms(2) m Inr sub show ?thesis
      by (fastforce simp: position_projectable_def)
  qed
next
  case False
  then show ?thesis
    using assms execute_entry_not_submitted [OF False, of a lev mg w]
    by (auto simp: position_projectable_def simp del: not_ex)
qed

text \<open>
  An order whose outcome is unknown is never sent again: when the submission times out the
  result is UNKNOWN under the same client order id, to be resolved by lookup; when the adapter
  is unavailable it is REJECTED; any other exception is passed on; and in all three cases the
  world is the one the failed call left, so no further call was made.
\<close>

theorem entry_failure_paths:
  assumes "submits c g s i q act n cid"
    and "submit_market_order a (entry_command i n lev cid) (tc_symbol c) (entry_side c) w = (Inl e, w1)"
  shows "snd (execute_entry c g s a i q lev act mg w) = w1
    \<and> (e = ExchangeTimeout \<longrightarrow> (\<exists>r. fst (execute_entry c g s a i q lev act mg w) = Inr r
         \<and> requires_client_order_id_recovery r \<and> er_intent_state r = V2IntentState.EXCHANGE_UNKNOWN
         \<and> er_client_order_id r = cid))
    \<and> (e = BinanceAdapterUnavailable \<longrightarrow> (\<exists>r. fst (execute_entry c g s a i q lev act mg w) = Inr r
         \<and> er_status r = EntryExecutionStatus.REJECTED \<and> er_client_order_id r = cid))
    \<and> (e \<notin> {ExchangeTimeout, BinanceAdapterUnavailable} \<longrightarrow>
         fst (execute_entry c g s a i q lev act mg w) = Inl e)"
  using assms(2) unfolding execute_entry_submits [OF assms(1)]
  by (auto simp: requires_client_order_id_recovery_def entry_result_def)

section \<open>Examples\<close>

lemma demo_submits:
  "submits demo_candidate demo_gate demo_market ''i1'' 1 EngineActivation.ACTIVE 1
     (''A2E-'' @ hash [''i1'', int_str 1] 20 @ ''-'' @ int_str 1)"
proof -
  have "round_quantity_to_step 1 (ms_step_size demo_market) = Inr 1" by code_simp
  moreover have "ms_min_notional demo_market \<le> dmul 1 (ms_current_price demo_market)" by code_simp
  ultimately show ?thesis
    by (simp add: submits_def entry_id_Inr demo_gate_def eg_approved_def research_candidate_def
        demo_candidate_def)
qed

lemma demo_fill_aggregate:
  "aggregate_fills [scripted_fill 1] = (1, Some 100, 0, [''t1''], Some 7)"
  by code_simp

lemma demo_entry_filled:
  "\<exists>r. execute_entry demo_candidate demo_gate demo_market (scripted None [scripted_fill 1] acc) ''i1'' 1 3
       EngineActivation.ACTIVE no_guard () = (Inr r, ()) \<and> position_projectable r \<and> er_filled_quantity r = 1"
  unfolding execute_entry_submits [OF demo_submits]
  by (simp add: after_acknowledgement_def demo_fill_aggregate over_margin_def no_guard_def
      position_projectable_def entry_result_def scripted_receipt_def)

theorem projection_needs_fills_witness:
  "\<exists>r. execute_entry demo_candidate demo_gate demo_market
         (scripted None [scripted_fill 1] (Inl ExchangeTimeout)) ''i1'' 1 3
         EngineActivation.ACTIVE no_guard () = (Inr r, ())
     \<and> position_projectable r \<and> er_trade_ids r = [''t1'']"
proof -
  let ?a = "scripted None [scripted_fill 1] (Inl ExchangeTimeout)"
  obtain r where r: "execute_entry demo_candidate demo_gate demo_market ?a ''i1'' 1 3
       EngineActivation.ACTIVE no_guard () = (Inr r, ())" "position_projectable r"
    using demo_entry_filled by blast
  with projection_needs_fills [OF r] show ?thesis by (auto simp: scripted_fill_def)
qed

theorem entry_failure_paths_witness:
  "snd (execute_entry demo_candidate demo_gate demo_market
          (scripted (Some ExchangeTimeout) [] (Inl ExchangeTimeout)) ''i1'' 1 3
          EngineActivation.ACTIVE no_guard ()) = ()
   \<and> (\<exists>r. fst (execute_entry demo_candidate demo_gate demo_market
          (scripted (Some ExchangeTimeout) [] (Inl ExchangeTimeout)) ''i1'' 1 3
          EngineActivation.ACTIVE no_guard ()) = Inr r \<and> requires_client_order_id_recovery r)"
  using entry_failure_paths [OF demo_submits, of "scripted (Some ExchangeTimeout) [] (Inl ExchangeTimeout)"
      3 "()" ExchangeTimeout "()" no_guard] by auto

theorem entry_sends_at_most_one_order_witness:
  "\<exists>r sent. execute_entry demo_candidate demo_gate demo_market
      (logged (scripted (Some ExchangeTimeout) [] (Inl ExchangeTimeout))) ''i1'' 1 3
      EngineActivation.ACTIVE no_guard ((), []) = (r, ((), sent)) \<and> length sent = 1"
proof -
  let ?x = "execute_entry demo_candidate demo_gate demo_market
      (logged (scripted (Some ExchangeTimeout) [] (Inl ExchangeTimeout))) ''i1'' 1 3
      EngineActivation.ACTIVE no_guard ((), [])"
  obtain r sent where x: "?x = (r, ((), sent))" by (cases ?x) auto
  have "length sent = 1" using x unfolding execute_entry_submits [OF demo_submits] by auto
  with x entry_sends_at_most_one_order [OF x] show ?thesis by blast
qed

text \<open>
  The post-fill margin guard swallows a failing unwind: the intent is then reported REJECTED
  although the filled quantity stays open at the exchange, with no order to reduce it.
\<close>

lemma margin_guard_can_leave_exposure:
  assumes "submits c g s i q act n cid"
    and "submit_market_order a (entry_command i n lev cid) (tc_symbol c) (entry_side c) w = (Inr rc, w1)"
    and "fetch_fills a (tc_symbol c) (or_exchange_order_id rc) w1 = (Inr fills, w2)"
    and "aggregate_fills fills = (fq, Some v, tf, ts, t)" "ts \<noteq> []" "0 < fq"
    and "over_margin mg fq v lev = Inr True"
    and "\<And>cmd sd. submit_reduce_only_exit a cmd (tc_symbol c) sd w2 = (Inl e, w3)"
  shows "\<exists>r. execute_entry c g s a i q lev act mg w = (Inr r, w3)
    \<and> er_status r = EntryExecutionStatus.REJECTED \<and> er_intent_state r = V2IntentState.REJECTED
    \<and> er_filled_quantity r = fq \<and> er_guard_exchange_order_id r = None \<and> \<not> position_projectable r"
proof -
  obtain gid where "exit_client_order_id (''margin-guard:'' @ i) 1 = Inr gid"
    by (simp add: exit_id_Inr)
  with assms show ?thesis unfolding execute_entry_submits [OF assms(1)]
    by (simp add: after_acknowledgement_def margin_unwind_def Let_def entry_result_def
        position_projectable_def)
qed

end
