(* ===== verification/Exit.thy ===== *)
theory Exit
  imports Client_Order_Id Exchange Enums
begin

text \<open>
  The reduce-only exit coordinator (\<open>application/exit_service.py\<close>): a gate of its own that knows
  nothing of the entry conditions, and the execution that closes a position locally only on
  what the exchange reports.  Detail texts are left out.
\<close>

section \<open>The gate\<close>

datatype ExitReason =
    HARD_STOP | TAKE_PROFIT | TIME_EXIT | STRATEGY_INVALIDATION | OPPOSITE_SIGNAL_CLOSE
  | PROTECTION_FAILURE_EMERGENCY | CANARY_MARGIN_CEILING | MANUAL_REDUCE_ONLY

definition is_hard_exit :: "ExitReason \<Rightarrow> bool" where
  "is_hard_exit r \<longleftrightarrow> r \<in> {ExitReason.HARD_STOP, ExitReason.PROTECTION_FAILURE_EMERGENCY,
     ExitReason.CANARY_MARGIN_CEILING, ExitReason.STRATEGY_INVALIDATION}"

fun exit_reason_value :: "ExitReason \<Rightarrow> string" where
  "exit_reason_value ExitReason.HARD_STOP = ''HARD_STOP''"
| "exit_reason_value ExitReason.TAKE_PROFIT = ''TAKE_PROFIT''"
| "exit_reason_value ExitReason.TIME_EXIT = ''TIME_EXIT''"
| "exit_reason_value ExitReason.STRATEGY_INVALIDATION = ''STRATEGY_INVALIDATION''"
| "exit_reason_value ExitReason.OPPOSITE_SIGNAL_CLOSE = ''OPPOSITE_SIGNAL_CLOSE''"
| "exit_reason_value ExitReason.PROTECTION_FAILURE_EMERGENCY = ''PROTECTION_FAILURE_EMERGENCY''"
| "exit_reason_value ExitReason.CANARY_MARGIN_CEILING = ''CANARY_MARGIN_CEILING''"
| "exit_reason_value ExitReason.MANUAL_REDUCE_ONLY = ''MANUAL_REDUCE_ONLY''"

datatype ExitBlockReason =
    NO_AUTHORITATIVE_POSITION | QUANTITY_NOT_POSITIVE | QUANTITY_ROUNDS_TO_ZERO
  | SIDE_WOULD_NOT_REDUCE | INVALID_FENCING_TOKEN | GATEWAY_UNAVAILABLE

datatype ExitVerdict = APPROVED | BLOCKED | ALREADY_FLAT

datatype ExitExecutionStatus =
    NOT_ATTEMPTED | CLOSED | PARTIALLY_REDUCED | ALREADY_FLAT_RECONCILED
  | SUBMITTED_UNCONFIRMED | UNKNOWN | FAILED

record ExitDecision =
  ed_verdict :: ExitVerdict
  ed_position_id :: string
  ed_symbol :: string
  ed_direction :: string
  ed_reason :: ExitReason
  ed_quantity :: dec
  ed_client_order_id :: string
  ed_reduce_only :: bool
  ed_block_reason :: "ExitBlockReason option"

definition mk_ExitDecision :: "ExitDecision \<Rightarrow> ExitDecision res" where
  "mk_ExitDecision d =
     guardR (\<not> ed_reduce_only d) (ValueError ''ExitDecision.reduce_only must be True'') (Inr d)"

definition ed_approved :: "ExitDecision \<Rightarrow> bool" where
  "ed_approved d \<longleftrightarrow> ed_verdict d = ExitVerdict.APPROVED"

definition exchange_side :: "ExitDecision \<Rightarrow> string" where
  "exchange_side d = (if ed_direction d = ''long'' then ''sell'' else ''buy'')"

record ExitExecutionResult =
  xr_status :: ExitExecutionStatus
  xr_position_state :: V2PositionState
  xr_client_order_id :: string
  xr_exchange_order_id :: "string option"
  xr_trade_ids :: "string list"
  xr_reduced_quantity :: dec
  xr_average_fill_price :: "dec option"
  xr_total_fee :: dec
  xr_remaining_quantity :: "dec option"
  xr_fill_timestamp :: "int option"
  xr_residual_protection_cancelled :: "string list"

definition exit_result :: "ExitExecutionStatus \<Rightarrow> V2PositionState \<Rightarrow> string \<Rightarrow> ExitExecutionResult" where
  "exit_result status position_state client_order_id = \<lparr>
     xr_status = status, xr_position_state = position_state, xr_client_order_id = client_order_id,
     xr_exchange_order_id = None, xr_trade_ids = [], xr_reduced_quantity = 0,
     xr_average_fill_price = None, xr_total_fee = 0, xr_remaining_quantity = None,
     xr_fill_timestamp = None, xr_residual_protection_cancelled = []\<rparr>"

definition position_closed :: "ExitExecutionResult \<Rightarrow> bool" where
  "position_closed r \<longleftrightarrow>
     xr_status r \<in> {ExitExecutionStatus.CLOSED, ExitExecutionStatus.ALREADY_FLAT_RECONCILED}
     \<and> xr_position_state r = V2PositionState.CLOSED"

definition exit_requires_recovery :: "ExitExecutionResult \<Rightarrow> bool" where
  "exit_requires_recovery r \<longleftrightarrow> xr_status r = ExitExecutionStatus.UNKNOWN"

definition floor_to_step :: "dec \<Rightarrow> dec \<Rightarrow> dec res" where
  "floor_to_step quantity step_size =
     guardR (step_size \<le> 0) (ValueError ''step_size must be > 0'')
       (Inr (dmul (to_integral_value ROUND_DOWN (ddiv quantity step_size)) step_size))"

definition evaluate_exit ::
    "string \<Rightarrow> string \<Rightarrow> string \<Rightarrow> ExitReason \<Rightarrow> dec \<Rightarrow> ExchangePositionSnapshot option \<Rightarrow> dec \<Rightarrow> int \<Rightarrow>
     bool option \<Rightarrow> bool \<Rightarrow> ExitDecision res" where
  "evaluate_exit position_id symbol direction reason requested_quantity authoritative_position
      step_size attempt fencing_token_valid gateway_available =
     bindR (exit_client_order_id position_id attempt) (\<lambda>client_order_id.
       let decision = (\<lambda>verdict quantity block_reason. mk_ExitDecision
             \<lparr>ed_verdict = verdict, ed_position_id = position_id, ed_symbol = symbol,
              ed_direction = direction, ed_reason = reason, ed_quantity = quantity,
              ed_client_order_id = client_order_id, ed_reduce_only = True,
              ed_block_reason = block_reason\<rparr>);
           blocked = (\<lambda>r. decision ExitVerdict.BLOCKED 0 (Some r))
       in if fencing_token_valid \<noteq> Some True then blocked ExitBlockReason.INVALID_FENCING_TOKEN
          else if \<not> gateway_available then blocked ExitBlockReason.GATEWAY_UNAVAILABLE
          else (case authoritative_position of
             None \<Rightarrow> decision ExitVerdict.ALREADY_FLAT 0 None
           | Some p \<Rightarrow>
              if xp_quantity p \<le> 0 then decision ExitVerdict.ALREADY_FLAT 0 None
              else if xp_direction p \<noteq> direction then blocked ExitBlockReason.SIDE_WOULD_NOT_REDUCE
              else if requested_quantity \<le> 0 then blocked ExitBlockReason.QUANTITY_NOT_POSITIVE
              else bindR (floor_to_step (min requested_quantity (xp_quantity p)) step_size) (\<lambda>quantity.
                     if quantity \<le> 0 then blocked ExitBlockReason.QUANTITY_ROUNDS_TO_ZERO
                     else decision ExitVerdict.APPROVED quantity None)))"

section \<open>Execution\<close>

primrec cancel_protection :: "string list \<Rightarrow> string \<Rightarrow> 'w adapter \<Rightarrow> 'w \<Rightarrow> 'w" where
  "cancel_protection [] symbol adapter w = w"
| "cancel_protection (x # xs) symbol adapter w =
     cancel_protection xs symbol adapter (snd (cancel_order adapter symbol x w))"

definition still_open_in :: "AuthoritativeAccountSnapshot \<Rightarrow> string \<Rightarrow> string \<Rightarrow> bool" where
  "still_open_in snapshot symbol direction =
     list_ex (\<lambda>p. xp_symbol p = symbol \<and> xp_direction p = direction \<and> xp_quantity p > 0)
       (as_positions snapshot)"

text \<open>The handler of the exchange's already-flat rejection: an unreadable account counts as flat.\<close>

definition on_already_flat ::
    "ExitDecision \<Rightarrow> 'w adapter \<Rightarrow> string list \<Rightarrow> 'w \<Rightarrow> ExitExecutionResult res \<times> 'w" where
  "on_already_flat decision adapter open_protection_order_ids w =
     (let (r, w1) = fetch_authoritative_snapshot adapter w;
          still_open = (case r of Inl _ \<Rightarrow> False
                        | Inr s \<Rightarrow> still_open_in s (ed_symbol decision) (ed_direction decision))
      in if \<not> still_open
         then (Inr ((exit_result ExitExecutionStatus.ALREADY_FLAT_RECONCILED V2PositionState.CLOSED
                      (ed_client_order_id decision))
                    \<lparr>xr_residual_protection_cancelled := open_protection_order_ids\<rparr>),
               cancel_protection open_protection_order_ids (ed_symbol decision) adapter w1)
         else (Inr (exit_result ExitExecutionStatus.SUBMITTED_UNCONFIRMED V2PositionState.REDUCING
                      (ed_client_order_id decision)), w1))"

text \<open>After the exchange acknowledged the exit order.\<close>

definition after_exit_acknowledged ::
    "ExitDecision \<Rightarrow> 'w adapter \<Rightarrow> dec \<Rightarrow> dec \<Rightarrow> string list \<Rightarrow> ExchangeOrderReceipt \<Rightarrow> 'w \<Rightarrow>
     ExitExecutionResult res \<times> 'w" where
  "after_exit_acknowledged decision adapter authoritative_quantity step_size
      open_protection_order_ids receipt w =
     (let unconfirmed = (exit_result ExitExecutionStatus.SUBMITTED_UNCONFIRMED V2PositionState.REDUCING
             (ed_client_order_id decision))\<lparr>xr_exchange_order_id := Some (or_exchange_order_id receipt)\<rparr>
      in case fetch_fills adapter (ed_symbol decision) (or_exchange_order_id receipt) w of
        (Inl e, w1) \<Rightarrow>
          (if e = BinanceAdapterUnavailable \<or> e = ExitTimeout then (Inr unconfirmed, w1) else (Inl e, w1))
      | (Inr fills, w1) \<Rightarrow>
          (case aggregate_fills fills of (reduced_qty, vwap, total_fee, trade_ids, fill_ts) \<Rightarrow>
             if trade_ids = [] \<or> reduced_qty \<le> 0 then (Inr unconfirmed, w1)
             else
               (case floor_to_step (max 0 (dsub authoritative_quantity reduced_qty)) step_size of
                  Inl e \<Rightarrow> (Inl e, w1)
                | Inr remaining_floored \<Rightarrow>
                   if remaining_floored \<le> 0
                   then (Inr ((exit_result ExitExecutionStatus.CLOSED V2PositionState.CLOSED
                                (ed_client_order_id decision))
                              \<lparr>xr_exchange_order_id := Some (or_exchange_order_id receipt),
                               xr_trade_ids := trade_ids, xr_reduced_quantity := reduced_qty,
                               xr_average_fill_price := vwap, xr_total_fee := total_fee,
                               xr_remaining_quantity := Some 0, xr_fill_timestamp := fill_ts,
                               xr_residual_protection_cancelled := open_protection_order_ids\<rparr>),
                         cancel_protection open_protection_order_ids (ed_symbol decision) adapter w1)
                   else (Inr ((exit_result ExitExecutionStatus.PARTIALLY_REDUCED V2PositionState.REDUCING
                                (ed_client_order_id decision))
                              \<lparr>xr_exchange_order_id := Some (or_exchange_order_id receipt),
                               xr_trade_ids := trade_ids, xr_reduced_quantity := reduced_qty,
                               xr_average_fill_price := vwap, xr_total_fee := total_fee,
                               xr_remaining_quantity := Some remaining_floored,
                               xr_fill_timestamp := fill_ts\<rparr>), w1))))"

definition exit_command :: "ExitDecision \<Rightarrow> SubmitReduceOnlyExit" where
  "exit_command decision = \<lparr>sr_position_id = ed_position_id decision,
     sr_exit_reason = exit_reason_value (ed_reason decision),
     sr_reduce_quantity = ed_quantity decision, sr_client_order_id = ed_client_order_id decision,
     sr_is_emergency = is_hard_exit (ed_reason decision)\<rparr>"

definition execute_reduce_only_exit ::
    "ExitDecision \<Rightarrow> 'w adapter \<Rightarrow> dec \<Rightarrow> dec \<Rightarrow> string list \<Rightarrow> 'w \<Rightarrow> ExitExecutionResult res \<times> 'w" where
  "execute_reduce_only_exit decision adapter authoritative_quantity step_size open_protection_order_ids w =
     (if \<not> ed_approved decision \<and> ed_verdict decision \<noteq> ExitVerdict.ALREADY_FLAT
      then (Inr (exit_result ExitExecutionStatus.NOT_ATTEMPTED V2PositionState.REDUCING
                   (ed_client_order_id decision)), w)
      else if ed_verdict decision = ExitVerdict.ALREADY_FLAT
      then (Inr (exit_result ExitExecutionStatus.ALREADY_FLAT_RECONCILED V2PositionState.CLOSED
                   (ed_client_order_id decision)), w)
      else
       (case submit_reduce_only_exit adapter (exit_command decision) (ed_symbol decision)
               (exchange_side decision) w of
          (Inl e, w1) \<Rightarrow>
            (if e = ReduceOnlyAlreadyFlat
             then on_already_flat decision adapter open_protection_order_ids w1
             else if e = ExitTimeout
             then (Inr (exit_result ExitExecutionStatus.UNKNOWN V2PositionState.REDUCING
                          (ed_client_order_id decision)), w1)
             else if e = BinanceAdapterUnavailable
             then (Inr (exit_result ExitExecutionStatus.FAILED V2PositionState.REDUCING
                          (ed_client_order_id decision)), w1)
             else (Inl e, w1))
        | (Inr receipt, w1) \<Rightarrow>
            after_exit_acknowledged decision adapter authoritative_quantity step_size
              open_protection_order_ids receipt w1))"

section \<open>Facts\<close>

lemma mk_ExitDecision_True [simp]: "ed_reduce_only d \<Longrightarrow> mk_ExitDecision d = Inr d"
  by (simp add: mk_ExitDecision_def)

lemma floor_to_step_exact:
  assumes "scaled k q" "scaled k s" "0 \<le> q" "0 < s"
  shows "floor_to_step q s = Inr (of_int \<lfloor>q / s\<rfloor> * s)"
  using floor_steps_exact(1) [OF assms] assms by (simp add: floor_to_step_def)

lemma evaluate_exit_approved:
  assumes "evaluate_exit pid symb dr rsn rq ap st att fv ga = Inr d"
  shows "ed_approved d \<longleftrightarrow> fv = Some True \<and> ga \<and>
    (\<exists>p q. ap = Some p \<and> 0 < xp_quantity p \<and> xp_direction p = dr \<and> 0 < rq
       \<and> floor_to_step (min rq (xp_quantity p)) st = Inr q \<and> 0 < q \<and> ed_quantity d = q)"
  using assms
  by (auto simp: evaluate_exit_def Let_def bindR_Inr_iff ed_approved_def split: if_splits option.splits)

lemma evaluate_exit_fields:
  assumes "evaluate_exit pid symb dr rsn rq ap st att fv ga = Inr d"
  shows "ed_reduce_only d \<and> ed_position_id d = pid \<and> ed_symbol d = symb \<and> ed_direction d = dr
    \<and> ed_reason d = rsn \<and> exit_client_order_id pid att = Inr (ed_client_order_id d)"
  using assms
  by (auto simp: evaluate_exit_def Let_def bindR_Inr_iff split: if_splits option.splits)

lemma cancel_protection_log:
  "snd (cancel_protection xs s (logged a) (w, l)) = l @ map (CancelOrder s) xs"
  by (induction xs arbitrary: w l) simp_all

section \<open>Properties\<close>

text \<open>
  The exit gate depends only on what makes a reduce-only order safe: it approves exactly
  when the writer's token is valid, the gateway is callable, the exchange holds an open position
  of the same direction, the request is positive and does not floor to zero.  Every decision it
  makes, approved or not, is reduce-only and under the position's deterministic client id.
\<close>

theorem exit_gate_exact:
  assumes "evaluate_exit pid symb dr rsn rq ap st att fv ga = Inr d"
  shows "(ed_approved d \<longleftrightarrow> fv = Some True \<and> ga \<and>
      (\<exists>p q. ap = Some p \<and> 0 < xp_quantity p \<and> xp_direction p = dr \<and> 0 < rq
         \<and> floor_to_step (min rq (xp_quantity p)) st = Inr q \<and> 0 < q \<and> ed_quantity d = q))
    \<and> ed_reduce_only d \<and> ed_symbol d = symb
    \<and> exit_client_order_id pid att = Inr (ed_client_order_id d)"
  using evaluate_exit_approved [OF assms] evaluate_exit_fields [OF assms] by blast

text \<open>
  C4.  An exit never asks for more than there is: for quantities with a common number of
  decimals, an approved exit is positive, at most the request and at most the exchange's
  position, and falls short of the smaller of the two by less than one step.
\<close>

theorem exit_quantity_bounded:
  assumes "evaluate_exit pid symb dr rsn rq (Some p) st att fv ga = Inr d" "ed_approved d"
    and "scaled k rq" "scaled k (xp_quantity p)" "scaled k st" "0 < st"
  shows "0 < ed_quantity d \<and> ed_quantity d \<le> rq \<and> ed_quantity d \<le> xp_quantity p
    \<and> min rq (xp_quantity p) < ed_quantity d + st"
proof -
  let ?m = "min rq (xp_quantity p)"
  have a: "0 < xp_quantity p" "0 < rq" "floor_to_step ?m st = Inr (ed_quantity d)" "0 < ed_quantity d"
    using evaluate_exit_approved [OF assms(1)] assms(2) by auto
  have m: "scaled k ?m" "0 \<le> ?m" using assms a by (auto simp: min_def)
  have "ed_quantity d = of_int \<lfloor>?m / st\<rfloor> * st"
    using a(3) floor_to_step_exact [OF m(1) assms(5) m(2) assms(6)] by simp
  with floor_steps_exact(2,3) [OF m(1) assms(5) m(2) assms(6)] a(4) show ?thesis by simp
qed

text \<open>
  C29.  The exit coordinator can only reduce: what it sends is nothing, or one reduce-only order
  for the decided symbol, side, quantity and client id, followed by nothing or by cancellations
  of the given protection orders; it never sends an entry order or places protection.
\<close>

theorem exit_only_reduces:
  assumes "execute_reduce_only_exit d (logged a) aq st pids (w, []) = (r, (w', sent))"
  shows "sent = [] \<or> (ed_approved d \<and>
     (sent = [ReduceOnlyOrder (exit_command d) (ed_symbol d) (exchange_side d)]
      \<or> sent = ReduceOnlyOrder (exit_command d) (ed_symbol d) (exchange_side d)
               # map (CancelOrder (ed_symbol d)) pids))"
proof -
  let ?ro = "ReduceOnlyOrder (exit_command d) (ed_symbol d) (exchange_side d)"
  let ?m = "submit_reduce_only_exit a (exit_command d) (ed_symbol d) (exchange_side d) w"
  show ?thesis
  proof (cases "fst ?m")
    case (Inl e)
    show ?thesis
      using assms Inl cancel_protection_log [of pids "ed_symbol d" a _ "[?ro]"]
      by (auto simp: execute_reduce_only_exit_def on_already_flat_def Let_def split: if_splits)
        (metis snd_conv append_Cons append_Nil)+
  next
    case (Inr rc)
    show ?thesis
      using assms Inr cancel_protection_log [of pids "ed_symbol d" a _ "[?ro]"]
      by (auto simp: execute_reduce_only_exit_def after_exit_acknowledged_def Let_def
          split: if_splits sum.splits prod.splits) (metis snd_conv append_Cons append_Nil)+
  qed
qed

text \<open>
  A position is closed locally only on what the exchange said: the exchange had no position
  to begin with; or it rejected the order as already flat and a fresh account reading does not
  contradict it; or it reported fills of this very order, at least one, that leave less than
  one step of the position.  In every other case the local state stays REDUCING.  The second
  case includes an account that could not be read, which the code takes for flat.
\<close>

theorem exit_closed_evidence:
  assumes "execute_reduce_only_exit d a aq st pids w = (Inr r, w')"
  shows "(position_closed r \<longrightarrow>
      ed_verdict d = ExitVerdict.ALREADY_FLAT
      \<or> (\<exists>w1. submit_reduce_only_exit a (exit_command d) (ed_symbol d) (exchange_side d) w
                = (Inl ReduceOnlyAlreadyFlat, w1)
          \<and> (\<forall>s. fst (fetch_authoritative_snapshot a w1) = Inr s \<longrightarrow>
                \<not> still_open_in s (ed_symbol d) (ed_direction d)))
      \<or> (\<exists>rc w1 fills q. submit_reduce_only_exit a (exit_command d) (ed_symbol d) (exchange_side d) w
                = (Inr rc, w1)
          \<and> fst (fetch_fills a (ed_symbol d) (or_exchange_order_id rc) w1) = Inr fills \<and> fills \<noteq> []
          \<and> xr_reduced_quantity r = dsum (map ef_filled_quantity fills) \<and> 0 < xr_reduced_quantity r
          \<and> floor_to_step (max 0 (dsub aq (xr_reduced_quantity r))) st = Inr q \<and> q \<le> 0))
    \<and> (\<not> position_closed r \<longrightarrow> xr_position_state r = V2PositionState.REDUCING)"
proof -
  let ?m = "submit_reduce_only_exit a (exit_command d) (ed_symbol d) (exchange_side d) w"
  obtain x w1 where m: "?m = (x, w1)" by (cases ?m) auto
  show ?thesis
  proof (cases x)
    case (Inl e)
    show ?thesis
      using assms m Inl
      by (auto simp: execute_reduce_only_exit_def on_already_flat_def Let_def exit_result_def
          position_closed_def split: if_splits sum.splits prod.splits)
  next
    case (Inr rc)
    let ?ff = "fetch_fills a (ed_symbol d) (or_exchange_order_id rc) w1"
    obtain y w2 where ff: "?ff = (y, w2)" by (cases ?ff) auto
    show ?thesis
    proof (cases y)
      case (Inl e)
      show ?thesis
        using assms m Inr ff Inl
        by (auto simp: execute_reduce_only_exit_def after_exit_acknowledged_def Let_def exit_result_def
            position_closed_def split: if_splits)
    next
      case fills: (Inr fills)
      obtain fq v tf ts t where ag: "aggregate_fills fills = (fq, v, tf, ts, t)"
        by (cases "aggregate_fills fills") auto
      have fq: "fq = dsum (map ef_filled_quantity fills)" "ts = map ef_trade_id fills"
        using aggregate_quantity [of fills] aggregate_trade_ids [of fills] ag by auto
      show ?thesis
        using assms m Inr ff fills ag fq
        by (auto simp: execute_reduce_only_exit_def after_exit_acknowledged_def Let_def exit_result_def
            position_closed_def split: if_splits sum.splits)
    qed
  qed
qed

text \<open>An unreadable account after an already-flat rejection closes the position locally.\<close>

lemma exit_assumes_flat_when_unreadable:
  assumes "ed_approved d"
    and "submit_reduce_only_exit a (exit_command d) (ed_symbol d) (exchange_side d) w = (Inl ReduceOnlyAlreadyFlat, w1)"
    and "fst (fetch_authoritative_snapshot a w1) = Inl e"
  shows "\<exists>r. fst (execute_reduce_only_exit d a aq st pids w) = Inr r \<and> position_closed r"
  using assms by (auto simp: execute_reduce_only_exit_def on_already_flat_def ed_approved_def Let_def
      exit_result_def position_closed_def split: prod.splits)

section \<open>Examples\<close>

definition demo_held :: ExchangePositionSnapshot where
  "demo_held = \<lparr>xp_symbol = ''BTC/USDT'', xp_direction = ''long'', xp_quantity = 2, xp_entry_price = 100,
     xp_mark_price = 100, xp_unrealized_pnl = 0, xp_leverage = None\<rparr>"

definition demo_exit :: ExitDecision where
  "demo_exit = \<lparr>ed_verdict = ExitVerdict.APPROVED, ed_position_id = ''p1'', ed_symbol = ''BTC/USDT'',
     ed_direction = ''long'', ed_reason = ExitReason.HARD_STOP, ed_quantity = 2,
     ed_client_order_id = ''A2X-'' @ hash [''p1'', int_str 1] 20 @ ''-'' @ int_str 1,
     ed_reduce_only = True, ed_block_reason = None\<rparr>"

lemma demo_exit_evaluated:
  "evaluate_exit ''p1'' ''BTC/USDT'' ''long'' ExitReason.HARD_STOP 5 (Some demo_held) (1 / 1000) 1 (Some True) True
   = Inr demo_exit"
proof -
  have f: "floor_to_step 2 (1 / 1000) = Inr 2" by code_simp
  have c: "exit_client_order_id ''p1'' 1 = Inr (''A2X-'' @ hash [''p1'', int_str 1] 20 @ ''-'' @ int_str 1)"
    by (simp add: exit_id_Inr)
  show ?thesis unfolding evaluate_exit_def c demo_exit_def
    using f by (simp add: demo_held_def Let_def)
qed

lemma demo_scaled: "scaled 3 5" "scaled 3 2" "scaled 3 (1 / 1000)"
  unfolding scaled_def by (rule exI [of _ 5000], simp, rule exI [of _ 2000], simp, rule exI [of _ 1], simp)

theorem exit_gate_exact_witness: "ed_approved demo_exit \<and> ed_reduce_only demo_exit"
  using exit_gate_exact [OF demo_exit_evaluated] by (simp add: ed_approved_def demo_exit_def)

theorem exit_quantity_bounded_witness: "0 < ed_quantity demo_exit \<and> ed_quantity demo_exit \<le> xp_quantity demo_held"
  using exit_quantity_bounded [OF demo_exit_evaluated _ demo_scaled(1) _ demo_scaled(3)] demo_scaled(2)
  by (simp add: ed_approved_def demo_exit_def demo_held_def)

theorem exit_only_reduces_witness:
  "\<exists>r sent. execute_reduce_only_exit demo_exit (logged (scripted (Some ExitTimeout) [] (Inl ExitTimeout))) 2
      (1 / 1000) [''88''] ((), []) = (r, ((), sent)) \<and> length sent = 1"
proof -
  let ?x = "execute_reduce_only_exit demo_exit (logged (scripted (Some ExitTimeout) [] (Inl ExitTimeout))) 2
      (1 / 1000) [''88''] ((), [])"
  obtain r sent where x: "?x = (r, ((), sent))" by (cases ?x) auto
  have "length sent = 1" using x by (auto simp: execute_reduce_only_exit_def demo_exit_def ed_approved_def)
  with x exit_only_reduces [OF x] show ?thesis by blast
qed

theorem exit_closed_evidence_witness:
  "\<exists>r. execute_reduce_only_exit demo_exit (scripted None [scripted_fill 2] (Inl ExitTimeout)) 2
      (1 / 1000) [] () = (Inr r, ()) \<and> position_closed r"
proof -
  have ag: "aggregate_fills [scripted_fill 2] = (2, Some 100, 0, [''t1''], Some 7)" by code_simp
  have fl: "floor_to_step 0 (1 / 1000) = Inr 0" by code_simp
  obtain r where r: "execute_reduce_only_exit demo_exit (scripted None [scripted_fill 2] (Inl ExitTimeout)) 2
      (1 / 1000) [] () = (Inr r, ())" and st: "xr_position_state r = V2PositionState.CLOSED"
    by (simp add: execute_reduce_only_exit_def after_exit_acknowledged_def demo_exit_def ed_approved_def ag fl
        exit_result_def Let_def)
  from exit_closed_evidence [OF r] st have "position_closed r" by auto
  with r show ?thesis by blast
qed

end
