(* ===== verification/Protection.thy ===== *)
theory Protection
  imports Candidates Client_Order_Id Exchange
begin

text \<open>
  The protection coordinator (\<open>application/protection_service.py\<close>): absolute stop and target
  prices from a real fill, rounded to the tick on the safer side, and the escalation ladder
  that ends in an acknowledged stop, a position that is flat, or a blocked account.  Detail
  texts are left out.
\<close>

section \<open>Plans\<close>

datatype ProtectionOutcome =
    ACTIVE | ALREADY_FLAT | UNKNOWN | EMERGENCY_CLOSED | EMERGENCY_CLOSE_PENDING

datatype ProtectionFailureAction =
    RETRIED_SUBMISSION | EMERGENCY_REDUCE_ONLY_CLOSE | ACCOUNT_ENTRY_BLOCK | HIGH_PRIORITY_ALERT

record ProtectionPlan =
  pp_position_id :: string
  pp_symbol :: string
  pp_direction :: string
  pp_quantity :: dec
  pp_average_fill_price :: dec
  pp_stop_price :: dec
  pp_take_profit_price :: "dec option"
  pp_stop_client_order_id :: string
  pp_tp_client_order_id :: "string option"
  pp_attempt :: int

definition mk_ProtectionPlan :: "ProtectionPlan \<Rightarrow> ProtectionPlan res" where
  "mk_ProtectionPlan p =
     guardR (pp_quantity p \<le> 0) (ValueError ''protection quantity must be > 0'') (
     guardR (pp_stop_price p \<le> 0) (ValueError ''stop price must be > 0'') (
     if pp_direction p = ''long'' then
       guardR (\<not> pp_stop_price p < pp_average_fill_price p) (ValueError ''long stop must be below fill'') (
       guardR (case pp_take_profit_price p of None \<Rightarrow> False | Some t \<Rightarrow> \<not> pp_average_fill_price p < t)
         (ValueError ''long take-profit must be above fill'') (Inr p))
     else if pp_direction p = ''short'' then
       guardR (\<not> pp_stop_price p > pp_average_fill_price p) (ValueError ''short stop must be above fill'') (
       guardR (case pp_take_profit_price p of None \<Rightarrow> False | Some t \<Rightarrow> \<not> pp_average_fill_price p > t)
         (ValueError ''short take-profit must be below fill'') (Inr p))
     else Inl (ValueError ''direction must be long or short'')))"

definition protection_side :: "ProtectionPlan \<Rightarrow> string" where
  "protection_side p = (if pp_direction p = ''long'' then ''sell'' else ''buy'')"

record ProtectionResult =
  pe_outcome :: ProtectionOutcome
  pe_state :: V2ProtectionState
  pe_stop_exchange_order_id :: "string option"
  pe_tp_exchange_order_id :: "string option"
  pe_actions :: "ProtectionFailureAction list"
  pe_account_entry_blocked :: bool
  pe_attempts :: int

definition is_active :: "ProtectionResult \<Rightarrow> bool" where
  "is_active r \<longleftrightarrow> pe_state r = V2ProtectionState.PROTECTION_ACTIVE
     \<and> (\<exists>x. pe_stop_exchange_order_id r = Some x \<and> x \<noteq> [])"

lemma is_active_code [code]:
  "is_active r \<longleftrightarrow> pe_state r = V2ProtectionState.PROTECTION_ACTIVE
     \<and> (case pe_stop_exchange_order_id r of None \<Rightarrow> False | Some x \<Rightarrow> x \<noteq> [])"
  by (auto simp: is_active_def split: option.splits)

definition requires_manual_intervention :: "ProtectionResult \<Rightarrow> bool" where
  "requires_manual_intervention r \<longleftrightarrow> pe_outcome r = ProtectionOutcome.EMERGENCY_CLOSE_PENDING"

definition round_to_tick :: "dec \<Rightarrow> dec \<Rightarrow> string \<Rightarrow> string \<Rightarrow> dec res" where
  "round_to_tick price tick_size dir leg =
     guardR (tick_size \<le> 0) (ValueError ''tick_size must be > 0'')
       (bindR (if leg = ''stop'' then Inr (if dir = ''long'' then ROUND_CEILING else ROUND_FLOOR)
               else if leg = ''target'' then Inr (if dir = ''long'' then ROUND_FLOOR else ROUND_CEILING)
               else Inl (ValueError ''leg must be stop or target''))
         (\<lambda>rounding. Inr (dmul (to_integral_value rounding (ddiv price tick_size)) tick_size)))"

definition build_protection_plan ::
    "string \<Rightarrow> TradeCandidate \<Rightarrow> dec \<Rightarrow> dec \<Rightarrow> dec \<Rightarrow> int \<Rightarrow> ProtectionPlan res" where
  "build_protection_plan position_id candidate average_fill_price filled_quantity tick_size attempt =
     guardR (average_fill_price \<le> 0) (ValueError ''average_fill_price must be > 0'') (
     guardR (filled_quantity \<le> 0) (ValueError ''filled_quantity must be > 0'') (
     bindR (resolve_protection_prices candidate average_fill_price) (\<lambda>(raw_stop, raw_target).
       let dir = direction candidate in
       bindR (round_to_tick raw_stop tick_size dir ''stop'') (\<lambda>stop_price.
       bindR (case raw_target of None \<Rightarrow> Inr None
              | Some t \<Rightarrow> bindR (round_to_tick t tick_size dir ''target'') (\<lambda>x. Inr (Some x)))
         (\<lambda>take_profit_price.
       bindR (stop_client_order_id position_id attempt) (\<lambda>stop_id.
       bindR (if truthy_dec take_profit_price \<noteq> None
              then bindR (target_client_order_id position_id attempt) (\<lambda>x. Inr (Some x)) else Inr None)
         (\<lambda>tp_id.
       mk_ProtectionPlan \<lparr>pp_position_id = position_id, pp_symbol = tc_symbol candidate,
         pp_direction = dir, pp_quantity = filled_quantity, pp_average_fill_price = average_fill_price,
         pp_stop_price = stop_price, pp_take_profit_price = take_profit_price,
         pp_stop_client_order_id = stop_id, pp_tp_client_order_id = tp_id,
         pp_attempt = attempt\<rparr>)))))))"

section \<open>The escalation ladder\<close>

definition quantity_in :: "AuthoritativeAccountSnapshot \<Rightarrow> string \<Rightarrow> string \<Rightarrow> dec" where
  "quantity_in snapshot symbol dir =
     (case List.find (\<lambda>p. xp_symbol p = symbol \<and> xp_direction p = dir) (as_positions snapshot) of
        None \<Rightarrow> 0 | Some p \<Rightarrow> xp_quantity p)"

definition exchange_quantity_for :: "'w adapter \<Rightarrow> string \<Rightarrow> string \<Rightarrow> ('w, dec) call" where
  "exchange_quantity_for adapter symbol dir w =
     (case fetch_authoritative_snapshot adapter w of
        (Inl e, w1) \<Rightarrow> (Inl e, w1)
      | (Inr snapshot, w1) \<Rightarrow> (Inr (quantity_in snapshot symbol dir), w1))"

definition protection_result ::
    "ProtectionOutcome \<Rightarrow> V2ProtectionState \<Rightarrow> ProtectionFailureAction list \<Rightarrow> bool \<Rightarrow> int \<Rightarrow> ProtectionResult" where
  "protection_result oc st actions blocked attempts = \<lparr>pe_outcome = oc, pe_state = st,
     pe_stop_exchange_order_id = None, pe_tp_exchange_order_id = None, pe_actions = actions,
     pe_account_entry_blocked = blocked, pe_attempts = attempts\<rparr>"

definition emergency_command :: "ProtectionPlan \<Rightarrow> string \<Rightarrow> SubmitReduceOnlyExit" where
  "emergency_command plan cid = \<lparr>sr_position_id = pp_position_id plan,
     sr_exit_reason = ''PROTECTION_FAILED_EMERGENCY_CLOSE'', sr_reduce_quantity = pp_quantity plan,
     sr_client_order_id = cid, sr_is_emergency = True\<rparr>"

text \<open>The verification against exchange truth, whatever the close call reported.\<close>

definition verify_emergency_close ::
    "ProtectionPlan \<Rightarrow> 'w adapter \<Rightarrow> ProtectionFailureAction list \<Rightarrow> int \<Rightarrow> 'w \<Rightarrow> ProtectionResult res \<times> 'w" where
  "verify_emergency_close plan adapter actions attempts w =
     (let pending = protection_result ProtectionOutcome.EMERGENCY_CLOSE_PENDING
            V2ProtectionState.PROTECTION_FAILED
            (actions @ [ProtectionFailureAction.ACCOUNT_ENTRY_BLOCK,
                        ProtectionFailureAction.HIGH_PRIORITY_ALERT]) True attempts
      in case exchange_quantity_for adapter (pp_symbol plan) (pp_direction plan) w of
           (Inl e, w1) \<Rightarrow> (Inr pending, w1)
         | (Inr live_quantity, w1) \<Rightarrow>
             if live_quantity \<le> 0
             then (Inr (protection_result ProtectionOutcome.EMERGENCY_CLOSED
                     V2ProtectionState.PROTECTION_CANCELLED actions False attempts), w1)
             else (Inr pending, w1))"

definition escalate_emergency ::
    "ProtectionPlan \<Rightarrow> 'w adapter \<Rightarrow> ProtectionFailureAction list \<Rightarrow> int \<Rightarrow> 'w \<Rightarrow> ProtectionResult res \<times> 'w" where
  "escalate_emergency plan adapter actions attempts w =
     (let actions1 = actions @ [ProtectionFailureAction.EMERGENCY_REDUCE_ONLY_CLOSE]
      in case exit_client_order_id (pp_position_id plan) (pp_attempt plan) of
           Inl e \<Rightarrow> (Inl e, w)
         | Inr cid \<Rightarrow>
            (case submit_reduce_only_exit adapter (emergency_command plan cid) (pp_symbol plan)
                    (protection_side plan) w of
               (Inl e, w1) \<Rightarrow>
                 (if e \<in> {ProtectionTimeout, ProtectionSubmissionError, BinanceAdapterUnavailable}
                  then verify_emergency_close plan adapter actions1 attempts w1
                  else (Inl e, w1))
             | (Inr _, w1) \<Rightarrow> verify_emergency_close plan adapter actions1 attempts w1))"

definition protection_command :: "ProtectionPlan \<Rightarrow> SubmitProtectionOrders" where
  "protection_command p = \<lparr>sp_position_id = pp_position_id p, sp_stop_loss_price = pp_stop_price p,
     sp_take_profit_price = pp_take_profit_price p, sp_stop_client_order_id = pp_stop_client_order_id p,
     sp_tp_client_order_id = pp_tp_client_order_id p\<rparr>"

text \<open>The plan of the next attempt: the quantity read back, new client ids, the same prices.\<close>

definition retry_plan :: "ProtectionPlan \<Rightarrow> dec \<Rightarrow> int \<Rightarrow> ProtectionPlan res" where
  "retry_plan p live_quantity attempt =
     bindR (stop_client_order_id (pp_position_id p) attempt) (\<lambda>stop_id.
     bindR (if truthy_dec (pp_take_profit_price p) \<noteq> None
            then bindR (target_client_order_id (pp_position_id p) attempt) (\<lambda>x. Inr (Some x))
            else Inr None) (\<lambda>tp_id.
     mk_ProtectionPlan (p\<lparr>pp_quantity := live_quantity, pp_stop_client_order_id := stop_id,
       pp_tp_client_order_id := tp_id, pp_attempt := attempt\<rparr>)))"

text \<open>
  The loop \<open>for attempt in range(1, max_attempts + 1)\<close>, by the number of attempts that are left;
  the case of none left is the code after the loop.
\<close>

primrec ensure_loop ::
    "nat \<Rightarrow> 'w adapter \<Rightarrow> int \<Rightarrow> ProtectionPlan \<Rightarrow> ProtectionFailureAction list \<Rightarrow> 'w \<Rightarrow> ProtectionResult res \<times> 'w" where
  "ensure_loop 0 adapter max_attempts plan actions w =
     escalate_emergency plan adapter actions max_attempts w"
| "ensure_loop (Suc left) adapter max_attempts plan actions w =
     (let attempt = max_attempts - int left in
      case submit_protection adapter (protection_command plan) (pp_symbol plan) (protection_side plan)
             (pp_quantity plan) w of
        (Inl e, w1) \<Rightarrow>
          (if e = ProtectionTimeout
           then (Inr (protection_result ProtectionOutcome.UNKNOWN V2ProtectionState.PROTECTION_UNKNOWN
                        actions False attempt), w1)
           else if e = ProtectionSubmissionError \<or> e = BinanceAdapterUnavailable
           then
             (case exchange_quantity_for adapter (pp_symbol plan) (pp_direction plan) w1 of
                (Inl _, w2) \<Rightarrow> escalate_emergency plan adapter actions attempt w2
              | (Inr live_quantity, w2) \<Rightarrow>
                  if live_quantity \<le> 0
                  then (Inr (protection_result ProtectionOutcome.ALREADY_FLAT
                               V2ProtectionState.PROTECTION_CANCELLED actions False attempt), w2)
                  else if attempt < max_attempts
                  then (case retry_plan plan live_quantity (attempt + 1) of
                          Inl e \<Rightarrow> (Inl e, w2)
                        | Inr plan' \<Rightarrow> ensure_loop left adapter max_attempts plan'
                            (actions @ [ProtectionFailureAction.RETRIED_SUBMISSION]) w2)
                  else escalate_emergency plan adapter actions attempt w2)
           else (Inl e, w1))
      | (Inr (stop_receipt, tp_receipt), w1) \<Rightarrow>
          (if or_exchange_order_id stop_receipt = []
           then escalate_emergency plan adapter actions attempt w1
           else (Inr ((protection_result ProtectionOutcome.ACTIVE V2ProtectionState.PROTECTION_ACTIVE
                         actions False attempt)
                      \<lparr>pe_stop_exchange_order_id := Some (or_exchange_order_id stop_receipt),
                       pe_tp_exchange_order_id := map_option or_exchange_order_id tp_receipt\<rparr>), w1)))"

definition ensure_protection ::
    "ProtectionPlan \<Rightarrow> 'w adapter \<Rightarrow> int \<Rightarrow> 'w \<Rightarrow> ProtectionResult res \<times> 'w" where
  "ensure_protection plan adapter max_attempts w =
     ensure_loop (nat max_attempts) adapter max_attempts plan [] w"

section \<open>Facts\<close>

definition wf_plan :: "ProtectionPlan \<Rightarrow> bool" where
  "wf_plan p \<longleftrightarrow> 0 < pp_quantity p \<and> 0 < pp_stop_price p
     \<and> ((pp_direction p = ''long'' \<and> pp_stop_price p < pp_average_fill_price p
           \<and> (\<forall>t. pp_take_profit_price p = Some t \<longrightarrow> pp_average_fill_price p < t))
        \<or> (pp_direction p = ''short'' \<and> pp_average_fill_price p < pp_stop_price p
           \<and> (\<forall>t. pp_take_profit_price p = Some t \<longrightarrow> t < pp_average_fill_price p)))"

lemma mk_ProtectionPlan_Inr: "mk_ProtectionPlan p = Inr p' \<longleftrightarrow> p' = p \<and> wf_plan p"
  by (cases "pp_take_profit_price p") (auto simp: mk_ProtectionPlan_def guardR_Inr_iff wf_plan_def)

lemma retry_plan_Inr:
  assumes "retry_plan p q n = Inr p'"
  shows "wf_plan p' \<and> pp_position_id p' = pp_position_id p \<and> pp_symbol p' = pp_symbol p
    \<and> pp_direction p' = pp_direction p \<and> pp_quantity p' = q \<and> pp_stop_price p' = pp_stop_price p
    \<and> pp_take_profit_price p' = pp_take_profit_price p \<and> pp_attempt p' = n
    \<and> stop_client_order_id (pp_position_id p) n = Inr (pp_stop_client_order_id p')"
  using assms by (auto simp: retry_plan_def bindR_Inr_iff mk_ProtectionPlan_Inr split: if_splits)

text \<open>
  What a result may say about a live position: it is protected, or it is flat by a reading of
  the account made at the very end, or entries are blocked for the whole account and an alert
  was raised, or the outcome of a submission is unknown.
\<close>

definition settled :: "'w adapter \<Rightarrow> string \<Rightarrow> string \<Rightarrow> ProtectionResult \<Rightarrow> 'w \<Rightarrow> bool" where
  "settled a symb dir r w' \<longleftrightarrow>
     (pe_outcome r = ProtectionOutcome.ACTIVE \<and> is_active r)
     \<or> (pe_outcome r \<in> {ProtectionOutcome.ALREADY_FLAT, ProtectionOutcome.EMERGENCY_CLOSED}
        \<and> pe_state r = V2ProtectionState.PROTECTION_CANCELLED
        \<and> (\<exists>w0 s. fetch_authoritative_snapshot a w0 = (Inr s, w') \<and> quantity_in s symb dir \<le> 0))
     \<or> (pe_outcome r = ProtectionOutcome.EMERGENCY_CLOSE_PENDING \<and> pe_account_entry_blocked r
        \<and> ProtectionFailureAction.ACCOUNT_ENTRY_BLOCK \<in> set (pe_actions r)
        \<and> ProtectionFailureAction.HIGH_PRIORITY_ALERT \<in> set (pe_actions r))
     \<or> (pe_outcome r = ProtectionOutcome.UNKNOWN \<and> pe_state r = V2ProtectionState.PROTECTION_UNKNOWN
        \<and> (\<exists>c sd q w0. submit_protection a c symb sd q w0 = (Inl ProtectionTimeout, w')))"

lemma exchange_quantity_for_cases:
  "exchange_quantity_for a s d w = (Inr q, w') \<longleftrightarrow>
     (\<exists>x. fetch_authoritative_snapshot a w = (Inr x, w') \<and> q = quantity_in x s d)"
  by (auto simp: exchange_quantity_for_def split: prod.splits sum.splits)

lemma verify_settled:
  assumes "verify_emergency_close p a acts n w = (Inr r, w')"
  shows "settled a (pp_symbol p) (pp_direction p) r w' \<and> pe_attempts r = n"
proof -
  obtain x w1 where x: "exchange_quantity_for a (pp_symbol p) (pp_direction p) w = (x, w1)"
    by (cases "exchange_quantity_for a (pp_symbol p) (pp_direction p) w") auto
  show ?thesis
  proof (cases x)
    case (Inl e)
    with assms x show ?thesis
      by (auto simp: verify_emergency_close_def Let_def settled_def protection_result_def)
  next
    case (Inr q)
    with x have "exchange_quantity_for a (pp_symbol p) (pp_direction p) w = (Inr q, w1)" by simp
    then obtain s where "fetch_authoritative_snapshot a w = (Inr s, w1)"
        "q = quantity_in s (pp_symbol p) (pp_direction p)"
      unfolding exchange_quantity_for_cases by blast
    with assms x Inr show ?thesis
      by (auto simp: verify_emergency_close_def Let_def settled_def protection_result_def split: if_splits)
  qed
qed

lemma escalate_settled:
  "escalate_emergency p a acts n w = (Inr r, w') \<Longrightarrow>
     settled a (pp_symbol p) (pp_direction p) r w' \<and> pe_attempts r = n"
  by (auto simp: escalate_emergency_def Let_def split: sum.splits prod.splits if_splits dest: verify_settled)

text \<open>One round of the loop, by what the exchange answered.\<close>

abbreviation send_protection :: "'w adapter \<Rightarrow> ProtectionPlan \<Rightarrow> ('w, ExchangeOrderReceipt \<times> ExchangeOrderReceipt option) call" where
  "send_protection a p \<equiv>
     submit_protection a (protection_command p) (pp_symbol p) (protection_side p) (pp_quantity p)"

abbreviation read_quantity :: "'w adapter \<Rightarrow> ProtectionPlan \<Rightarrow> ('w, dec) call" where
  "read_quantity a p \<equiv> exchange_quantity_for a (pp_symbol p) (pp_direction p)"

definition submission_failed :: "exn \<Rightarrow> bool" where
  "submission_failed e \<longleftrightarrow> e = ProtectionSubmissionError \<or> e = BinanceAdapterUnavailable"

lemma round_acknowledged:
  "send_protection a p w = (Inr (sr, tr), w1) \<Longrightarrow>
    ensure_loop (Suc left) a m p acts w =
      (if or_exchange_order_id sr = [] then escalate_emergency p a acts (m - int left) w1
       else (Inr ((protection_result ProtectionOutcome.ACTIVE V2ProtectionState.PROTECTION_ACTIVE
                     acts False (m - int left))
                  \<lparr>pe_stop_exchange_order_id := Some (or_exchange_order_id sr),
                   pe_tp_exchange_order_id := map_option or_exchange_order_id tr\<rparr>), w1))"
  by (simp add: Let_def)

lemma round_timeout:
  "send_protection a p w = (Inl ProtectionTimeout, w1) \<Longrightarrow>
    ensure_loop (Suc left) a m p acts w =
      (Inr (protection_result ProtectionOutcome.UNKNOWN V2ProtectionState.PROTECTION_UNKNOWN
              acts False (m - int left)), w1)"
  by (simp add: Let_def)

lemma round_uncaught:
  "\<lbrakk>send_protection a p w = (Inl e, w1); e \<noteq> ProtectionTimeout; \<not> submission_failed e\<rbrakk> \<Longrightarrow>
    ensure_loop (Suc left) a m p acts w = (Inl e, w1)"
  by (simp add: Let_def submission_failed_def)

lemma round_unreadable:
  "\<lbrakk>send_protection a p w = (Inl e, w1); submission_failed e; read_quantity a p w1 = (Inl x, w2)\<rbrakk> \<Longrightarrow>
    ensure_loop (Suc left) a m p acts w = escalate_emergency p a acts (m - int left) w2"
  by (auto simp: Let_def submission_failed_def)

lemma round_flat:
  "\<lbrakk>send_protection a p w = (Inl e, w1); submission_failed e; read_quantity a p w1 = (Inr q, w2); q \<le> 0\<rbrakk> \<Longrightarrow>
    ensure_loop (Suc left) a m p acts w =
      (Inr (protection_result ProtectionOutcome.ALREADY_FLAT V2ProtectionState.PROTECTION_CANCELLED
              acts False (m - int left)), w2)"
  by (auto simp: Let_def submission_failed_def)

lemma round_retry:
  "\<lbrakk>send_protection a p w = (Inl e, w1); submission_failed e; read_quantity a p w1 = (Inr q, w2); 0 < q\<rbrakk> \<Longrightarrow>
    ensure_loop (Suc (Suc left)) a m p acts w =
      (case retry_plan p q (m - int left) of
         Inl e \<Rightarrow> (Inl e, w2)
       | Inr p' \<Rightarrow> ensure_loop (Suc left) a m p' (acts @ [ProtectionFailureAction.RETRIED_SUBMISSION]) w2)"
  by (subst ensure_loop.simps(2)) (auto simp: Let_def submission_failed_def simp del: ensure_loop.simps)

lemma round_last:
  "\<lbrakk>send_protection a p w = (Inl e, w1); submission_failed e; read_quantity a p w1 = (Inr q, w2); 0 < q\<rbrakk> \<Longrightarrow>
    ensure_loop (Suc 0) a m p acts w = escalate_emergency p a acts m w2"
  by (auto simp: Let_def submission_failed_def)

lemmas rounds = round_acknowledged round_timeout round_uncaught round_unreadable round_flat round_retry round_last

declare ensure_loop.simps(2) [simp del]

text \<open>The cases of one round, for proofs about the loop.\<close>

lemma round_cases [case_names acknowledged timeout uncaught unreadable flat live]:
  assumes "\<And>sr tr w1. send_protection a p w = (Inr (sr, tr), w1) \<Longrightarrow> P"
    and "\<And>w1. send_protection a p w = (Inl ProtectionTimeout, w1) \<Longrightarrow> P"
    and "\<And>e w1. \<lbrakk>send_protection a p w = (Inl e, w1); e \<noteq> ProtectionTimeout; \<not> submission_failed e\<rbrakk> \<Longrightarrow> P"
    and "\<And>e w1 x w2. \<lbrakk>send_protection a p w = (Inl e, w1); submission_failed e;
        read_quantity a p w1 = (Inl x, w2)\<rbrakk> \<Longrightarrow> P"
    and "\<And>e w1 q w2. \<lbrakk>send_protection a p w = (Inl e, w1); submission_failed e;
        read_quantity a p w1 = (Inr q, w2); q \<le> 0\<rbrakk> \<Longrightarrow> P"
    and "\<And>e w1 q w2. \<lbrakk>send_protection a p w = (Inl e, w1); submission_failed e;
        read_quantity a p w1 = (Inr q, w2); 0 < q\<rbrakk> \<Longrightarrow> P"
  shows P
proof -
  obtain x w1 where m: "send_protection a p w = (x, w1)" by (cases "send_protection a p w") auto
  obtain y w2 where y: "read_quantity a p w1 = (y, w2)" by (cases "read_quantity a p w1") auto
  show P
  proof (cases x)
    case (Inr r)
    with m assms(1) show P by (cases r) auto
  next
    case (Inl e)
    show P
    proof (cases "submission_failed e")
      case False
      with Inl m assms(2,3) show P by (cases "e = ProtectionTimeout") auto
    next
      case True
      show P
      proof (cases y)
        case (Inl x')
        with True m y assms(4) \<open>x = Inl e\<close> show P by auto
      next
        case (Inr q)
        with True m y assms(5,6) \<open>x = Inl e\<close> show P by (cases "q \<le> 0") auto
      qed
    qed
  qed
qed

lemma ensure_loop_settled:
  assumes "ensure_loop left a m p acts w = (Inr r, w')"
  shows "settled a (pp_symbol p) (pp_direction p) r w'
    \<and> min m (m - int left + 1) \<le> pe_attempts r \<and> pe_attempts r \<le> m"
  using assms
proof (induction left arbitrary: p acts w)
  case 0
  then have "escalate_emergency p a acts m w = (Inr r, w')" by simp
  from escalate_settled [OF this] show ?case by simp
next
  case (Suc left)
  show ?case
  proof (cases rule: round_cases [of a p w])
    case (acknowledged sr tr w1)
    show ?thesis
    proof (cases "or_exchange_order_id sr = []")
      case True
      with Suc.prems have "escalate_emergency p a acts (m - int left) w1 = (Inr r, w')"
        by (simp add: round_acknowledged [OF acknowledged])
      from escalate_settled [OF this] show ?thesis by simp
    next
      case False
      with Suc.prems show ?thesis
        by (auto simp: round_acknowledged [OF acknowledged] settled_def is_active_def protection_result_def)
    qed
  next
    case (timeout w1)
    with Suc.prems have r: "w' = w1" "r = protection_result ProtectionOutcome.UNKNOWN
        V2ProtectionState.PROTECTION_UNKNOWN acts False (m - int left)"
      by (simp_all add: round_timeout)
    have "settled a (pp_symbol p) (pp_direction p) r w'"
      unfolding settled_def r protection_result_def using timeout by (simp, blast)
    with r show ?thesis by (simp add: protection_result_def)
  next
    case (uncaught e w1)
    with Suc.prems show ?thesis by (simp add: round_uncaught)
  next
    case (unreadable e w1 x w2)
    with Suc.prems have "escalate_emergency p a acts (m - int left) w2 = (Inr r, w')"
      by (simp add: round_unreadable)
    from escalate_settled [OF this] show ?thesis by simp
  next
    case (flat e w1 q w2)
    then obtain s where "fetch_authoritative_snapshot a w1 = (Inr s, w2)"
        "q = quantity_in s (pp_symbol p) (pp_direction p)"
      using exchange_quantity_for_cases by metis
    moreover have "w' = w2" "r = protection_result ProtectionOutcome.ALREADY_FLAT
        V2ProtectionState.PROTECTION_CANCELLED acts False (m - int left)"
      using Suc.prems flat by (simp_all add: round_flat)
    ultimately show ?thesis using flat(4) by (auto simp: settled_def protection_result_def)
  next
    case (live e w1 q w2)
    show ?thesis
    proof (cases left)
      case 0
      with Suc.prems live have "escalate_emergency p a acts m w2 = (Inr r, w')" by (simp add: round_last)
      from escalate_settled [OF this] 0 show ?thesis by simp
    next
      case k: (Suc k)
      with Suc.prems live obtain p' where p': "retry_plan p q (m - int k) = Inr p'"
          "ensure_loop left a m p' (acts @ [ProtectionFailureAction.RETRIED_SUBMISSION]) w2 = (Inr r, w')"
        by (auto simp: round_retry split: sum.splits)
      from Suc.IH [OF p'(2)] retry_plan_Inr [OF p'(1)] show ?thesis by auto
    qed
  qed
qed

section \<open>Properties\<close>


lemma quantity_logged [simp]:
  "exchange_quantity_for (logged a) s d (w, l) =
     (fst (exchange_quantity_for a s d w), (snd (exchange_quantity_for a s d w), l))"
  by (simp add: exchange_quantity_for_def split: prod.splits sum.splits)

lemma verify_logged [simp]:
  "snd (snd (verify_emergency_close p (logged a) acts n (w, l))) = l"
  by (simp add: verify_emergency_close_def Let_def split: sum.splits)

definition is_protection_of :: "ProtectionPlan \<Rightarrow> exchange_call \<Rightarrow> bool" where
  "is_protection_of p c \<longleftrightarrow> (\<exists>cmd q. c = ProtectionOrders cmd (pp_symbol p) (protection_side p) q
     \<and> sp_position_id cmd = pp_position_id p \<and> sp_stop_loss_price cmd = pp_stop_price p)"

text \<open>The calls \<open>xs\<close> are protection submissions of the plan, at most \<open>n\<close>, then at most one close.\<close>

definition protective :: "ProtectionPlan \<Rightarrow> nat \<Rightarrow> exchange_call list \<Rightarrow> bool" where
  "protective p n xs \<longleftrightarrow> (\<exists>ps rs. xs = ps @ rs \<and> length ps \<le> n \<and> list_all (is_protection_of p) ps
     \<and> (rs = [] \<or> (\<exists>cmd. rs = [ReduceOnlyOrder cmd (pp_symbol p) (protection_side p)])))"

lemma protective_Nil: "protective p n []"
  by (simp add: protective_def)

lemma protective_close: "protective p n [ReduceOnlyOrder cmd (pp_symbol p) (protection_side p)]"
  unfolding protective_def
  by (rule exI [of _ "[]"], rule exI [of _ "[ReduceOnlyOrder cmd (pp_symbol p) (protection_side p)]"]) simp

lemma protective_Cons:
  assumes "is_protection_of p c" "protective p n xs"
  shows "protective p (Suc n) (c # xs)"
proof -
  obtain ps rs where "xs = ps @ rs" "length ps \<le> n" "list_all (is_protection_of p) ps"
      "rs = [] \<or> (\<exists>cmd. rs = [ReduceOnlyOrder cmd (pp_symbol p) (protection_side p)])"
    using assms(2) unfolding protective_def by blast
  with assms(1) show ?thesis
    unfolding protective_def by (intro exI [of _ "c # ps"] exI [of _ rs]) simp
qed

lemma escalate_logged:
  "\<exists>xs. snd (snd (escalate_emergency p (logged a) acts n (w, l))) = l @ xs \<and> protective p 0 xs"
  by (auto simp: escalate_emergency_def Let_def protective_Nil protective_close split: sum.splits)

lemma protective_mono: "protective p m xs \<Longrightarrow> m \<le> n \<Longrightarrow> protective p n xs"
  unfolding protective_def by (elim exE conjE) (metis order_trans)

lemma ensure_loop_logged:
  "\<exists>xs. snd (snd (ensure_loop left (logged a) m p acts (w, l))) = l @ xs \<and> protective p left xs"
proof (induction left arbitrary: p acts w l)
  case 0
  show ?case using escalate_logged [of p a acts m w l] by simp
next
  case (Suc left)
  let ?c = "ProtectionOrders (protection_command p) (pp_symbol p) (protection_side p) (pp_quantity p)"
  have c: "is_protection_of p ?c" by (simp add: is_protection_of_def protection_command_def)
  have one: "\<exists>xs. l @ [?c] = l @ xs \<and> protective p (Suc left) xs"
    using protective_Cons [OF c protective_Nil] by blast
  have esc: "\<exists>xs. snd (snd (escalate_emergency p (logged a) acts n (v, l @ [?c]))) = l @ xs
      \<and> protective p (Suc left) xs" for n v
  proof -
    obtain xs where "snd (snd (escalate_emergency p (logged a) acts n (v, l @ [?c]))) = (l @ [?c]) @ xs"
      and "protective p 0 xs" using escalate_logged [of p a acts n v "l @ [?c]"] by blast
    with protective_Cons [OF c protective_mono [of p 0 xs left]] show ?thesis by simp
  qed
  show ?case
  proof (cases rule: round_cases [of "logged a" p "(w, l)"])
    case (acknowledged sr tr w1)
    then obtain v where "w1 = (v, l @ [?c])" by auto
    with esc one show ?thesis by (simp add: round_acknowledged [OF acknowledged])
  next
    case (timeout w1)
    then obtain v where "w1 = (v, l @ [?c])" by auto
    with one show ?thesis by (simp add: round_timeout [OF timeout])
  next
    case (uncaught e w1)
    then obtain v where "w1 = (v, l @ [?c])" by auto
    with one show ?thesis by (simp add: round_uncaught [OF uncaught])
  next
    case (unreadable e w1 x w2)
    then obtain v where "w2 = (v, l @ [?c])" by auto
    with esc show ?thesis by (simp add: round_unreadable [OF unreadable])
  next
    case (flat e w1 q w2)
    then obtain v where "w2 = (v, l @ [?c])" by auto
    with one show ?thesis by (simp add: round_flat [OF flat])
  next
    case (live e w1 q w2)
    then obtain v where v: "w2 = (v, l @ [?c])" by auto
    show ?thesis
    proof (cases left)
      case 0
      with esc v show ?thesis by (simp add: round_last [OF live])
    next
      case k: (Suc k)
      show ?thesis
      proof (cases "retry_plan p q (m - int k)")
        case (Inl e)
        with one v k show ?thesis by (simp add: round_retry [OF live])
      next
        case (Inr p')
        note same = retry_plan_Inr [OF Inr]
        have "protective p' n xs = protective p n xs" for n xs
          using same by (simp add: protective_def is_protection_of_def [abs_def] protection_side_def)
        moreover obtain xs where
          "snd (snd (ensure_loop left (logged a) m p' (acts @ [ProtectionFailureAction.RETRIED_SUBMISSION])
              (v, l @ [?c]))) = (l @ [?c]) @ xs" "protective p' left xs"
          using Suc.IH by blast
        ultimately show ?thesis using v k Inr protective_Cons [OF c, of left xs]
          by (simp add: round_retry [OF live])
      qed
    qed
  qed
qed

text \<open>
  C23.  Protection can only reduce: from start to end the coordinator sends at most the allowed
  number of protection submissions, all for the plan's symbol on the reducing side with the
  plan's stop price, and after them at most one reduce-only close; it never sends an entry
  order and cancels nothing.
\<close>

theorem protection_only_reduces:
  assumes "ensure_protection p (logged a) n (w, []) = (r, (w', sent))"
  shows "\<exists>ps rs. sent = ps @ rs \<and> int (length ps) \<le> max 0 n \<and> list_all (is_protection_of p) ps
     \<and> (rs = [] \<or> (\<exists>cmd. rs = [ReduceOnlyOrder cmd (pp_symbol p) (protection_side p)]))"
proof -
  have "protective p (nat n) sent"
    using ensure_loop_logged [of "nat n" a n p "[]" w "[]"] assms by (simp add: ensure_protection_def)
  then obtain ps rs where "sent = ps @ rs" "length ps \<le> nat n" "list_all (is_protection_of p) ps"
      "rs = [] \<or> (\<exists>cmd. rs = [ReduceOnlyOrder cmd (pp_symbol p) (protection_side p)])"
    unfolding protective_def by blast
  then show ?thesis by (intro exI [of _ ps] exI [of _ rs]) simp
qed

lemma round_to_tick_bounds:
  assumes "scaled k price" "scaled k tick" "0 \<le> price" "0 < tick"
    and "round_to_tick price tick dir leg = Inr x"
  shows "(\<exists>n. x = of_int n * tick) \<and>
    (if (dir = ''long'') = (leg = ''stop'') then price \<le> x \<and> x < price + tick
     else x \<le> price \<and> price < x + tick)"
proof -
  have leg: "leg = ''stop'' \<or> leg = ''target''"
    using assms(5) by (auto simp: round_to_tick_def bindR_Inr_iff guardR_Inr_iff split: if_splits)
  have "x = (if (dir = ''long'') = (leg = ''stop'') then of_int \<lceil>price / tick\<rceil> * tick
             else of_int \<lfloor>price / tick\<rfloor> * tick)"
    using assms(5) leg ceil_steps_exact(1) [OF assms(1-4)] floor_mode_exact [OF assms(1-4)]
    by (auto simp: round_to_tick_def guardR_Inr_iff bindR_Inr_iff split: if_splits)
  with ceil_steps_exact(2,3) [OF assms(1-4)] floor_steps_exact(2,3) [OF assms(1-4)] show ?thesis by auto
qed

text \<open>
  Prices are rounded to the tick on the safer side, by less than one tick: a long stop and
  a short target up, a short stop and a long target down (for prices and ticks with a common
  number of decimals, where the computation is exact).
\<close>

theorem round_to_tick_safe:
  assumes "scaled k price" "scaled k tick" "0 \<le> price" "0 < tick"
    and "round_to_tick price tick dir leg = Inr x"
  shows "(\<exists>n. x = of_int n * tick) \<and>
    (if (dir = ''long'') = (leg = ''stop'') then price \<le> x \<and> x < price + tick
     else x \<le> price \<and> price < x + tick)"
  by (rule round_to_tick_bounds [OF assms])

lemma build_plan_Inr:
  assumes "build_protection_plan pid c p q tick att = Inr plan"
  shows "wf_plan plan \<and> pp_quantity plan = q \<and> pp_average_fill_price plan = p
    \<and> pp_direction plan = direction c \<and> pp_symbol plan = tc_symbol c
    \<and> stop_client_order_id pid att = Inr (pp_stop_client_order_id plan)
    \<and> (\<exists>rs rt. resolve_protection_prices c p = Inr (rs, rt)
         \<and> round_to_tick rs tick (direction c) ''stop'' = Inr (pp_stop_price plan))"
  using assms
  by (auto simp: build_protection_plan_def guardR_Inr_iff bindR_Inr_iff Let_def mk_ProtectionPlan_Inr
      split: prod.splits if_splits)


section \<open>Examples\<close>

definition demo_plan :: ProtectionPlan where
  "demo_plan = \<lparr>pp_position_id = ''p1'', pp_symbol = ''BTC/USDT'', pp_direction = ''long'', pp_quantity = 2,
     pp_average_fill_price = 100, pp_stop_price = 95, pp_take_profit_price = Some 110,
     pp_stop_client_order_id = ''A2S-'' @ hash [''p1'', ''stop'', int_str 1] 18,
     pp_tp_client_order_id = Some (''A2T-'' @ hash [''p1'', ''target'', int_str 1] 18), pp_attempt = 1\<rparr>"

lemma demo_plan_built: "build_protection_plan ''p1'' demo_candidate 100 2 (1 / 10) 1 = Inr demo_plan"
proof -
  have r: "resolve_protection_prices demo_candidate 100 = Inr (95, Some 110)" by code_simp
  have s: "round_to_tick 95 (1 / 10) ''long'' ''stop'' = Inr 95" by code_simp
  have t: "round_to_tick 110 (1 / 10) ''long'' ''target'' = Inr 110" by code_simp
  have d: "direction demo_candidate = ''long''" by code_simp
  have i: "stop_client_order_id ''p1'' 1 = Inr (''A2S-'' @ hash [''p1'', ''stop'', int_str 1] 18)"
    "target_client_order_id ''p1'' 1 = Inr (''A2T-'' @ hash [''p1'', ''target'', int_str 1] 18)"
    by (simp_all add: stop_id_Inr target_id_Inr)
  show ?thesis
    unfolding build_protection_plan_def r d demo_plan_def
    by (simp add: s t i mk_ProtectionPlan_def demo_candidate_def truthy_dec_def Let_def)
qed

definition demo_account :: AuthoritativeAccountSnapshot where
  "demo_account = \<lparr>as_balance = 1000, as_equity = 1000, as_positions = [],
     as_pending_orders = [], as_snapshot_timestamp = 9\<rparr>"


lemma round_to_tick_safe_witness:
  "\<exists>x. round_to_tick (9507 / 100) (1 / 10) ''long'' ''stop'' = Inr x \<and> 9507 / 100 \<le> x \<and> x < 9507 / 100 + 1 / 10"
proof -
  have r: "round_to_tick (9507 / 100) (1 / 10) ''long'' ''stop'' = Inr (951 / 10)" by code_simp
  have "scaled 2 (9507 / 100)" "scaled 2 (1 / 10)"
    unfolding scaled_def by (rule exI [of _ 9507], simp, rule exI [of _ 10], simp)
  from round_to_tick_safe [OF this _ _ r] r show ?thesis by (intro exI [of _ "951 / 10"]) simp
qed


lemma protection_only_reduces_witness:
  "\<exists>sent. snd (snd (ensure_protection demo_plan (logged (scripted None [] (Inr demo_account))) 2 ((), []))) = sent
     \<and> (\<exists>ps rs. sent = ps @ rs \<and> length ps \<le> 2 \<and> list_all (is_protection_of demo_plan) ps)"
proof -
  let ?x = "ensure_protection demo_plan (logged (scripted None [] (Inr demo_account))) 2 ((), [])"
  obtain r sent where x: "?x = (r, ((), sent))" by (cases ?x) auto
  from protection_only_reduces [OF x] x show ?thesis by auto
qed

end
