(* ===== verification/Recovery.thy ===== *)
theory Recovery
  imports Reconciliation
begin

text \<open>
  Restart and anomaly recovery (\<open>application/recovery_service.py\<close>): the reduce-only action plan
  made from an exchange snapshot and the findings of reconciliation.  Reason texts are left
  out; everything the code computes from them stays.
\<close>

section \<open>Actions and results\<close>

datatype RecoveryActionType =
    RESOLVE_UNKNOWN_INTENT_BY_CLIENT_ID | MARK_INTENT_NOT_SUBMITTED | RESUBMIT_PROTECTION
  | EMERGENCY_REDUCE_ONLY_CLOSE | QUARANTINE_EXTERNAL_POSITION | QUARANTINE_LOCAL_GHOST_POSITION
  | CANCEL_ORPHAN_PROTECTION_ORDER | MANUAL_INTERVENTION_REQUIRED

record RecoveryAction =
  ra_action_type :: RecoveryActionType
  ra_target_ref :: string
  ra_symbol :: "string option"
  ra_reduce_only :: bool

text \<open>The constructor with its check; the module only ever uses the default \<open>reduce_only=True\<close>.\<close>

definition mk_RecoveryAction :: "RecoveryAction \<Rightarrow> RecoveryAction res" where
  "mk_RecoveryAction a =
     guardR (\<not> ra_reduce_only a) (ValueError ''recovery may never add risk'') (Inr a)"

definition recovery_action :: "RecoveryActionType \<Rightarrow> string \<Rightarrow> string option \<Rightarrow> RecoveryAction" where
  "recovery_action t ref symbol =
     \<lparr>ra_action_type = t, ra_target_ref = ref, ra_symbol = symbol, ra_reduce_only = True\<rparr>"

record PendingIntentView =
  pi_intent_id :: string
  pi_symbol :: string
  pi_client_order_id :: string
  pi_state :: string

record EmergencyCloseRequest =
  ec_position_id :: string
  ec_symbol :: string
  ec_direction :: string
  ec_quantity :: dec

record RecoveryResult =
  re_actions :: "RecoveryAction list"
  re_entry_blocked :: bool
  re_unresolved_refs :: "string list"
  re_resolved_refs :: "string list"
  re_recovered_at :: "int option"

definition recovery_requires_manual_intervention :: "RecoveryResult \<Rightarrow> bool" where
  "recovery_requires_manual_intervention r =
     list_ex (\<lambda>a. ra_action_type a = RecoveryActionType.MANUAL_INTERVENTION_REQUIRED) (re_actions r)"

definition recovery_reduce_only_exit_allowed :: "RecoveryResult \<Rightarrow> bool" where
  "recovery_reduce_only_exit_allowed r = True"

section \<open>Planning\<close>

text \<open>\<open>a or b\<close> on an optional string.\<close>

fun or_str :: "string option \<Rightarrow> string \<Rightarrow> string" where
  "or_str None d = d"
| "or_str (Some x) d = (if x = [] then d else x)"

fun discrepancy_value :: "DiscrepancyCode \<Rightarrow> string" where
  "discrepancy_value DiscrepancyCode.SNAPSHOT_UNAVAILABLE = ''SNAPSHOT_UNAVAILABLE''"
| "discrepancy_value DiscrepancyCode.EXTERNAL_POSITION_UNCLAIMABLE = ''EXTERNAL_POSITION_UNCLAIMABLE''"
| "discrepancy_value DiscrepancyCode.LOCAL_POSITION_MISSING_AT_EXCHANGE = ''LOCAL_POSITION_MISSING_AT_EXCHANGE''"
| "discrepancy_value DiscrepancyCode.QUANTITY_MISMATCH = ''QUANTITY_MISMATCH''"
| "discrepancy_value DiscrepancyCode.DIRECTION_MISMATCH = ''DIRECTION_MISMATCH''"
| "discrepancy_value DiscrepancyCode.MANAGED_POSITION_UNPROTECTED = ''MANAGED_POSITION_UNPROTECTED''"
| "discrepancy_value DiscrepancyCode.PROTECTION_ORDER_MISSING_AT_EXCHANGE = ''PROTECTION_ORDER_MISSING_AT_EXCHANGE''"
| "discrepancy_value DiscrepancyCode.UNKNOWN_ORDER_PRESENT = ''UNKNOWN_ORDER_PRESENT''"
| "discrepancy_value DiscrepancyCode.ORPHAN_V2_CLIENT_ORDER_AT_EXCHANGE = ''ORPHAN_V2_CLIENT_ORDER_AT_EXCHANGE''"
| "discrepancy_value DiscrepancyCode.CONFIRMED_ENTRY_FILL_UNPROJECTED = ''CONFIRMED_ENTRY_FILL_UNPROJECTED''"
| "discrepancy_value DiscrepancyCode.QUARANTINED_ENTRY_LIFECYCLE = ''QUARANTINED_ENTRY_LIFECYCLE''"
| "discrepancy_value DiscrepancyCode.MANUAL_BASELINE_DRIFT = ''MANUAL_BASELINE_DRIFT''"

definition plan_for_discrepancy :: "Discrepancy \<Rightarrow> RecoveryAction option" where
  "plan_for_discrepancy d =
     (let symbol = d_symbol d;
          by_ref = or_str (d_exchange_ref d) (or_str symbol ''unknown'');
          by_position = or_str (d_local_position_id d) (or_str symbol ''unknown'');
          by_order = or_str (d_exchange_ref d) ''unknown''
      in case d_code d of
           DiscrepancyCode.EXTERNAL_POSITION_UNCLAIMABLE \<Rightarrow>
             Some (recovery_action RecoveryActionType.QUARANTINE_EXTERNAL_POSITION by_ref symbol)
         | DiscrepancyCode.MANAGED_POSITION_UNPROTECTED \<Rightarrow>
             Some (recovery_action RecoveryActionType.RESUBMIT_PROTECTION by_position symbol)
         | DiscrepancyCode.PROTECTION_ORDER_MISSING_AT_EXCHANGE \<Rightarrow>
             Some (recovery_action RecoveryActionType.RESUBMIT_PROTECTION by_position symbol)
         | DiscrepancyCode.LOCAL_POSITION_MISSING_AT_EXCHANGE \<Rightarrow>
             Some (recovery_action RecoveryActionType.QUARANTINE_LOCAL_GHOST_POSITION by_position symbol)
         | DiscrepancyCode.ORPHAN_V2_CLIENT_ORDER_AT_EXCHANGE \<Rightarrow>
             Some (recovery_action RecoveryActionType.CANCEL_ORPHAN_PROTECTION_ORDER by_order symbol)
         | DiscrepancyCode.UNKNOWN_ORDER_PRESENT \<Rightarrow>
             Some (recovery_action RecoveryActionType.MANUAL_INTERVENTION_REQUIRED by_order symbol)
         | DiscrepancyCode.CONFIRMED_ENTRY_FILL_UNPROJECTED \<Rightarrow>
             Some (recovery_action RecoveryActionType.MANUAL_INTERVENTION_REQUIRED by_ref symbol)
         | DiscrepancyCode.QUARANTINED_ENTRY_LIFECYCLE \<Rightarrow>
             Some (recovery_action RecoveryActionType.MANUAL_INTERVENTION_REQUIRED by_ref symbol)
         | DiscrepancyCode.QUANTITY_MISMATCH \<Rightarrow>
             Some (recovery_action RecoveryActionType.MANUAL_INTERVENTION_REQUIRED by_position symbol)
         | DiscrepancyCode.DIRECTION_MISMATCH \<Rightarrow>
             Some (recovery_action RecoveryActionType.MANUAL_INTERVENTION_REQUIRED by_position symbol)
         | DiscrepancyCode.SNAPSHOT_UNAVAILABLE \<Rightarrow> None
         | DiscrepancyCode.MANUAL_BASELINE_DRIFT \<Rightarrow> None)"

text \<open>The loop over the pending intents: what is appended to the actions.\<close>

definition intent_action :: "string set \<Rightarrow> PendingIntentView \<Rightarrow> RecoveryAction" where
  "intent_action exchange_client_ids i =
     (if pi_client_order_id i \<in> exchange_client_ids
      then recovery_action RecoveryActionType.RESOLVE_UNKNOWN_INTENT_BY_CLIENT_ID
             (pi_intent_id i) (Some (pi_symbol i))
      else recovery_action RecoveryActionType.MARK_INTENT_NOT_SUBMITTED
             (pi_intent_id i) (Some (pi_symbol i)))"

definition close_action :: "EmergencyCloseRequest \<Rightarrow> RecoveryAction" where
  "close_action q = recovery_action RecoveryActionType.EMERGENCY_REDUCE_ONLY_CLOSE
     (ec_position_id q) (Some (ec_symbol q))"

text \<open>The loop over the discrepancies, with its three accumulators.\<close>

fun plan_discrepancies ::
    "Discrepancy list \<Rightarrow> RecoveryAction list \<times> string list \<times> string list" where
  "plan_discrepancies [] = ([], [], [])"
| "plan_discrepancies (d # ds) =
     (let (actions, unresolved, resolved) = plan_discrepancies ds
      in case plan_for_discrepancy d of
           None \<Rightarrow>
             (actions,
              or_str (d_exchange_ref d) (or_str (d_local_position_id d) (discrepancy_value (d_code d))) # unresolved,
              resolved)
         | Some a \<Rightarrow>
             if ra_action_type a = RecoveryActionType.MANUAL_INTERVENTION_REQUIRED
             then (a # actions, ra_target_ref a # unresolved, resolved)
             else (a # actions, unresolved, ra_target_ref a # resolved))"

text \<open>The loop over the local positions reads the actions planned so far.\<close>

fun ghost_actions ::
    "string set \<Rightarrow> LocalPositionView list \<Rightarrow> RecoveryAction list \<times> string list \<Rightarrow> RecoveryAction list \<times> string list" where
  "ghost_actions keys [] acc = acc"
| "ghost_actions keys (p # ps) (actions, resolved) =
     (if lp_state p \<in> {''CLOSED'', ''QUARANTINED''}
         \<or> position_key (lp_symbol p) (lp_direction p) \<in> keys
         \<or> list_ex (\<lambda>a. ra_target_ref a = lp_position_id p
              \<and> ra_action_type a = RecoveryActionType.QUARANTINE_LOCAL_GHOST_POSITION) actions
      then ghost_actions keys ps (actions, resolved)
      else ghost_actions keys ps
        (actions @ [recovery_action RecoveryActionType.QUARANTINE_LOCAL_GHOST_POSITION
                      (lp_position_id p) (Some (lp_symbol p))],
         resolved @ [lp_position_id p]))"

definition exchange_client_ids :: "AuthoritativeAccountSnapshot \<Rightarrow> string set" where
  "exchange_client_ids s = set (List.map_filter xo_client_order_id (as_pending_orders s))"

definition recover_pending_state ::
    "AuthoritativeAccountSnapshot option \<Rightarrow> ReconciliationResult \<Rightarrow> LocalStateView option \<Rightarrow>
     PendingIntentView list \<Rightarrow> EmergencyCloseRequest list \<Rightarrow> int option \<Rightarrow> RecoveryResult" where
  "recover_pending_state snapshot incidents local_state pending_intents emergency_closes recovered_at =
     (case snapshot of
        None \<Rightarrow> \<lparr>re_actions = map close_action emergency_closes, re_entry_blocked = True,
                 re_unresolved_refs = dict_fromkeys (rr_recovery_required_refs incidents),
                 re_resolved_refs = [], re_recovered_at = recovered_at\<rparr>
      | Some s \<Rightarrow>
         (let of_intents = map (intent_action (exchange_client_ids s)) pending_intents;
              (of_discrepancies, unresolved, resolved) = plan_discrepancies (rr_discrepancies incidents);
              planned = of_intents @ of_discrepancies @ map close_action emergency_closes;
              settled = map pi_intent_id pending_intents @ resolved @ map ec_position_id emergency_closes;
              (actions, all_resolved) =
                (case local_state of None \<Rightarrow> (planned, settled)
                 | Some ls \<Rightarrow> ghost_actions (exchange_keys s) (ls_positions ls) (planned, settled));
              blocked = (unresolved \<noteq> [] \<or> rr_status incidents \<noteq> ReconciliationStatus.HEALTHY \<or> actions \<noteq> []);
              entry_blocked = (if actions = [] \<and> rr_status incidents = ReconciliationStatus.HEALTHY
                               then False else blocked)
          in \<lparr>re_actions = actions, re_entry_blocked = entry_blocked,
              re_unresolved_refs = dict_fromkeys unresolved,
              re_resolved_refs = dict_fromkeys all_resolved, re_recovered_at = recovered_at\<rparr>))"

section \<open>Facts\<close>

lemma mk_RecoveryAction_planned: "mk_RecoveryAction (recovery_action t r s) = Inr (recovery_action t r s)"
  by (simp add: mk_RecoveryAction_def guardR_def recovery_action_def)

lemma recovery_action_simps [simp]:
  "ra_action_type (recovery_action t r s) = t" "ra_target_ref (recovery_action t r s) = r"
  "ra_symbol (recovery_action t r s) = s" "ra_reduce_only (recovery_action t r s)"
  by (simp_all add: recovery_action_def)

text \<open>A plan entry for a live position never closes it.\<close>

lemma plan_for_discrepancy_type:
  "plan_for_discrepancy d = Some a \<Longrightarrow> ra_action_type a \<notin>
     {RecoveryActionType.EMERGENCY_REDUCE_ONLY_CLOSE, RecoveryActionType.MARK_INTENT_NOT_SUBMITTED,
      RecoveryActionType.RESOLVE_UNKNOWN_INTENT_BY_CLIENT_ID} \<and> ra_reduce_only a"
  by (cases "d_code d") (auto simp: plan_for_discrepancy_def Let_def)

lemma plan_discrepancies_eq:
  "plan_discrepancies ds =
     (List.map_filter plan_for_discrepancy ds, fst (snd (plan_discrepancies ds)), snd (snd (plan_discrepancies ds)))"
  by (induction ds) (auto simp: map_filter_simps Let_def split: prod.splits option.splits)

lemma plan_actions: "fst (plan_discrepancies ds) = List.map_filter plan_for_discrepancy ds"
  by (subst plan_discrepancies_eq) simp

lemma ghost_actions_eq:
  assumes "ghost_actions keys ps (acts, res) = (acts', res')"
  shows "\<exists>gs. acts' = acts @ gs
      \<and> (\<forall>g\<in>set gs. \<exists>p\<in>set ps. lp_state p \<notin> {''CLOSED'', ''QUARANTINED''}
            \<and> position_key (lp_symbol p) (lp_direction p) \<notin> keys
            \<and> g = recovery_action RecoveryActionType.QUARANTINE_LOCAL_GHOST_POSITION
                (lp_position_id p) (Some (lp_symbol p)))
      \<and> (\<forall>p\<in>set ps. lp_state p \<notin> {''CLOSED'', ''QUARANTINED''}
            \<and> position_key (lp_symbol p) (lp_direction p) \<notin> keys \<longrightarrow>
           (\<exists>a\<in>set acts'. ra_target_ref a = lp_position_id p
              \<and> ra_action_type a = RecoveryActionType.QUARANTINE_LOCAL_GHOST_POSITION))"
  using assms
proof (induction ps arbitrary: acts res)
  case (Cons p ps)
  let ?a = "recovery_action RecoveryActionType.QUARANTINE_LOCAL_GHOST_POSITION (lp_position_id p) (Some (lp_symbol p))"
  let ?skip = "lp_state p \<in> {''CLOSED'', ''QUARANTINED''}
         \<or> position_key (lp_symbol p) (lp_direction p) \<in> keys
         \<or> list_ex (\<lambda>a. ra_target_ref a = lp_position_id p
              \<and> ra_action_type a = RecoveryActionType.QUARANTINE_LOCAL_GHOST_POSITION) acts"
  show ?case
  proof (cases ?skip)
    case True
    with Cons.prems have "ghost_actions keys ps (acts, res) = (acts', res')" by simp
    from Cons.IH [OF this] True show ?thesis by (fastforce simp: list_ex_iff)
  next
    case False
    with Cons.prems have "ghost_actions keys ps (acts @ [?a], res @ [lp_position_id p]) = (acts', res')" by simp
    from Cons.IH [OF this] obtain gs where gs: "acts' = (acts @ [?a]) @ gs"
      "\<forall>g\<in>set gs. \<exists>p\<in>set ps. lp_state p \<notin> {''CLOSED'', ''QUARANTINED''}
            \<and> position_key (lp_symbol p) (lp_direction p) \<notin> keys
            \<and> g = recovery_action RecoveryActionType.QUARANTINE_LOCAL_GHOST_POSITION
                (lp_position_id p) (Some (lp_symbol p))"
      "\<forall>p\<in>set ps. lp_state p \<notin> {''CLOSED'', ''QUARANTINED''}
            \<and> position_key (lp_symbol p) (lp_direction p) \<notin> keys \<longrightarrow>
           (\<exists>a\<in>set acts'. ra_target_ref a = lp_position_id p
              \<and> ra_action_type a = RecoveryActionType.QUARANTINE_LOCAL_GHOST_POSITION)" by blast
    then show ?thesis using False by (intro exI [of _ "?a # gs"]) auto
  qed
qed simp

text \<open>Open positions of the local projection that the exchange does not show.\<close>

definition ghosts :: "AuthoritativeAccountSnapshot \<Rightarrow> LocalStateView option \<Rightarrow> LocalPositionView set" where
  "ghosts s ls = (case ls of None \<Rightarrow> {}
     | Some l \<Rightarrow> {p \<in> set (ls_positions l). lp_state p \<notin> {''CLOSED'', ''QUARANTINED''}
          \<and> position_key (lp_symbol p) (lp_direction p) \<notin> exchange_keys s})"

lemma recover_Some:
  obtains gs where
    "re_actions (recover_pending_state (Some s) inc ls pis ecs ra) =
       map (intent_action (exchange_client_ids s)) pis @ List.map_filter plan_for_discrepancy (rr_discrepancies inc)
         @ map close_action ecs @ gs"
    "\<forall>g\<in>set gs. \<exists>p\<in>ghosts s ls. g = recovery_action RecoveryActionType.QUARANTINE_LOCAL_GHOST_POSITION
                (lp_position_id p) (Some (lp_symbol p))"
    "\<forall>p\<in>ghosts s ls. \<exists>a\<in>set (re_actions (recover_pending_state (Some s) inc ls pis ecs ra)).
       ra_target_ref a = lp_position_id p \<and> ra_action_type a = RecoveryActionType.QUARANTINE_LOCAL_GHOST_POSITION"
    "re_entry_blocked (recover_pending_state (Some s) inc ls pis ecs ra) \<longleftrightarrow>
       \<not> (re_actions (recover_pending_state (Some s) inc ls pis ecs ra) = []
          \<and> rr_status inc = ReconciliationStatus.HEALTHY)"
proof -
  obtain xs us rs where p: "plan_discrepancies (rr_discrepancies inc) = (xs, us, rs)"
    by (cases "plan_discrepancies (rr_discrepancies inc)") auto
  then have xs: "xs = List.map_filter plan_for_discrepancy (rr_discrepancies inc)"
    using plan_actions [of "rr_discrepancies inc"] by simp
  let ?pl = "map (intent_action (exchange_client_ids s)) pis @ xs @ map close_action ecs"
  let ?st = "map pi_intent_id pis @ rs @ map ec_position_id ecs"
  show ?thesis
  proof (cases ls)
    case None
    with p xs show ?thesis
      by (intro that [of "[]"]) (auto simp: recover_pending_state_def ghosts_def Let_def)
  next
    case (Some l)
    obtain acts res where g: "ghost_actions (exchange_keys s) (ls_positions l) (?pl, ?st) = (acts, res)"
      by (cases "ghost_actions (exchange_keys s) (ls_positions l) (?pl, ?st)")
    from ghost_actions_eq [OF g] obtain gs where "acts = ?pl @ gs"
      "\<forall>g\<in>set gs. \<exists>p\<in>set (ls_positions l). lp_state p \<notin> {''CLOSED'', ''QUARANTINED''}
            \<and> position_key (lp_symbol p) (lp_direction p) \<notin> exchange_keys s
            \<and> g = recovery_action RecoveryActionType.QUARANTINE_LOCAL_GHOST_POSITION
                (lp_position_id p) (Some (lp_symbol p))"
      "\<forall>p\<in>set (ls_positions l). lp_state p \<notin> {''CLOSED'', ''QUARANTINED''}
            \<and> position_key (lp_symbol p) (lp_direction p) \<notin> exchange_keys s \<longrightarrow>
           (\<exists>a\<in>set acts. ra_target_ref a = lp_position_id p
              \<and> ra_action_type a = RecoveryActionType.QUARANTINE_LOCAL_GHOST_POSITION)" by blast
    with p xs g Some show ?thesis
      by (intro that [of gs]) (auto simp: recover_pending_state_def ghosts_def Let_def)
  qed
qed

lemma set_map_filter_plan:
  "a \<in> set (List.map_filter f xs) \<longleftrightarrow> (\<exists>x\<in>set xs. f x = Some a)"
  by (induction xs) (auto simp: map_filter_simps split: option.splits)

lemma intent_action_type:
  "ra_action_type (intent_action ids i) = (if pi_client_order_id i \<in> ids
     then RecoveryActionType.RESOLVE_UNKNOWN_INTENT_BY_CLIENT_ID
     else RecoveryActionType.MARK_INTENT_NOT_SUBMITTED)"
  "ra_target_ref (intent_action ids i) = pi_intent_id i" "ra_reduce_only (intent_action ids i)"
  by (simp_all add: intent_action_def)

lemma close_action_simps [simp]:
  "ra_action_type (close_action q) = RecoveryActionType.EMERGENCY_REDUCE_ONLY_CLOSE"
  "ra_target_ref (close_action q) = ec_position_id q" "ra_reduce_only (close_action q)"
  by (simp_all add: close_action_def)

abbreviation of_intent :: "RecoveryAction \<Rightarrow> bool" where
  "of_intent a \<equiv> ra_action_type a \<in> {RecoveryActionType.RESOLVE_UNKNOWN_INTENT_BY_CLIENT_ID,
     RecoveryActionType.MARK_INTENT_NOT_SUBMITTED}"

abbreviation of_close :: "RecoveryAction \<Rightarrow> bool" where
  "of_close a \<equiv> ra_action_type a = RecoveryActionType.EMERGENCY_REDUCE_ONLY_CLOSE"

lemma plan_part:
  "a \<in> set (List.map_filter plan_for_discrepancy ds) \<Longrightarrow> \<not> of_intent a \<and> \<not> of_close a \<and> ra_reduce_only a"
  using plan_for_discrepancy_type by (auto simp: set_map_filter_plan)

section \<open>Properties\<close>

text \<open>
  Recovery plans never add risk and never guess: every planned action is reduce-only; the
  emergency closes are exactly the requested ones, in order; and, when the account was read,
  every pending intent gets exactly one action, in order: its exchange state is adopted when
  its client order id rests at the exchange, and it is marked as not submitted otherwise.
\<close>

theorem recovery_plan_reduces:
  "let acts = re_actions (recover_pending_state snap inc ls pis ecs ra) in
    list_all ra_reduce_only acts \<and> filter of_close acts = map close_action ecs
    \<and> filter of_intent acts = (case snap of None \<Rightarrow> [] | Some s \<Rightarrow> map (intent_action (exchange_client_ids s)) pis)"
proof (cases snap)
  case None
  then show ?thesis by (simp add: recover_pending_state_def list_all_iff filter_map comp_def)
next
  case (Some s)
  define acts where "acts = re_actions (recover_pending_state snap inc ls pis ecs ra)"
  obtain gs where acts: "acts = map (intent_action (exchange_client_ids s)) pis
        @ List.map_filter plan_for_discrepancy (rr_discrepancies inc) @ map close_action ecs @ gs"
    and gs: "\<forall>g\<in>set gs. \<exists>p\<in>ghosts s ls. g = recovery_action RecoveryActionType.QUARANTINE_LOCAL_GHOST_POSITION
                (lp_position_id p) (Some (lp_symbol p))"
    unfolding acts_def Some by (rule recover_Some)
  let ?ds = "List.map_filter plan_for_discrepancy (rr_discrepancies inc)"
  have g: "\<forall>g\<in>set gs. \<not> of_intent g \<and> \<not> of_close g \<and> ra_reduce_only g" using gs by auto
  have "list_all ra_reduce_only acts"
    using g plan_part by (auto simp: acts list_all_iff intent_action_type)
  moreover have "filter of_close ?ds = []" "filter of_close gs = []" "filter of_intent ?ds = []"
      "filter of_intent gs = []"
    using g plan_part by (auto simp: filter_empty_conv)
  moreover have "filter of_close (map (intent_action (exchange_client_ids s)) pis) = []"
      "filter of_intent (map (intent_action (exchange_client_ids s)) pis) =
       map (intent_action (exchange_client_ids s)) pis"
    by (auto simp: filter_empty_conv filter_id_conv intent_action_type split: if_splits)
  ultimately have "list_all ra_reduce_only acts \<and> filter of_close acts = map close_action ecs
      \<and> filter of_intent acts = map (intent_action (exchange_client_ids s)) pis"
    by (simp add: acts filter_map comp_def)
  then show ?thesis unfolding acts_def Let_def using Some by simp
qed

text \<open>
  Recovery lifts the entry block only when there is nothing to recover: given the result
  of reconciliation, a pass leaves entries unblocked exactly when the account could be read,
  reconciliation found nothing, no intent is pending, no emergency close was requested and no
  open local position is missing at the exchange.
\<close>

theorem recovery_unblocks_exactly:
  assumes "reconcile snap lsv reason rat refs = Inr inc"
  shows "\<not> re_entry_blocked (recover_pending_state snap inc ls pis ecs ra) \<longleftrightarrow>
    (\<exists>s. snap = Some s \<and> rr_status inc = ReconciliationStatus.HEALTHY \<and> pis = [] \<and> ecs = [] \<and> ghosts s ls = {})"
proof (cases snap)
  case None
  then show ?thesis by (simp add: recover_pending_state_def)
next
  case (Some s)
  let ?r = "recover_pending_state (Some s) inc ls pis ecs ra"
  obtain gs where r: "re_actions ?r = map (intent_action (exchange_client_ids s)) pis
        @ List.map_filter plan_for_discrepancy (rr_discrepancies inc) @ map close_action ecs @ gs"
    and gs: "\<forall>g\<in>set gs. \<exists>p\<in>ghosts s ls. g = recovery_action RecoveryActionType.QUARANTINE_LOCAL_GHOST_POSITION
                (lp_position_id p) (Some (lp_symbol p))"
    and cover: "\<forall>p\<in>ghosts s ls. \<exists>a\<in>set (re_actions ?r).
       ra_target_ref a = lp_position_id p \<and> ra_action_type a = RecoveryActionType.QUARANTINE_LOCAL_GHOST_POSITION"
    and b: "re_entry_blocked ?r \<longleftrightarrow>
       \<not> (re_actions ?r = [] \<and> rr_status inc = ReconciliationStatus.HEALTHY)"
    by (rule recover_Some)
  have st: "rr_status inc = resolve_status (rr_discrepancies inc)"
    using reconcile_blocked assms Some by blast
  show ?thesis
  proof
    assume "\<not> re_entry_blocked (recover_pending_state snap inc ls pis ecs ra)"
    with Some b have "re_actions ?r = []" "rr_status inc = ReconciliationStatus.HEALTHY" by auto
    with r cover Some show "\<exists>s. snap = Some s \<and> rr_status inc = ReconciliationStatus.HEALTHY
        \<and> pis = [] \<and> ecs = [] \<and> ghosts s ls = {}" by auto
  next
    assume a: "\<exists>s. snap = Some s \<and> rr_status inc = ReconciliationStatus.HEALTHY
        \<and> pis = [] \<and> ecs = [] \<and> ghosts s ls = {}"
    then have "gs = []" using gs Some by (cases gs) auto
    moreover have "rr_discrepancies inc = []" using a st by (auto simp: resolve_status_simps)
    ultimately have "re_actions ?r = []" using r a by (auto simp: map_filter_simps)
    with a b Some show "\<not> re_entry_blocked (recover_pending_state snap inc ls pis ecs ra)" by auto
  qed
qed

lemma reconcile_position_discrepancy:
  assumes "reconcile (Some s) lsv reason rat refs = Inr inc" "p \<in> set (as_positions s)"
    and "d \<in> set (fd_discrepancies (position_findings lsv refs s p))"
  shows "d \<in> set (rr_discrepancies inc)"
  using assms(1)
proof (rule reconcile_Some)
  fix bs f
  assume f: "f = all_findings [all_findings (map intent_findings (ls_intents lsv)),
           all_findings (map (position_findings lsv refs s) (as_positions s)),
           all_findings (map (local_findings (set (fd_matched
             (all_findings (map (position_findings lsv refs s) (as_positions s)))))) (ls_positions lsv)),
           all_findings bs, all_findings (map (order_findings lsv) (as_pending_orders s))]"
    and "rr_discrepancies inc = fd_discrepancies f"
  then show ?thesis using assms(2,3) by auto
qed

lemma recover_plans_discrepancy:
  assumes "d \<in> set (rr_discrepancies inc)" "plan_for_discrepancy d = Some a"
  shows "a \<in> set (re_actions (recover_pending_state (Some s) inc ls pis ecs ra))"
proof -
  obtain gs where "re_actions (recover_pending_state (Some s) inc ls pis ecs ra) =
      map (intent_action (exchange_client_ids s)) pis
        @ List.map_filter plan_for_discrepancy (rr_discrepancies inc) @ map close_action ecs @ gs"
    by (rule recover_Some)
  then show ?thesis using assms by (auto simp: set_map_filter_plan)
qed

text \<open>
  C25.  No live position is left alone: for every position the exchange shows, if a managed
  position claims it and its protection is not active or one of its recorded protection orders
  does not rest at the exchange, the plan resubmits protection for that managed position; and if
  nothing claims it and it is no captured baseline, the plan quarantines it under its own key
  instead of adopting or closing it.
\<close>

theorem recovery_covers_exchange:
  assumes "reconcile (Some s) lsv reason rat refs = Inr inc" "p \<in> set (as_positions s)"
  shows "case claim_of lsv refs p of
      None \<Rightarrow> baseline_of lsv p = None \<longrightarrow>
        recovery_action RecoveryActionType.QUARANTINE_EXTERNAL_POSITION
          (position_key (xp_symbol p) (xp_direction p)) (Some (xp_symbol p))
          \<in> set (re_actions (recover_pending_state (Some s) inc ls pis ecs ra))
    | Some c \<Rightarrow> lp_position_id c \<noteq> [] \<and> (\<not> lp_has_active_protection c
          \<or> \<not> lp_protection_exchange_order_ids c \<subseteq> xo_exchange_order_id ` set (as_pending_orders s)) \<longrightarrow>
        recovery_action RecoveryActionType.RESUBMIT_PROTECTION (lp_position_id c) (Some (xp_symbol p))
          \<in> set (re_actions (recover_pending_state (Some s) inc ls pis ecs ra))"
proof (cases "claim_of lsv refs p")
  case None
  let ?d = "\<lparr>d_code = DiscrepancyCode.EXTERNAL_POSITION_UNCLAIMABLE, d_symbol = Some (xp_symbol p),
    d_local_position_id = None, d_exchange_ref = Some (position_key (xp_symbol p) (xp_direction p))\<rparr>"
  have "?d \<in> set (rr_discrepancies inc)" if "baseline_of lsv p = None"
    using that None by (intro reconcile_position_discrepancy [OF assms]) (simp add: position_findings_def Let_def)
  moreover have "plan_for_discrepancy ?d = Some (recovery_action RecoveryActionType.QUARANTINE_EXTERNAL_POSITION
        (position_key (xp_symbol p) (xp_direction p)) (Some (xp_symbol p)))"
    by (simp add: plan_for_discrepancy_def position_key_def)
  ultimately show ?thesis using None by (simp add: recover_plans_discrepancy [of ?d])
next
  case (Some c)
  let ?d = "\<lambda>k. \<lparr>d_code = k, d_symbol = Some (xp_symbol p), d_local_position_id = Some (lp_position_id c),
    d_exchange_ref = None\<rparr>"
  let ?a = "recovery_action RecoveryActionType.RESUBMIT_PROTECTION (lp_position_id c) (Some (xp_symbol p))"
  have plan: "plan_for_discrepancy (?d k) = Some ?a" if "lp_position_id c \<noteq> []"
      "k = DiscrepancyCode.MANAGED_POSITION_UNPROTECTED \<or> k = DiscrepancyCode.PROTECTION_ORDER_MISSING_AT_EXCHANGE" for k
    using that by (auto simp: plan_for_discrepancy_def)
  have "?d DiscrepancyCode.MANAGED_POSITION_UNPROTECTED \<in> set (rr_discrepancies inc)" if "\<not> lp_has_active_protection c"
    using that Some by (intro reconcile_position_discrepancy [OF assms])
      (simp add: position_findings_def claimed_findings_def flag_if_def Let_def)
  moreover have "?d DiscrepancyCode.PROTECTION_ORDER_MISSING_AT_EXCHANGE \<in> set (rr_discrepancies inc)"
    if "lp_has_active_protection c"
      "\<not> lp_protection_exchange_order_ids c \<subseteq> xo_exchange_order_id ` set (as_pending_orders s)"
    using that Some by (intro reconcile_position_discrepancy [OF assms])
      (simp add: position_findings_def claimed_findings_def flag_if_def Let_def)
  ultimately have "?a \<in> set (re_actions (recover_pending_state (Some s) inc ls pis ecs ra))"
    if "lp_position_id c \<noteq> []" "\<not> lp_has_active_protection c
      \<or> \<not> lp_protection_exchange_order_ids c \<subseteq> xo_exchange_order_id ` set (as_pending_orders s)"
    using that plan [OF that(1)] recover_plans_discrepancy by metis
  with Some show ?thesis by simp
qed

text \<open>
  An order that filled is no longer among the open orders, so its intent is planned to be marked
  as not submitted although it was.
\<close>

lemma filled_order_planned_as_not_submitted:
  assumes "i \<in> set pis" "pi_client_order_id i \<notin> exchange_client_ids s"
  shows "recovery_action RecoveryActionType.MARK_INTENT_NOT_SUBMITTED (pi_intent_id i) (Some (pi_symbol i))
    \<in> set (re_actions (recover_pending_state (Some s) inc ls pis ecs ra))"
proof -
  obtain gs where "re_actions (recover_pending_state (Some s) inc ls pis ecs ra) =
      map (intent_action (exchange_client_ids s)) pis
        @ List.map_filter plan_for_discrepancy (rr_discrepancies inc) @ map close_action ecs @ gs"
    by (rule recover_Some)
  with assms show ?thesis by (auto simp: intent_action_def)
qed

section \<open>Examples\<close>

theorem recovery_unblocks_exactly_witness:
  "\<exists>inc. reconcile (Some demo_snapshot) demo_local None None demo_refs = Inr inc
     \<and> \<not> re_entry_blocked (recover_pending_state (Some demo_snapshot) inc (Some demo_local) [] [] None)"
proof -
  obtain inc where inc: "reconcile (Some demo_snapshot) demo_local None None demo_refs = Inr inc"
      "rr_status inc = ReconciliationStatus.HEALTHY" using demo_reconciled by blast
  have "ghosts demo_snapshot (Some demo_local) = {}"
    by (auto simp: ghosts_def demo_local_def demo_position_def demo_snapshot_def exchange_keys_def position_key_def)
  with recovery_unblocks_exactly [OF inc(1), of "Some demo_local" "[]" "[]" None] inc show ?thesis by blast
qed

theorem recovery_covers_exchange_witness:
  "\<exists>inc. reconcile (Some demo_snapshot) (demo_local\<lparr>ls_positions := []\<rparr>) None None Map.empty = Inr inc
     \<and> recovery_action RecoveryActionType.QUARANTINE_EXTERNAL_POSITION ''BTC/USDT:long'' (Some ''BTC/USDT'')
         \<in> set (re_actions (recover_pending_state (Some demo_snapshot) inc None [] [] None))"
proof -
  let ?ls = "demo_local\<lparr>ls_positions := []\<rparr>"
  obtain inc where inc: "reconcile (Some demo_snapshot) ?ls None None Map.empty = Inr inc"
    by (simp add: reconcile_def demo_local_def Let_def)
  have p: "hd (as_positions demo_snapshot) \<in> set (as_positions demo_snapshot)" by (simp add: demo_snapshot_def)
  have "claim_of ?ls Map.empty (hd (as_positions demo_snapshot)) = None"
      "baseline_of ?ls (hd (as_positions demo_snapshot)) = None"
    by (simp_all add: claim_of_def claim_exchange_position_def baseline_of_def demo_local_def)
  with recovery_covers_exchange [OF inc p, of None "[]" "[]" None] inc show ?thesis
    by (simp add: demo_snapshot_def position_key_def)
qed

end
