(* ===== verification/Portfolio_Risk.thy ===== *)
theory Portfolio_Risk
  imports Py_Decimal "HOL-Library.Sublist"
begin

text \<open>
  The portfolio and crypto-cluster initial-risk budget (\<open>domain/portfolio_risk.py\<close>): may new
  exposure be opened, measured in initial stop-loss risk against equity.
\<close>

section \<open>The budget\<close>

definition MAX_TOTAL_INITIAL_RISK_FRACTION :: dec where
  "MAX_TOTAL_INITIAL_RISK_FRACTION = 125 / 10000"

definition MAX_SAME_DIRECTION_CLUSTER_RISK_FRACTION :: dec where
  "MAX_SAME_DIRECTION_CLUSTER_RISK_FRACTION = 80 / 10000"

definition MAX_OPEN_POSITIONS :: int where "MAX_OPEN_POSITIONS = 2"

definition CRYPTO_BETA_CLUSTER :: "string set" where
  "CRYPTO_BETA_CLUSTER = {''BTC/USDT'', ''ETH/USDT'', ''SOL/USDT'', ''XRP/USDT'', ''BNB/USDT''}"

record RiskExposure =
  re_symbol :: string
  re_direction :: string
  re_initial_risk_usdt :: dec
  re_source :: string

definition normalize_direction :: "string \<Rightarrow> string" where
  "normalize_direction d = (if lower d \<in> {''long'', ''buy''} then ''long'' else ''short'')"

definition normalized_direction :: "RiskExposure \<Rightarrow> string" where
  "normalized_direction e = normalize_direction (re_direction e)"

record PortfolioRiskDecision =
  prd_allowed :: bool
  prd_reason_code :: "string option"
  prd_equity :: dec
  prd_candidate_risk_usdt :: dec
  prd_committed_total_risk_usdt :: dec
  prd_committed_cluster_risk_usdt :: dec
  prd_projected_total_risk_fraction :: dec
  prd_projected_cluster_risk_fraction :: dec
  prd_open_position_count :: nat

definition prd_blocked :: "PortfolioRiskDecision \<Rightarrow> bool" where
  "prd_blocked d = (\<not> prd_allowed d)"

definition portfolio_risk_blocks :: "PortfolioRiskDecision \<Rightarrow> bool \<Rightarrow> bool" where
  "portfolio_risk_blocks decision diagnostic \<longleftrightarrow>
     prd_reason_code decision \<noteq> None \<and>
     (\<not> diagnostic \<or> prd_reason_code decision = Some ''MAX_OPEN_EXPOSURES'')"

definition sum_risk :: "RiskExposure list \<Rightarrow> dec" where
  "sum_risk exposures = dsum (map re_initial_risk_usdt exposures)"

definition in_cluster :: "string \<Rightarrow> bool" where
  "in_cluster symbol \<longleftrightarrow> symbol \<in> CRYPTO_BETA_CLUSTER"

definition evaluate_portfolio_risk ::
    "dec \<Rightarrow> string \<Rightarrow> string \<Rightarrow> dec \<Rightarrow> RiskExposure list \<Rightarrow> dec \<Rightarrow> dec \<Rightarrow> int \<Rightarrow> PortfolioRiskDecision" where
  "evaluate_portfolio_risk equity candidate_symbol candidate_direction candidate_initial_risk_usdt
      committed max_total_fraction max_cluster_fraction max_open_positions =
     (if equity \<le> 0 then
        \<lparr>prd_allowed = False, prd_reason_code = Some ''PORTFOLIO_EQUITY_UNAVAILABLE'',
         prd_equity = equity, prd_candidate_risk_usdt = candidate_initial_risk_usdt,
         prd_committed_total_risk_usdt = 0, prd_committed_cluster_risk_usdt = 0,
         prd_projected_total_risk_fraction = 0, prd_projected_cluster_risk_fraction = 0,
         prd_open_position_count = 0\<rparr>
      else
        (let direction = normalize_direction candidate_direction;
             committed_total = sum_risk committed;
             same_direction_cluster =
               filter (\<lambda>e. in_cluster (re_symbol e) \<and> normalized_direction e = direction) committed;
             committed_cluster = sum_risk same_direction_cluster;
             projected_total = dadd committed_total candidate_initial_risk_usdt;
             projected_cluster = dadd committed_cluster
               (if in_cluster candidate_symbol then candidate_initial_risk_usdt else 0);
             projected_total_fraction = ddiv projected_total equity;
             projected_cluster_fraction = ddiv projected_cluster equity;
             open_positions = filter (\<lambda>e. re_source e = ''position'') committed;
             verdict = (\<lambda>reason_code.
               \<lparr>prd_allowed = (reason_code = None), prd_reason_code = reason_code,
                prd_equity = equity, prd_candidate_risk_usdt = candidate_initial_risk_usdt,
                prd_committed_total_risk_usdt = committed_total,
                prd_committed_cluster_risk_usdt = committed_cluster,
                prd_projected_total_risk_fraction = projected_total_fraction,
                prd_projected_cluster_risk_fraction = projected_cluster_fraction,
                prd_open_position_count = length open_positions\<rparr>)
         in if candidate_initial_risk_usdt \<le> 0 then verdict (Some ''PORTFOLIO_RISK_UNMEASURABLE'')
            else if int (length open_positions) \<ge> max_open_positions
                 then verdict (Some ''MAX_OPEN_EXPOSURES'')
            else if projected_total_fraction > max_total_fraction
                 then verdict (Some ''PORTFOLIO_TOTAL_RISK_LIMIT'')
            else if projected_cluster_fraction > max_cluster_fraction
                 then verdict (Some ''CRYPTO_CLUSTER_RISK_LIMIT'')
            else verdict None))"

section \<open>Facts\<close>

lemma foldl_dadd_subseq:
  "\<lbrakk>subseq xs ys; a \<le> b; is_dec b; \<forall>y\<in>set ys. 0 \<le> y\<rbrakk> \<Longrightarrow> foldl dadd a xs \<le> foldl dadd b ys"
proof (induction ys arbitrary: xs a b)
  case (Cons y ys)
  from Cons.prems(1) consider "subseq xs ys" | xs' where "xs = y # xs'" "subseq xs' ys"
    by (cases xs) (auto simp: subseq_Cons2_iff split: if_splits)
  then show ?case
  proof cases
    case 1
    have "b \<le> dadd b y" using Cons.prems by (intro dadd_ge) auto
    with Cons.prems have "a \<le> dadd b y" by simp
    then show ?thesis using 1 Cons.prems by (auto intro!: Cons.IH)
  next
    case 2
    have "dadd a y \<le> dadd b y" unfolding dadd_def using Cons.prems by (intro ctx.rnd_mono) simp
    then show ?thesis using 2 Cons.prems by (auto intro!: Cons.IH)
  qed
qed (auto dest: list_emb_Nil2)

lemma sum_risk_subseq:
  "\<lbrakk>subseq xs ys; \<forall>e\<in>set ys. 0 \<le> re_initial_risk_usdt e\<rbrakk> \<Longrightarrow> sum_risk xs \<le> sum_risk ys"
  unfolding sum_risk_def dsum_def by (rule foldl_dadd_subseq) (auto intro: subseq_map)

lemma fraction_mono: "0 < q \<Longrightarrow> x \<le> y \<Longrightarrow> ddiv (dadd x r) q \<le> ddiv (dadd y r) q"
  unfolding ddiv_def dadd_def by (intro ctx.rnd_mono divide_right_mono) auto

definition risk_fractions ::
    "dec \<Rightarrow> string \<Rightarrow> string \<Rightarrow> dec \<Rightarrow> RiskExposure list \<Rightarrow> dec \<times> dec" where
  "risk_fractions equity symbol direction risk committed =
     (ddiv (dadd (sum_risk committed) risk) equity,
      ddiv (dadd (sum_risk (filter (\<lambda>e. in_cluster (re_symbol e)
              \<and> normalized_direction e = normalize_direction direction) committed))
            (if in_cluster symbol then risk else 0)) equity)"

lemma allowed_iff:
  "prd_allowed (evaluate_portfolio_risk q s d r committed mt mc mo) \<longleftrightarrow>
     0 < q \<and> 0 < r \<and> int (length (filter (\<lambda>e. re_source e = ''position'') committed)) < mo \<and>
     fst (risk_fractions q s d r committed) \<le> mt \<and> snd (risk_fractions q s d r committed) \<le> mc"
  by (auto simp: evaluate_portfolio_risk_def Let_def risk_fractions_def)

lemma risk_fractions_mono:
  assumes "subseq xs ys" "\<forall>e\<in>set ys. 0 \<le> re_initial_risk_usdt e" "0 < q"
  shows "fst (risk_fractions q s d r xs) \<le> fst (risk_fractions q s d r ys)"
    "snd (risk_fractions q s d r xs) \<le> snd (risk_fractions q s d r ys)"
proof -
  show "fst (risk_fractions q s d r xs) \<le> fst (risk_fractions q s d r ys)"
    unfolding risk_fractions_def fst_conv using assms by (intro fraction_mono sum_risk_subseq)
  show "snd (risk_fractions q s d r xs) \<le> snd (risk_fractions q s d r ys)"
    unfolding risk_fractions_def snd_conv using assms
    by (intro fraction_mono sum_risk_subseq subseq_filter) auto
qed

section \<open>Properties\<close>

text \<open>
  The budget gate is exact and fails closed: new risk is allowed exactly when equity and
  the candidate's risk are positive, fewer than the maximum of positions are open, and the
  projected total and same-direction cluster fractions are within their ceilings; and every
  refusal carries a reason, which blocks the entry outside diagnostic mode.
\<close>

theorem portfolio_gate_exact:
  "prd_allowed (evaluate_portfolio_risk q s d r committed mt mc mo) =
     (0 < q \<and> 0 < r \<and> int (length (filter (\<lambda>e. re_source e = ''position'') committed)) < mo \<and>
      fst (risk_fractions q s d r committed) \<le> mt \<and> snd (risk_fractions q s d r committed) \<le> mc)
   \<and> prd_blocked (evaluate_portfolio_risk q s d r committed mt mc mo) =
      portfolio_risk_blocks (evaluate_portfolio_risk q s d r committed mt mc mo) False"
  unfolding allowed_iff prd_blocked_def
  by (auto simp: portfolio_risk_blocks_def evaluate_portfolio_risk_def Let_def risk_fractions_def)

text \<open>
  More committed risk never opens the gate: if an entry is allowed against a book, it is
  allowed against every book obtained from it by dropping exposures, so an in-flight intent
  that ends can only release budget, and one that is added can only consume it.
\<close>

theorem portfolio_gate_monotone:
  assumes "subseq xs ys" "\<forall>e\<in>set ys. 0 \<le> re_initial_risk_usdt e"
    and "prd_allowed (evaluate_portfolio_risk q s d r ys mt mc mo)"
  shows "prd_allowed (evaluate_portfolio_risk q s d r xs mt mc mo)"
proof -
  have "length (filter (\<lambda>e. re_source e = ''position'') xs) \<le> length (filter (\<lambda>e. re_source e = ''position'') ys)"
    by (rule list_emb_length [OF subseq_filter [OF assms(1)]])
  with assms risk_fractions_mono [OF assms(1,2), of q s d r] show ?thesis
    unfolding allowed_iff by (meson of_nat_mono order.strict_trans1 order.trans)
qed

definition demo_exposure :: RiskExposure where
  "demo_exposure = \<lparr>re_symbol = ''BTC/USDT'', re_direction = ''BUY'', re_initial_risk_usdt = 20,
     re_source = ''position''\<rparr>"

theorem portfolio_gate_monotone_witness:
  "prd_allowed (evaluate_portfolio_risk 10000 ''ETH/USDT'' ''long'' 50 []
      MAX_TOTAL_INITIAL_RISK_FRACTION MAX_SAME_DIRECTION_CLUSTER_RISK_FRACTION MAX_OPEN_POSITIONS)"
proof (rule portfolio_gate_monotone [of "[]" "[demo_exposure]"])
  show "prd_allowed (evaluate_portfolio_risk 10000 ''ETH/USDT'' ''long'' 50 [demo_exposure]
      MAX_TOTAL_INITIAL_RISK_FRACTION MAX_SAME_DIRECTION_CLUSTER_RISK_FRACTION MAX_OPEN_POSITIONS)"
    by code_simp
qed (simp_all add: demo_exposure_def)

end
