(* ===== verification/Receipts.thy ===== *)
theory Receipts
  imports Py_Decimal
begin

text \<open>
  The exchange evidence records (\<open>domain/receipts.py\<close>) and the consistency checks made on them
  before local state is projected (\<open>domain/invariants.py\<close>).  Construction of a frozen dataclass
  with a \<open>__post_init__\<close> is a function that gives the record back or raises.
\<close>

section \<open>Receipts\<close>

record FillReceipt =
  fr_intent_id :: string
  fr_exchange_order_id :: string
  fr_trade_ids :: "string list"
  fr_filled_quantity :: dec
  fr_average_fill_price :: dec
  fr_total_fee :: dec
  fr_fill_timestamp :: int
  fr_source :: string

definition mk_FillReceipt :: "FillReceipt \<Rightarrow> FillReceipt res" where
  "mk_FillReceipt r =
     guardR (fr_exchange_order_id r = []) (ValueError ''FillReceipt requires exchange_order_id'') (
     guardR (fr_trade_ids r = [] \<and> fr_source r \<noteq> ''BINANCE_ORDER_STATUS_RECOVERY'')
       (ValueError ''FillReceipt requires trade_ids unless order-level recovery is explicit'') (
     guardR (fr_filled_quantity r \<le> 0) (ValueError ''FillReceipt filled_quantity must be > 0'') (
     guardR (fr_average_fill_price r \<le> 0) (ValueError ''FillReceipt average_fill_price must be > 0'')
       (Inr r))))"

record ProtectionReceipt =
  pr_position_id :: string
  pr_stop_exchange_order_id :: string
  pr_tp_exchange_order_id :: "string option"
  pr_submission_timestamp :: int

definition mk_ProtectionReceipt :: "ProtectionReceipt \<Rightarrow> ProtectionReceipt res" where
  "mk_ProtectionReceipt r =
     guardR (pr_stop_exchange_order_id r = [])
       (ValueError ''ProtectionReceipt requires stop_exchange_order_id'') (Inr r)"

record ReduceReceipt =
  rr_position_id :: string
  rr_exchange_order_id :: string
  rr_trade_ids :: "string list"
  rr_filled_quantity :: dec
  rr_average_fill_price :: dec
  rr_total_fee :: dec
  rr_fill_timestamp :: int

definition mk_ReduceReceipt :: "ReduceReceipt \<Rightarrow> ReduceReceipt res" where
  "mk_ReduceReceipt r =
     guardR (rr_exchange_order_id r = []) (ValueError ''ReduceReceipt requires exchange_order_id'') (
     guardR (rr_trade_ids r = []) (ValueError ''ReduceReceipt requires at least one trade_id'') (
     guardR (rr_filled_quantity r \<le> 0) (ValueError ''ReduceReceipt filled_quantity must be > 0'') (
     guardR (rr_average_fill_price r \<le> 0) (ValueError ''ReduceReceipt average_fill_price must be > 0'')
       (Inr r))))"

section \<open>Invariant checks\<close>

definition assert_fill_receipt_valid :: "FillReceipt \<Rightarrow> unit res" where
  "assert_fill_receipt_valid receipt =
     guardR (fr_exchange_order_id receipt = [])
       (ValueError ''Invariant violated: FillReceipt missing exchange_order_id'') (
     guardR (fr_trade_ids receipt = []) (ValueError ''Invariant violated: FillReceipt missing trade_ids'') (
     guardR (fr_filled_quantity receipt \<le> 0)
       (ValueError ''Invariant violated: FillReceipt filled_quantity'') (
     guardR (fr_average_fill_price receipt \<le> 0)
       (ValueError ''Invariant violated: FillReceipt average_fill_price'') (Inr ()))))"

definition assert_protection_active_requires_exchange_order_id :: "string option \<Rightarrow> unit res" where
  "assert_protection_active_requires_exchange_order_id stop_exchange_order_id =
     guardR (stop_exchange_order_id = None \<or> stop_exchange_order_id = Some [])
       (ValueError ''Invariant violated: missing stop exchange order id'') (Inr ())"

definition assert_protection_receipt_valid :: "ProtectionReceipt \<Rightarrow> unit res" where
  "assert_protection_receipt_valid receipt =
     assert_protection_active_requires_exchange_order_id (Some (pr_stop_exchange_order_id receipt))"

definition assert_protection_price_from_fill ::
    "FillReceipt \<Rightarrow> dec \<Rightarrow> string \<Rightarrow> dec \<Rightarrow> unit res" where
  "assert_protection_price_from_fill fill_receipt stop_loss_price direction min_stop_distance_pct =
     (let fill_price = fr_average_fill_price fill_receipt;
          distance_pct =
            (if direction = ''long'' then
               guardR (stop_loss_price \<ge> fill_price)
                 (ValueError ''Invariant violated: long stop_loss_price must be < fill_price'')
                 (ddivR (dsub fill_price stop_loss_price) fill_price)
             else if direction = ''short'' then
               guardR (stop_loss_price \<le> fill_price)
                 (ValueError ''Invariant violated: short stop_loss_price must be > fill_price'')
                 (ddivR (dsub stop_loss_price fill_price) fill_price)
             else Inl (ValueError ''Unknown direction''))
      in bindR distance_pct (\<lambda>d.
           guardR (d < min_stop_distance_pct)
             (ValueError ''Invariant violated: stop distance is below minimum'') (Inr ())))"

definition assert_reduce_quantity_valid :: "dec \<Rightarrow> dec \<Rightarrow> unit res" where
  "assert_reduce_quantity_valid reduce_quantity position_quantity =
     guardR (reduce_quantity \<le> 0) (ValueError ''Invariant violated: reduce_quantity must be > 0'') (
     guardR (reduce_quantity > position_quantity)
       (ValueError ''Invariant violated: reduce_quantity exceeds position_quantity'') (Inr ()))"

definition assert_managed_position_invariants ::
    "string \<Rightarrow> FillReceipt option \<Rightarrow> string option \<Rightarrow> unit res" where
  "assert_managed_position_invariants position_id fill_receipt exchange_order_id =
     (case fill_receipt of
        None \<Rightarrow> Inl (ValueError ''Invariant violated: Managed position has no FillReceipt'')
      | Some r \<Rightarrow> bindR (assert_fill_receipt_valid r) (\<lambda>_.
          guardR (case exchange_order_id of None \<Rightarrow> False
                  | Some x \<Rightarrow> x \<noteq> [] \<and> fr_exchange_order_id r \<noteq> x)
            (ValueError ''Invariant violated: position exchange_order_id does not match FillReceipt'')
            (Inr ())))"

section \<open>Facts and properties\<close>

definition wf_fill :: "FillReceipt \<Rightarrow> bool" where
  "wf_fill r \<longleftrightarrow> fr_exchange_order_id r \<noteq> [] \<and> 0 < fr_filled_quantity r \<and> 0 < fr_average_fill_price r
     \<and> (fr_trade_ids r \<noteq> [] \<or> fr_source r = ''BINANCE_ORDER_STATUS_RECOVERY'')"

lemma mk_FillReceipt_Inr: "mk_FillReceipt r = Inr r' \<longleftrightarrow> r' = r \<and> wf_fill r"
  by (auto simp: mk_FillReceipt_def guardR_Inr_iff wf_fill_def)

lemma assert_fill_ok: "assert_fill_receipt_valid r = Inr () \<longleftrightarrow> wf_fill r \<and> fr_trade_ids r \<noteq> []"
  by (auto simp: assert_fill_receipt_valid_def guardR_Inr_iff wf_fill_def)

text \<open>
  C36.  A position is managed only on exchange evidence: the checks pass exactly for a receipt
  with an exchange order id, at least one trade id, a positive quantity and a positive price,
  whose order id agrees with the position's own where that is known.  A receipt recovered from
  an order status, which may carry no trade id, is constructible and yet refused here.
\<close>

theorem managed_position_evidence:
  "(assert_managed_position_invariants pid fr xo = Inr () \<longleftrightarrow>
      (\<exists>r. fr = Some r \<and> mk_FillReceipt r = Inr r \<and> fr_trade_ids r \<noteq> []
         \<and> (xo = None \<or> xo = Some [] \<or> xo = Some (fr_exchange_order_id r))))
   \<and> (\<exists>r. mk_FillReceipt r = Inr r \<and> assert_managed_position_invariants pid (Some r) None \<noteq> Inr ())"
proof
  show "assert_managed_position_invariants pid fr xo = Inr () \<longleftrightarrow>
      (\<exists>r. fr = Some r \<and> mk_FillReceipt r = Inr r \<and> fr_trade_ids r \<noteq> []
         \<and> (xo = None \<or> xo = Some [] \<or> xo = Some (fr_exchange_order_id r)))"
    by (auto simp: assert_managed_position_invariants_def bindR_Inr_iff guardR_Inr_iff
        assert_fill_ok mk_FillReceipt_Inr split: option.splits)
  let ?r = "\<lparr>fr_intent_id = ''i'', fr_exchange_order_id = ''1'', fr_trade_ids = [],
     fr_filled_quantity = 1, fr_average_fill_price = 1, fr_total_fee = 0, fr_fill_timestamp = 0,
     fr_source = ''BINANCE_ORDER_STATUS_RECOVERY''\<rparr>"
  show "\<exists>r. mk_FillReceipt r = Inr r \<and> assert_managed_position_invariants pid (Some r) None \<noteq> Inr ()"
    by (intro exI [of _ ?r])
      (simp add: mk_FillReceipt_Inr wf_fill_def assert_managed_position_invariants_def
        bindR_Inr_iff assert_fill_ok)
qed

text \<open>
  A stop price that passes the check is on the losing side of the fill and not too close
  to it: for a long strictly below, for a short strictly above, with a relative distance of at
  least the minimum; any other direction is refused.
\<close>

theorem stop_price_check:
  "assert_protection_price_from_fill r stop d m = Inr () \<longleftrightarrow>
     fr_average_fill_price r \<noteq> 0 \<and>
     ((d = ''long'' \<and> stop < fr_average_fill_price r
         \<and> m \<le> ddiv (dsub (fr_average_fill_price r) stop) (fr_average_fill_price r)) \<or>
      (d = ''short'' \<and> fr_average_fill_price r < stop
         \<and> m \<le> ddiv (dsub stop (fr_average_fill_price r)) (fr_average_fill_price r)))"
  by (auto simp: assert_protection_price_from_fill_def Let_def bindR_Inr_iff guardR_Inr_iff)

end
