(* ===== verification/State_Tables.thy ===== *)
theory State_Tables
  imports Enums
begin

text \<open>
  The V2 lifecycle tables and their validators (\<open>domain/state.py\<close>), and the order lifecycle
  of \<open>services/execution/exchange_order_transitions.py\<close>.  The locale \<open>lifecycle\<close> states what a
  validator promises about its table; the facts about sequences of accepted transitions are
  proved there once and used through one interpretation per table.
\<close>

section \<open>The tables\<close>

fun LEGAL_INTENT_TRANSITIONS :: "V2IntentState \<Rightarrow> V2IntentState set" where
  "LEGAL_INTENT_TRANSITIONS V2IntentState.INTENT_CREATED =
     {V2IntentState.EXCHANGE_SUBMITTING, V2IntentState.CANCELLED}"
| "LEGAL_INTENT_TRANSITIONS V2IntentState.EXCHANGE_SUBMITTING =
     {V2IntentState.EXCHANGE_ACKNOWLEDGED, V2IntentState.FILLED, V2IntentState.REJECTED,
      V2IntentState.CANCELLED, V2IntentState.EXCHANGE_UNKNOWN}"
| "LEGAL_INTENT_TRANSITIONS V2IntentState.EXCHANGE_UNKNOWN =
     {V2IntentState.EXCHANGE_ACKNOWLEDGED, V2IntentState.FILLED, V2IntentState.REJECTED,
      V2IntentState.CANCELLED, V2IntentState.EXPIRED}"
| "LEGAL_INTENT_TRANSITIONS V2IntentState.EXCHANGE_ACKNOWLEDGED =
     {V2IntentState.FILLED, V2IntentState.CANCELLED, V2IntentState.EXPIRED}"
| "LEGAL_INTENT_TRANSITIONS V2IntentState.FILLED = {}"
| "LEGAL_INTENT_TRANSITIONS V2IntentState.REJECTED = {}"
| "LEGAL_INTENT_TRANSITIONS V2IntentState.CANCELLED = {}"
| "LEGAL_INTENT_TRANSITIONS V2IntentState.EXPIRED = {}"

fun LEGAL_POSITION_TRANSITIONS :: "V2PositionState \<Rightarrow> V2PositionState set" where
  "LEGAL_POSITION_TRANSITIONS V2PositionState.POSITION_PROJECTED =
     {V2PositionState.PROTECTED, V2PositionState.REDUCING, V2PositionState.QUARANTINED}"
| "LEGAL_POSITION_TRANSITIONS V2PositionState.PROTECTED =
     {V2PositionState.REDUCING, V2PositionState.CLOSED, V2PositionState.QUARANTINED}"
| "LEGAL_POSITION_TRANSITIONS V2PositionState.REDUCING =
     {V2PositionState.CLOSED, V2PositionState.QUARANTINED}"
| "LEGAL_POSITION_TRANSITIONS V2PositionState.CLOSED = {}"
| "LEGAL_POSITION_TRANSITIONS V2PositionState.QUARANTINED = {}"

fun LEGAL_PROTECTION_TRANSITIONS :: "V2ProtectionState \<Rightarrow> V2ProtectionState set" where
  "LEGAL_PROTECTION_TRANSITIONS V2ProtectionState.PROTECTION_INTENT =
     {V2ProtectionState.PROTECTION_SUBMITTING, V2ProtectionState.PROTECTION_CANCELLED}"
| "LEGAL_PROTECTION_TRANSITIONS V2ProtectionState.PROTECTION_SUBMITTING =
     {V2ProtectionState.PROTECTION_ACTIVE, V2ProtectionState.PROTECTION_CANCELLED,
      V2ProtectionState.PROTECTION_FAILED, V2ProtectionState.PROTECTION_UNKNOWN}"
| "LEGAL_PROTECTION_TRANSITIONS V2ProtectionState.PROTECTION_ACTIVE =
     {V2ProtectionState.PROTECTION_TRIGGERED, V2ProtectionState.PROTECTION_CANCELLED}"
| "LEGAL_PROTECTION_TRANSITIONS V2ProtectionState.PROTECTION_TRIGGERED =
     {V2ProtectionState.PROTECTION_FILLED}"
| "LEGAL_PROTECTION_TRANSITIONS V2ProtectionState.PROTECTION_FAILED =
     {V2ProtectionState.PROTECTION_SUBMITTING, V2ProtectionState.PROTECTION_CANCELLED}"
| "LEGAL_PROTECTION_TRANSITIONS V2ProtectionState.PROTECTION_UNKNOWN =
     {V2ProtectionState.PROTECTION_ACTIVE, V2ProtectionState.PROTECTION_TRIGGERED,
      V2ProtectionState.PROTECTION_CANCELLED, V2ProtectionState.PROTECTION_FAILED}"
| "LEGAL_PROTECTION_TRANSITIONS V2ProtectionState.PROTECTION_FILLED = {}"
| "LEGAL_PROTECTION_TRANSITIONS V2ProtectionState.PROTECTION_CANCELLED = {}"

fun ALLOWED_EXCHANGE_ORDER_TRANSITIONS :: "ExchangeOrderState \<Rightarrow> ExchangeOrderState set" where
  "ALLOWED_EXCHANGE_ORDER_TRANSITIONS ExchangeOrderState.INTENT_CREATED =
     {ExchangeOrderState.PRETRADE_APPROVED, ExchangeOrderState.PRETRADE_REJECTED}"
| "ALLOWED_EXCHANGE_ORDER_TRANSITIONS ExchangeOrderState.PRETRADE_APPROVED =
     {ExchangeOrderState.EXCHANGE_SUBMITTING, ExchangeOrderState.PRETRADE_REJECTED}"
| "ALLOWED_EXCHANGE_ORDER_TRANSITIONS ExchangeOrderState.EXCHANGE_SUBMITTING =
     {ExchangeOrderState.EXCHANGE_ACKNOWLEDGED, ExchangeOrderState.PARTIALLY_FILLED,
      ExchangeOrderState.FILLED, ExchangeOrderState.EXCHANGE_REJECTED,
      ExchangeOrderState.EXCHANGE_UNKNOWN, ExchangeOrderState.EMERGENCY_CLOSE_PENDING}"
| "ALLOWED_EXCHANGE_ORDER_TRANSITIONS ExchangeOrderState.EXCHANGE_ACKNOWLEDGED =
     {ExchangeOrderState.PARTIALLY_FILLED, ExchangeOrderState.FILLED,
      ExchangeOrderState.EXCHANGE_REJECTED, ExchangeOrderState.EXCHANGE_UNKNOWN}"
| "ALLOWED_EXCHANGE_ORDER_TRANSITIONS ExchangeOrderState.PARTIALLY_FILLED =
     {ExchangeOrderState.PARTIALLY_FILLED, ExchangeOrderState.FILLED,
      ExchangeOrderState.EXCHANGE_UNKNOWN, ExchangeOrderState.EXCHANGE_REJECTED}"
| "ALLOWED_EXCHANGE_ORDER_TRANSITIONS ExchangeOrderState.FILLED =
     {ExchangeOrderState.POSITION_PROJECTED, ExchangeOrderState.EXCHANGE_UNKNOWN,
      ExchangeOrderState.DUST_REMAINS, ExchangeOrderState.CLOSED}"
| "ALLOWED_EXCHANGE_ORDER_TRANSITIONS ExchangeOrderState.POSITION_PROJECTED =
     {ExchangeOrderState.PROTECTION_SUBMITTING, ExchangeOrderState.PROTECTED,
      ExchangeOrderState.PROTECTION_FAILED, ExchangeOrderState.EXCHANGE_UNKNOWN,
      ExchangeOrderState.CLOSED}"
| "ALLOWED_EXCHANGE_ORDER_TRANSITIONS ExchangeOrderState.PROTECTION_SUBMITTING =
     {ExchangeOrderState.PROTECTED, ExchangeOrderState.PROTECTION_FAILED,
      ExchangeOrderState.EXCHANGE_UNKNOWN}"
| "ALLOWED_EXCHANGE_ORDER_TRANSITIONS ExchangeOrderState.PROTECTED =
     {ExchangeOrderState.CLOSED, ExchangeOrderState.EMERGENCY_CLOSE_PENDING,
      ExchangeOrderState.EXCHANGE_UNKNOWN, ExchangeOrderState.DUST_REMAINS}"
| "ALLOWED_EXCHANGE_ORDER_TRANSITIONS ExchangeOrderState.PRETRADE_REJECTED = {}"
| "ALLOWED_EXCHANGE_ORDER_TRANSITIONS ExchangeOrderState.EXCHANGE_REJECTED = {}"
| "ALLOWED_EXCHANGE_ORDER_TRANSITIONS ExchangeOrderState.PROTECTION_FAILED =
     {ExchangeOrderState.EMERGENCY_CLOSE_PENDING, ExchangeOrderState.EXCHANGE_UNKNOWN,
      ExchangeOrderState.CLOSED}"
| "ALLOWED_EXCHANGE_ORDER_TRANSITIONS ExchangeOrderState.EXCHANGE_UNKNOWN =
     {ExchangeOrderState.EXCHANGE_ACKNOWLEDGED, ExchangeOrderState.PARTIALLY_FILLED,
      ExchangeOrderState.FILLED, ExchangeOrderState.POSITION_PROJECTED,
      ExchangeOrderState.PROTECTED, ExchangeOrderState.EXCHANGE_REJECTED,
      ExchangeOrderState.EMERGENCY_CLOSE_PENDING, ExchangeOrderState.DUST_REMAINS,
      ExchangeOrderState.CLOSED}"
| "ALLOWED_EXCHANGE_ORDER_TRANSITIONS ExchangeOrderState.EMERGENCY_CLOSE_PENDING =
     {ExchangeOrderState.CLOSED, ExchangeOrderState.EXCHANGE_UNKNOWN,
      ExchangeOrderState.DUST_REMAINS}"
| "ALLOWED_EXCHANGE_ORDER_TRANSITIONS ExchangeOrderState.DUST_REMAINS =
     {ExchangeOrderState.CLOSED, ExchangeOrderState.EMERGENCY_CLOSE_PENDING,
      ExchangeOrderState.EXCHANGE_UNKNOWN}"
| "ALLOWED_EXCHANGE_ORDER_TRANSITIONS ExchangeOrderState.CLOSED = {}"

section \<open>The validators\<close>

definition validate_intent_transition :: "V2IntentState \<Rightarrow> V2IntentState \<Rightarrow> unit res" where
  "validate_intent_transition current next_state =
     (if current = next_state then Inr ()
      else guardR (next_state \<notin> LEGAL_INTENT_TRANSITIONS current)
             (ValueError ''Illegal V2 intent transition'') (Inr ()))"

definition validate_position_transition :: "V2PositionState \<Rightarrow> V2PositionState \<Rightarrow> unit res" where
  "validate_position_transition current next_state =
     (if current = next_state then Inr ()
      else guardR (next_state \<notin> LEGAL_POSITION_TRANSITIONS current)
             (ValueError ''Illegal V2 position transition'') (Inr ()))"

definition validate_historical_attribution_transition ::
    "V2PositionState \<Rightarrow> V2PositionState \<Rightarrow> unit res" where
  "validate_historical_attribution_transition current next_state =
     guardR (current \<noteq> V2PositionState.QUARANTINED \<or> next_state \<noteq> V2PositionState.CLOSED)
       (ValueError ''Historical attribution may transition only QUARANTINED -> CLOSED'') (Inr ())"

definition validate_protection_transition ::
    "V2ProtectionState \<Rightarrow> V2ProtectionState \<Rightarrow> unit res" where
  "validate_protection_transition current next_state =
     (if current = next_state then Inr ()
      else guardR (next_state \<notin> LEGAL_PROTECTION_TRANSITIONS current)
             (ValueError ''Illegal V2 protection transition'') (Inr ()))"

definition validate_exchange_order_transition ::
    "ExchangeOrderState \<Rightarrow> ExchangeOrderState \<Rightarrow> unit res" where
  "validate_exchange_order_transition current next_state =
     (if next_state = current then Inr ()
      else guardR (next_state \<notin> ALLOWED_EXCHANGE_ORDER_TRANSITIONS current)
             (ValueError ''illegal exchange order transition'') (Inr ()))"

section \<open>Sequences of accepted transitions\<close>

text \<open>Every state of the sequence is entered by a transition the validator accepts.\<close>

fun accepted :: "('s \<Rightarrow> 's \<Rightarrow> unit res) \<Rightarrow> 's \<Rightarrow> 's list \<Rightarrow> bool" where
  "accepted validate c [] \<longleftrightarrow> True"
| "accepted validate c (n # ns) \<longleftrightarrow> is_ok (validate c n) \<and> accepted validate n ns"

locale lifecycle =
  fixes legal :: "'s \<Rightarrow> 's set" and validate :: "'s \<Rightarrow> 's \<Rightarrow> unit res"
  assumes validate_ok_iff: "is_ok (validate c n) \<longleftrightarrow> n = c \<or> n \<in> legal c"
begin

lemma closed_set:
  "\<lbrakk>accepted validate c ns; c \<in> S; \<And>s. s \<in> S \<Longrightarrow> legal s \<subseteq> S\<rbrakk> \<Longrightarrow> set ns \<subseteq> S"
  by (induction ns arbitrary: c) (auto simp: validate_ok_iff)

lemma absorbing: "\<lbrakk>accepted validate c ns; legal c = {}\<rbrakk> \<Longrightarrow> set ns \<subseteq> {c}"
  using closed_set [of c ns "{c}"] by simp

text \<open>A gate: whoever leaves \<open>S\<close> enters \<open>g\<close> first.\<close>

lemma gate:
  "\<lbrakk>accepted validate c ns; c \<in> S; \<And>s. s \<in> S \<Longrightarrow> legal s \<subseteq> insert g S; t \<in> set ns; t \<notin> S\<rbrakk>
    \<Longrightarrow> g \<in> set ns"
proof (induction ns arbitrary: c)
  case (Cons n ns)
  then have "n \<in> S \<or> n = g" by (auto simp: validate_ok_iff)
  with Cons show ?case by auto
qed simp

end

text \<open>A lifecycle whose table is acyclic, by a rank that every proper transition lowers.\<close>

locale ranked_lifecycle = lifecycle legal validate
  for legal :: "'s \<Rightarrow> 's set" and validate :: "'s \<Rightarrow> 's \<Rightarrow> unit res" +
  fixes rank :: "'s \<Rightarrow> nat"
  assumes legal_rank: "n \<in> legal c \<Longrightarrow> rank n < rank c"
begin

lemma rank_bounds: "\<lbrakk>accepted validate c ns; t \<in> set ns\<rbrakk> \<Longrightarrow> t = c \<or> rank t < rank c"
proof (induction ns arbitrary: c)
  case (Cons n ns)
  then have n: "n = c \<or> rank n < rank c" by (auto simp: validate_ok_iff legal_rank)
  from Cons have "t = n \<or> rank t < rank n" by auto
  with n show ?case by auto
qed simp

lemma changes_bounded:
  "accepted validate c ns \<Longrightarrow> length (remdups_adj (c # ns)) \<le> Suc (rank c)"
proof (induction ns arbitrary: c)
  case (Cons n ns)
  then have IH: "length (remdups_adj (n # ns)) \<le> Suc (rank n)" by simp
  show ?case
  proof (cases "n = c")
    case False
    with Cons.prems have "rank n < rank c" by (auto simp: validate_ok_iff legal_rank)
    with IH False show ?thesis by simp
  qed (use IH in simp)
qed simp

lemma no_return: "accepted validate c (ns @ [c]) \<Longrightarrow> set ns \<subseteq> {c}"
proof (induction ns arbitrary: c)
  case (Cons n ns)
  then have acc: "accepted validate n (ns @ [c])" and n: "n = c \<or> rank n < rank c"
    by (auto simp: validate_ok_iff legal_rank)
  from rank_bounds [OF acc, of c] n have "n = c" by auto
  with acc Cons.IH show ?case by auto
qed simp

end

section \<open>The interfaces, on the engine's tables\<close>

fun intent_rank :: "V2IntentState \<Rightarrow> nat" where
  "intent_rank V2IntentState.INTENT_CREATED = 4"
| "intent_rank V2IntentState.EXCHANGE_SUBMITTING = 3"
| "intent_rank V2IntentState.EXCHANGE_UNKNOWN = 2"
| "intent_rank V2IntentState.EXCHANGE_ACKNOWLEDGED = 1"
| "intent_rank _ = 0"

fun position_rank :: "V2PositionState \<Rightarrow> nat" where
  "position_rank V2PositionState.POSITION_PROJECTED = 3"
| "position_rank V2PositionState.PROTECTED = 2"
| "position_rank V2PositionState.REDUCING = 1"
| "position_rank _ = 0"

interpretation intent_lc: ranked_lifecycle LEGAL_INTENT_TRANSITIONS validate_intent_transition intent_rank
proof
  fix c n
  show "is_ok (validate_intent_transition c n) \<longleftrightarrow> n = c \<or> n \<in> LEGAL_INTENT_TRANSITIONS c"
    by (auto simp: validate_intent_transition_def guardR_def)
  show "n \<in> LEGAL_INTENT_TRANSITIONS c \<Longrightarrow> intent_rank n < intent_rank c"
    by (cases c) auto
qed

interpretation position_lc:
  ranked_lifecycle LEGAL_POSITION_TRANSITIONS validate_position_transition position_rank
proof
  fix c n
  show "is_ok (validate_position_transition c n) \<longleftrightarrow> n = c \<or> n \<in> LEGAL_POSITION_TRANSITIONS c"
    by (auto simp: validate_position_transition_def guardR_def)
  show "n \<in> LEGAL_POSITION_TRANSITIONS c \<Longrightarrow> position_rank n < position_rank c"
    by (cases c) auto
qed

interpretation protection_lc: lifecycle LEGAL_PROTECTION_TRANSITIONS validate_protection_transition
  by unfold_locales (auto simp: validate_protection_transition_def guardR_def)

interpretation exchange_order_lc:
  lifecycle ALLOWED_EXCHANGE_ORDER_TRANSITIONS validate_exchange_order_transition
  by unfold_locales (auto simp: validate_exchange_order_transition_def guardR_def)

section \<open>Properties of the lifecycles\<close>

text \<open>
  C32.  An intent whose submission left the process with an unknown outcome is never submitted
  again: after \<open>EXCHANGE_UNKNOWN\<close>, no sequence of accepted transitions enters
  \<open>EXCHANGE_SUBMITTING\<close> or \<open>INTENT_CREATED\<close>.  An intent makes at most four changes of state in
  its life, a state it has left is never entered again, and it reaches \<open>FILLED\<close> from
  \<open>INTENT_CREATED\<close> only through \<open>EXCHANGE_SUBMITTING\<close>.
\<close>

theorem intent_never_resubmitted:
  assumes "accepted validate_intent_transition c ns"
  shows "(c = V2IntentState.EXCHANGE_UNKNOWN \<longrightarrow>
        V2IntentState.EXCHANGE_SUBMITTING \<notin> set ns \<and> V2IntentState.INTENT_CREATED \<notin> set ns)
    \<and> length (remdups_adj (c # ns)) \<le> 5
    \<and> (\<forall>ms. ns = ms @ [c] \<longrightarrow> set ms \<subseteq> {c})
    \<and> (c = V2IntentState.INTENT_CREATED \<and> V2IntentState.FILLED \<in> set ns \<longrightarrow>
        V2IntentState.EXCHANGE_SUBMITTING \<in> set ns)"
proof (intro conjI impI allI)
  show "length (remdups_adj (c # ns)) \<le> 5"
    using intent_lc.changes_bounded [OF assms] by (cases c) auto
  show "set ms \<subseteq> {c}" if "ns = ms @ [c]" for ms
    using assms that intent_lc.no_return by blast
  assume c: "c = V2IntentState.EXCHANGE_UNKNOWN"
  show "V2IntentState.EXCHANGE_SUBMITTING \<notin> set ns"
    using intent_lc.rank_bounds [OF assms, of V2IntentState.EXCHANGE_SUBMITTING] c by auto
  show "V2IntentState.INTENT_CREATED \<notin> set ns"
    using intent_lc.rank_bounds [OF assms, of V2IntentState.INTENT_CREATED] c by auto
next
  assume *: "c = V2IntentState.INTENT_CREATED \<and> V2IntentState.FILLED \<in> set ns"
  show "V2IntentState.EXCHANGE_SUBMITTING \<in> set ns"
    by (rule intent_lc.gate [OF assms, of "{V2IntentState.INTENT_CREATED, V2IntentState.CANCELLED}"])
      (use * in auto)
qed

theorem intent_never_resubmitted_witness:
  "V2IntentState.EXCHANGE_SUBMITTING \<notin>
     set [V2IntentState.EXCHANGE_ACKNOWLEDGED, V2IntentState.FILLED, V2IntentState.FILLED]"
  using intent_never_resubmitted [of V2IntentState.EXCHANGE_UNKNOWN
      "[V2IntentState.EXCHANGE_ACKNOWLEDGED, V2IntentState.FILLED, V2IntentState.FILLED]"]
  by (simp add: validate_intent_transition_def)

text \<open>
  A managed position ends: \<open>CLOSED\<close> and \<open>QUARANTINED\<close> are absorbing, at most three
  changes of state happen, and a position that is still live never goes back to being
  unprotected.  The operator's historical attribution accepts exactly the one step out of
  quarantine that the ordinary table forbids.
\<close>

theorem position_lifecycle:
  assumes "accepted validate_position_transition c ns"
  shows "(c = V2PositionState.CLOSED \<or> c = V2PositionState.QUARANTINED \<longrightarrow> set ns \<subseteq> {c})
    \<and> length (remdups_adj (c # ns)) \<le> 4
    \<and> (c \<noteq> V2PositionState.POSITION_PROJECTED \<longrightarrow> V2PositionState.POSITION_PROJECTED \<notin> set ns)
    \<and> (\<forall>p q. is_ok (validate_historical_attribution_transition p q) \<longleftrightarrow>
          p = V2PositionState.QUARANTINED \<and> q = V2PositionState.CLOSED)
    \<and> \<not> is_ok (validate_position_transition V2PositionState.QUARANTINED V2PositionState.CLOSED)"
proof (intro conjI impI allI)
  show "set ns \<subseteq> {c}" if "c = V2PositionState.CLOSED \<or> c = V2PositionState.QUARANTINED"
    using position_lc.absorbing [OF assms] that by auto
  show "length (remdups_adj (c # ns)) \<le> 4"
    using position_lc.changes_bounded [OF assms] by (cases c) auto
  show "V2PositionState.POSITION_PROJECTED \<notin> set ns" if "c \<noteq> V2PositionState.POSITION_PROJECTED"
    using position_lc.rank_bounds [OF assms, of V2PositionState.POSITION_PROJECTED] that
    by (cases c) auto
  show "is_ok (validate_historical_attribution_transition p q) \<longleftrightarrow>
      p = V2PositionState.QUARANTINED \<and> q = V2PositionState.CLOSED" for p q
    by (auto simp: validate_historical_attribution_transition_def guardR_def)
  show "\<not> is_ok (validate_position_transition V2PositionState.QUARANTINED V2PositionState.CLOSED)"
    by (simp add: position_lc.validate_ok_iff)
qed

theorem position_lifecycle_witness:
  "set [V2PositionState.CLOSED, V2PositionState.CLOSED] \<subseteq> {V2PositionState.CLOSED}"
  using position_lifecycle [of V2PositionState.CLOSED "[V2PositionState.CLOSED, V2PositionState.CLOSED]"]
  by (simp add: validate_position_transition_def)

text \<open>
  Protection is confirmed only after it was sent: from \<open>PROTECTION_INTENT\<close>, neither
  \<open>PROTECTION_ACTIVE\<close> nor \<open>PROTECTION_TRIGGERED\<close> is reached without \<open>PROTECTION_SUBMITTING\<close>; a
  submission with an unknown outcome is sent again only after it is recorded as failed; filled
  and cancelled protection stays so.
\<close>

theorem protection_lifecycle:
  assumes "accepted validate_protection_transition c ns"
  shows "(c = V2ProtectionState.PROTECTION_INTENT \<and>
        (V2ProtectionState.PROTECTION_ACTIVE \<in> set ns \<or> V2ProtectionState.PROTECTION_TRIGGERED \<in> set ns)
        \<longrightarrow> V2ProtectionState.PROTECTION_SUBMITTING \<in> set ns)
    \<and> (c = V2ProtectionState.PROTECTION_UNKNOWN \<and> V2ProtectionState.PROTECTION_SUBMITTING \<in> set ns
        \<longrightarrow> V2ProtectionState.PROTECTION_FAILED \<in> set ns)
    \<and> (c = V2ProtectionState.PROTECTION_FILLED \<or> c = V2ProtectionState.PROTECTION_CANCELLED
        \<longrightarrow> set ns \<subseteq> {c})"
proof (intro conjI impI)
  assume *: "c = V2ProtectionState.PROTECTION_INTENT \<and>
      (V2ProtectionState.PROTECTION_ACTIVE \<in> set ns \<or> V2ProtectionState.PROTECTION_TRIGGERED \<in> set ns)"
  then obtain t where t: "t \<in> set ns"
      "t \<notin> {V2ProtectionState.PROTECTION_INTENT, V2ProtectionState.PROTECTION_CANCELLED}"
    by auto
  show "V2ProtectionState.PROTECTION_SUBMITTING \<in> set ns"
    by (rule protection_lc.gate [OF assms _ _ t]) (use * in auto)
next
  assume *: "c = V2ProtectionState.PROTECTION_UNKNOWN \<and>
      V2ProtectionState.PROTECTION_SUBMITTING \<in> set ns"
  show "V2ProtectionState.PROTECTION_FAILED \<in> set ns"
    by (rule protection_lc.gate [OF assms, of "{V2ProtectionState.PROTECTION_UNKNOWN,
          V2ProtectionState.PROTECTION_ACTIVE, V2ProtectionState.PROTECTION_TRIGGERED,
          V2ProtectionState.PROTECTION_CANCELLED, V2ProtectionState.PROTECTION_FILLED}"
          _ V2ProtectionState.PROTECTION_SUBMITTING])
      (use * in auto)
next
  assume "c = V2ProtectionState.PROTECTION_FILLED \<or> c = V2ProtectionState.PROTECTION_CANCELLED"
  then show "set ns \<subseteq> {c}" using protection_lc.absorbing [OF assms] by auto
qed

theorem protection_lifecycle_witness:
  "V2ProtectionState.PROTECTION_FAILED \<in>
     set [V2ProtectionState.PROTECTION_FAILED, V2ProtectionState.PROTECTION_SUBMITTING]"
  using protection_lifecycle [of V2ProtectionState.PROTECTION_UNKNOWN
      "[V2ProtectionState.PROTECTION_FAILED, V2ProtectionState.PROTECTION_SUBMITTING]"]
  by (simp add: validate_protection_transition_def)

end
