(* ===== verification/Execution_State_Machine.thy ===== *)
theory Execution_State_Machine
  imports State_Tables Py_Decimal
begin

text \<open>
  The execution lifecycle of the order gateway and its deterministic reducer of exchange
  events (\<open>services/execution/state_machine.py\<close>), with the quantity helper for reduce-risk
  exits (\<open>services/execution/execution_truth.py\<close>).  Times are integers (microseconds).
\<close>

section \<open>The machine\<close>

record ExchangeOrderEvent =
  ev_event_id :: string
  ev_client_order_id :: string
  ev_state :: ExecutionState
  ev_filled_quantity :: dec
  ev_exchange_update_time :: int

fun ALLOWED_TRANSITIONS :: "ExecutionState \<Rightarrow> ExecutionState set" where
  "ALLOWED_TRANSITIONS ExecutionState.INTENT_CREATED = {ExecutionState.NORMALIZED, ExecutionState.REJECTED}"
| "ALLOWED_TRANSITIONS ExecutionState.NORMALIZED = {ExecutionState.SUBMITTING, ExecutionState.REJECTED}"
| "ALLOWED_TRANSITIONS ExecutionState.SUBMITTING =
     {ExecutionState.SUBMITTED, ExecutionState.UNKNOWN, ExecutionState.REJECTED}"
| "ALLOWED_TRANSITIONS ExecutionState.SUBMITTED =
     {ExecutionState.PARTIALLY_FILLED, ExecutionState.FILLED, ExecutionState.CANCELED,
      ExecutionState.REJECTED, ExecutionState.UNKNOWN}"
| "ALLOWED_TRANSITIONS ExecutionState.PARTIALLY_FILLED =
     {ExecutionState.PARTIALLY_FILLED, ExecutionState.FILLED, ExecutionState.CANCELED,
      ExecutionState.UNKNOWN}"
| "ALLOWED_TRANSITIONS ExecutionState.FILLED =
     {ExecutionState.PROTECTION_PENDING, ExecutionState.PROTECTED, ExecutionState.RECOVERY_REQUIRED}"
| "ALLOWED_TRANSITIONS ExecutionState.PROTECTION_PENDING =
     {ExecutionState.PROTECTED, ExecutionState.RECOVERY_REQUIRED}"
| "ALLOWED_TRANSITIONS ExecutionState.PROTECTED = {ExecutionState.CLOSED, ExecutionState.RECOVERY_REQUIRED}"
| "ALLOWED_TRANSITIONS ExecutionState.UNKNOWN =
     {ExecutionState.SUBMITTED, ExecutionState.PARTIALLY_FILLED, ExecutionState.FILLED,
      ExecutionState.CANCELED, ExecutionState.REJECTED, ExecutionState.RECOVERY_REQUIRED}"
| "ALLOWED_TRANSITIONS ExecutionState.RECOVERY_REQUIRED =
     {ExecutionState.PROTECTED, ExecutionState.CLOSED, ExecutionState.CANCELED}"
| "ALLOWED_TRANSITIONS ExecutionState.CANCELED = {}"
| "ALLOWED_TRANSITIONS ExecutionState.REJECTED = {}"
| "ALLOWED_TRANSITIONS ExecutionState.CLOSED = {}"

fun STATE_PRIORITY :: "ExecutionState \<Rightarrow> nat" where
  "STATE_PRIORITY ExecutionState.INTENT_CREATED = 0"
| "STATE_PRIORITY ExecutionState.NORMALIZED = 1"
| "STATE_PRIORITY ExecutionState.SUBMITTING = 2"
| "STATE_PRIORITY ExecutionState.SUBMITTED = 3"
| "STATE_PRIORITY ExecutionState.PARTIALLY_FILLED = 4"
| "STATE_PRIORITY ExecutionState.FILLED = 5"
| "STATE_PRIORITY ExecutionState.PROTECTION_PENDING = 6"
| "STATE_PRIORITY ExecutionState.PROTECTED = 7"
| "STATE_PRIORITY ExecutionState.CANCELED = 8"
| "STATE_PRIORITY ExecutionState.REJECTED = 8"
| "STATE_PRIORITY ExecutionState.UNKNOWN = 9"
| "STATE_PRIORITY ExecutionState.RECOVERY_REQUIRED = 10"
| "STATE_PRIORITY ExecutionState.CLOSED = 11"

record ExecutionStateMachine =
  esm_state :: ExecutionState
  esm_filled_quantity :: dec
  esm_last_exchange_update_time :: "int option"
  esm_event_ids :: "string set"

definition esm_init :: "ExecutionState \<Rightarrow> ExecutionStateMachine" where
  "esm_init initial_state = \<lparr>esm_state = initial_state, esm_filled_quantity = 0,
     esm_last_exchange_update_time = None, esm_event_ids = {}\<rparr>"

definition allows_new_open :: "ExecutionStateMachine \<Rightarrow> bool" where
  "allows_new_open m = (esm_state m \<notin> {ExecutionState.UNKNOWN, ExecutionState.RECOVERY_REQUIRED,
     ExecutionState.PROTECTION_PENDING})"

text \<open>Methods change the object: they give back its new value beside their result.\<close>

definition transition :: "ExecutionState \<Rightarrow> ExecutionStateMachine \<Rightarrow> unit res \<times> ExecutionStateMachine" where
  "transition target m =
     (if target = esm_state m then (Inr (), m)
      else if target \<notin> ALLOWED_TRANSITIONS (esm_state m)
           then (Inl (ValueError ''invalid execution transition''), m)
      else (Inr (), m\<lparr>esm_state := target\<rparr>))"

definition event_ignored :: "ExchangeOrderEvent \<Rightarrow> ExecutionStateMachine \<Rightarrow> bool" where
  "event_ignored e m \<longleftrightarrow> ev_event_id e \<in> esm_event_ids m \<or>
     (case esm_last_exchange_update_time m of None \<Rightarrow> False
      | Some t \<Rightarrow> ev_exchange_update_time e < t \<or>
          (ev_exchange_update_time e = t \<and>
           STATE_PRIORITY (ev_state e) \<le> STATE_PRIORITY (esm_state m)))"

definition apply_exchange_event ::
    "ExchangeOrderEvent \<Rightarrow> ExecutionStateMachine \<Rightarrow> bool res \<times> ExecutionStateMachine" where
  "apply_exchange_event e m =
     (if event_ignored e m then (Inr False, m)
      else case transition (ev_state e) m of
          (Inl ex, m') \<Rightarrow> (Inl ex, m')
        | (Inr _, m') \<Rightarrow> (Inr True, m'\<lparr>
             esm_event_ids := insert (ev_event_id e) (esm_event_ids m'),
             esm_last_exchange_update_time := Some (ev_exchange_update_time e),
             esm_filled_quantity := max (esm_filled_quantity m') (ev_filled_quantity e)\<rparr>))"

text \<open>A stream of events, each exception caught by the caller.\<close>

definition run_events :: "ExchangeOrderEvent list \<Rightarrow> ExecutionStateMachine \<Rightarrow> ExecutionStateMachine" where
  "run_events es m = foldl (\<lambda>m e. snd (apply_exchange_event e m)) m es"

section \<open>Facts\<close>

definition validate_execution_transition :: "ExecutionState \<Rightarrow> ExecutionState \<Rightarrow> unit res" where
  "validate_execution_transition s t = fst (transition t (esm_init s))"

interpretation execution_lc: lifecycle ALLOWED_TRANSITIONS validate_execution_transition
  by unfold_locales (simp add: validate_execution_transition_def transition_def esm_init_def)

lemma apply_state:
  "esm_state (snd (apply_exchange_event e m)) = esm_state m
   \<or> esm_state (snd (apply_exchange_event e m)) \<in> ALLOWED_TRANSITIONS (esm_state m)"
  by (auto simp: apply_exchange_event_def transition_def)

text \<open>What one event does to the machine, as an order on machines.\<close>

definition machine_le :: "ExecutionStateMachine \<Rightarrow> ExecutionStateMachine \<Rightarrow> bool" where
  "machine_le m m' \<longleftrightarrow> esm_filled_quantity m \<le> esm_filled_quantity m'
     \<and> esm_event_ids m \<subseteq> esm_event_ids m'
     \<and> (\<forall>t. esm_last_exchange_update_time m = Some t \<longrightarrow>
          (\<exists>t'. esm_last_exchange_update_time m' = Some t' \<and> t \<le> t'))
     \<and> accepted validate_execution_transition (esm_state m) [esm_state m']"

lemma apply_le: "machine_le m (snd (apply_exchange_event e m))"
  unfolding machine_le_def
  by (auto simp: apply_exchange_event_def transition_def event_ignored_def
      execution_lc.validate_ok_iff split: option.splits)

lemma run_events_Cons [simp]:
  "run_events (e # es) m = run_events es (snd (apply_exchange_event e m))"
  "run_events [] m = m"
  by (simp_all add: run_events_def)

lemma run_events_final:
  "ALLOWED_TRANSITIONS (esm_state m) = {} \<Longrightarrow> esm_state (run_events es m) = esm_state m"
proof (induction es arbitrary: m)
  case (Cons e es)
  with apply_state [of e m] show ?case by auto
qed simp

lemma run_events_mono:
  "esm_filled_quantity m \<le> esm_filled_quantity (run_events es m)
   \<and> esm_event_ids m \<subseteq> esm_event_ids (run_events es m)
   \<and> (\<forall>t. esm_last_exchange_update_time m = Some t \<longrightarrow>
        (\<exists>t'. esm_last_exchange_update_time (run_events es m) = Some t' \<and> t \<le> t'))"
proof (induction es arbitrary: m)
  case (Cons e es)
  have "machine_le m (snd (apply_exchange_event e m))" by (rule apply_le)
  with Cons [of "snd (apply_exchange_event e m)"] show ?case
    unfolding machine_le_def by (auto dest: order_trans)
qed auto

lemma ignored_stable:
  assumes "ev_event_id e \<in> esm_event_ids m \<or>
      (\<exists>t. esm_last_exchange_update_time m = Some t \<and> ev_exchange_update_time e < t)"
  shows "apply_exchange_event e (run_events es m) = (Inr False, run_events es m)"
proof -
  have "event_ignored e (run_events es m)"
    using run_events_mono [of m es] assms by (fastforce simp: event_ignored_def)
  then show ?thesis by (simp add: apply_exchange_event_def)
qed

section \<open>Properties\<close>

text \<open>
  C34.  The reducer is safe against duplicated and late events: once an event was applied, the
  same event delivered again after any other events changes nothing, and so does any event
  older than the last one applied; filled quantity, the known event ids and the last update
  time never decrease, and a machine in a final state stays in it.
\<close>

theorem reducer_idempotent_and_ordered:
  assumes "apply_exchange_event e m = (Inr True, m')"
  shows "apply_exchange_event e (run_events es m') = (Inr False, run_events es m')
    \<and> (\<forall>e'. ev_exchange_update_time e' < ev_exchange_update_time e \<longrightarrow>
         apply_exchange_event e' (run_events es m') = (Inr False, run_events es m'))
    \<and> max (esm_filled_quantity m) (ev_filled_quantity e) \<le> esm_filled_quantity (run_events es m')
    \<and> (ALLOWED_TRANSITIONS (esm_state m') = {} \<longrightarrow> esm_state (run_events es m') = esm_state m')"
proof -
  have m': "ev_event_id e \<in> esm_event_ids m'"
    "esm_last_exchange_update_time m' = Some (ev_exchange_update_time e)"
    "esm_filled_quantity m' = max (esm_filled_quantity m) (ev_filled_quantity e)"
    using assms by (auto simp: apply_exchange_event_def transition_def split: if_splits)
  show ?thesis
    using m' run_events_mono [of m' es] ignored_stable [of e m' es] run_events_final [of m' es]
      ignored_stable [of _ m' es] by auto
qed

definition demo_event :: "ExchangeOrderEvent" where
  "demo_event = \<lparr>ev_event_id = ''e1'', ev_client_order_id = ''A2E-x-1'',
     ev_state = ExecutionState.FILLED, ev_filled_quantity = 3, ev_exchange_update_time = 100\<rparr>"

theorem reducer_idempotent_and_ordered_witness:
  "apply_exchange_event demo_event
      (run_events [demo_event] (snd (apply_exchange_event demo_event (esm_init ExecutionState.SUBMITTED))))
   = (Inr False, snd (apply_exchange_event demo_event (esm_init ExecutionState.SUBMITTED)))"
proof -
  have "apply_exchange_event demo_event (esm_init ExecutionState.SUBMITTED) =
      (Inr True, snd (apply_exchange_event demo_event (esm_init ExecutionState.SUBMITTED)))"
    by (simp add: apply_exchange_event_def transition_def event_ignored_def demo_event_def esm_init_def)
  from reducer_idempotent_and_ordered [OF this, of "[demo_event]"]
    reducer_idempotent_and_ordered [OF this, of "[]"]
  show ?thesis by simp
qed

section \<open>Quantity of a reduce-risk exit\<close>

record CloseQuantityResult =
  cq_quantity :: dec
  cq_authoritative_quantity :: dec
  cq_dust_remains :: bool

definition close_quantity ::
    "dec option \<Rightarrow> dec \<Rightarrow> dec \<Rightarrow> dec \<Rightarrow> dec \<Rightarrow> CloseQuantityResult res" where
  "close_quantity requested_quantity authoritative_quantity step_size reference_price min_notional =
     guardR (authoritative_quantity < 0 \<or> step_size \<le> 0)
       (ValueError ''authoritative quantity must be non-negative and step size positive'')
       (let requested = (case requested_quantity of None \<Rightarrow> authoritative_quantity
                         | Some r \<Rightarrow> max r 0);
            capped = min requested authoritative_quantity;
            steps = to_integral_value ROUND_DOWN (ddiv capped step_size);
            quantity = dmul steps step_size;
            remaining = max (dsub authoritative_quantity quantity) 0;
            below_min_notional = (quantity > 0 \<and> dmul quantity reference_price < min_notional)
        in Inr \<lparr>cq_quantity = quantity, cq_authoritative_quantity = authoritative_quantity,
                cq_dust_remains = (remaining > 0 \<or> below_min_notional)\<rparr>)"

end
