(* ===== verification/Account_Writer.thy ===== *)
theory Account_Writer
  imports Prelude
begin

text \<open>
  Ownership of the exchange account (\<open>infrastructure/account_writer.py\<close>): the registry file
  outside every database, in which an operator binds an account to a database, one writer at a
  time acquires a lease with a generation, and every mutation of the exchange checks that its
  capability is still the current one.  Every operation runs under the registry's file lock, so
  it is one step from registry to registry.  Times are integers (microseconds), the JSON object
  of an account is a record whose fields may be absent, and the operating system appears as
  arguments: what \<open>os.kill\<close> or the Windows process query answers, the host name, the process id,
  the environment, and whether writing the file fails.
\<close>

section \<open>Scopes, capabilities, leases\<close>

datatype ProcessLiveness = ALIVE | DEAD | UNKNOWN

record AccountScope =
  sc_exchange :: string
  sc_environment :: string
  sc_account_identity :: string

definition scope_key :: "AccountScope \<Rightarrow> string" where
  "scope_key s = upper (sc_exchange s) @ '':'' @ upper (sc_environment s) @ '':'' @ sc_account_identity s"

record AccountWriterCapability =
  cp_account_scope_key :: string
  cp_database_identity :: string
  cp_owner_id :: string
  cp_generation :: int
  cp_registry_identity :: string

record AccountWriterLease =
  ll_capability :: AccountWriterCapability
  ll_acquired_at :: int
  ll_lease_expires_at :: int
  ll_host_identity :: string

section \<open>The machine\<close>

datatype kill_outcome = Signalled | ProcessLookupError | PermissionError | OSErrno "int option" | OverflowSystemOrValueError

text \<open>\<open>OpenProcess\<close>: the last error without a handle, or the exit code if it could be read.\<close>

datatype open_outcome = NoHandle int | Handle "int option"

text \<open>What stays as it is: names, paths and the environment.\<close>

record machine =
  mc_hostname :: string
  mc_is_nt :: bool
  mc_environ :: "string \<Rightarrow> string option"
  mc_home :: string
  mc_expanduser :: "string \<Rightarrow> string"
  mc_resolve :: "string \<Rightarrow> string"

text \<open>What an operation meets when it runs.\<close>

record moment =
  mo_now :: int
  mo_pid :: int
  mo_uuid_hex :: string
  mo_kill :: "int \<Rightarrow> kill_outcome"
  mo_open_process :: "int \<Rightarrow> open_outcome"
  mo_write_fails :: bool

definition REGISTRY_ENV :: string where
  "REGISTRY_ENV = ''V2_ACCOUNT_WRITER_REGISTRY_PATH''"

definition ACCOUNT_SCOPE_ENV :: string where
  "ACCOUNT_SCOPE_ENV = ''BINANCE_ACCOUNT_SCOPE_ID''"

definition getenv :: "machine \<Rightarrow> string \<Rightarrow> string" where
  "getenv m k = (case mc_environ m k of None \<Rightarrow> [] | Some v \<Rightarrow> strip v)"

definition registry_path :: "machine \<Rightarrow> string" where
  "registry_path m =
     (let configured = getenv m REGISTRY_ENV;
          local_app_data = getenv m ''LOCALAPPDATA'';
          base = (if local_app_data \<noteq> [] then local_app_data else mc_home m @ ''/.local/share'')
      in if configured \<noteq> [] then mc_expanduser m configured
         else base @ ''/AIQuant/account-writer-registry.json'')"

definition resolve_account_scope :: "machine \<Rightarrow> string option \<Rightarrow> string \<Rightarrow> string \<Rightarrow> AccountScope res" where
  "resolve_account_scope m account_identity exchange environment =
     (let identity = strip (case account_identity of None \<Rightarrow> (case mc_environ m ACCOUNT_SCOPE_ENV of None \<Rightarrow> [] | Some v \<Rightarrow> v)
            | Some i \<Rightarrow> if i = [] then (case mc_environ m ACCOUNT_SCOPE_ENV of None \<Rightarrow> [] | Some v \<Rightarrow> v) else i)
      in guardR (identity = []) (AccountWriterFenceError ''ACCOUNT_SCOPE_IDENTITY_MISSING'')
           (guardR (upper exchange \<noteq> ''BINANCE'' \<or> upper environment \<noteq> ''TESTNET'')
              (AccountWriterFenceError ''ACCOUNT_SCOPE_UNSUPPORTED'')
              (Inr \<lparr>sc_exchange = exchange, sc_environment = environment, sc_account_identity = identity\<rparr>)))"

definition owner_pid :: "machine \<Rightarrow> string \<Rightarrow> int option" where
  "owner_pid m owner_id =
     (if length (filter (\<lambda>c. c = CHR '':'') owner_id) \<noteq> 1 then None
      else let owner_host = split_head (CHR '':'') owner_id;
               raw_pid = tl (dropWhile (\<lambda>c. c \<noteq> CHR '':'') owner_id)
           in if lower owner_host \<noteq> lower (mc_hostname m) then None
              else case py_int raw_pid of
                     None \<Rightarrow> None
                   | Some pid \<Rightarrow> if pid \<le> 0 then None else Some pid)"

definition windows_process_liveness :: "open_outcome \<Rightarrow> ProcessLiveness" where
  "windows_process_liveness answer =
     (case answer of
        NoHandle last_error \<Rightarrow>
          if last_error = 87 then ProcessLiveness.DEAD else ProcessLiveness.UNKNOWN
      | Handle None \<Rightarrow> ProcessLiveness.UNKNOWN
      | Handle (Some exit_code) \<Rightarrow>
          if exit_code = 259 then ProcessLiveness.ALIVE else ProcessLiveness.DEAD)"

definition probe_process_liveness :: "machine \<Rightarrow> moment \<Rightarrow> int \<Rightarrow> ProcessLiveness" where
  "probe_process_liveness m t pid =
     (if mc_is_nt m then windows_process_liveness (mo_open_process t pid)
      else case mo_kill t pid of
             Signalled \<Rightarrow> ProcessLiveness.ALIVE
           | ProcessLookupError \<Rightarrow> ProcessLiveness.DEAD
           | PermissionError \<Rightarrow> ProcessLiveness.UNKNOWN
           | OSErrno n \<Rightarrow> if n = Some 3 then ProcessLiveness.DEAD else ProcessLiveness.UNKNOWN
           | OverflowSystemOrValueError \<Rightarrow> ProcessLiveness.UNKNOWN)"

definition dead_local_supervisor_owner :: "machine \<Rightarrow> moment \<Rightarrow> string \<Rightarrow> ProcessLiveness" where
  "dead_local_supervisor_owner m t owner_id =
     (case owner_pid m owner_id of
        None \<Rightarrow> ProcessLiveness.UNKNOWN
      | Some pid \<Rightarrow> probe_process_liveness m t pid)"

section \<open>The registry\<close>

record binding =
  bi_operator_identity :: string
  bi_operator_reason :: string
  bi_at :: int

record AccountEntry =
  ae_account_scope_key :: "string option"
  ae_bound_database_identity :: "string option"
  ae_operator_binding :: "binding option"
  ae_owner_id :: "string option"
  ae_generation :: "int option"
  ae_lease_acquired_at :: "int option"
  ae_lease_renewed_at :: "int option"
  ae_lease_expires_at :: "int option"
  ae_host_identity :: "string option"

definition empty_entry :: AccountEntry where
  "empty_entry = \<lparr>ae_account_scope_key = None, ae_bound_database_identity = None,
     ae_operator_binding = None, ae_owner_id = None, ae_generation = None,
     ae_lease_acquired_at = None, ae_lease_renewed_at = None, ae_lease_expires_at = None,
     ae_host_identity = None\<rparr>"

type_synonym accounts = "string \<rightharpoonup> AccountEntry"

datatype registry_file = Missing | Unreadable | Accounts accounts

text \<open>The registry files of the machine, by resolved path.\<close>

type_synonym files = "string \<Rightarrow> registry_file"

definition read_accounts :: "registry_file \<Rightarrow> accounts res" where
  "read_accounts f =
     (case f of
        Missing \<Rightarrow> Inr (\<lambda>_. None)
      | Unreadable \<Rightarrow> Inl (AccountWriterFenceError ''ACCOUNT_WRITER_REGISTRY_UNREADABLE'')
      | Accounts a \<Rightarrow> Inr a)"

text \<open>The atomic replacement of the file: on failure the old file is still there.\<close>

definition write_accounts :: "machine \<Rightarrow> moment \<Rightarrow> string \<Rightarrow> accounts \<Rightarrow> (files, unit) call" where
  "write_accounts m t path a fs =
     (if mo_write_fails t then (Inl (OtherException ''OSError''), fs)
      else (Inr (), fs(mc_resolve m path := Accounts a)))"

text \<open>
  One locked operation: read, compute the new entry of the account and the answer, write.
\<close>

definition update_entry ::
    "machine \<Rightarrow> moment \<Rightarrow> string \<Rightarrow> string \<Rightarrow> (AccountEntry option \<Rightarrow> (AccountEntry \<times> 'a) res) \<Rightarrow> (files, 'a) call" where
  "update_entry m t path key f fs =
     (case bindR (read_accounts (fs (mc_resolve m path))) (\<lambda>a. bindR (f (a key)) (\<lambda>r. Inr (a, r))) of
        Inl e \<Rightarrow> (Inl e, fs)
      | Inr (a, entry, answer) \<Rightarrow>
          (case write_accounts m t path (a(key \<mapsto> entry)) fs of
             (Inl e, fs') \<Rightarrow> (Inl e, fs')
           | (Inr _, fs') \<Rightarrow> (Inr answer, fs')))"

definition entry_or_empty :: "AccountEntry option \<Rightarrow> AccountEntry" where
  "entry_or_empty e = (case e of None \<Rightarrow> empty_entry | Some x \<Rightarrow> x)"

definition generation_of :: "AccountEntry \<Rightarrow> int" where
  "generation_of e = (case ae_generation e of None \<Rightarrow> 0 | Some g \<Rightarrow> g)"

definition assert_current ::
    "AccountEntry \<Rightarrow> AccountWriterCapability \<Rightarrow> int \<Rightarrow> unit res" where
  "assert_current current capability observed =
     guardR (ae_account_scope_key current \<noteq> Some (cp_account_scope_key capability))
       (AccountWriterFenceError ''ACCOUNT_WRITER_FENCE_REJECTED: scope'') (
     guardR (ae_bound_database_identity current \<noteq> Some (cp_database_identity capability))
       (AccountWriterFenceError ''ACCOUNT_WRITER_FENCE_REJECTED: database'') (
     guardR (ae_owner_id current \<noteq> Some (cp_owner_id capability)
             \<or> generation_of current \<noteq> cp_generation capability)
       (AccountWriterFenceError ''ACCOUNT_WRITER_FENCE_REJECTED: owner or generation'') (
     guardR (case ae_lease_expires_at current of None \<Rightarrow> True | Some x \<Rightarrow> x \<le> observed)
       (AccountWriterFenceError ''ACCOUNT_WRITER_FENCE_REJECTED: lease expired'')
     (Inr ()))))"

section \<open>Operations\<close>

definition bind_account ::
    "machine \<Rightarrow> moment \<Rightarrow> string \<Rightarrow> string \<Rightarrow> string \<Rightarrow> string \<Rightarrow> (files, AccountEntry) call" where
  "bind_account m t account_scope_key database_id operator_identity operator_reason fs =
     (if strip operator_identity = [] \<or> strip operator_reason = []
      then (Inl (AccountWriterFenceError ''OPERATOR_BINDING_METADATA_MISSING''), fs)
      else update_entry m t (registry_path m) account_scope_key (\<lambda>e.
        let current = entry_or_empty e;
            value = current\<lparr>ae_account_scope_key := Some account_scope_key,
              ae_bound_database_identity := Some database_id,
              ae_operator_binding := Some \<lparr>bi_operator_identity = strip operator_identity,
                 bi_operator_reason = strip operator_reason, bi_at = mo_now t\<rparr>\<rparr>
        in guardR (ae_bound_database_identity current \<notin> {None, Some database_id})
             (AccountWriterFenceError ''ACCOUNT_ALREADY_BOUND_TO_DIFFERENT_DATABASE'')
             (Inr (value, value))) fs)"

text \<open>The three checks are calls; a later one is made only when the earlier ones hold.\<close>

definition rebind_account ::
    "machine \<Rightarrow> moment \<Rightarrow> string \<Rightarrow> string \<Rightarrow> string \<Rightarrow> string \<Rightarrow> bool res \<Rightarrow> bool res \<Rightarrow> bool res \<Rightarrow>
     (files, AccountEntry) call" where
  "rebind_account m t account_scope_key database_id operator_identity operator_reason
      exchange_is_flat exchange_open_orders_empty new_database_recovery_clear fs =
     (if strip operator_identity = [] \<or> strip operator_reason = []
      then (Inl (AccountWriterFenceError ''OPERATOR_BINDING_METADATA_MISSING''), fs)
      else case bindR exchange_is_flat (\<lambda>flat. if \<not> flat then Inr False
                  else bindR exchange_open_orders_empty (\<lambda>empty. if \<not> empty then Inr False
                    else new_database_recovery_clear)) of
        Inl e \<Rightarrow> (Inl e, fs)
      | Inr clear \<Rightarrow>
         if \<not> clear then (Inl (AccountWriterFenceError ''ACCOUNT_REBIND_REQUIRES_MANUAL_RECOVERY''), fs)
         else update_entry m t (registry_path m) account_scope_key (\<lambda>e.
           case e of
             None \<Rightarrow> Inl (AccountWriterFenceError ''ACCOUNT_BINDING_REQUIRED'')
           | Some current \<Rightarrow>
               let value = current\<lparr>ae_bound_database_identity := Some database_id,
                     ae_operator_binding := Some \<lparr>bi_operator_identity = strip operator_identity,
                        bi_operator_reason = strip operator_reason, bi_at = mo_now t\<rparr>,
                     ae_owner_id := None, ae_lease_acquired_at := None, ae_lease_renewed_at := None,
                     ae_lease_expires_at := None, ae_host_identity := None\<rparr>
               in guardR (case ae_lease_expires_at current of None \<Rightarrow> False | Some x \<Rightarrow> x > mo_now t)
                    (AccountWriterFenceError ''ACCOUNT_REBIND_REQUIRES_INACTIVE_WRITER'')
                    (Inr (value, value))) fs)"

definition writer_owner :: "machine \<Rightarrow> moment \<Rightarrow> string option \<Rightarrow> string" where
  "writer_owner m t owner_id =
     (case owner_id of
        Some x \<Rightarrow> if x \<noteq> [] then x
                  else mc_hostname m @ '':'' @ int_str (mo_pid t) @ '':'' @ mo_uuid_hex t
      | None \<Rightarrow> mc_hostname m @ '':'' @ int_str (mo_pid t) @ '':'' @ mo_uuid_hex t)"

definition lease_held_by_other :: "machine \<Rightarrow> moment \<Rightarrow> AccountEntry \<Rightarrow> string \<Rightarrow> bool" where
  "lease_held_by_other m t current owner =
     (case ae_lease_expires_at current of
        None \<Rightarrow> False
      | Some expiry \<Rightarrow>
          let existing_owner = (case ae_owner_id current of None \<Rightarrow> [] | Some x \<Rightarrow> x)
          in expiry > mo_now t \<and> existing_owner \<noteq> owner
             \<and> dead_local_supervisor_owner m t existing_owner \<noteq> ProcessLiveness.DEAD)"

definition next_generation :: "moment \<Rightarrow> AccountEntry \<Rightarrow> string \<Rightarrow> int" where
  "next_generation t current owner =
     (let existing_owner = (case ae_owner_id current of None \<Rightarrow> [] | Some x \<Rightarrow> x)
      in if existing_owner = owner
            \<and> (case ae_lease_expires_at current of None \<Rightarrow> False | Some expiry \<Rightarrow> expiry > mo_now t)
         then generation_of current else generation_of current + 1)"

definition acquire_account_writer ::
    "machine \<Rightarrow> moment \<Rightarrow> string \<Rightarrow> string \<Rightarrow> string option \<Rightarrow> int \<Rightarrow> (files, AccountWriterLease) call" where
  "acquire_account_writer m t account_scope_key database_id owner_id lease_us fs =
     (let path = registry_path m;
          owner = writer_owner m t owner_id;
          observed = mo_now t
      in update_entry m t path account_scope_key (\<lambda>e.
        case e of
          None \<Rightarrow> Inl (AccountWriterFenceError ''ACCOUNT_BINDING_REQUIRED'')
        | Some current \<Rightarrow>
           guardR (ae_bound_database_identity current = None)
             (AccountWriterFenceError ''ACCOUNT_BINDING_REQUIRED'') (
           guardR (ae_bound_database_identity current \<noteq> Some database_id)
             (AccountWriterFenceError ''ACCOUNT_BOUND_TO_DIFFERENT_DATABASE'') (
           guardR (lease_held_by_other m t current owner)
             (AccountWriterFenceError ''ACCOUNT_WRITER_ALREADY_HELD'')
           (let generation = next_generation t current owner;
                expiry = observed + lease_us;
                value = current\<lparr>ae_account_scope_key := Some account_scope_key,
                  ae_bound_database_identity := Some database_id, ae_owner_id := Some owner,
                  ae_generation := Some generation, ae_lease_acquired_at := Some observed,
                  ae_lease_renewed_at := Some observed, ae_lease_expires_at := Some expiry,
                  ae_host_identity := Some (mc_hostname m)\<rparr>
            in Inr (value, \<lparr>ll_capability = \<lparr>cp_account_scope_key = account_scope_key,
                              cp_database_identity = database_id, cp_owner_id = owner,
                              cp_generation = generation, cp_registry_identity = path\<rparr>,
                            ll_acquired_at = observed, ll_lease_expires_at = expiry,
                            ll_host_identity = mc_hostname m\<rparr>))))) fs)"

definition renew_account_writer ::
    "machine \<Rightarrow> moment \<Rightarrow> AccountWriterLease \<Rightarrow> int \<Rightarrow> (files, AccountWriterLease) call" where
  "renew_account_writer m t lease lease_us fs =
     (let c = ll_capability lease; observed = mo_now t; expiry = observed + lease_us
      in update_entry m t (cp_registry_identity c) (cp_account_scope_key c) (\<lambda>e.
           let current = entry_or_empty e
           in bindR (assert_current current c observed) (\<lambda>_.
                Inr (current\<lparr>ae_lease_renewed_at := Some observed, ae_lease_expires_at := Some expiry\<rparr>,
                     \<lparr>ll_capability = c, ll_acquired_at = ll_acquired_at lease,
                      ll_lease_expires_at = expiry, ll_host_identity = ll_host_identity lease\<rparr>))) fs)"

text \<open>The second reading of the clock, which becomes the expiry, is an argument.\<close>

definition release_account_writer ::
    "machine \<Rightarrow> moment \<Rightarrow> AccountWriterLease \<Rightarrow> int \<Rightarrow> (files, unit) call" where
  "release_account_writer m t lease later fs =
     (let c = ll_capability lease
      in update_entry m t (cp_registry_identity c) (cp_account_scope_key c) (\<lambda>e.
           let current = entry_or_empty e
           in bindR (assert_current current c (mo_now t)) (\<lambda>_.
                Inr (current\<lparr>ae_lease_expires_at := Some later\<rparr>, ()))) fs)"

text \<open>The check a mutation makes while it holds the lock; the mutation itself is the body.\<close>

definition mutation_guard :: "machine \<Rightarrow> AccountWriterCapability \<Rightarrow> int \<Rightarrow> files \<Rightarrow> unit res" where
  "mutation_guard m capability now fs =
     guardR (mc_resolve m (cp_registry_identity capability) \<noteq> mc_resolve m (registry_path m))
       (AccountWriterFenceError ''ACCOUNT_WRITER_FENCE_REJECTED: registry identity'')
       (bindR (read_accounts (fs (mc_resolve m (cp_registry_identity capability)))) (\<lambda>a.
          assert_current (entry_or_empty (a (cp_account_scope_key capability))) capability now))"

definition capability_is_current :: "machine \<Rightarrow> AccountWriterCapability option \<Rightarrow> int \<Rightarrow> files \<Rightarrow> bool" where
  "capability_is_current m capability now fs =
     (case capability of None \<Rightarrow> False | Some c \<Rightarrow> is_ok (mutation_guard m c now fs))"

record WriterStatus =
  ws_account_scope_key :: string
  ws_writer_status :: string
  ws_bound_database_identity :: "string option"
  ws_current_database_identity :: string
  ws_generation :: "int option"
  ws_lease_status :: string
  ws_conflict_reason :: "string option"

definition writer_status ::
    "machine \<Rightarrow> string \<Rightarrow> string \<Rightarrow> AccountWriterCapability option \<Rightarrow> int \<Rightarrow> files \<Rightarrow> WriterStatus" where
  "writer_status m account_scope_key database_id capability now fs =
     (case read_accounts (fs (mc_resolve m (registry_path m))) of
        Inl _ \<Rightarrow> \<lparr>ws_account_scope_key = account_scope_key, ws_writer_status = ''REGISTRY_UNREADABLE'',
                  ws_bound_database_identity = None, ws_current_database_identity = database_id,
                  ws_generation = None, ws_lease_status = ''UNKNOWN'',
                  ws_conflict_reason = Some ''ACCOUNT_WRITER_REGISTRY_UNREADABLE''\<rparr>
      | Inr a \<Rightarrow>
         (case a account_scope_key of
            None \<Rightarrow> \<lparr>ws_account_scope_key = account_scope_key, ws_writer_status = ''UNBOUND'',
                     ws_bound_database_identity = None, ws_current_database_identity = database_id,
                     ws_generation = None, ws_lease_status = ''NONE'',
                     ws_conflict_reason = Some ''ACCOUNT_BINDING_REQUIRED''\<rparr>
          | Some current \<Rightarrow>
              let lease_active = (case ae_lease_expires_at current of None \<Rightarrow> False | Some x \<Rightarrow> x > now);
                  capability_valid = (case capability of None \<Rightarrow> False
                                      | Some c \<Rightarrow> is_ok (assert_current current c now));
                  bound = ae_bound_database_identity current
              in \<lparr>ws_account_scope_key = account_scope_key,
                  ws_writer_status = (if capability_valid then ''VALID''
                                      else if lease_active then ''HELD'' else ''EXPIRED''),
                  ws_bound_database_identity = bound, ws_current_database_identity = database_id,
                  ws_generation = ae_generation current,
                  ws_lease_status = (if lease_active then ''ACTIVE'' else ''EXPIRED''),
                  ws_conflict_reason =
                    (if bound \<noteq> Some database_id then Some ''ACCOUNT_BOUND_TO_DIFFERENT_DATABASE''
                     else if lease_active \<and> \<not> capability_valid then Some ''ACCOUNT_WRITER_ALREADY_HELD''
                     else None)\<rparr>))"

definition CAPABILITY_ENV :: "string list" where
  "CAPABILITY_ENV = [''V2_ACCOUNT_WRITER_SCOPE'', ''V2_ACCOUNT_WRITER_DB'', ''V2_ACCOUNT_WRITER_OWNER'',
     ''V2_ACCOUNT_WRITER_GENERATION'', REGISTRY_ENV]"

definition capability_from_environment :: "(string \<Rightarrow> string option) \<Rightarrow> AccountWriterCapability option res" where
  "capability_from_environment environ =
     (let values = map (\<lambda>n. case environ n of None \<Rightarrow> [] | Some v \<Rightarrow> strip v) CAPABILITY_ENV
      in if list_all (\<lambda>v. v = []) values then Inr None
         else guardR (list_ex (\<lambda>v. v = []) values)
                (AccountWriterFenceError ''ACCOUNT_WRITER_CAPABILITY_INCOMPLETE'')
                (case py_int (values ! 3) of
                   None \<Rightarrow> Inl (ValueError ''invalid literal for int()'')
                 | Some g \<Rightarrow> Inr (Some \<lparr>cp_account_scope_key = values ! 0, cp_database_identity = values ! 1,
                     cp_owner_id = values ! 2, cp_generation = g, cp_registry_identity = values ! 4\<rparr>)))"

definition capability_environment :: "AccountWriterCapability \<Rightarrow> (string \<times> string) list" where
  "capability_environment c = zip CAPABILITY_ENV [cp_account_scope_key c, cp_database_identity c,
     cp_owner_id c, int_str (cp_generation c), cp_registry_identity c]"

section \<open>Interleavings\<close>

text \<open>Any number of processes on the machine, each step one locked operation.\<close>

datatype writer_op =
    Bind moment string string string string
  | Rebind moment string string string string "bool res" "bool res" "bool res"
  | Acquire moment string string "string option" int
  | Renew moment AccountWriterLease int
  | Release moment AccountWriterLease int

fun writer_step :: "machine \<Rightarrow> writer_op \<Rightarrow> files \<Rightarrow> files" where
  "writer_step m (Bind t k db i r) fs = snd (bind_account m t k db i r fs)"
| "writer_step m (Rebind t k db i r x y z) fs = snd (rebind_account m t k db i r x y z fs)"
| "writer_step m (Acquire t k db ow us) fs = snd (acquire_account_writer m t k db ow us fs)"
| "writer_step m (Renew t l us) fs = snd (renew_account_writer m t l us fs)"
| "writer_step m (Release t l later) fs = snd (release_account_writer m t l later fs)"

definition run_writer :: "machine \<Rightarrow> writer_op list \<Rightarrow> files \<Rightarrow> files" where
  "run_writer m ops fs = fold (writer_step m) ops fs"

text \<open>The entry of an account in the machine's own registry.\<close>

definition account_entry :: "machine \<Rightarrow> string \<Rightarrow> files \<Rightarrow> AccountEntry option" where
  "account_entry m key fs =
     (case fs (mc_resolve m (registry_path m)) of Accounts a \<Rightarrow> a key | _ \<Rightarrow> None)"

definition account_generation :: "machine \<Rightarrow> string \<Rightarrow> files \<Rightarrow> int" where
  "account_generation m key fs = generation_of (entry_or_empty (account_entry m key fs))"

section \<open>The contract of a generation fence\<close>

text \<open>
  Whatever the operations are: if the generation of an account never decreases and only a
  capability of the current generation is valid, a capability of an older generation stays
  invalid for ever.
\<close>

locale generation_fence =
  fixes step :: "'op \<Rightarrow> 's \<Rightarrow> 's" and generation :: "'s \<Rightarrow> int"
    and valid :: "'c \<Rightarrow> int \<Rightarrow> 's \<Rightarrow> bool" and cap_generation :: "'c \<Rightarrow> int"
  assumes step_mono: "generation s \<le> generation (step x s)"
    and valid_generation: "valid c now s \<Longrightarrow> cap_generation c = generation s"
begin

lemma run_mono: "generation s \<le> generation (fold step xs s)"
proof (induction xs arbitrary: s)
  case (Cons x xs)
  show ?case using step_mono [of s x] Cons [of "step x s"] by simp
qed simp

lemma stays_invalid: "cap_generation c < generation s \<Longrightarrow> \<not> valid c now (fold step xs s)"
  using run_mono [of s xs] valid_generation by fastforce

end

section \<open>Facts\<close>

lemma assert_current_Inr:
  "assert_current e c now = Inr () \<longleftrightarrow> ae_account_scope_key e = Some (cp_account_scope_key c)
     \<and> ae_bound_database_identity e = Some (cp_database_identity c) \<and> ae_owner_id e = Some (cp_owner_id c)
     \<and> generation_of e = cp_generation c \<and> (\<exists>x. ae_lease_expires_at e = Some x \<and> now < x)"
  by (auto simp: assert_current_def guardR_Inr_iff split: option.splits)

lemma assert_current_error: "assert_current e c now = Inl x \<Longrightarrow> \<exists>k. x = AccountWriterFenceError k"
  unfolding assert_current_def guardR_Inl_iff by blast

lemma mutation_guard_error:
  assumes "mutation_guard m c now fs = Inl x"
  shows "\<exists>k. x = AccountWriterFenceError k"
proof (cases "fs (mc_resolve m (cp_registry_identity c))")
  case (Accounts a)
  with assms assert_current_error show ?thesis
    by (auto simp: mutation_guard_def guardR_Inl_iff read_accounts_def)
next
  case Missing
  with assms assert_current_error show ?thesis
    by (auto simp: mutation_guard_def guardR_Inl_iff read_accounts_def)
next
  case Unreadable
  with assms show ?thesis by (auto simp: mutation_guard_def guardR_Inl_iff read_accounts_def)
qed

lemma update_entry_cases:
  assumes "update_entry m t path key f fs = (r, fs')"
  obtains (unchanged) e where "r = Inl e" "fs' = fs"
  | (written) a e v where "read_accounts (fs (mc_resolve m path)) = Inr a" "f (a key) = Inr (e, v)"
      "r = Inr v" "fs' = fs(mc_resolve m path := Accounts (a(key \<mapsto> e)))"
proof (cases "read_accounts (fs (mc_resolve m path))")
  case (Inl x)
  with assms show thesis by (intro unchanged [of x]) (simp_all add: update_entry_def)
next
  case a: (Inr a)
  show thesis
  proof (cases "f (a key)")
    case (Inl x)
    with a assms show thesis by (intro unchanged [of x]) (simp_all add: update_entry_def)
  next
    case (Inr ev)
    obtain e v where ev: "ev = (e, v)" by (cases ev)
    show thesis
    proof (cases "mo_write_fails t")
      case True
      with a Inr ev assms show thesis
        by (intro unchanged [of "OtherException ''OSError''"]) (simp_all add: update_entry_def write_accounts_def)
    next
      case False
      with a Inr ev assms show thesis
        by (intro written [of a e v]) (simp_all add: update_entry_def write_accounts_def)
    qed
  qed
qed

lemma account_entry_update:
  assumes "read_accounts (fs p) = Inr a"
  shows "account_entry m key (fs(p := Accounts (a(k \<mapsto> e)))) =
    (if p = mc_resolve m (registry_path m) \<and> k = key then Some e else account_entry m key fs)"
  using assms by (auto simp: account_entry_def read_accounts_def split: registry_file.splits)

lemma account_entry_read:
  "read_accounts (fs (mc_resolve m (registry_path m))) = Inr a \<Longrightarrow> a key = account_entry m key fs"
  by (auto simp: account_entry_def read_accounts_def split: registry_file.splits)

lemma generation_of_simps [simp]:
  "generation_of (e\<lparr>ae_account_scope_key := k\<rparr>) = generation_of e"
  "generation_of (e\<lparr>ae_bound_database_identity := d\<rparr>) = generation_of e"
  "generation_of (e\<lparr>ae_operator_binding := b\<rparr>) = generation_of e"
  "generation_of (e\<lparr>ae_owner_id := ow\<rparr>) = generation_of e"
  "generation_of (e\<lparr>ae_lease_acquired_at := x\<rparr>) = generation_of e"
  "generation_of (e\<lparr>ae_lease_renewed_at := x\<rparr>) = generation_of e"
  "generation_of (e\<lparr>ae_lease_expires_at := x\<rparr>) = generation_of e"
  "generation_of (e\<lparr>ae_host_identity := h\<rparr>) = generation_of e"
  "generation_of (e\<lparr>ae_generation := Some g\<rparr>) = g"
  by (simp_all add: generation_of_def)

text \<open>An update whose entries keep or raise the generation does so in the registry.\<close>

lemma update_entry_mono:
  assumes "\<And>e e' v. f e = Inr (e', v) \<Longrightarrow> generation_of (entry_or_empty e) \<le> generation_of e'"
  shows "account_generation m key fs \<le> account_generation m key (snd (update_entry m t path k f fs))"
proof -
  obtain r fs' where u: "update_entry m t path k f fs = (r, fs')" by (cases "update_entry m t path k f fs") auto
  then show ?thesis
  proof (cases rule: update_entry_cases)
    case (written a e v)
    have "account_generation m key fs \<le> account_generation m key fs'"
    proof (cases "mc_resolve m path = mc_resolve m (registry_path m) \<and> k = key")
      case True
      then have "a k = account_entry m key fs" using written(1) account_entry_read by metis
      with assms [OF written(2)] True written(1) show ?thesis
        by (simp add: account_generation_def written(4) account_entry_update entry_or_empty_def)
    next
      case False
      with written(1) show ?thesis
        by (auto simp: account_generation_def written(4) account_entry_update)
    qed
    with u show ?thesis by simp
  qed (use u in simp)
qed

lemma next_generation_mono: "generation_of e \<le> next_generation t e ow"
  by (simp add: next_generation_def Let_def)

lemma writer_step_mono: "account_generation m key fs \<le> account_generation m key (writer_step m x fs)"
proof (cases x)
  case (Bind t k db i r)
  then show ?thesis
    by (auto simp: bind_account_def guardR_Inr_iff Let_def intro!: update_entry_mono)
next
  case (Rebind t k db i r x y z)
  then show ?thesis
    by (auto simp: rebind_account_def guardR_Inr_iff Let_def entry_or_empty_def
        intro!: update_entry_mono split: sum.splits option.splits)
next
  case (Acquire t k db ow us)
  then show ?thesis
    by (auto simp: acquire_account_writer_def guardR_Inr_iff Let_def entry_or_empty_def
        next_generation_mono intro!: update_entry_mono split: option.splits)
next
  case (Renew t l us)
  then show ?thesis
    by (auto simp: renew_account_writer_def bindR_Inr_iff Let_def intro!: update_entry_mono)
next
  case (Release t l later)
  then show ?thesis
    by (auto simp: release_account_writer_def bindR_Inr_iff Let_def intro!: update_entry_mono)
qed

lemma mutation_guard_Inr:
  "mutation_guard m c now fs = Inr () \<longleftrightarrow>
     mc_resolve m (cp_registry_identity c) = mc_resolve m (registry_path m)
     \<and> fs (mc_resolve m (registry_path m)) \<noteq> Unreadable
     \<and> assert_current (entry_or_empty (account_entry m (cp_account_scope_key c) fs)) c now = Inr ()"
  by (auto simp: mutation_guard_def guardR_Inr_iff bindR_Inr_iff read_accounts_def account_entry_def
      split: registry_file.splits)

text \<open>A capability of the account that the guard accepts.\<close>

definition account_capability_valid :: "machine \<Rightarrow> string \<Rightarrow> AccountWriterCapability \<Rightarrow> int \<Rightarrow> files \<Rightarrow> bool" where
  "account_capability_valid m key c now fs \<longleftrightarrow>
     cp_account_scope_key c = key \<and> mutation_guard m c now fs = Inr ()"

interpretation writer_fence: generation_fence "writer_step m" "account_generation m key"
    "account_capability_valid m key" cp_generation
  for m key
proof
  fix fs x
  show "account_generation m key fs \<le> account_generation m key (writer_step m x fs)"
    by (rule writer_step_mono)
next
  fix c now fs
  assume "account_capability_valid m key c now fs"
  then show "cp_generation c = account_generation m key fs"
    by (auto simp: account_capability_valid_def mutation_guard_Inr assert_current_Inr account_generation_def)
qed

lemma acquire_Inr:
  assumes "acquire_account_writer m t key db ow us fs = (Inr lease, fs')"
  obtains current where
    "account_entry m key fs = Some current" "ae_bound_database_identity current = Some db"
    "\<not> lease_held_by_other m t current (writer_owner m t ow)"
    "ll_capability lease = \<lparr>cp_account_scope_key = key, cp_database_identity = db,
       cp_owner_id = writer_owner m t ow, cp_generation = next_generation t current (writer_owner m t ow),
       cp_registry_identity = registry_path m\<rparr>"
    "ll_lease_expires_at lease = mo_now t + us"
    "fs' (mc_resolve m (registry_path m)) \<noteq> Unreadable"
    "account_entry m key fs' = Some (current\<lparr>ae_account_scope_key := Some key,
       ae_bound_database_identity := Some db, ae_owner_id := Some (writer_owner m t ow),
       ae_generation := Some (next_generation t current (writer_owner m t ow)),
       ae_lease_acquired_at := Some (mo_now t), ae_lease_renewed_at := Some (mo_now t),
       ae_lease_expires_at := Some (mo_now t + us), ae_host_identity := Some (mc_hostname m)\<rparr>)"
  using assms unfolding acquire_account_writer_def Let_def
proof (cases rule: update_entry_cases)
  case (written a e v)
  have a: "a key = account_entry m key fs" using account_entry_read [of fs m a key] written(1) by simp
  obtain current where c: "a key = Some current" using written(2) by (auto split: option.splits)
  show thesis
    using written c a by (intro that [of current]) (auto simp: guardR_Inr_iff account_entry_update)
qed simp

section \<open>Properties\<close>

text \<open>
  C37.  A writer that was superseded is fenced for ever: if the guard accepted a capability and
  then the account was acquired with another owner or another generation, no sequence of
  operations of any process makes the guard accept the old capability again, at any time.
\<close>

theorem writer_fenced_forever:
  assumes "mutation_guard m c now fs = Inr ()"
    and "acquire_account_writer m t (cp_account_scope_key c) db ow us fs = (Inr lease, fs')"
    and "cp_owner_id (ll_capability lease) \<noteq> cp_owner_id c \<or> cp_generation (ll_capability lease) \<noteq> cp_generation c"
  shows "mutation_guard m c now' (run_writer m ops fs') \<noteq> Inr ()"
proof -
  let ?key = "cp_account_scope_key c"
  obtain current where cur: "account_entry m ?key fs = Some current"
    and cap: "ll_capability lease = \<lparr>cp_account_scope_key = ?key, cp_database_identity = db,
       cp_owner_id = writer_owner m t ow, cp_generation = next_generation t current (writer_owner m t ow),
       cp_registry_identity = registry_path m\<rparr>"
    and new: "generation_of (the (account_entry m ?key fs')) = next_generation t current (writer_owner m t ow)"
      "account_entry m ?key fs' \<noteq> None"
    using acquire_Inr [OF assms(2)] by (metis generation_of_simps(8,9) generation_of_simps(7)
        generation_of_simps(6) generation_of_simps(5) option.sel option.discI)
  have old: "ae_owner_id current = Some (cp_owner_id c)" "generation_of current = cp_generation c"
    using assms(1) cur by (auto simp: mutation_guard_Inr assert_current_Inr entry_or_empty_def)
  then have "cp_generation c < next_generation t current (writer_owner m t ow)"
    using assms(3) cap by (auto simp: next_generation_def Let_def split: if_splits)
  then have "cp_generation c < account_generation m ?key fs'"
    using new by (auto simp: account_generation_def entry_or_empty_def)
  from writer_fence.stays_invalid [OF this] show ?thesis
    by (simp add: account_capability_valid_def run_writer_def)
qed

text \<open>Operations that are not the holder's own, made before the lease expires.\<close>

fun foreign_op :: "machine \<Rightarrow> AccountWriterCapability \<Rightarrow> int \<Rightarrow> writer_op \<Rightarrow> bool" where
  "foreign_op m c expiry (Bind t k db i r) = True"
| "foreign_op m c expiry (Rebind t k db i r x y z) = (mo_now t < expiry)"
| "foreign_op m c expiry (Acquire t k db ow us) = (mo_now t < expiry \<and> writer_owner m t ow \<noteq> cp_owner_id c
     \<and> dead_local_supervisor_owner m t (cp_owner_id c) \<noteq> ProcessLiveness.DEAD)"
| "foreign_op m c expiry (Renew t l us) = (cp_owner_id (ll_capability l) \<noteq> cp_owner_id c
     \<or> cp_generation (ll_capability l) \<noteq> cp_generation c)"
| "foreign_op m c expiry (Release t l later) = (cp_owner_id (ll_capability l) \<noteq> cp_owner_id c
     \<or> cp_generation (ll_capability l) \<noteq> cp_generation c)"

definition holds_until :: "machine \<Rightarrow> AccountWriterCapability \<Rightarrow> int \<Rightarrow> files \<Rightarrow> bool" where
  "holds_until m c expiry fs \<longleftrightarrow>
     mc_resolve m (cp_registry_identity c) = mc_resolve m (registry_path m)
     \<and> fs (mc_resolve m (registry_path m)) \<noteq> Unreadable
     \<and> (\<exists>e. account_entry m (cp_account_scope_key c) fs = Some e
          \<and> ae_account_scope_key e = Some (cp_account_scope_key c)
          \<and> ae_bound_database_identity e = Some (cp_database_identity c)
          \<and> ae_owner_id e = Some (cp_owner_id c) \<and> generation_of e = cp_generation c
          \<and> ae_lease_expires_at e = Some expiry)"

text \<open>An update keeps the holder's entry if it keeps it whenever it is the holder's.\<close>

lemma update_entry_holds:
  assumes "holds_until m c x fs"
    and "\<And>e e' v. \<lbrakk>k = cp_account_scope_key c; f (Some e) = Inr (e', v);
        ae_account_scope_key e = Some (cp_account_scope_key c);
        ae_bound_database_identity e = Some (cp_database_identity c); ae_owner_id e = Some (cp_owner_id c);
        generation_of e = cp_generation c; ae_lease_expires_at e = Some x\<rbrakk> \<Longrightarrow>
      ae_account_scope_key e' = Some (cp_account_scope_key c)
      \<and> ae_bound_database_identity e' = Some (cp_database_identity c) \<and> ae_owner_id e' = Some (cp_owner_id c)
      \<and> generation_of e' = cp_generation c \<and> ae_lease_expires_at e' = Some x"
  shows "holds_until m c x (snd (update_entry m t path k f fs))"
proof -
  obtain r fs' where u: "update_entry m t path k f fs = (r, fs')" by (cases "update_entry m t path k f fs") auto
  then show ?thesis
  proof (cases rule: update_entry_cases)
    case (written a e v)
    have rd: "fs' (mc_resolve m (registry_path m)) \<noteq> Unreadable"
      using assms(1) by (auto simp: written(4) holds_until_def)
    show ?thesis
    proof (cases "mc_resolve m path = mc_resolve m (registry_path m) \<and> k = cp_account_scope_key c")
      case True
      then have "a k = account_entry m (cp_account_scope_key c) fs" using written(1) account_entry_read by metis
      with assms(1) obtain e0 where "a k = Some e0" "ae_account_scope_key e0 = Some (cp_account_scope_key c)"
        "ae_bound_database_identity e0 = Some (cp_database_identity c)" "ae_owner_id e0 = Some (cp_owner_id c)"
        "generation_of e0 = cp_generation c" "ae_lease_expires_at e0 = Some x"
        by (auto simp: holds_until_def)
      with assms(2) [of e0 e v] written(2) True rd assms(1) written(1) u show ?thesis
        by (simp add: holds_until_def written(4) account_entry_update)
    next
      case False
      with assms(1) rd written(1) u show ?thesis
        by (auto simp: holds_until_def written(4) account_entry_update)
    qed
  qed (use assms(1) u in simp)
qed

lemma foreign_op_holds:
  assumes "foreign_op m c x op'" "holds_until m c x fs"
  shows "holds_until m c x (writer_step m op' fs)"
proof (cases op')
  case (Bind t k db i r)
  with assms show ?thesis
    by (auto simp: bind_account_def guardR_Inr_iff Let_def entry_or_empty_def intro!: update_entry_holds)
next
  case (Rebind t k db i r x y z)
  with assms show ?thesis
    by (auto simp: rebind_account_def guardR_Inr_iff Let_def
        intro!: update_entry_holds split: sum.splits)
next
  case (Acquire t k db ow us)
  with assms show ?thesis
    by (auto simp: acquire_account_writer_def guardR_Inr_iff Let_def lease_held_by_other_def
        intro!: update_entry_holds)
next
  case (Renew t l us)
  with assms show ?thesis
    by (auto simp: renew_account_writer_def bindR_Inr_iff Let_def entry_or_empty_def assert_current_Inr
        intro!: update_entry_holds)
next
  case (Release t l later)
  with assms show ?thesis
    by (auto simp: release_account_writer_def bindR_Inr_iff Let_def entry_or_empty_def assert_current_Inr
        intro!: update_entry_holds)
qed

text \<open>
  C38.  A lease is exclusive until it expires: the capability an acquisition returns is accepted
  at every time before its expiry, whatever the other processes do in between (binding,
  rebinding, acquiring for other owners, renewing or releasing other leases), as long as the
  holder's process is not reported dead; and it is never accepted at or after the expiry
  unless the lease is renewed.
\<close>

theorem writer_lease_exclusive:
  assumes "acquire_account_writer m t key db ow us fs = (Inr lease, fs')"
    and "list_all (foreign_op m (ll_capability lease) (ll_lease_expires_at lease)) ops"
  shows "mutation_guard m (ll_capability lease) now (run_writer m ops fs') = Inr ()
     \<longleftrightarrow> now < ll_lease_expires_at lease"
proof -
  let ?c = "ll_capability lease" and ?x = "ll_lease_expires_at lease"
  have start: "holds_until m ?c ?x fs'"
    by (rule acquire_Inr [OF assms(1)]) (simp add: holds_until_def)
  have "holds_until m ?c ?x (run_writer m ops fs')"
    using assms(2) start unfolding run_writer_def
    by (induction ops arbitrary: fs') (auto dest: foreign_op_holds)
  then show ?thesis by (auto simp: holds_until_def mutation_guard_Inr assert_current_Inr entry_or_empty_def)
qed

text \<open>
  At most one writer mutates an account: two capabilities of one account that the guard
  accepts on the same registry, at whatever times, have the same database, owner and
  generation.
\<close>

theorem single_account_writer:
  assumes "mutation_guard m c now fs = Inr ()" "mutation_guard m c' now' fs = Inr ()"
    and "cp_account_scope_key c' = cp_account_scope_key c"
  shows "cp_database_identity c' = cp_database_identity c \<and> cp_owner_id c' = cp_owner_id c
    \<and> cp_generation c' = cp_generation c"
  using assms by (auto simp: mutation_guard_Inr assert_current_Inr)

text \<open>
  A capability survives the hand-over to a child process: reading the environment that was
  written for it gives the same capability back, provided its text fields are non-empty and
  have no surrounding white space; an environment with only some of the variables set is
  refused.
\<close>

theorem capability_environment_roundtrip:
  assumes "strip (cp_account_scope_key c) = cp_account_scope_key c" "cp_account_scope_key c \<noteq> []"
    and "strip (cp_database_identity c) = cp_database_identity c" "cp_database_identity c \<noteq> []"
    and "strip (cp_owner_id c) = cp_owner_id c" "cp_owner_id c \<noteq> []"
    and "strip (cp_registry_identity c) = cp_registry_identity c" "cp_registry_identity c \<noteq> []"
  shows "capability_from_environment (map_of (capability_environment c)) = Inr (Some c)
    \<and> (\<forall>n\<in>set CAPABILITY_ENV. capability_from_environment ((map_of (capability_environment c))(n := None))
         = Inl (AccountWriterFenceError ''ACCOUNT_WRITER_CAPABILITY_INCOMPLETE''))"
proof -
  have g: "strip (int_str (cp_generation c)) = int_str (cp_generation c)" "int_str (cp_generation c) \<noteq> []"
    by (simp_all add: strip_int_str)
  show ?thesis using assms g
    by (simp add: capability_from_environment_def capability_environment_def CAPABILITY_ENV_def
        REGISTRY_ENV_def Let_def)
qed

section \<open>Examples\<close>

definition demo_machine :: machine where
  "demo_machine = \<lparr>mc_hostname = ''h'', mc_is_nt = False, mc_environ = (\<lambda>_. None), mc_home = ''/r'',
     mc_expanduser = (\<lambda>p. p), mc_resolve = (\<lambda>p. p)\<rparr>"

definition demo_moment :: "int \<Rightarrow> moment" where
  "demo_moment now = \<lparr>mo_now = now, mo_pid = 7, mo_uuid_hex = ''u'', mo_kill = (\<lambda>_. Signalled),
     mo_open_process = (\<lambda>_. NoHandle 5), mo_write_fails = False\<rparr>"

definition demo_bound :: files where
  "demo_bound = snd (bind_account demo_machine (demo_moment 0) ''k'' ''db'' ''op'' ''why'' (\<lambda>_. Missing))"

definition demo_lease :: "string \<Rightarrow> int \<Rightarrow> int \<Rightarrow> AccountWriterLease" where
  "demo_lease ow g now = \<lparr>ll_capability = \<lparr>cp_account_scope_key = ''k'', cp_database_identity = ''db'',
       cp_owner_id = ow, cp_generation = g, cp_registry_identity = registry_path demo_machine\<rparr>,
     ll_acquired_at = now, ll_lease_expires_at = now + 360, ll_host_identity = ''h''\<rparr>"

definition demo_leased :: files where
  "demo_leased = snd (acquire_account_writer demo_machine (demo_moment 1) ''k'' ''db'' (Some ''a'') 360 demo_bound)"

lemma demo_acquired:
  "acquire_account_writer demo_machine (demo_moment 1) ''k'' ''db'' (Some ''a'') 360 demo_bound
   = (Inr (demo_lease ''a'' 1 1), demo_leased)"
proof -
  have "fst (acquire_account_writer demo_machine (demo_moment 1) ''k'' ''db'' (Some ''a'') 360 demo_bound)
    = Inr (demo_lease ''a'' 1 1)" by code_simp
  then show ?thesis by (simp add: demo_leased_def prod_eq_iff)
qed

theorem writer_lease_exclusive_witness:
  "mutation_guard demo_machine (ll_capability (demo_lease ''a'' 1 1)) 300
     (run_writer demo_machine [Acquire (demo_moment 200) ''k'' ''db'' (Some ''b'') 360] demo_leased) = Inr ()"
proof -
  have "list_all (foreign_op demo_machine (ll_capability (demo_lease ''a'' 1 1))
      (ll_lease_expires_at (demo_lease ''a'' 1 1))) [Acquire (demo_moment 200) ''k'' ''db'' (Some ''b'') 360]"
    by code_simp
  from writer_lease_exclusive [OF demo_acquired this] show ?thesis by (simp add: demo_lease_def)
qed

theorem single_account_writer_witness:
  "cp_generation (ll_capability (demo_lease ''a'' 1 1)) = 1
   \<and> mutation_guard demo_machine (ll_capability (demo_lease ''a'' 1 1)) 5 demo_leased = Inr ()"
proof -
  have g: "mutation_guard demo_machine (ll_capability (demo_lease ''a'' 1 1)) 5 demo_leased = Inr ()" by code_simp
  from single_account_writer [OF g g] g show ?thesis by (simp add: demo_lease_def)
qed

theorem writer_fenced_forever_witness:
  "\<exists>fs'. mutation_guard demo_machine (ll_capability (demo_lease ''a'' 1 1)) 5 demo_leased = Inr ()
     \<and> acquire_account_writer demo_machine (demo_moment 400) ''k'' ''db'' (Some ''b'') 360 demo_leased
         = (Inr (demo_lease ''b'' 2 400), fs')
     \<and> mutation_guard demo_machine (ll_capability (demo_lease ''a'' 1 1)) 5 (run_writer demo_machine [] fs') \<noteq> Inr ()"
proof -
  have g: "mutation_guard demo_machine (ll_capability (demo_lease ''a'' 1 1)) 5 demo_leased = Inr ()" by code_simp
  have k: "cp_account_scope_key (ll_capability (demo_lease ''a'' 1 1)) = ''k''" by (simp add: demo_lease_def)
  have "fst (acquire_account_writer demo_machine (demo_moment 400) ''k'' ''db'' (Some ''b'') 360 demo_leased)
    = Inr (demo_lease ''b'' 2 400)" by code_simp
  then obtain fs' where a: "acquire_account_writer demo_machine (demo_moment 400) ''k'' ''db'' (Some ''b'') 360 demo_leased
    = (Inr (demo_lease ''b'' 2 400), fs')" by (metis prod.collapse)
  have "mutation_guard demo_machine (ll_capability (demo_lease ''a'' 1 1)) 5 (run_writer demo_machine [] fs') \<noteq> Inr ()"
    using writer_fenced_forever [OF g, unfolded k, OF a] by (simp add: demo_lease_def)
  with g a show ?thesis by blast
qed

theorem capability_environment_roundtrip_witness:
  "capability_from_environment (map_of (capability_environment (ll_capability (demo_lease ''a'' 3 1))))
   = Inr (Some (ll_capability (demo_lease ''a'' 3 1)))"
proof -
  let ?c = "ll_capability (demo_lease ''a'' 3 1)"
  have "strip (cp_account_scope_key ?c) = cp_account_scope_key ?c" "cp_account_scope_key ?c \<noteq> []"
    "strip (cp_database_identity ?c) = cp_database_identity ?c" "cp_database_identity ?c \<noteq> []"
    "strip (cp_owner_id ?c) = cp_owner_id ?c" "cp_owner_id ?c \<noteq> []"
    "strip (cp_registry_identity ?c) = cp_registry_identity ?c" "cp_registry_identity ?c \<noteq> []"
    by code_simp+
  from capability_environment_roundtrip [OF this] show ?thesis by blast
qed

end
