(* ===== verification/Py_Json.thy ===== *)
theory Py_Json
  imports Py_Decimal
begin

text \<open>
  Decoded JSON payloads and the way the Python code reads them: \<open>dict.get\<close>, item access, truth
  values, \<open>str\<close>, \<open>int\<close> and the \<open>Decimal\<close> constructor on text.  A float is kept as the text
  Python prints for it (its \<open>repr\<close>), which is all the code ever uses of a float: \<open>str(x)\<close>,
  \<open>Decimal(str(x))\<close> and \<open>bool(x)\<close>.
\<close>

section \<open>Decimals from text\<close>

text \<open>The constructor is exact; infinities and NaNs are kept apart from finite values.\<close>

datatype pydec = Finite dec | NonFinite

definition is_digit :: "char \<Rightarrow> bool" where
  "is_digit c \<longleftrightarrow> c \<in> digit_chars"

definition digits_value :: "string \<Rightarrow> int" where
  "digits_value s = foldl (\<lambda>a c. a * 10 + digit_value c) 0 s"

definition ten_pow :: "int \<Rightarrow> rat" where
  "ten_pow e = (if 0 \<le> e then 10 ^ nat e else 1 / 10 ^ nat (- e))"

text \<open>The exponent part after the digits: nothing, or \<open>e\<close> with an optional sign and digits.\<close>

definition read_exponent :: "string \<Rightarrow> int option" where
  "read_exponent s =
     (case s of
        [] \<Rightarrow> Some 0
      | c # cs \<Rightarrow>
          if c \<noteq> CHR ''e'' then None
          else let neg = (cs \<noteq> [] \<and> hd cs = CHR ''-'');
                   ds = (if cs \<noteq> [] \<and> (hd cs = CHR ''-'' \<or> hd cs = CHR ''+'') then tl cs else cs)
               in if ds = [] \<or> \<not> list_all is_digit ds then None
                  else Some (if neg then - digits_value ds else digits_value ds))"

definition read_number :: "string \<Rightarrow> dec option" where
  "read_number s =
     (let whole = takeWhile is_digit s;
          rest = dropWhile is_digit s;
          dotted = (rest \<noteq> [] \<and> hd rest = CHR ''.'');
          frac = (if dotted then takeWhile is_digit (tl rest) else []);
          ex = (if dotted then dropWhile is_digit (tl rest) else rest)
      in if whole @ frac = [] then None
         else map_option (\<lambda>e. of_int (digits_value (whole @ frac)) * ten_pow (e - int (length frac)))
                (read_exponent ex))"

definition is_nan_text :: "string \<Rightarrow> bool" where
  "is_nan_text s \<longleftrightarrow> (take 3 s = ''nan'' \<and> list_all is_digit (drop 3 s))
     \<or> (take 4 s = ''snan'' \<and> list_all is_digit (drop 4 s))"

definition py_decimal :: "string \<Rightarrow> pydec option" where
  "py_decimal text =
     (let t = lower (filter (\<lambda>c. c \<noteq> CHR ''_'') (strip text));
          neg = (t \<noteq> [] \<and> hd t = CHR ''-'');
          body = (if t \<noteq> [] \<and> (hd t = CHR ''-'' \<or> hd t = CHR ''+'') then tl t else t)
      in if body = ''inf'' \<or> body = ''infinity'' \<or> is_nan_text body then Some NonFinite
         else map_option (\<lambda>x. Finite (if neg then - x else x)) (read_number body))"

section \<open>Values\<close>

datatype json =
    JNull | JBool bool | JInt int | JFloat string | JStr string
  | JList "json list" | JObj "(string \<times> json) list"

fun truthy :: "json \<Rightarrow> bool" where
  "truthy JNull = False"
| "truthy (JBool b) = b"
| "truthy (JInt i) = (i \<noteq> 0)"
| "truthy (JFloat r) = (py_decimal r \<noteq> Some (Finite 0))"
| "truthy (JStr s) = (s \<noteq> [])"
| "truthy (JList xs) = (xs \<noteq> [])"
| "truthy (JObj kvs) = (kvs \<noteq> [])"

text \<open>\<open>a or b\<close>\<close>

definition json_or :: "json \<Rightarrow> json \<Rightarrow> json" where
  "json_or a b = (if truthy a then a else b)"

text \<open>\<open>str(x)\<close> of a scalar; the text of a container where a scalar is expected is not modelled.\<close>

fun py_str :: "json \<Rightarrow> string res" where
  "py_str JNull = Inr ''None''"
| "py_str (JBool b) = Inr (if b then ''True'' else ''False'')"
| "py_str (JInt i) = Inr (int_str i)"
| "py_str (JFloat r) = Inr r"
| "py_str (JStr s) = Inr s"
| "py_str (JList xs) = Inl (OtherException ''container as text'')"
| "py_str (JObj kvs) = Inl (OtherException ''container as text'')"

text \<open>\<open>x.get(k)\<close>, \<open>x.get(k, d)\<close> and \<open>x[k]\<close>\<close>

fun jget_or :: "json \<Rightarrow> string \<Rightarrow> json \<Rightarrow> json res" where
  "jget_or (JObj kvs) k d = Inr (case map_of kvs k of None \<Rightarrow> d | Some v \<Rightarrow> v)"
| "jget_or _ k d = Inl (OtherException ''AttributeError'')"

abbreviation jget :: "json \<Rightarrow> string \<Rightarrow> json res" where
  "jget x k \<equiv> jget_or x k JNull"

fun jitem :: "json \<Rightarrow> string \<Rightarrow> json res" where
  "jitem (JObj kvs) k = (case map_of kvs k of None \<Rightarrow> Inl (OtherException ''KeyError'') | Some v \<Rightarrow> Inr v)"
| "jitem _ k = Inl (OtherException ''TypeError'')"

text \<open>\<open>Decimal(str(x))\<close>\<close>

definition decimal_of :: "json \<Rightarrow> pydec res" where
  "decimal_of v = bindR (py_str v) (\<lambda>s.
     case py_decimal s of None \<Rightarrow> Inl (OtherException ''InvalidOperation'') | Some d \<Rightarrow> Inr d)"

text \<open>A finite decimal, for fields that a number type cannot hold otherwise.\<close>

definition finite_decimal_of :: "json \<Rightarrow> dec res" where
  "finite_decimal_of v = bindR (decimal_of v) (\<lambda>d.
     case d of Finite x \<Rightarrow> Inr x | NonFinite \<Rightarrow> Inl (OtherException ''non-finite number''))"

text \<open>A field that has to be text.\<close>

fun text_of :: "json \<Rightarrow> string res" where
  "text_of (JStr s) = Inr s"
| "text_of _ = Inl (OtherException ''TypeError'')"

fun opt_text_of :: "json \<Rightarrow> string option res" where
  "opt_text_of JNull = Inr None"
| "opt_text_of (JStr s) = Inr (Some s)"
| "opt_text_of _ = Inl (OtherException ''TypeError'')"

text \<open>\<open>int(x)\<close>: floats are truncated.\<close>

fun int_of_json :: "json \<Rightarrow> int res" where
  "int_of_json (JInt i) = Inr i"
| "int_of_json (JBool b) = Inr (if b then 1 else 0)"
| "int_of_json (JFloat r) =
     (case py_decimal r of
        Some (Finite x) \<Rightarrow> Inr (if 0 \<le> x then \<lfloor>x\<rfloor> else \<lceil>x\<rceil>)
      | _ \<Rightarrow> Inl (ValueError ''cannot convert float to integer''))"
| "int_of_json (JStr s) =
     (case py_int s of None \<Rightarrow> Inl (ValueError ''invalid literal for int()'') | Some i \<Rightarrow> Inr i)"
| "int_of_json _ = Inl (OtherException ''TypeError'')"

section \<open>Facts\<close>

lemma read_digits_value:
  "set s \<subseteq> digit_chars \<Longrightarrow> read_digits True a s = Some (foldl (\<lambda>a c. a * 10 + digit_value c) a s)"
  by (induction s arbitrary: a) auto

lemma digits_value_nat_str [simp]: "digits_value (nat_str n) = int n"
  using read_digits_value [OF set_nat_str, of 0 n] read_digits_nat_str [of True n]
  by (simp add: digits_value_def)

lemma all_digits_nat_str: "c \<in> set (nat_str n) \<Longrightarrow> is_digit c"
  using set_nat_str [of n] by (auto simp: is_digit_def)

lemma is_digit_lower: "is_digit c \<Longrightarrow> lower_char c = c \<and> c \<noteq> CHR ''_'' \<and> c \<noteq> CHR ''-'' \<and> c \<noteq> CHR ''+''
    \<and> c \<noteq> CHR ''i'' \<and> c \<noteq> CHR ''n'' \<and> c \<noteq> CHR ''s''"
  by (auto simp: is_digit_def digit_chars_def lower_char_def)

text \<open>Integers read as decimals are themselves.\<close>

lemma read_number_nat_str [simp]: "read_number (nat_str n) = Some (of_nat n)"
proof -
  have tw: "takeWhile is_digit (nat_str n) = nat_str n" and dw: "dropWhile is_digit (nat_str n) = []"
    using all_digits_nat_str by (simp_all add: takeWhile_eq_all_conv)
  show ?thesis unfolding read_number_def Let_def tw dw by (simp add: read_exponent_def ten_pow_def)
qed

lemma py_decimal_int_str: "0 \<le> i \<Longrightarrow> py_decimal (int_str i) = Some (Finite (of_int i))"
proof -
  assume i: "0 \<le> i"
  then have s: "int_str i = nat_str (nat i)" by (simp add: int_str_def)
  have d: "is_digit c" if "c \<in> set (nat_str (nat i))" for c using all_digits_nat_str that .
  have st: "strip (nat_str (nat i)) = nat_str (nat i)" using strip_int_str(1) [of i] s by simp
  have fl: "filter (\<lambda>c. c \<noteq> CHR ''_'') (nat_str (nat i)) = nat_str (nat i)"
    using d is_digit_lower by (auto simp: filter_id_conv)
  have lo: "lower (nat_str (nat i)) = nat_str (nat i)"
    unfolding lower_def using d is_digit_lower by (intro map_idI) auto
  obtain c cs where c: "nat_str (nat i) = c # cs" by (cases "nat_str (nat i)") auto
  then have "is_digit c" using d by simp
  note ne = is_digit_lower [OF this]
  then have "\<not> is_nan_text (c # cs)" "c # cs \<noteq> ''inf''" "c # cs \<noteq> ''infinity''"
    by (auto simp: is_nan_text_def)
  moreover have "read_number (c # cs) = Some (of_int i)" using read_number_nat_str [of "nat i"] c i by simp
  ultimately show ?thesis using st fl lo ne by (simp add: py_decimal_def s c Let_def)
qed

end
