(* ===== verification/Fill_Normalizer.thy ===== *)
theory Fill_Normalizer
  imports Py_Json "HOL-Library.Product_Lexorder" "HOL-Library.List_Lexorder" "HOL-Library.Char_ord"
begin

text \<open>
  Fail-closed normalisation of exchange fills (\<open>infrastructure/fill_normalizer.py\<close>): one trade
  payload becomes a fill with full evidence or an exception, and repeated observations of one
  trade are merged.  Texts are compared byte by byte, which is Python's order on them.
\<close>

section \<open>Fields\<close>

record NormalizedFill =
  nf_exchange_order_id :: string
  nf_trade_id :: string
  nf_filled_quantity :: dec
  nf_fill_price :: dec
  nf_fee :: dec
  nf_fill_timestamp :: int

definition mk_NormalizedFill :: "NormalizedFill \<Rightarrow> NormalizedFill res" where
  "mk_NormalizedFill f =
     guardR (nf_exchange_order_id f = [] \<or> nf_trade_id f = [])
       (FillNormalizationError ''fill requires exchange_order_id and trade_id'') (
     guardR (nf_filled_quantity f \<le> 0 \<or> nf_fill_price f \<le> 0)
       (FillNormalizationError ''fill requires finite positive quantity and price'') (
     guardR (nf_fee f < 0) (FillNormalizationError ''fill fee must be finite and non-negative'') (Inr f)))"

definition required_text :: "json \<Rightarrow> string res" where
  "required_text value =
     bindR (py_str (json_or value (JStr []))) (\<lambda>s.
       let text = strip s
       in guardR (text = []) (FillNormalizationError ''fill requires text'') (Inr text))"

definition positive_decimal :: "json \<Rightarrow> dec res" where
  "positive_decimal value =
     (case decimal_of value of
        Inl _ \<Rightarrow> Inl (FillNormalizationError ''must be numeric'')
      | Inr NonFinite \<Rightarrow> Inl (FillNormalizationError ''must be finite and positive'')
      | Inr (Finite x) \<Rightarrow>
          guardR (x \<le> 0) (FillNormalizationError ''must be finite and positive'') (Inr x))"

definition required_fee :: "json \<Rightarrow> dec res" where
  "required_fee value =
     (case decimal_of value of
        Inl _ \<Rightarrow> Inl (FillNormalizationError ''fill requires a numeric fee'')
      | Inr NonFinite \<Rightarrow> Inl (FillNormalizationError ''fill fee must be finite'')
      | Inr (Finite x) \<Rightarrow> Inr (dabs x))"

definition fee_from_currency_amount :: "json \<Rightarrow> json \<Rightarrow> dec res" where
  "fee_from_currency_amount currency_value amount =
     bindR (required_text currency_value) (\<lambda>currency.
       guardR (upper currency \<noteq> ''USDT'') (FillNormalizationError ''non-USDT fee cannot be aggregated'')
         (required_fee amount))"

definition fee_from_mapping :: "json \<Rightarrow> dec res" where
  "fee_from_mapping value =
     (case value of
        JObj _ \<Rightarrow> bindR (jget value ''currency'') (\<lambda>c. bindR (jget value ''cost'') (fee_from_currency_amount c))
      | _ \<Rightarrow> Inl (FillNormalizationError ''CCXT fill requires a fee receipt''))"

text \<open>Milliseconds to microseconds; a date after the year 9999 cannot be represented.\<close>

definition timestamp_of :: "json \<Rightarrow> int res" where
  "timestamp_of value =
     (case bindR (py_str value) (\<lambda>s. case py_int s of None \<Rightarrow> Inl (ValueError ''int'') | Some i \<Rightarrow> Inr i) of
        Inl _ \<Rightarrow> Inl (FillNormalizationError ''fill requires a millisecond timestamp'')
      | Inr milliseconds \<Rightarrow>
          guardR (milliseconds \<le> 0) (FillNormalizationError ''fill timestamp must be positive'')
            (guardR (milliseconds > 253402300799999) (ValueError ''year is out of range'')
               (Inr (milliseconds * 1000))))"

section \<open>Normalisation\<close>

definition normalize_ccxt_trade :: "json \<Rightarrow> string \<Rightarrow> NormalizedFill res" where
  "normalize_ccxt_trade payload expected_order_id =
     bindR (jget payload ''order'') (\<lambda>ord. bindR (required_text ord) (\<lambda>order_id.
     guardR (order_id \<noteq> expected_order_id)
       (FillNormalizationError ''CCXT trade order id does not match queried order'') (
     bindR (jget payload ''fee'') (\<lambda>fee_payload. bindR (fee_from_mapping fee_payload) (\<lambda>fee.
     bindR (bindR (jget payload ''id'') required_text) (\<lambda>trade_id.
     bindR (bindR (jget payload ''amount'') positive_decimal) (\<lambda>amount.
     bindR (bindR (jget payload ''price'') positive_decimal) (\<lambda>price.
     bindR (bindR (jget payload ''timestamp'') timestamp_of) (\<lambda>ts.
     mk_NormalizedFill \<lparr>nf_exchange_order_id = order_id, nf_trade_id = trade_id,
       nf_filled_quantity = amount, nf_fill_price = price, nf_fee = fee, nf_fill_timestamp = ts\<rparr>)))))))))"

definition normalize_binance_order_trade_update :: "json \<Rightarrow> NormalizedFill res" where
  "normalize_binance_order_trade_update payload =
     bindR (jget payload ''e'') (\<lambda>kind.
     bindR (if kind = JStr ''ORDER_TRADE_UPDATE'' then jget payload ''o'' else Inr payload) (\<lambda>raw.
     case raw of
       JObj _ \<Rightarrow>
         bindR (bindR (jget raw ''i'') required_text) (\<lambda>order_id.
         bindR (bindR (jget raw ''t'') required_text) (\<lambda>trade_id.
         bindR (bindR (jget raw ''l'') positive_decimal) (\<lambda>amount.
         bindR (jget raw ''L'') (\<lambda>last_price. bindR (jget raw ''ap'') (\<lambda>average.
         bindR (positive_decimal (json_or last_price average)) (\<lambda>price.
         bindR (jget raw ''N'') (\<lambda>currency. bindR (jget raw ''n'') (\<lambda>cost.
         bindR (fee_from_currency_amount currency cost) (\<lambda>fee.
         bindR (jget raw ''T'') (\<lambda>t1. bindR (jget payload ''E'') (\<lambda>t2.
         bindR (timestamp_of (json_or t1 t2)) (\<lambda>ts.
         mk_NormalizedFill \<lparr>nf_exchange_order_id = order_id, nf_trade_id = trade_id,
           nf_filled_quantity = amount, nf_fill_price = price, nf_fee = fee,
           nf_fill_timestamp = ts\<rparr>))))))))))))
     | _ \<Rightarrow> Inl (FillNormalizationError ''Binance execution payload must be an object'')))"

section \<open>De-duplication\<close>

definition fill_key :: "NormalizedFill \<Rightarrow> string \<times> string" where
  "fill_key f = (nf_exchange_order_id f, nf_trade_id f)"

text \<open>
  The loop over an iterator that may raise; the dictionary keeps the order of first insertion
  and an equal value is stored again in its place.
\<close>

fun dedup_loop :: "NormalizedFill list \<Rightarrow> NormalizedFill res list \<Rightarrow> NormalizedFill list res" where
  "dedup_loop unique [] = Inr unique"
| "dedup_loop unique (r # rs) =
     bindR r (\<lambda>fill.
       case List.find (\<lambda>g. fill_key g = fill_key fill) unique of
         Some previous \<Rightarrow>
           if previous \<noteq> fill then Inl (FillNormalizationError ''conflicting duplicate fill'')
           else dedup_loop unique rs
       | None \<Rightarrow> dedup_loop (unique @ [fill]) rs)"

definition deduplicate_fills :: "NormalizedFill res list \<Rightarrow> NormalizedFill list res" where
  "deduplicate_fills fills =
     bindR (dedup_loop [] fills) (\<lambda>unique.
       Inr (sort_key (\<lambda>f. (nf_fill_timestamp f, nf_trade_id f)) unique))"

section \<open>Facts\<close>

definition wf_normalized :: "NormalizedFill \<Rightarrow> bool" where
  "wf_normalized f \<longleftrightarrow> nf_exchange_order_id f \<noteq> [] \<and> nf_trade_id f \<noteq> [] \<and> 0 < nf_filled_quantity f
     \<and> 0 < nf_fill_price f \<and> 0 \<le> nf_fee f"

lemma mk_NormalizedFill_Inr: "mk_NormalizedFill f = Inr g \<longleftrightarrow> g = f \<and> wf_normalized f"
  by (auto simp: mk_NormalizedFill_def guardR_Inr_iff wf_normalized_def)

text \<open>Observations agree when no two different ones have the same key.\<close>

definition consistent :: "NormalizedFill set \<Rightarrow> bool" where
  "consistent F \<longleftrightarrow> inj_on fill_key F"

lemma dedup_loop_Inr:
  assumes "distinct (map fill_key unique)"
  shows "(\<exists>us. dedup_loop unique (map Inr fs) = Inr us) \<longleftrightarrow> consistent (set unique \<union> set fs)"
    and "dedup_loop unique (map Inr fs) = Inr us \<Longrightarrow>
      set us = set unique \<union> set fs \<and> distinct (map fill_key us)"
proof -
  have "((\<exists>us. dedup_loop unique (map Inr fs) = Inr us) \<longleftrightarrow> consistent (set unique \<union> set fs))
    \<and> (\<forall>us. dedup_loop unique (map Inr fs) = Inr us \<longrightarrow>
      set us = set unique \<union> set fs \<and> distinct (map fill_key us))"
    using assms
  proof (induction fs arbitrary: unique)
    case Nil
    then show ?case by (auto simp: consistent_def distinct_map)
  next
    case (Cons f fs)
    show ?case
    proof (cases "List.find (\<lambda>g. fill_key g = fill_key f) unique")
      case None
      then have new: "fill_key f \<notin> fill_key ` set unique" by (auto simp: find_None_iff)
      then have "distinct (map fill_key (unique @ [f]))" using Cons.prems by auto
      from Cons.IH [OF this] None show ?thesis by (simp add: insert_commute Un_commute)
    next
      case (Some g)
      then have g: "g \<in> set unique" "fill_key g = fill_key f" by (auto simp: find_Some_iff)
      show ?thesis
      proof (cases "g = f")
        case True
        with g have "insert f (set unique \<union> set fs) = set unique \<union> set fs" by auto
        with Cons.IH [OF Cons.prems] Some True show ?thesis by simp
      next
        case False
        with g have "\<not> consistent (set unique \<union> set (f # fs))"
          unfolding consistent_def inj_on_def by auto
        with Some False show ?thesis by simp
      qed
    qed
  qed
  then show "(\<exists>us. dedup_loop unique (map Inr fs) = Inr us) \<longleftrightarrow> consistent (set unique \<union> set fs)"
    "dedup_loop unique (map Inr fs) = Inr us \<Longrightarrow>
      set us = set unique \<union> set fs \<and> distinct (map fill_key us)" by blast+
qed

lemma dedup_loop_error:
  "dedup_loop unique (map Inr fs) = Inl e \<Longrightarrow> e = FillNormalizationError ''conflicting duplicate fill''"
  by (induction fs arbitrary: unique) (auto split: option.splits if_splits)

lemma deduplicate_Inr:
  assumes "deduplicate_fills (map Inr fs) = Inr us"
  shows "set us = set fs \<and> distinct (map fill_key us)
    \<and> sorted (map (\<lambda>f. (nf_fill_timestamp f, nf_trade_id f)) us)"
proof -
  obtain vs where v: "dedup_loop [] (map Inr fs) = Inr vs"
      "us = sort_key (\<lambda>f. (nf_fill_timestamp f, nf_trade_id f)) vs"
    using assms by (auto simp: deduplicate_fills_def bindR_Inr_iff)
  then have "set vs = set fs" "distinct (map fill_key vs)" using dedup_loop_Inr(2) [of "[]" fs vs] by simp_all
  moreover from this have "distinct (map fill_key us)"
    using v(2) by (simp add: distinct_map)
  ultimately show ?thesis using v(2) by simp
qed

lemma deduplicate_defined: "(\<exists>us. deduplicate_fills (map Inr fs) = Inr us) \<longleftrightarrow> consistent (set fs)"
  using dedup_loop_Inr(1) [of "[]" fs] by (auto simp: deduplicate_fills_def bindR_Inr_iff)

lemma timestamp_of_pos: "timestamp_of v = Inr t \<Longrightarrow> 0 < t"
  by (cases "bindR (py_str v) (\<lambda>s. case py_int s of None \<Rightarrow> Inl (ValueError ''int'') | Some i \<Rightarrow> Inr i)")
    (auto simp: timestamp_of_def guardR_Inr_iff)

lemma fee_from_mapping_Inr:
  "fee_from_mapping v = Inr x \<Longrightarrow>
     \<exists>c s. jget v ''currency'' = Inr c \<and> required_text c = Inr s \<and> upper s = ''USDT''"
  by (cases v) (auto simp: fee_from_mapping_def fee_from_currency_amount_def bindR_Inr_iff guardR_Inr_iff)

section \<open>Properties\<close>

text \<open>
  No fill without evidence: a trade payload is normalised only if it names the queried order
  itself, has a trade id, a positive finite quantity and price, and a positive time; the fee is
  then non-negative and was charged in USDT.
\<close>

theorem normalized_fill_has_evidence:
  assumes "normalize_ccxt_trade payload oid = Inr f"
  shows "nf_exchange_order_id f = oid \<and> nf_trade_id f \<noteq> [] \<and> 0 < nf_filled_quantity f
    \<and> 0 < nf_fill_price f \<and> 0 \<le> nf_fee f \<and> 0 < nf_fill_timestamp f
    \<and> (\<exists>fee c s. jget payload ''fee'' = Inr fee \<and> jget fee ''currency'' = Inr c
         \<and> required_text c = Inr s \<and> upper s = ''USDT'')"
  using assms
  by (auto simp: normalize_ccxt_trade_def bindR_Inr_iff guardR_Inr_iff mk_NormalizedFill_Inr wf_normalized_def
      timestamp_of_pos dest!: fee_from_mapping_Inr)

text \<open>
  Repeated observations are merged and conflicting ones refused: de-duplication succeeds
  exactly when no two different fills share order and trade id, and then returns each observed
  fill exactly once, in the order of time and trade id.
\<close>

theorem fills_deduplicated:
  "((\<exists>us. deduplicate_fills (map Inr fs) = Inr us) \<longleftrightarrow>
      (\<forall>f g. f \<in> set fs \<and> g \<in> set fs \<and> fill_key f = fill_key g \<longrightarrow> f = g))
   \<and> (deduplicate_fills (map Inr fs) = Inr us \<longrightarrow> set us = set fs \<and> distinct (map fill_key us)
        \<and> sorted (map (\<lambda>f. (nf_fill_timestamp f, nf_trade_id f)) us))"
  using deduplicate_defined [of fs] deduplicate_Inr [of fs us] unfolding consistent_def inj_on_def by blast

text \<open>
  C39.  The fills of an order do not depend on how they were delivered: two deliveries of the same
  observations of one order, in any order and with any repetitions, give the same result, be it
  the list of fills or the refusal; so a trade that is seen twice is not counted twice.
\<close>

theorem dedup_delivery_independent:
  assumes "set fs = set gs" "\<forall>f\<in>set fs. nf_exchange_order_id f = oid"
  shows "deduplicate_fills (map Inr fs) = deduplicate_fills (map Inr gs)"
proof (cases "consistent (set fs)")
  case True
  then obtain us vs where u: "deduplicate_fills (map Inr fs) = Inr us"
      and v: "deduplicate_fills (map Inr gs) = Inr vs"
    using deduplicate_defined assms(1) by metis
  let ?k = "\<lambda>f. (nf_fill_timestamp f, nf_trade_id f)"
  note U = deduplicate_Inr [OF u] and V = deduplicate_Inr [OF v]
  have ids: "inj_on nf_trade_id (set fs)"
    using True assms(2) unfolding consistent_def inj_on_def fill_key_def by auto
  then have inj: "inj_on ?k (set fs)" by (auto simp: inj_on_def)
  have "distinct us" "distinct vs" using U V by (auto simp: distinct_map)
  then have "distinct (map ?k us)" "distinct (map ?k vs)" using inj U V assms(1) by (simp_all add: distinct_map)
  then have "us = vs"
    using U V inj assms(1) map_sorted_distinct_set_unique [of ?k us vs] by simp
  with u v show ?thesis by simp
next
  case False
  have "\<exists>e. deduplicate_fills (map Inr xs) = Inl e \<and> e = FillNormalizationError ''conflicting duplicate fill''"
    if "\<not> consistent (set xs)" for xs
  proof (cases "dedup_loop [] (map Inr xs)")
    case (Inl e)
    with dedup_loop_error [OF Inl] show ?thesis by (simp add: deduplicate_fills_def)
  next
    case (Inr us)
    with that deduplicate_defined [of xs] show ?thesis by (simp add: deduplicate_fills_def)
  qed
  with False assms(1) show ?thesis by metis
qed

section \<open>Examples\<close>

definition demo_trade :: json where
  "demo_trade = JObj [(''order'', JStr ''42''), (''id'', JStr ''t1''), (''amount'', JInt 2),
     (''price'', JInt 101), (''timestamp'', JInt 1700000000000),
     (''fee'', JObj [(''currency'', JStr ''USDT''), (''cost'', JInt 0)])]"

definition demo_fill :: NormalizedFill where
  "demo_fill = \<lparr>nf_exchange_order_id = ''42'', nf_trade_id = ''t1'', nf_filled_quantity = 2,
     nf_fill_price = 101, nf_fee = 0, nf_fill_timestamp = 1700000000000000\<rparr>"

lemma demo_trade_normalized: "normalize_ccxt_trade demo_trade ''42'' = Inr demo_fill"
proof -
  have t: "required_text (JStr ''42'') = Inr ''42''" "required_text (JStr ''t1'') = Inr ''t1''"
    "required_text (JStr ''USDT'') = Inr ''USDT''" "upper ''USDT'' = ''USDT''" by code_simp+
  have d: "decimal_of (JInt i) = Inr (Finite (of_int i))" if "0 \<le> i" for i
    using that by (simp add: decimal_of_def py_decimal_int_str)
  have z: "dabs 0 = 0" by code_simp
  show ?thesis
    unfolding normalize_ccxt_trade_def demo_trade_def
    by (simp add: t d z positive_decimal_def fee_from_mapping_def fee_from_currency_amount_def required_fee_def
        timestamp_of_def mk_NormalizedFill_def demo_fill_def)
qed

theorem normalized_fill_has_evidence_witness:
  "normalize_ccxt_trade demo_trade ''42'' = Inr demo_fill \<and> nf_exchange_order_id demo_fill = ''42''"
  using normalized_fill_has_evidence [OF demo_trade_normalized] demo_trade_normalized by blast

theorem fills_deduplicated_witness:
  "deduplicate_fills (map Inr [demo_fill, demo_fill]) = Inr [demo_fill] \<and> set [demo_fill] = set [demo_fill, demo_fill]"
proof -
  have d: "deduplicate_fills (map Inr [demo_fill, demo_fill]) = Inr [demo_fill]"
    by (simp add: deduplicate_fills_def)
  have "set [demo_fill] = set [demo_fill, demo_fill]"
    using mp [OF conjunct2 [OF fills_deduplicated [of "[demo_fill, demo_fill]" "[demo_fill]"]] d] by (rule conjunct1)
  with d show ?thesis by (rule conjI)
qed

theorem dedup_delivery_independent_witness:
  "deduplicate_fills (map Inr [demo_fill, demo_fill]) = deduplicate_fills (map Inr [demo_fill])"
  by (rule dedup_delivery_independent [of _ _ "''42''"]) (simp_all add: demo_fill_def)

end
