(* ===== verification/Binance_Adapter.thy ===== *)
theory Binance_Adapter
  imports Fill_Normalizer Account_Writer Exchange
begin

text \<open>
  The Binance adapter (\<open>infrastructure/binance_adapter.py\<close>): every call the engine makes to the
  exchange, with the account fence around each mutation, the reading of the decoded payloads and
  the translation of exceptions.  The exchange client (CCXT) is an argument: a record of calls
  over the state of the outside world, which also holds the clock and the registry files.  A
  number converted with \<open>float(...)\<close> on its way out is kept as the decimal it comes from.
\<close>

section \<open>The client and the adapter\<close>

record order_request =
  rq_symbol :: string
  rq_type :: string
  rq_side :: string
  rq_amount :: dec
  rq_stop_price :: "dec option"
  rq_client_order_id :: string
  rq_reduce_only :: bool

text \<open>Methods that older clients lack, reached by \<open>getattr\<close>, are optional.\<close>

record 'x client =
  cl_clock :: "'x \<Rightarrow> int"
  cl_registry :: "'x \<Rightarrow> files"
  cl_open_gateway :: "('x, bool) call"
  cl_set_leverage :: "int \<Rightarrow> string \<Rightarrow> ('x, unit) call"
  cl_create_order :: "order_request \<Rightarrow> ('x, json) call"
  cl_cancel_order :: "string \<Rightarrow> string \<Rightarrow> ('x, json) call"
  cl_delete_algo_order :: "(string \<Rightarrow> string \<Rightarrow> ('x, json) call) option"
  cl_fetch_balance :: "('x, json) call"
  cl_fetch_positions :: "('x, json list) call"
  cl_fetch_open_orders :: "string option \<Rightarrow> ('x, json list) call"
  cl_open_algo_orders :: "(string option \<Rightarrow> ('x, json list) call) option"
  cl_fetch_closed_orders :: "string \<Rightarrow> ('x, json list) call"
  cl_get_order :: "string \<Rightarrow> string \<Rightarrow> ('x, json) call"
  cl_fetch_my_trades :: "string \<Rightarrow> string \<Rightarrow> ('x, json list) call"
  cl_get_algo_order :: "(string \<Rightarrow> string \<Rightarrow> ('x, json) call) option"
  cl_fetch_ticker :: "string \<Rightarrow> ('x, json) call"
  cl_market :: "string \<Rightarrow> ('x, json) call"

record 'x binance =
  bn_machine :: machine
  bn_writer_capability :: "AccountWriterCapability option"
  bn_credentials :: bool
  bn_client :: "'x client"

text \<open>The adapter's own state: whether the gateway was created.\<close>

record 'x bworld =
  bw_gateway :: bool
  bw_outside :: 'x

definition outside :: "('x, 'a) call \<Rightarrow> ('x bworld, 'a) call" where
  "outside m w = (case m (bw_outside w) of (r, x) \<Rightarrow> (r, w\<lparr>bw_outside := x\<rparr>))"

definition now_of :: "'x binance \<Rightarrow> ('x bworld, int) call" where
  "now_of b w = (Inr (cl_clock (bn_client b) (bw_outside w)), w)"

definition ensure_gateway :: "'x binance \<Rightarrow> ('x bworld, unit) call" where
  "ensure_gateway b w =
     (if bw_gateway w then (Inr (), w)
      else if \<not> bn_credentials b then (Inl BinanceAdapterUnavailable, w)
      else case outside (cl_open_gateway (bn_client b)) w of
             (Inl _, w1) \<Rightarrow> (Inl BinanceAdapterUnavailable, w1)
           | (Inr usable, w1) \<Rightarrow>
               if \<not> usable then (Inl BinanceAdapterUnavailable, w1)
               else (Inr (), w1\<lparr>bw_gateway := True\<rparr>))"

text \<open>\<open>with self._mutation_guard(): body\<close>\<close>

definition fence_check :: "'x binance \<Rightarrow> 'x bworld \<Rightarrow> unit res" where
  "fence_check b w =
     (case bn_writer_capability b of
        None \<Rightarrow> Inl (AccountWriterFenceError ''ACCOUNT_WRITER_FENCE_REJECTED: capability missing'')
      | Some c \<Rightarrow> mutation_guard (bn_machine b) c (cl_clock (bn_client b) (bw_outside w))
                   (cl_registry (bn_client b) (bw_outside w)))"

definition guarded :: "'x binance \<Rightarrow> ('x, 'a) call \<Rightarrow> ('x bworld, 'a) call" where
  "guarded b body w =
     (case fence_check b w of Inl e \<Rightarrow> (Inl e, w) | Inr _ \<Rightarrow> outside body w)"

text \<open>\<open>except AccountWriterFenceError: raise\<close>, \<open>except Exception: raise BinanceAdapterUnavailable\<close>\<close>

fun unless_fenced :: "exn \<Rightarrow> exn" where
  "unless_fenced (AccountWriterFenceError c) = AccountWriterFenceError c"
| "unless_fenced _ = BinanceAdapterUnavailable"

definition always_unavailable :: "exn \<Rightarrow> exn" where
  "always_unavailable e = BinanceAdapterUnavailable"

section \<open>Helpers on payloads\<close>

definition ends_with :: "string \<Rightarrow> string \<Rightarrow> bool" where
  "ends_with suf s \<longleftrightarrow> length suf \<le> length s \<and> drop (length s - length suf) s = suf"

definition canonical_symbol :: "string \<Rightarrow> string" where
  "canonical_symbol symbol =
     (let canonical = split_head (CHR '':'') symbol
      in if CHR ''/'' \<notin> set canonical \<and> ends_with ''USDT'' canonical
         then take (length canonical - 4) canonical @ ''/USDT'' else canonical)"

definition looks_like_binance_algo_order_id :: "string \<Rightarrow> bool" where
  "looks_like_binance_algo_order_id i \<longleftrightarrow> list_all is_digit i \<and> 15 \<le> length i"

definition market_id_of :: "string \<Rightarrow> string" where
  "market_id_of symbol = split_head (CHR '':'') (filter (\<lambda>c. c \<noteq> CHR ''/'') symbol)"

definition exchange_bool :: "json \<Rightarrow> bool" where
  "exchange_bool v = (case v of JStr s \<Rightarrow> lower (strip s) \<in> {''1'', ''true'', ''yes''} | _ \<Rightarrow> truthy v)"

text \<open>\<open>x.get(k1) or x.get(k2) or ... or d\<close>\<close>

fun first_of :: "json \<Rightarrow> string list \<Rightarrow> json \<Rightarrow> json res" where
  "first_of x [] d = Inr d"
| "first_of x (k # ks) d = bindR (jget x k) (\<lambda>v. if truthy v then Inr v else first_of x ks d)"

text \<open>A text field; a null is kept as the empty text.\<close>

fun text_or_empty :: "json \<Rightarrow> string res" where
  "text_or_empty (JStr s) = Inr s"
| "text_or_empty JNull = Inr []"
| "text_or_empty _ = Inl (OtherException ''TypeError'')"

text \<open>\<open>Decimal(str(v)) if v else None\<close>\<close>

definition price_of :: "json \<Rightarrow> dec option res" where
  "price_of v = (if truthy v then bindR (finite_decimal_of v) (\<lambda>x. Inr (Some x)) else Inr None)"

fun mapR :: "('a \<Rightarrow> 'b res) \<Rightarrow> 'a list \<Rightarrow> 'b list res" where
  "mapR f [] = Inr []"
| "mapR f (x # xs) = bindR (f x) (\<lambda>y. bindR (mapR f xs) (\<lambda>ys. Inr (y # ys)))"

text \<open>The first element a loop stops at; a malformed element before it raises.\<close>

fun find_first :: "('a \<Rightarrow> bool res) \<Rightarrow> 'a list \<Rightarrow> 'a option res" where
  "find_first p [] = Inr None"
| "find_first p (x # xs) = bindR (p x) (\<lambda>b. if b then Inr (Some x) else find_first p xs)"

section \<open>Reading the account\<close>

text \<open>One position row; \<open>None\<close> when it is closed and skipped.\<close>

definition position_row :: "json \<Rightarrow> ExchangePositionSnapshot option res" where
  "position_row r =
     bindR (jget_or r ''contracts'' (JInt 0)) (\<lambda>c. bindR (finite_decimal_of c) (\<lambda>contracts.
     if contracts = 0 then Inr None
     else
       bindR (jget r ''leverage'') (\<lambda>leverage.
       bindR (bindR (jitem r ''symbol'') text_of) (\<lambda>symbol.
       bindR (jitem r ''side'') (\<lambda>side.
       bindR (bindR (jitem r ''contracts'') finite_decimal_of) (\<lambda>quantity.
       bindR (bindR (jitem r ''entryPrice'') finite_decimal_of) (\<lambda>entry_price.
       bindR (bindR (jitem r ''markPrice'') finite_decimal_of) (\<lambda>mark_price.
       bindR (bindR (jget_or r ''unrealizedPnl'' (JInt 0)) finite_decimal_of) (\<lambda>pnl.
       bindR (if leverage = JNull then Inr None else bindR (int_of_json leverage) (\<lambda>i. Inr (Some i))) (\<lambda>lev.
       Inr (Some \<lparr>xp_symbol = canonical_symbol symbol,
         xp_direction = (if side = JStr ''long'' then ''long'' else ''short''),
         xp_quantity = quantity, xp_entry_price = entry_price, xp_mark_price = mark_price,
         xp_unrealized_pnl = pnl, xp_leverage = lev\<rparr>)))))))))))"

definition order_row :: "json \<Rightarrow> ExchangeOrderSnapshot res" where
  "order_row r =
     bindR (bindR (jitem r ''id'') py_str) (\<lambda>i.
     bindR (bindR (jget r ''clientOrderId'') opt_text_of) (\<lambda>client_order_id.
     bindR (bindR (jitem r ''symbol'') text_of) (\<lambda>symbol.
     bindR (bindR (jitem r ''side'') text_of) (\<lambda>side.
     bindR (bindR (jitem r ''type'') text_of) (\<lambda>order_type.
     bindR (bindR (jitem r ''amount'') finite_decimal_of) (\<lambda>quantity.
     bindR (bindR (jget r ''price'') price_of) (\<lambda>price.
     bindR (bindR (jitem r ''status'') text_or_empty) (\<lambda>status.
     bindR (jget_or r ''reduceOnly'' (JBool False)) (\<lambda>reduce_only.
     Inr \<lparr>xo_exchange_order_id = i, xo_client_order_id = client_order_id,
       xo_symbol = canonical_symbol symbol, xo_side = side, xo_order_type = order_type,
       xo_quantity = quantity, xo_price = price, xo_status = status,
       xo_reduce_only = truthy reduce_only\<rparr>)))))))))"

definition algo_id :: "json \<Rightarrow> string res" where
  "algo_id r = bindR (first_of r [''algoId'', ''orderId'', ''id''] (JStr [])) py_str"

definition algo_row :: "json \<Rightarrow> string \<Rightarrow> ExchangeOrderSnapshot res" where
  "algo_row r i =
     bindR (bindR (first_of r [''clientAlgoId''] JNull) (\<lambda>a. if truthy a then Inr a else jget r ''clientOrderId''))
       (\<lambda>cid. bindR (opt_text_of cid) (\<lambda>client_order_id.
     bindR (bindR (first_of r [''symbol''] (JStr [])) py_str) (\<lambda>symbol.
     bindR (bindR (first_of r [''side''] (JStr [])) py_str) (\<lambda>side.
     bindR (bindR (first_of r [''orderType'', ''type''] (JStr ''conditional'')) py_str) (\<lambda>order_type.
     bindR (bindR (first_of r [''quantity''] (JStr ''0'')) finite_decimal_of) (\<lambda>quantity.
     bindR (bindR (first_of r [''triggerPrice'', ''stopPrice''] JNull) price_of) (\<lambda>price.
     bindR (bindR (first_of r [''algoStatus'', ''status''] (JStr ''NEW'')) py_str) (\<lambda>status.
     bindR (jget_or r ''reduceOnly'' (JBool False)) (\<lambda>reduce_only.
     Inr \<lparr>xo_exchange_order_id = i, xo_client_order_id = client_order_id,
       xo_symbol = canonical_symbol symbol, xo_side = lower side, xo_order_type = lower order_type,
       xo_quantity = quantity, xo_price = price, xo_status = lower status,
       xo_reduce_only = truthy reduce_only\<rparr>)))))))))"

text \<open>The loop over the conditional orders, which skips those without an id and those known.\<close>

fun algo_rows :: "string set \<Rightarrow> json list \<Rightarrow> ExchangeOrderSnapshot list res" where
  "algo_rows known [] = Inr []"
| "algo_rows known (r # rs) =
     bindR (algo_id r) (\<lambda>i.
       if i = [] \<or> i \<in> known then algo_rows known rs
       else bindR (algo_row r i) (\<lambda>x. bindR (algo_rows (insert i known) rs) (\<lambda>xs. Inr (x # xs))))"

definition read_balance :: "json \<Rightarrow> (dec \<times> dec) res" where
  "read_balance balance =
     bindR (jget_or balance ''USDT'' (JObj [])) (\<lambda>usdt.
     bindR (bindR (jget_or usdt ''free'' (JInt 0)) finite_decimal_of) (\<lambda>free.
     bindR (bindR (jget_or usdt ''total'' (JInt 0)) finite_decimal_of) (\<lambda>total. Inr (free, total))))"

definition binance_fetch_authoritative_snapshot :: "'x binance \<Rightarrow> ('x bworld, AuthoritativeAccountSnapshot) call" where
  "binance_fetch_authoritative_snapshot b =
     (let cl = bn_client b in
      bindC (ensure_gateway b) (\<lambda>_. raise_as always_unavailable (
        bindC (bindC (outside (cl_fetch_balance cl)) (\<lambda>r. pureC (read_balance r))) (\<lambda>(free, total).
        bindC (bindC (outside (cl_fetch_positions cl)) (\<lambda>rs. pureC (mapR position_row rs))) (\<lambda>positions.
        bindC (bindC (outside (cl_fetch_open_orders cl None)) (\<lambda>rs. pureC (mapR order_row rs))) (\<lambda>orders.
        bindC (case cl_open_algo_orders cl of None \<Rightarrow> returnC [] | Some f \<Rightarrow> outside (f None)) (\<lambda>rs.
        bindC (pureC (algo_rows (set (map xo_exchange_order_id orders)) rs)) (\<lambda>algos.
        bindC (now_of b) (\<lambda>now.
        pureC (mk_AuthoritativeAccountSnapshot \<lparr>as_balance = free, as_equity = total,
          as_positions = List.map_filter id positions, as_pending_orders = orders @ algos,
          as_snapshot_timestamp = now\<rparr>))))))))))"

definition market_config :: "json \<Rightarrow> (dec \<times> dec \<times> dec) res" where
  "market_config market =
     bindR (jitem market ''precision'') (\<lambda>precision.
     bindR (bindR (jitem precision ''price'') finite_decimal_of) (\<lambda>tick_size.
     bindR (bindR (jitem precision ''amount'') finite_decimal_of) (\<lambda>step_size.
     bindR (jitem market ''limits'') (\<lambda>limits. bindR (jitem limits ''cost'') (\<lambda>cost.
     bindR (bindR (jitem cost ''min'') finite_decimal_of) (\<lambda>min_notional.
     Inr (tick_size, step_size, min_notional)))))))"

text \<open>The volatility field is the constant zero, as in the source.\<close>

definition binance_fetch_market_snapshot :: "'x binance \<Rightarrow> string \<Rightarrow> ('x bworld, PreSubmitMarketSnapshot) call" where
  "binance_fetch_market_snapshot b symbol =
     (let cl = bn_client b in
      bindC (ensure_gateway b) (\<lambda>_. raise_as always_unavailable (
        bindC (bindC (outside (cl_fetch_ticker cl symbol))
                 (\<lambda>r. pureC (bindR (jitem r ''last'') finite_decimal_of))) (\<lambda>current_price.
        bindC (bindC (outside (cl_market cl symbol)) (\<lambda>r. pureC (market_config r)))
          (\<lambda>(tick_size, step_size, min_notional).
        bindC (now_of b) (\<lambda>now.
        pureC (mk_PreSubmitMarketSnapshot \<lparr>ms_symbol = symbol, ms_current_price = current_price, ms_atr = 0,
          ms_last_update = now, ms_tick_size = tick_size, ms_step_size = step_size,
          ms_min_notional = min_notional\<rparr>)))))))"

section \<open>Looking up orders and fills\<close>

definition binance_query_filled_order_by_id ::
    "'x binance \<Rightarrow> string \<Rightarrow> string \<Rightarrow> ('x bworld, ExchangeOrderReceipt option) call" where
  "binance_query_filled_order_by_id b symbol exchange_order_id =
     bindC (ensure_gateway b) (\<lambda>_.
     bindC (raise_as always_unavailable
              (outside (cl_get_order (bn_client b) (market_id_of symbol) exchange_order_id))) (\<lambda>row.
     pureC (case row of
       JObj _ \<Rightarrow>
         bindR (bindR (jget row ''orderId'') py_str) (\<lambda>i.
         if i \<noteq> exchange_order_id then Inr None
         else
           bindR (bindR (first_of row [''clientOrderId''] (JStr [])) py_str) (\<lambda>client_order_id.
           bindR (bindR (first_of row [''symbol''] (JStr symbol)) py_str) (\<lambda>sym.
           bindR (bindR (first_of row [''side''] (JStr [])) py_str) (\<lambda>side.
           bindR (bindR (first_of row [''type''] (JStr ''market'')) py_str) (\<lambda>order_type.
           bindR (bindR (first_of row [''origQty''] (JStr ''0'')) finite_decimal_of) (\<lambda>quantity.
           bindR (bindR (jget row ''avgPrice'') price_of) (\<lambda>price.
           bindR (bindR (first_of row [''status''] (JStr [])) py_str) (\<lambda>status.
           bindR (bindR (first_of row [''updateTime'', ''time''] (JInt 0)) int_of_json) (\<lambda>ms.
           bindR (jget_or row ''reduceOnly'' (JBool False)) (\<lambda>reduce_only.
           guardR (\<bar>ms\<bar> > 253402300799999) (ValueError ''year is out of range'')
           (Inr (Some \<lparr>or_exchange_order_id = i, or_client_order_id = client_order_id,
             or_symbol = canonical_symbol sym, or_side = lower side, or_order_type = lower order_type,
             or_quantity = quantity, or_price = price, or_status = lower status,
             or_acknowledged_at = ms * 1000, or_reduce_only = exchange_bool reduce_only\<rparr>))))))))))))
     | _ \<Rightarrow> Inr None)))"

definition receipt_from_algo :: "string \<Rightarrow> int \<Rightarrow> json \<Rightarrow> ExchangeOrderReceipt res" where
  "receipt_from_algo symbol now r =
     bindR (algo_id r) (\<lambda>i.
     bindR (bindR (first_of r [''clientAlgoId'', ''clientOrderId''] (JStr [])) py_str) (\<lambda>client_order_id.
     bindR (bindR (first_of r [''symbol''] (JStr symbol)) py_str) (\<lambda>sym.
     bindR (bindR (first_of r [''side''] (JStr [])) py_str) (\<lambda>side.
     bindR (bindR (first_of r [''orderType'', ''type''] (JStr ''conditional'')) py_str) (\<lambda>order_type.
     bindR (bindR (first_of r [''quantity'', ''origQty''] (JInt 0)) finite_decimal_of) (\<lambda>quantity.
     bindR (bindR (first_of r [''triggerPrice'', ''stopPrice'', ''price''] JNull) price_of) (\<lambda>price.
     bindR (bindR (first_of r [''algoStatus'', ''status''] (JStr ''new'')) py_str) (\<lambda>status.
     bindR (jget_or r ''reduceOnly'' (JBool False)) (\<lambda>reduce_only.
     Inr \<lparr>or_exchange_order_id = i, or_client_order_id = client_order_id,
       or_symbol = canonical_symbol sym, or_side = lower side, or_order_type = lower order_type,
       or_quantity = quantity, or_price = price, or_status = lower status,
       or_acknowledged_at = now, or_reduce_only = exchange_bool reduce_only\<rparr>)))))))))"

definition receipt_from_order :: "string \<Rightarrow> string \<Rightarrow> int \<Rightarrow> json \<Rightarrow> ExchangeOrderReceipt res" where
  "receipt_from_order symbol client_order_id now r =
     bindR (bindR (jitem r ''id'') py_str) (\<lambda>i.
     bindR (bindR (jitem r ''side'') text_of) (\<lambda>side.
     bindR (bindR (jitem r ''type'') text_of) (\<lambda>order_type.
     bindR (bindR (jitem r ''amount'') finite_decimal_of) (\<lambda>quantity.
     bindR (bindR (jget r ''price'') price_of) (\<lambda>price.
     bindR (bindR (jitem r ''status'') text_or_empty) (\<lambda>status.
     bindR (jget r ''info'') (\<lambda>info. bindR (jget_or (json_or info (JObj [])) ''reduceOnly'' (JBool False)) (\<lambda>inner.
     bindR (jget_or r ''reduceOnly'' inner) (\<lambda>reduce_only.
     Inr \<lparr>or_exchange_order_id = i, or_client_order_id = client_order_id, or_symbol = symbol,
       or_side = side, or_order_type = order_type, or_quantity = quantity, or_price = price,
       or_status = status, or_acknowledged_at = now, or_reduce_only = exchange_bool reduce_only\<rparr>)))))))))"

definition algo_has_client_id :: "string \<Rightarrow> json \<Rightarrow> bool res" where
  "algo_has_client_id cid r =
     bindR (bindR (first_of r [''clientAlgoId'', ''clientOrderId''] (JStr [])) py_str) (\<lambda>c. Inr (c = cid))"

definition order_has_client_id :: "string \<Rightarrow> json \<Rightarrow> bool res" where
  "order_has_client_id cid r = bindR (jget r ''clientOrderId'') (\<lambda>c. Inr (c = JStr cid))"

definition binance_query_order_by_client_id ::
    "'x binance \<Rightarrow> string \<Rightarrow> string \<Rightarrow> ('x bworld, ExchangeOrderReceipt option) call" where
  "binance_query_order_by_client_id b symbol client_order_id =
     (let cl = bn_client b;
          receipt = (\<lambda>r. bindC (now_of b) (\<lambda>now.
            pureC (bindR (receipt_from_order symbol client_order_id now r) (\<lambda>x. Inr (Some x)))))
      in
      bindC (ensure_gateway b) (\<lambda>_. raise_as always_unavailable (
        bindC (case cl_open_algo_orders cl of
                 None \<Rightarrow> returnC None
               | Some f \<Rightarrow> bindC (outside (f (Some (market_id_of symbol))))
                             (\<lambda>rs. pureC (find_first (algo_has_client_id client_order_id) rs))) (\<lambda>algo.
        case algo of
          Some r \<Rightarrow> bindC (now_of b) (\<lambda>now.
            pureC (bindR (receipt_from_algo symbol now r) (\<lambda>x. Inr (Some x))))
        | None \<Rightarrow>
            bindC (bindC (outside (cl_fetch_open_orders cl (Some symbol)))
                     (\<lambda>rs. pureC (find_first (order_has_client_id client_order_id) rs))) (\<lambda>open.
            case open of
              Some r \<Rightarrow> receipt r
            | None \<Rightarrow>
                bindC (bindC (outside (cl_fetch_closed_orders cl symbol))
                         (\<lambda>rs. pureC (find_first (order_has_client_id client_order_id) rs))) (\<lambda>closed.
                case closed of Some r \<Rightarrow> receipt r | None \<Rightarrow> returnC None))))))"

definition fill_receipt :: "NormalizedFill \<Rightarrow> ExchangeFillReceipt" where
  "fill_receipt f = \<lparr>ef_exchange_order_id = nf_exchange_order_id f, ef_trade_id = nf_trade_id f,
     ef_filled_quantity = nf_filled_quantity f, ef_fill_price = nf_fill_price f, ef_fee = nf_fee f,
     ef_fill_timestamp = nf_fill_timestamp f\<rparr>"

text \<open>The trades of the order, or of the order a conditional one turned into.\<close>

definition trades_of :: "'x client \<Rightarrow> string \<Rightarrow> string \<Rightarrow> ('x bworld, string \<times> json list) call" where
  "trades_of cl symbol exchange_order_id =
     bindC (outside (cl_fetch_my_trades cl symbol exchange_order_id)) (\<lambda>trades.
       case (trades = [] \<and> looks_like_binance_algo_order_id exchange_order_id, cl_get_algo_order cl) of
         (True, Some f) \<Rightarrow>
           bindC (outside (f exchange_order_id (market_id_of symbol))) (\<lambda>algo.
             case algo of
               JObj _ \<Rightarrow>
                 bindC (pureC (jget algo ''actualOrderId'')) (\<lambda>actual.
                   if truthy actual
                   then bindC (pureC (py_str actual)) (\<lambda>i.
                          bindC (outside (cl_fetch_my_trades cl symbol i)) (\<lambda>ts. returnC (i, ts)))
                   else returnC (exchange_order_id, trades))
             | _ \<Rightarrow> returnC (exchange_order_id, trades))
       | _ \<Rightarrow> returnC (exchange_order_id, trades))"

definition binance_fetch_fills ::
    "'x binance \<Rightarrow> string \<Rightarrow> string \<Rightarrow> ('x bworld, ExchangeFillReceipt list) call" where
  "binance_fetch_fills b symbol exchange_order_id =
     bindC (ensure_gateway b) (\<lambda>_. raise_as always_unavailable (
       bindC (trades_of (bn_client b) symbol exchange_order_id) (\<lambda>(actual_order_id, trades).
         pureC (bindR (deduplicate_fills (map (\<lambda>t. normalize_ccxt_trade t actual_order_id) trades))
                  (\<lambda>fills. Inr (map fill_receipt fills))))))"

section \<open>Submitting and cancelling\<close>

definition order_ack ::
    "'x binance \<Rightarrow> string \<Rightarrow> string \<Rightarrow> string \<Rightarrow> string \<Rightarrow> dec \<Rightarrow> dec option \<Rightarrow> json \<Rightarrow> ('x bworld, ExchangeOrderReceipt) call" where
  "order_ack b client_order_id symbol side order_type quantity price response =
     bindC (pureC (bindR (jitem response ''id'') py_str)) (\<lambda>i.
     bindC (pureC (bindR (jitem response ''status'') text_or_empty)) (\<lambda>status.
     bindC (now_of b) (\<lambda>now.
     returnC \<lparr>or_exchange_order_id = i, or_client_order_id = client_order_id, or_symbol = symbol,
       or_side = side, or_order_type = order_type, or_quantity = quantity, or_price = price,
       or_status = status, or_acknowledged_at = now, or_reduce_only = False\<rparr>)))"

definition binance_submit_market_order ::
    "'x binance \<Rightarrow> SubmitEntryToExchange \<Rightarrow> string \<Rightarrow> string \<Rightarrow> ('x bworld, ExchangeOrderReceipt) call" where
  "binance_submit_market_order b command symbol side =
     bindC (ensure_gateway b) (\<lambda>_. raise_as unless_fenced (
       bindC (guarded b (cl_set_leverage (bn_client b) (se_leverage command) symbol)) (\<lambda>_.
       bindC (guarded b (cl_create_order (bn_client b)
                \<lparr>rq_symbol = symbol, rq_type = ''market'', rq_side = side, rq_amount = se_quantity command,
                 rq_stop_price = None, rq_client_order_id = se_client_order_id command,
                 rq_reduce_only = False\<rparr>)) (\<lambda>response.
       order_ack b (se_client_order_id command) symbol side ''market'' (se_quantity command) None response))))"

definition binance_submit_stop_replacement ::
    "'x binance \<Rightarrow> string \<Rightarrow> string \<Rightarrow> dec \<Rightarrow> dec \<Rightarrow> string \<Rightarrow> ('x bworld, ExchangeOrderReceipt) call" where
  "binance_submit_stop_replacement b symbol side quantity stop_price client_order_id =
     bindC (ensure_gateway b) (\<lambda>_. raise_as unless_fenced (
       bindC (guarded b (cl_create_order (bn_client b)
                \<lparr>rq_symbol = symbol, rq_type = ''stop_market'', rq_side = side, rq_amount = quantity,
                 rq_stop_price = Some stop_price, rq_client_order_id = client_order_id,
                 rq_reduce_only = True\<rparr>)) (\<lambda>response.
       order_ack b client_order_id symbol side ''stop_market'' quantity (Some stop_price) response)))"

definition binance_submit_protection ::
    "'x binance \<Rightarrow> SubmitProtectionOrders \<Rightarrow> string \<Rightarrow> string \<Rightarrow> dec \<Rightarrow>
     ('x bworld, ExchangeOrderReceipt \<times> ExchangeOrderReceipt option) call" where
  "binance_submit_protection b command symbol side quantity =
     bindC (ensure_gateway b) (\<lambda>_. raise_as unless_fenced (
       bindC (guarded b (cl_create_order (bn_client b)
                \<lparr>rq_symbol = symbol, rq_type = ''stop_market'', rq_side = side, rq_amount = quantity,
                 rq_stop_price = Some (sp_stop_loss_price command),
                 rq_client_order_id = sp_stop_client_order_id command, rq_reduce_only = True\<rparr>)) (\<lambda>stop_response.
       bindC (order_ack b (sp_stop_client_order_id command) symbol side ''stop_market'' quantity
                (Some (sp_stop_loss_price command)) stop_response) (\<lambda>stop_receipt.
       case (sp_take_profit_price command, sp_tp_client_order_id command) of
         (Some tp, Some tp_id) \<Rightarrow>
           if tp \<noteq> 0 \<and> tp_id \<noteq> []
           then
             bindC (guarded b (cl_create_order (bn_client b)
                      \<lparr>rq_symbol = symbol, rq_type = ''take_profit_market'', rq_side = side,
                       rq_amount = quantity, rq_stop_price = Some tp, rq_client_order_id = tp_id,
                       rq_reduce_only = True\<rparr>)) (\<lambda>tp_response.
             bindC (order_ack b tp_id symbol side ''take_profit_market'' quantity (Some tp) tp_response)
               (\<lambda>tp_receipt. returnC (stop_receipt, Some tp_receipt)))
           else returnC (stop_receipt, None)
       | _ \<Rightarrow> returnC (stop_receipt, None)))))"

definition binance_submit_reduce_only_exit ::
    "'x binance \<Rightarrow> SubmitReduceOnlyExit \<Rightarrow> string \<Rightarrow> string \<Rightarrow> ('x bworld, ExchangeOrderReceipt) call" where
  "binance_submit_reduce_only_exit b command symbol side =
     bindC (ensure_gateway b) (\<lambda>_. raise_as unless_fenced (
       bindC (guarded b (cl_create_order (bn_client b)
                \<lparr>rq_symbol = symbol, rq_type = ''market'', rq_side = side,
                 rq_amount = sr_reduce_quantity command, rq_stop_price = None,
                 rq_client_order_id = sr_client_order_id command, rq_reduce_only = True\<rparr>)) (\<lambda>response.
       order_ack b (sr_client_order_id command) symbol side ''market'' (sr_reduce_quantity command) None response)))"

definition algo_cancel_receipt :: "string \<Rightarrow> string \<Rightarrow> int \<Rightarrow> json \<Rightarrow> ExchangeOrderReceipt res" where
  "algo_cancel_receipt symbol exchange_order_id now r =
     bindR (bindR (first_of r [''algoId''] (JStr exchange_order_id)) py_str) (\<lambda>i.
     bindR (bindR (jget r ''clientAlgoId'') text_or_empty) (\<lambda>client_order_id.
     bindR (bindR (first_of r [''side''] (JStr [])) py_str) (\<lambda>side.
     bindR (bindR (first_of r [''orderType''] (JStr ''conditional'')) py_str) (\<lambda>order_type.
     bindR (bindR (first_of r [''quantity''] (JStr ''0'')) finite_decimal_of) (\<lambda>quantity.
     bindR (bindR (first_of r [''triggerPrice'', ''stopPrice''] JNull) price_of) (\<lambda>price.
     Inr \<lparr>or_exchange_order_id = i, or_client_order_id = client_order_id, or_symbol = symbol,
       or_side = lower side, or_order_type = lower order_type, or_quantity = quantity,
       or_price = price, or_status = ''canceled'', or_acknowledged_at = now, or_reduce_only = False\<rparr>))))))"

definition cancel_receipt :: "string \<Rightarrow> int \<Rightarrow> json \<Rightarrow> ExchangeOrderReceipt res" where
  "cancel_receipt symbol now r =
     bindR (bindR (jitem r ''id'') py_str) (\<lambda>i.
     bindR (bindR (jget r ''clientOrderId'') text_or_empty) (\<lambda>client_order_id.
     bindR (bindR (jitem r ''side'') text_of) (\<lambda>side.
     bindR (bindR (jitem r ''type'') text_of) (\<lambda>order_type.
     bindR (bindR (jitem r ''amount'') finite_decimal_of) (\<lambda>quantity.
     bindR (bindR (jget r ''price'') price_of) (\<lambda>price.
     Inr \<lparr>or_exchange_order_id = i, or_client_order_id = client_order_id, or_symbol = symbol,
       or_side = side, or_order_type = order_type, or_quantity = quantity, or_price = price,
       or_status = ''canceled'', or_acknowledged_at = now, or_reduce_only = False\<rparr>))))))"

text \<open>
  Cancelling holds the fence around the whole attempt; an ordinary cancellation that fails,
  or whose answer cannot be read, is followed by one through the conditional-order endpoint.
\<close>

definition cancel_order_unlocked :: "'x binance \<Rightarrow> string \<Rightarrow> string \<Rightarrow> ('x bworld, ExchangeOrderReceipt) call" where
  "cancel_order_unlocked b symbol exchange_order_id =
     (let cl = bn_client b;
          algo = (\<lambda>f. bindC (outside (f exchange_order_id (market_id_of symbol))) (\<lambda>r.
            bindC (now_of b) (\<lambda>now. pureC (algo_cancel_receipt symbol exchange_order_id now r))));
          plain = bindC (outside (cl_cancel_order cl exchange_order_id symbol)) (\<lambda>r.
            bindC (now_of b) (\<lambda>now. pureC (cancel_receipt symbol now r)))
      in bindC (ensure_gateway b) (\<lambda>_. raise_as always_unavailable (
        case cl_delete_algo_order cl of
          Some f \<Rightarrow> if looks_like_binance_algo_order_id exchange_order_id then algo f
                    else catchC plain (\<lambda>_. algo f)
        | None \<Rightarrow> plain)))"

definition binance_cancel_order :: "'x binance \<Rightarrow> string \<Rightarrow> string \<Rightarrow> ('x bworld, ExchangeOrderReceipt) call" where
  "binance_cancel_order b symbol exchange_order_id w =
     (case fence_check b w of
        Inl e \<Rightarrow> (Inl e, w)
      | Inr _ \<Rightarrow> cancel_order_unlocked b symbol exchange_order_id w)"

text \<open>The adapter as the services see it.\<close>

definition binance_adapter :: "'x binance \<Rightarrow> 'x bworld adapter" where
  "binance_adapter b = \<lparr>
     submit_market_order = binance_submit_market_order b,
     fetch_fills = binance_fetch_fills b,
     submit_protection = binance_submit_protection b,
     submit_reduce_only_exit = binance_submit_reduce_only_exit b,
     fetch_authoritative_snapshot = binance_fetch_authoritative_snapshot b,
     cancel_order = binance_cancel_order b,
     query_order_by_client_id = binance_query_order_by_client_id b\<rparr>"

section \<open>Facts\<close>

lemma binance_adapter_simps [simp]:
  "submit_market_order (binance_adapter b) = binance_submit_market_order b"
  "fetch_fills (binance_adapter b) = binance_fetch_fills b"
  "submit_protection (binance_adapter b) = binance_submit_protection b"
  "submit_reduce_only_exit (binance_adapter b) = binance_submit_reduce_only_exit b"
  "fetch_authoritative_snapshot (binance_adapter b) = binance_fetch_authoritative_snapshot b"
  "cancel_order (binance_adapter b) = binance_cancel_order b"
  "query_order_by_client_id (binance_adapter b) = binance_query_order_by_client_id b"
  by (simp_all add: binance_adapter_def)

definition unavailable_or_fenced :: "exn \<Rightarrow> bool" where
  "unavailable_or_fenced e \<longleftrightarrow> e = BinanceAdapterUnavailable \<or> (\<exists>c. e = AccountWriterFenceError c)"

lemma unless_fenced_cases [simp]: "unavailable_or_fenced (unless_fenced e)"
  by (cases e) (simp_all add: unavailable_or_fenced_def)

lemma ensure_gateway_error: "ensure_gateway b w = (Inl e, w') \<Longrightarrow> e = BinanceAdapterUnavailable"
  by (auto simp: ensure_gateway_def split: if_splits prod.splits sum.splits)

lemma ensure_gateway_ready [simp]: "bw_gateway w \<Longrightarrow> ensure_gateway b w = (Inr (), w)"
  by (simp add: ensure_gateway_def)

lemma ready_gateway: "bw_gateway w \<Longrightarrow> bindC (ensure_gateway b) f w = f () w"
  by (simp add: bindC_def)

lemma fence_check_error: "fence_check b w = Inl e \<Longrightarrow> \<exists>c. e = AccountWriterFenceError c"
  by (cases "bn_writer_capability b") (auto simp: fence_check_def dest: mutation_guard_error)

text \<open>A call that opens the gateway and translates every other exception.\<close>

lemma translated_error:
  assumes "bindC (ensure_gateway b) (\<lambda>_. raise_as g m) w = (Inl e, w')"
  shows "e = BinanceAdapterUnavailable \<or> (\<exists>x. e = g x)"
  using assms unfolding bindC_Inl_iff raise_as_Inl_iff by (blast dest: ensure_gateway_error)

lemma submission_error:
  "bindC (ensure_gateway b) (\<lambda>_. raise_as unless_fenced m) w = (Inl e, w') \<Longrightarrow> unavailable_or_fenced e"
  using translated_error [of b unless_fenced m w e w'] unless_fenced_cases
  by (metis unavailable_or_fenced_def)

lemma reading_error:
  "bindC (ensure_gateway b) (\<lambda>_. raise_as always_unavailable m) w = (Inl e, w') \<Longrightarrow> e = BinanceAdapterUnavailable"
  using translated_error [of b always_unavailable m w e w'] by (auto simp: always_unavailable_def)

lemma guarded_rejected: "fence_check b w = Inl e \<Longrightarrow> guarded b body w = (Inl e, w)"
  by (simp add: guarded_def)

lemma guarded_first:
  assumes "fence_check b w = Inl e"
  shows "raise_as unless_fenced (bindC (guarded b body) f) w = (Inl e, w)"
proof -
  obtain c where "e = AccountWriterFenceError c" using fence_check_error [OF assms] by blast
  then show ?thesis by (simp add: raise_as_apply bindC_def guarded_rejected [OF assms])
qed

lemma dedup_loop_all_ok: "dedup_loop unique rs = Inr us \<Longrightarrow> \<exists>fs. rs = map Inr fs"
proof (induction rs arbitrary: unique)
  case (Cons r rs)
  then obtain f unique' where r: "r = Inr f" and "dedup_loop unique' rs = Inr us"
    by (auto simp: bindR_Inr_iff split: option.splits if_splits)
  then obtain fs where "rs = map Inr fs" using Cons.IH by blast
  with r show ?case by (intro exI [of _ "f # fs"]) simp
qed simp

lemma deduplicate_all_ok:
  assumes "deduplicate_fills rs = Inr us"
  obtains fs where "rs = map Inr fs" "set us = set fs" "distinct (map fill_key us)"
    "sorted (map (\<lambda>f. (nf_fill_timestamp f, nf_trade_id f)) us)"
proof -
  obtain vs where "dedup_loop [] rs = Inr vs" using assms by (auto simp: deduplicate_fills_def bindR_Inr_iff)
  then obtain fs where "rs = map Inr fs" using dedup_loop_all_ok by blast
  with assms deduplicate_Inr [of fs us] that show thesis by blast
qed

section \<open>Properties\<close>


text \<open>
  The fills the engine sees are those of one order, each once: all carry the same order id
  (the queried one, or the id its conditional order turned into), have a trade id, a positive
  quantity and price and a non-negative fee, no trade id occurs twice, and they are in the order
  of time.
\<close>

theorem binance_fills_of_one_order:
  assumes "binance_fetch_fills b symb xid w = (Inr fills, w')"
  shows "(\<exists>oid. (\<forall>f\<in>set fills. ef_exchange_order_id f = oid)
        \<and> (\<not> looks_like_binance_algo_order_id xid \<longrightarrow> oid = xid))
    \<and> (\<forall>f\<in>set fills. ef_trade_id f \<noteq> [] \<and> 0 < ef_filled_quantity f \<and> 0 < ef_fill_price f \<and> 0 \<le> ef_fee f)
    \<and> distinct (map ef_trade_id fills) \<and> sorted (map ef_fill_timestamp fills)"
proof -
  obtain w1 oid trades w2 us where tr: "trades_of (bn_client b) symb xid w1 = (Inr (oid, trades), w2)"
    and d: "deduplicate_fills (map (\<lambda>t. normalize_ccxt_trade t oid) trades) = Inr us"
    and f: "fills = map fill_receipt us"
    using assms
    by (auto simp: binance_fetch_fills_def bindC_Inr_iff bindR_Inr_iff)
  from d obtain fs where fs: "map (\<lambda>t. normalize_ccxt_trade t oid) trades = map Inr fs" "set us = set fs"
    "distinct (map fill_key us)" "sorted (map (\<lambda>f. (nf_fill_timestamp f, nf_trade_id f)) us)"
    by (rule deduplicate_all_ok)
  have wf: "wf_normalized u \<and> nf_exchange_order_id u = oid" if "u \<in> set us" for u
  proof -
    have "(Inr u :: NormalizedFill res) \<in> set (map Inr fs)" using that fs(2) by simp
    then obtain t where "normalize_ccxt_trade t oid = Inr u" unfolding fs(1) [symmetric] by auto
    then show ?thesis
      by (auto simp: normalize_ccxt_trade_def bindR_Inr_iff guardR_Inr_iff mk_NormalizedFill_Inr)
  qed
  have ids: "distinct (map nf_trade_id us)"
    using fs(3) wf by (auto simp: distinct_map fill_key_def inj_on_def)
  have "sorted (map nf_fill_timestamp us)"
    using fs(4) by (auto simp: sorted_iff_nth_mono less_eq_prod_def intro: less_imp_le)
  moreover have "\<not> looks_like_binance_algo_order_id xid \<longrightarrow> oid = xid"
    using tr by (auto simp: trades_of_def bindC_Inr_iff split: if_splits)
  ultimately show ?thesis
    using wf ids by (auto simp: f fill_receipt_def wf_normalized_def comp_def)
qed

section \<open>Examples\<close>

text \<open>A client without state that answers every order with the given result.\<close>

definition demo_client :: "json res \<Rightarrow> unit client" where
  "demo_client answer = \<lparr>cl_clock = (\<lambda>_. 5), cl_registry = (\<lambda>_. demo_leased),
     cl_open_gateway = pureC (Inr True), cl_set_leverage = (\<lambda>_ _. pureC (Inr ())),
     cl_create_order = (\<lambda>_. pureC answer), cl_cancel_order = (\<lambda>_ _. pureC answer),
     cl_delete_algo_order = None, cl_fetch_balance = pureC (Inr (JObj [])), cl_fetch_positions = pureC (Inr []),
     cl_fetch_open_orders = (\<lambda>_. pureC (Inr [])), cl_open_algo_orders = None,
     cl_fetch_closed_orders = (\<lambda>_. pureC (Inr [])), cl_get_order = (\<lambda>_ _. pureC (Inr JNull)),
     cl_fetch_my_trades = (\<lambda>_ _. pureC (Inr [demo_trade, demo_trade])), cl_get_algo_order = None,
     cl_fetch_ticker = (\<lambda>_. pureC (Inr (JObj [(''last'', JInt 100)]))),
     cl_market = (\<lambda>_. pureC (Inr (JObj [(''precision'', JObj [(''price'', JInt 1), (''amount'', JInt 1)]),
        (''limits'', JObj [(''cost'', JObj [(''min'', JInt 5)])])])))\<rparr>"

definition demo_binance :: "json res \<Rightarrow> unit binance" where
  "demo_binance answer = \<lparr>bn_machine = demo_machine, bn_writer_capability = Some (ll_capability (demo_lease ''a'' 1 1)),
     bn_credentials = True, bn_client = demo_client answer\<rparr>"

definition demo_bworld :: "unit bworld" where
  "demo_bworld = \<lparr>bw_gateway = True, bw_outside = ()\<rparr>"

lemma demo_fence: "fence_check (demo_binance answer) demo_bworld = Inr ()"
proof -
  have "mutation_guard demo_machine (ll_capability (demo_lease ''a'' 1 1)) 5 demo_leased = Inr ()" by code_simp
  then show ?thesis by (simp add: fence_check_def demo_binance_def demo_client_def)
qed


theorem binance_fills_of_one_order_witness:
  "\<exists>fills w'. binance_fetch_fills (demo_binance (Inr JNull)) ''BTC/USDT'' ''42'' demo_bworld = (Inr fills, w')
     \<and> distinct (map ef_trade_id fills) \<and> fills \<noteq> []"
proof -
  have "deduplicate_fills [Inr demo_fill, Inr demo_fill] = Inr [demo_fill]" by (simp add: deduplicate_fills_def)
  then have f: "binance_fetch_fills (demo_binance (Inr JNull)) ''BTC/USDT'' ''42'' demo_bworld
      = (Inr [fill_receipt demo_fill], demo_bworld)"
    by (simp add: binance_fetch_fills_def demo_binance_def demo_client_def demo_bworld_def raise_as_apply bindC_def
        trades_of_def outside_def looks_like_binance_algo_order_id_def demo_trade_normalized)
  from binance_fills_of_one_order [OF f] f show ?thesis by blast
qed

end
