(* ===== verification/Binance_Engine.thy ===== *)
theory Binance_Engine
  imports Binance_Adapter Entry Exit Protection
begin

text \<open>
  The services on top of the real adapter.  What a client may rely on is stated once, as a
  contract on the exceptions of an adapter, and proved for the Binance adapter; the facts about
  the services follow inside the contract.
\<close>

section \<open>The contract on exceptions\<close>

locale unified_errors =
  fixes a :: "'w adapter"
  assumes market_order_error: "submit_market_order a c s d w = (Inl e, w') \<Longrightarrow> unavailable_or_fenced e"
    and protection_error: "submit_protection a p s d q w = (Inl e, w') \<Longrightarrow> unavailable_or_fenced e"
    and exit_error: "submit_reduce_only_exit a r s d w = (Inl e, w') \<Longrightarrow> unavailable_or_fenced e"
    and fills_error: "fetch_fills a s x w = (Inl e, w') \<Longrightarrow> e = BinanceAdapterUnavailable"
    and snapshot_error: "fetch_authoritative_snapshot a w = (Inl e, w') \<Longrightarrow> e = BinanceAdapterUnavailable"
begin

lemma not_raised:
  "submit_market_order a c s d w \<noteq> (Inl ExchangeTimeout, w')"
  "submit_protection a p s d q w \<noteq> (Inl ProtectionTimeout, w')"
  "submit_reduce_only_exit a r s d w \<noteq> (Inl ExitTimeout, w')"
  "submit_reduce_only_exit a r s d w \<noteq> (Inl ReduceOnlyAlreadyFlat, w')"
  using market_order_error protection_error exit_error by (fastforce simp: unavailable_or_fenced_def)+

lemma entry_not_unknown:
  assumes "execute_entry c g s a i q lev act mg w = (Inr r, w')"
  shows "er_status r \<noteq> EntryExecutionStatus.UNKNOWN"
proof (cases "\<exists>n cid. submits c g s i q act n cid")
  case True
  then obtain n cid where sub: "submits c g s i q act n cid" by metis
  obtain x w1 where m: "submit_market_order a (entry_command i n lev cid) (tc_symbol c) (entry_side c) w = (x, w1)"
    by (cases "submit_market_order a (entry_command i n lev cid) (tc_symbol c) (entry_side c) w")
  show ?thesis
  proof (cases x)
    case (Inl e)
    then have "e \<noteq> ExchangeTimeout" using m not_raised(1) by blast
    with assms m Inl show ?thesis unfolding execute_entry_submits [OF sub]
      by (auto simp: entry_result_def split: if_splits)
  next
    case (Inr rc)
    then have "after_acknowledgement a c i cid n lev mg rc w1 = (Inr r, w')"
      using assms m unfolding execute_entry_submits [OF sub] by simp
    from after_acknowledgement_result [OF this] show ?thesis by auto
  qed
next
  case False
  with assms execute_entry_not_submitted [OF False, of a lev mg w] show ?thesis by auto
qed

lemma exit_not_unknown:
  assumes "execute_reduce_only_exit d a aq st pids w = (Inr r, w')"
  shows "xr_status r \<noteq> ExitExecutionStatus.UNKNOWN
    \<and> (position_closed r \<longrightarrow> ed_verdict d = ExitVerdict.ALREADY_FLAT \<or> xr_trade_ids r \<noteq> [])"
proof -
  obtain x w1 where m: "submit_reduce_only_exit a (exit_command d) (ed_symbol d) (exchange_side d) w = (x, w1)"
    by (cases "submit_reduce_only_exit a (exit_command d) (ed_symbol d) (exchange_side d) w")
  show ?thesis
  proof (cases x)
    case (Inl e)
    then have "e \<noteq> ExitTimeout" "e \<noteq> ReduceOnlyAlreadyFlat" using m not_raised(3,4) by blast+
    with assms m Inl show ?thesis
      by (auto simp: execute_reduce_only_exit_def exit_result_def position_closed_def split: if_splits)
  next
    case (Inr rc)
    with assms m show ?thesis
      by (auto simp: execute_reduce_only_exit_def after_exit_acknowledged_def exit_result_def position_closed_def
          Let_def split: if_splits sum.splits prod.splits)
  qed
qed

lemma protection_settled:
  assumes "ensure_protection p a n w = (Inr r, w')" "1 \<le> n"
  shows "pe_outcome r \<noteq> ProtectionOutcome.UNKNOWN \<and> settled a (pp_symbol p) (pp_direction p) r w'"
proof -
  have "settled a (pp_symbol p) (pp_direction p) r w'"
    using ensure_loop_settled [of "nat n" a n p "[]" w r w'] assms by (simp add: ensure_protection_def)
  then show ?thesis using not_raised(2) unfolding settled_def by auto
qed

end

interpretation binance_errors: unified_errors "binance_adapter b" for b
proof
  fix c s d w e w'
  assume "submit_market_order (binance_adapter b) c s d w = (Inl e, w')"
  then show "unavailable_or_fenced e"
    using submission_error unfolding binance_adapter_simps binance_submit_market_order_def by blast
next
  fix p s d q w e w'
  assume "submit_protection (binance_adapter b) p s d q w = (Inl e, w')"
  then show "unavailable_or_fenced e"
    using submission_error unfolding binance_adapter_simps binance_submit_protection_def by blast
next
  fix r s d w e w'
  assume "submit_reduce_only_exit (binance_adapter b) r s d w = (Inl e, w')"
  then show "unavailable_or_fenced e"
    using submission_error unfolding binance_adapter_simps binance_submit_reduce_only_exit_def by blast
next
  fix s x w e w'
  assume "fetch_fills (binance_adapter b) s x w = (Inl e, w')"
  then show "e = BinanceAdapterUnavailable"
    using reading_error unfolding binance_adapter_simps binance_fetch_fills_def by blast
next
  fix w e w'
  assume "fetch_authoritative_snapshot (binance_adapter b) w = (Inl e, w')"
  then show "e = BinanceAdapterUnavailable"
    using reading_error unfolding binance_adapter_simps binance_fetch_authoritative_snapshot_def Let_def by blast
qed

section \<open>Properties\<close>

text \<open>
  With the Binance adapter a managed position is never left open without the account being
  blocked: when the coordinator returns, the stop is acknowledged under an exchange order id, or
  the account was read last and shows no position, or entries are blocked for the whole account
  with an alert; the outcome UNKNOWN does not occur.
\<close>

theorem binance_protection_settled:
  assumes "ensure_protection p (binance_adapter b) n w = (Inr r, w')" "1 \<le> n"
  shows "is_active r
    \<or> (pe_state r = V2ProtectionState.PROTECTION_CANCELLED
        \<and> (\<exists>w0 s. binance_fetch_authoritative_snapshot b w0 = (Inr s, w') \<and> quantity_in s (pp_symbol p) (pp_direction p) \<le> 0))
    \<or> (pe_account_entry_blocked r \<and> ProtectionFailureAction.HIGH_PRIORITY_ALERT \<in> set (pe_actions r))"
  using binance_errors.protection_settled [OF assms] unfolding settled_def by auto

text \<open>
  The outcome UNKNOWN, which recovery by client order id is made for, is never reported with
  the Binance adapter, neither for an entry nor for an exit: the adapter raises none of the
  timeout exceptions the services wait for.  In particular an entry whose request was sent and
  whose answer was lost is reported REJECTED, a final state, although the order may exist.
\<close>

theorem binance_lost_reply_is_rejected:
  "(execute_entry c g s (binance_adapter b) i q lev act mg w = (Inr r, w') \<longrightarrow>
      er_status r \<noteq> EntryExecutionStatus.UNKNOWN)
   \<and> (execute_reduce_only_exit d (binance_adapter b) aq st pids w = (Inr x, w') \<longrightarrow>
      xr_status x \<noteq> ExitExecutionStatus.UNKNOWN)
   \<and> (submits c g s i q act n cid \<and> bw_gateway w \<and> fence_check b w = Inr ()
      \<and> outside (cl_set_leverage (bn_client b) lev (tc_symbol c)) w = (Inr (), w1) \<and> fence_check b w1 = Inr ()
      \<and> outside (cl_create_order (bn_client b) \<lparr>rq_symbol = tc_symbol c, rq_type = ''market'', rq_side = entry_side c,
           rq_amount = n, rq_stop_price = None, rq_client_order_id = cid, rq_reduce_only = False\<rparr>) w1
         = (Inl (OtherException ''RequestTimeout''), w2) \<longrightarrow>
      (\<exists>r. execute_entry c g s (binance_adapter b) i q lev act mg w = (Inr r, w2)
         \<and> er_status r = EntryExecutionStatus.REJECTED \<and> er_intent_state r = V2IntentState.REJECTED
         \<and> er_reason_code r = DecisionReasonCode.EXCHANGE_UNAVAILABLE))"
proof (intro conjI impI)
  show "er_status r \<noteq> EntryExecutionStatus.UNKNOWN"
    if "execute_entry c g s (binance_adapter b) i q lev act mg w = (Inr r, w')"
    by (rule binance_errors.entry_not_unknown [OF that])
  show "xr_status x \<noteq> ExitExecutionStatus.UNKNOWN"
    if "execute_reduce_only_exit d (binance_adapter b) aq st pids w = (Inr x, w')"
    using binance_errors.exit_not_unknown [OF that] by blast
next
  assume h: "submits c g s i q act n cid \<and> bw_gateway w \<and> fence_check b w = Inr ()
      \<and> outside (cl_set_leverage (bn_client b) lev (tc_symbol c)) w = (Inr (), w1) \<and> fence_check b w1 = Inr ()
      \<and> outside (cl_create_order (bn_client b) \<lparr>rq_symbol = tc_symbol c, rq_type = ''market'', rq_side = entry_side c,
           rq_amount = n, rq_stop_price = None, rq_client_order_id = cid, rq_reduce_only = False\<rparr>) w1
         = (Inl (OtherException ''RequestTimeout''), w2)"
  then have sub: "submits c g s i q act n cid" by blast
  have "submit_market_order (binance_adapter b) (entry_command i n lev cid) (tc_symbol c) (entry_side c) w
      = (Inl BinanceAdapterUnavailable, w2)"
    using h by (simp add: binance_submit_market_order_def ready_gateway raise_as_apply bindC_def guarded_def
        entry_command_def)
  then show "\<exists>r. execute_entry c g s (binance_adapter b) i q lev act mg w = (Inr r, w2)
         \<and> er_status r = EntryExecutionStatus.REJECTED \<and> er_intent_state r = V2IntentState.REJECTED
         \<and> er_reason_code r = DecisionReasonCode.EXCHANGE_UNAVAILABLE"
    unfolding execute_entry_submits [OF sub] by (simp add: entry_result_def)
qed

text \<open>
  A take-profit order that fails after the stop was accepted makes the whole submission fail, so
  the next attempt places a second stop under a new client id while the first one rests.
\<close>

lemma partial_protection_is_reported_failed:
  assumes "bw_gateway w" "fence_check b w = Inr ()"
    and "outside (cl_create_order (bn_client b) \<lparr>rq_symbol = s, rq_type = ''stop_market'', rq_side = d,
           rq_amount = q, rq_stop_price = Some (sp_stop_loss_price p),
           rq_client_order_id = sp_stop_client_order_id p, rq_reduce_only = True\<rparr>) w
         = (Inr (JObj [(''id'', JStr sid), (''status'', JStr ''new'')]), w1)"
    and "sp_take_profit_price p = Some tp" "tp \<noteq> 0" "sp_tp_client_order_id p = Some tid" "tid \<noteq> []"
    and "fence_check b w1 = Inr ()"
    and "outside (cl_create_order (bn_client b) \<lparr>rq_symbol = s, rq_type = ''take_profit_market'', rq_side = d,
           rq_amount = q, rq_stop_price = Some tp, rq_client_order_id = tid, rq_reduce_only = True\<rparr>) w1
         = (Inl (OtherException ''RequestTimeout''), w2)"
  shows "binance_submit_protection b p s d q w = (Inl BinanceAdapterUnavailable, w2)"
  using assms
  by (simp add: binance_submit_protection_def ready_gateway raise_as_apply bindC_def guarded_def order_ack_def
      now_of_def)

text \<open>
  Market data from the adapter never widens the drift ceiling: its snapshots are well formed
  and carry no volatility, so the entry gate's ceiling is at most twenty basis points and at most
  the candidate's own positive tolerance.
\<close>

theorem binance_drift_ceiling:
  assumes "binance_fetch_market_snapshot b symb w = (Inr s, w')"
  shows "wf_market s \<and> ms_symbol s = symb \<and> drift_ceiling_bps c s \<le> 20
    \<and> (0 < tc_max_entry_drift_bps c \<longrightarrow> drift_ceiling_bps c s \<le> tc_max_entry_drift_bps c)"
proof -
  have "wf_market s \<and> ms_symbol s = symb \<and> ms_atr s = 0"
    using assms
    by (auto simp: binance_fetch_market_snapshot_def Let_def bindC_Inr_iff mk_PreSubmitMarketSnapshot_Inr)
  then show ?thesis by (simp add: drift_ceiling_bps_def Let_def MIN_DRIFT_CEILING_BPS_def)
qed

section \<open>Examples\<close>

theorem binance_protection_settled_witness:
  "\<exists>r w'. ensure_protection demo_plan (binance_adapter (demo_binance (Inr (JObj [(''id'', JStr ''77''), (''status'', JStr ''new'')]))))
       2 demo_bworld = (Inr r, w')
     \<and> (is_active r \<or> pe_state r = V2ProtectionState.PROTECTION_CANCELLED \<or> pe_account_entry_blocked r)"
proof -
  let ?b = "demo_binance (Inr (JObj [(''id'', JStr ''77''), (''status'', JStr ''new'')]))"
  have ready: "bw_gateway demo_bworld" by (simp add: demo_bworld_def)
  have out: "outside (cl_create_order (bn_client ?b) rq) demo_bworld
      = (Inr (JObj [(''id'', JStr ''77''), (''status'', JStr ''new'')]), demo_bworld)" for rq
    by (simp add: outside_def demo_binance_def demo_client_def demo_bworld_def)
  have "\<exists>sr tr. send_protection (binance_adapter ?b) demo_plan demo_bworld = (Inr (sr, tr), demo_bworld)
      \<and> or_exchange_order_id sr = ''77''"
    by (simp add: binance_submit_protection_def ready raise_as_apply bindC_def guarded_def demo_fence
        out order_ack_def now_of_def protection_command_def demo_plan_def)
  then obtain sr tr where s: "send_protection (binance_adapter ?b) demo_plan demo_bworld = (Inr (sr, tr), demo_bworld)"
      "or_exchange_order_id sr = ''77''" by blast
  obtain r where r: "ensure_protection demo_plan (binance_adapter ?b) 2 demo_bworld = (Inr r, demo_bworld)"
    using round_acknowledged [OF s(1), of 1 2 "[]"] s(2) by (simp add: ensure_protection_def numeral_2_eq_2)
  from binance_protection_settled [OF r] r show ?thesis by auto
qed

theorem binance_lost_reply_is_rejected_witness:
  "\<exists>r w'. execute_entry demo_candidate demo_gate demo_market
       (binance_adapter (demo_binance (Inl (OtherException ''RequestTimeout'')))) ''i1'' 1 3
       EngineActivation.ACTIVE no_guard demo_bworld = (Inr r, w') \<and> er_status r = EntryExecutionStatus.REJECTED"
proof -
  let ?b = "demo_binance (Inl (OtherException ''RequestTimeout''))"
  let ?cid = "''A2E-'' @ hash [''i1'', int_str 1] 20 @ ''-'' @ int_str 1"
  have ready: "bw_gateway demo_bworld" by (simp add: demo_bworld_def)
  have lev: "outside (cl_set_leverage (bn_client ?b) 3 (tc_symbol demo_candidate)) demo_bworld = (Inr (), demo_bworld)"
    by (simp add: outside_def demo_binance_def demo_client_def demo_bworld_def)
  have ord: "outside (cl_create_order (bn_client ?b) rq) demo_bworld
      = (Inl (OtherException ''RequestTimeout''), demo_bworld)" for rq
    by (simp add: outside_def demo_binance_def demo_client_def demo_bworld_def)
  have "\<exists>r. execute_entry demo_candidate demo_gate demo_market (binance_adapter ?b) ''i1'' 1 3
       EngineActivation.ACTIVE no_guard demo_bworld = (Inr r, demo_bworld) \<and> er_status r = EntryExecutionStatus.REJECTED"
    using binance_lost_reply_is_rejected [of demo_candidate demo_gate demo_market ?b "''i1''" 1 3
        EngineActivation.ACTIVE no_guard demo_bworld _ _ _ _ _ _ _ 1 ?cid demo_bworld demo_bworld]
      demo_submits ready demo_fence lev ord by blast
  then show ?thesis by blast
qed

theorem binance_drift_ceiling_witness:
  "\<exists>s w'. binance_fetch_market_snapshot (demo_binance (Inr JNull)) ''BTC/USDT'' demo_bworld = (Inr s, w')
     \<and> drift_ceiling_bps demo_candidate s \<le> 20"
proof -
  have d: "finite_decimal_of (JInt i) = Inr (of_int i)" if "0 \<le> i" for i
    using that by (simp add: finite_decimal_of_def decimal_of_def py_decimal_int_str)
  obtain s where s: "binance_fetch_market_snapshot (demo_binance (Inr JNull)) ''BTC/USDT'' demo_bworld = (Inr s, demo_bworld)"
    by (simp add: binance_fetch_market_snapshot_def demo_binance_def demo_client_def demo_bworld_def raise_as_apply
        bindC_def outside_def now_of_def market_config_def d mk_PreSubmitMarketSnapshot_def Let_def)
  from binance_drift_ceiling [OF s] s show ?thesis by blast
qed

end
