(* ===== verification/Database.thy ===== *)
theory Database
  imports Py_Json State_Tables
begin

text \<open>
  The tables of the V2 engine (\<open>infrastructure/models.py\<close>) and the database session the
  repository works on.  A row is a record, a table the list of its rows in the order of their
  insertion, and the constraints that the table declarations state are one predicate that a
  flush checks.  A state column holds the value text of its enumeration, so the model keeps the
  member itself.  Columns that the server fills in (\<open>created_at\<close>, \<open>updated_at\<close>, \<open>started_at\<close>)
  are left out, foreign keys too: the engine does not switch on their enforcement.  Numeric
  columns hold the value the session was given.

  The session keeps what is committed beside what the running transaction sees.  A flush that
  violates a constraint rolls the transaction back and the session refuses work until
  \<open>rollback\<close> is called, as the database toolkit documents.
\<close>

section \<open>Payloads\<close>

text \<open>
  A JSON column is a partial map from keys to values.  The text of a decimal is kept as the
  decimal.
\<close>

datatype pval =
    PStr string | PInt int | PDec dec | PNull | PTexts "string option list" | PJson json

type_synonym payload = "string \<rightharpoonup> pval"

definition with_keys :: "payload \<Rightarrow> (string \<times> pval) list \<Rightarrow> payload" where
  "with_keys p kvs = p ++ map_of kvs"

fun intent_value :: "V2IntentState \<Rightarrow> string" where
  "intent_value V2IntentState.INTENT_CREATED = ''INTENT_CREATED''"
| "intent_value V2IntentState.EXCHANGE_SUBMITTING = ''EXCHANGE_SUBMITTING''"
| "intent_value V2IntentState.EXCHANGE_UNKNOWN = ''EXCHANGE_UNKNOWN''"
| "intent_value V2IntentState.EXCHANGE_ACKNOWLEDGED = ''EXCHANGE_ACKNOWLEDGED''"
| "intent_value V2IntentState.FILLED = ''FILLED''"
| "intent_value V2IntentState.REJECTED = ''REJECTED''"
| "intent_value V2IntentState.CANCELLED = ''CANCELLED''"
| "intent_value V2IntentState.EXPIRED = ''EXPIRED''"

fun position_value :: "V2PositionState \<Rightarrow> string" where
  "position_value V2PositionState.POSITION_PROJECTED = ''POSITION_PROJECTED''"
| "position_value V2PositionState.PROTECTED = ''PROTECTED''"
| "position_value V2PositionState.REDUCING = ''REDUCING''"
| "position_value V2PositionState.CLOSED = ''CLOSED''"
| "position_value V2PositionState.QUARANTINED = ''QUARANTINED''"

fun protection_value :: "V2ProtectionState \<Rightarrow> string" where
  "protection_value V2ProtectionState.PROTECTION_INTENT = ''PROTECTION_INTENT''"
| "protection_value V2ProtectionState.PROTECTION_SUBMITTING = ''PROTECTION_SUBMITTING''"
| "protection_value V2ProtectionState.PROTECTION_ACTIVE = ''PROTECTION_ACTIVE''"
| "protection_value V2ProtectionState.PROTECTION_TRIGGERED = ''PROTECTION_TRIGGERED''"
| "protection_value V2ProtectionState.PROTECTION_FILLED = ''PROTECTION_FILLED''"
| "protection_value V2ProtectionState.PROTECTION_CANCELLED = ''PROTECTION_CANCELLED''"
| "protection_value V2ProtectionState.PROTECTION_FAILED = ''PROTECTION_FAILED''"
| "protection_value V2ProtectionState.PROTECTION_UNKNOWN = ''PROTECTION_UNKNOWN''"

section \<open>Rows\<close>

record V2ExecutionCycle =
  vy_cycle_id :: string
  vy_symbol :: string
  vy_timeframe :: string
  vy_bar_timestamp :: int
  vy_execution_mode :: V2ExecutionMode
  vy_fencing_token :: string
  vy_completed_at :: "int option"
  vy_decision_terminal :: "string option"

record V2ExecutionDecision =
  vd_decision_id :: string
  vd_cycle_id :: string
  vd_candidate_key :: "string option"
  vd_terminal_reason :: "string option"
  vd_payload :: payload

record V2DecisionSnapshot =
  vs_snapshot_id :: string
  vs_cycle_id :: string
  vs_decision_id :: string
  vs_symbol :: string
  vs_decision_time :: int
  vs_snapshot_hash :: string
  vs_payload :: payload

record V2ShadowRecord =
  vh_shadow_id :: string
  vh_snapshot_id :: string
  vh_variant :: string
  vh_payload_hash :: string
  vh_payload :: payload

record V2ShadowOutcome =
  vw_outcome_id :: string
  vw_shadow_id :: string
  vw_outcome_hash :: string
  vw_payload :: payload

record V2ExecutionIntent =
  vi_intent_id :: string
  vi_cycle_id :: string
  vi_decision_id :: "string option"
  vi_symbol :: string
  vi_direction :: string
  vi_candidate_key :: string
  vi_candidate_type :: V2CandidateType
  vi_execution_mode :: V2ExecutionMode
  vi_decision_bar_timestamp :: int
  vi_decision_funnel_id :: "string option"
  vi_initial_risk_usdt :: "dec option"
  vi_state :: V2IntentState
  vi_version :: int

record V2ExchangeOrder =
  vo_order_record_id :: string
  vo_intent_id :: string
  vo_client_order_id :: string
  vo_exchange_order_id :: "string option"
  vo_quantity :: dec
  vo_leverage :: int
  vo_submitted_at :: "int option"
  vo_acknowledged_at :: "int option"
  vo_filled_quantity :: "dec option"
  vo_average_fill_price :: "dec option"
  vo_total_fee :: "dec option"
  vo_fill_timestamp :: "int option"
  vo_trade_ids :: "string option list"

record V2ExchangeFill =
  vf_fill_id :: string
  vf_intent_id :: string
  vf_exchange_order_record_id :: string
  vf_account_id :: string
  vf_exchange_order_id :: string
  vf_trade_id :: "string option"
  vf_fill_source :: string
  vf_symbol :: string
  vf_side :: string
  vf_reduce_only :: bool
  vf_filled_quantity :: dec
  vf_fill_price :: dec
  vf_commission :: "dec option"
  vf_commission_asset :: "string option"
  vf_exchange_event_time :: int
  vf_received_at :: int
  vf_raw_hash :: string

record V2ManagedPosition =
  vp_position_id :: string
  vp_intent_id :: string
  vp_order_record_id :: string
  vp_symbol :: string
  vp_direction :: string
  vp_execution_mode :: V2ExecutionMode
  vp_quantity :: dec
  vp_entry_price :: dec
  vp_entry_fee :: dec
  vp_state :: V2PositionState
  vp_version :: int
  vp_projected_at :: int
  vp_protected_at :: "int option"
  vp_closed_at :: "int option"
  vp_realized_pnl :: "dec option"

record V2ProtectionRecord =
  vr_protection_id :: string
  vr_position_id :: string
  vr_stop_loss_price :: dec
  vr_original_stop_loss_price :: "dec option"
  vr_take_profit_price :: "dec option"
  vr_stop_client_order_id :: string
  vr_tp_client_order_id :: "string option"
  vr_stop_exchange_order_id :: "string option"
  vr_tp_exchange_order_id :: "string option"
  vr_state :: V2ProtectionState
  vr_version :: int
  vr_policy :: string
  vr_activated_at :: "int option"

record V2ExecutionEvent =
  ve_event_id :: string
  ve_aggregate_id :: string
  ve_aggregate_type :: string
  ve_event_type :: string
  ve_event_payload :: payload
  ve_occurred_at :: int

record V2ReconciliationSnapshot =
  vq_snapshot_id :: string
  vq_cycle_id :: "string option"
  vq_execution_mode :: V2ExecutionMode
  vq_exchange_positions :: payload
  vq_exchange_open_orders :: payload
  vq_local_positions :: payload
  vq_discrepancies :: payload
  vq_status :: string
  vq_captured_at :: int

record V2ExecutionIncident =
  vn_incident_id :: string
  vn_incident_type :: string
  vn_severity :: string
  vn_related_aggregate_id :: "string option"
  vn_intent_id :: "string option"
  vn_position_id :: "string option"
  vn_context :: payload
  vn_resolved :: bool
  vn_resolved_at :: "int option"

record V2AdjudicationFinalization =
  vz_finalization_id :: string
  vz_adjudication_id :: string
  vz_manifest_hash :: string
  vz_evidence_hash :: string
  vz_database_identity :: string
  vz_position_id :: string
  vz_exchange_order_id :: string
  vz_exchange_trade_id :: string
  vz_aggregate_quantity :: dec
  vz_allocated_quantity :: dec
  vz_before_state :: string
  vz_after_state :: string
  vz_operator_identity :: string
  vz_operator_reason :: string
  vz_finalized_at :: int

record V2RuntimeControl =
  vc_scope :: string
  vc_entry_enabled :: bool
  vc_reason :: "string option"
  vc_updated_by :: "string option"
  vc_updated_at :: "int option"
  vc_version :: int

record db =
  db_cycles :: "V2ExecutionCycle list"
  db_decisions :: "V2ExecutionDecision list"
  db_snapshots :: "V2DecisionSnapshot list"
  db_shadows :: "V2ShadowRecord list"
  db_outcomes :: "V2ShadowOutcome list"
  db_intents :: "V2ExecutionIntent list"
  db_orders :: "V2ExchangeOrder list"
  db_fills :: "V2ExchangeFill list"
  db_positions :: "V2ManagedPosition list"
  db_protections :: "V2ProtectionRecord list"
  db_events :: "V2ExecutionEvent list"
  db_reconciliations :: "V2ReconciliationSnapshot list"
  db_incidents :: "V2ExecutionIncident list"
  db_finalizations :: "V2AdjudicationFinalization list"
  db_controls :: "V2RuntimeControl list"

definition empty_db :: db where
  "empty_db = \<lparr>db_cycles = [], db_decisions = [], db_snapshots = [], db_shadows = [], db_outcomes = [],
     db_intents = [], db_orders = [], db_fills = [], db_positions = [], db_protections = [],
     db_events = [], db_reconciliations = [], db_incidents = [], db_finalizations = [], db_controls = []\<rparr>"

section \<open>Rows by key\<close>

text \<open>\<open>session.get(Table, id)\<close>, and an assignment to attributes of a row the session holds.\<close>

definition find_row :: "('r \<Rightarrow> string) \<Rightarrow> string \<Rightarrow> 'r list \<Rightarrow> 'r option" where
  "find_row key k rows = List.find (\<lambda>r. key r = k) rows"

definition update_row :: "('r \<Rightarrow> string) \<Rightarrow> string \<Rightarrow> ('r \<Rightarrow> 'r) \<Rightarrow> 'r list \<Rightarrow> 'r list" where
  "update_row key k f rows = map (\<lambda>r. if key r = k then f r else r) rows"

lemma find_row_Some:
  "find_row key k rows = Some r \<Longrightarrow> r \<in> set rows \<and> key r = k"
  by (auto simp: find_row_def find_Some_iff)

lemma find_row_None: "find_row key k rows = None \<longleftrightarrow> (\<forall>r\<in>set rows. key r \<noteq> k)"
  by (auto simp: find_row_def find_None_iff)

lemma find_row_Cons [simp]:
  "find_row key k [] = None"
  "find_row key k (r # rs) = (if key r = k then Some r else find_row key k rs)"
  by (simp_all add: find_row_def)

lemma set_update_row:
  "set (update_row key k f rows) = (\<lambda>r. if key r = k then f r else r) ` set rows"
  by (simp add: update_row_def)

lemma update_row_Nil [simp]: "update_row key k f [] = []"
  by (simp add: update_row_def)

lemma update_row_Cons [simp]:
  "update_row key k f (r # rs) = (if key r = k then f r else r) # update_row key k f rs"
  by (simp add: update_row_def)

lemma map_update_row [simp]:
  "(\<And>r. g (f r) = g r) \<Longrightarrow> map g (update_row key k f rows) = map g rows"
  by (auto simp: update_row_def)

text \<open>With distinct keys the row a lookup finds is the only one an assignment touches.\<close>

lemma find_row_unique:
  assumes "distinct (map key rows)" "r \<in> set rows"
  shows "find_row key (key r) rows = Some r"
  using assms by (induction rows) auto

section \<open>Constraints\<close>

definition unique_on :: "('r \<Rightarrow> 'k) \<Rightarrow> 'r list \<Rightarrow> bool" where
  "unique_on k rows = distinct (map k rows)"

text \<open>A unique column that may be null: null values are not compared.\<close>

definition unique_opt :: "('r \<Rightarrow> 'k option) \<Rightarrow> 'r list \<Rightarrow> bool" where
  "unique_opt k rows = distinct (List.map_filter k rows)"

abbreviation pos_open :: "V2ManagedPosition \<Rightarrow> bool" where
  "pos_open p \<equiv> vp_state p \<notin> {V2PositionState.CLOSED, V2PositionState.QUARANTINED}"

definition check_intent :: "V2ExecutionIntent \<Rightarrow> bool" where
  "check_intent i \<longleftrightarrow> vi_direction i \<in> {''long'', ''short''}"

definition check_order :: "V2ExchangeOrder \<Rightarrow> bool" where
  "check_order w \<longleftrightarrow> 0 < vo_quantity w \<and> 0 < vo_leverage w
     \<and> (case vo_filled_quantity w of None \<Rightarrow> True | Some q \<Rightarrow> 0 < q)
     \<and> (case vo_average_fill_price w of None \<Rightarrow> True | Some q \<Rightarrow> 0 < q)"

definition check_fill :: "V2ExchangeFill \<Rightarrow> bool" where
  "check_fill f \<longleftrightarrow> 0 < vf_filled_quantity f \<and> 0 < vf_fill_price f"

definition check_position :: "V2ManagedPosition \<Rightarrow> bool" where
  "check_position p \<longleftrightarrow> vp_direction p \<in> {''long'', ''short''} \<and> 0 < vp_quantity p \<and> 0 < vp_entry_price p"

definition check_protection :: "V2ProtectionRecord \<Rightarrow> bool" where
  "check_protection r \<longleftrightarrow> 0 < vr_stop_loss_price r
     \<and> (case vr_take_profit_price r of None \<Rightarrow> True | Some q \<Rightarrow> 0 < q)
     \<and> (vr_state r = V2ProtectionState.PROTECTION_ACTIVE \<longrightarrow>
          vr_stop_exchange_order_id r \<noteq> None \<and> vr_stop_exchange_order_id r \<noteq> Some [])"

definition check_event :: "V2ExecutionEvent \<Rightarrow> bool" where
  "check_event e \<longleftrightarrow> ve_aggregate_type e \<in>
     {''CYCLE'', ''INTENT'', ''ORDER'', ''POSITION'', ''PROTECTION'', ''DECISION''}"

definition check_reconciliation :: "V2ReconciliationSnapshot \<Rightarrow> bool" where
  "check_reconciliation q \<longleftrightarrow> vq_status q \<in>
     {''HEALTHY'', ''DEGRADED'', ''UNAVAILABLE'', ''RECOVERY_REQUIRED'', ''QUARANTINED''}"

definition check_incident :: "V2ExecutionIncident \<Rightarrow> bool" where
  "check_incident n \<longleftrightarrow> vn_severity n \<in> {''CRITICAL'', ''HIGH'', ''MEDIUM'', ''LOW''}"

definition check_finalization :: "V2AdjudicationFinalization \<Rightarrow> bool" where
  "check_finalization z \<longleftrightarrow> 0 < vz_aggregate_quantity z \<and> 0 < vz_allocated_quantity z"

definition evidence_constraints :: "db \<Rightarrow> bool" where
  "evidence_constraints d \<longleftrightarrow>
     unique_on vy_cycle_id (db_cycles d) \<and> unique_on vd_decision_id (db_decisions d)
   \<and> unique_on vs_snapshot_id (db_snapshots d) \<and> unique_on vs_decision_id (db_snapshots d)
   \<and> unique_on vs_snapshot_hash (db_snapshots d)
   \<and> unique_on vh_shadow_id (db_shadows d) \<and> unique_on (\<lambda>h. (vh_snapshot_id h, vh_variant h)) (db_shadows d)
   \<and> unique_on vw_outcome_id (db_outcomes d) \<and> unique_on vw_shadow_id (db_outcomes d)
   \<and> unique_on vw_outcome_hash (db_outcomes d)"

definition ledger_constraints :: "db \<Rightarrow> bool" where
  "ledger_constraints d \<longleftrightarrow>
     unique_on vi_intent_id (db_intents d) \<and> list_all check_intent (db_intents d)
   \<and> unique_on vo_order_record_id (db_orders d) \<and> unique_on vo_client_order_id (db_orders d)
   \<and> unique_opt vo_exchange_order_id (db_orders d) \<and> list_all check_order (db_orders d)
   \<and> unique_on vf_fill_id (db_fills d)
   \<and> unique_opt (\<lambda>f. map_option (Pair (vf_account_id f)) (vf_trade_id f)) (db_fills d)
   \<and> list_all check_fill (db_fills d)
   \<and> unique_on vp_position_id (db_positions d) \<and> unique_on vp_intent_id (db_positions d)
   \<and> unique_on (\<lambda>p. (vp_symbol p, vp_direction p, vp_execution_mode p)) (filter pos_open (db_positions d))
   \<and> list_all check_position (db_positions d)
   \<and> unique_on vr_protection_id (db_protections d) \<and> unique_on vr_stop_client_order_id (db_protections d)
   \<and> unique_opt vr_tp_client_order_id (db_protections d) \<and> list_all check_protection (db_protections d)"

definition control_constraints :: "db \<Rightarrow> bool" where
  "control_constraints d \<longleftrightarrow>
     unique_on ve_event_id (db_events d) \<and> list_all check_event (db_events d)
   \<and> unique_on vq_snapshot_id (db_reconciliations d) \<and> list_all check_reconciliation (db_reconciliations d)
   \<and> unique_on vn_incident_id (db_incidents d) \<and> list_all check_incident (db_incidents d)
   \<and> unique_on vz_finalization_id (db_finalizations d)
   \<and> unique_on (\<lambda>z. (vz_adjudication_id z, vz_database_identity z, vz_position_id z)) (db_finalizations d)
   \<and> list_all check_finalization (db_finalizations d)
   \<and> unique_on vc_scope (db_controls d)"

definition constraints :: "db \<Rightarrow> bool" where
  "constraints d \<longleftrightarrow> evidence_constraints d \<and> ledger_constraints d \<and> control_constraints d"

definition flush :: "(db, unit) call" where
  "flush d = (if constraints d then (Inr (), d) else (Inl (IntegrityError ''constraint failed''), d))"

text \<open>\<open>session.add(row)\<close> or assignments, followed by \<open>session.flush()\<close>.\<close>

definition store :: "(db \<Rightarrow> db) \<Rightarrow> (db, unit) call" where
  "store f d = flush (f d)"

lemma flush_Inr [simp]: "flush d = (Inr x, d') \<longleftrightarrow> d' = d \<and> constraints d"
  by (auto simp: flush_def)

lemma flush_Inl [simp]: "flush d = (Inl e, d') \<longleftrightarrow> d' = d \<and> \<not> constraints d \<and> e = IntegrityError ''constraint failed''"
  by (auto simp: flush_def)

lemma constraints_empty [simp]: "constraints empty_db"
  by (simp add: constraints_def evidence_constraints_def ledger_constraints_def control_constraints_def
      empty_db_def unique_on_def unique_opt_def map_filter_simps)

section \<open>The session\<close>

record session =
  ses_committed :: db
  ses_view :: db
  ses_failed :: bool

definition new_session :: "db \<Rightarrow> session" where
  "new_session d = \<lparr>ses_committed = d, ses_view = d, ses_failed = False\<rparr>"

text \<open>A repository call inside a session.\<close>

definition in_session :: "(db, 'a) call \<Rightarrow> (session, 'a) call" where
  "in_session m s =
     (if ses_failed s then (Inl (OtherException ''PendingRollbackError''), s)
      else case m (ses_view s) of
        (Inl (IntegrityError c), d) \<Rightarrow>
          (Inl (IntegrityError c), s\<lparr>ses_view := ses_committed s, ses_failed := True\<rparr>)
      | (r, d) \<Rightarrow> (r, s\<lparr>ses_view := d\<rparr>))"

definition commit :: "(session, unit) call" where
  "commit s =
     (case in_session flush s of
        (Inl e, s') \<Rightarrow> (Inl e, s')
      | (Inr _, s') \<Rightarrow> (Inr (), s'\<lparr>ses_committed := ses_view s'\<rparr>))"

definition rollback :: "(session, unit) call" where
  "rollback s = (Inr (), s\<lparr>ses_view := ses_committed s, ses_failed := False\<rparr>)"

text \<open>
  What a call of the repository keeps of the view it leaves behind.  A view left by an integrity
  error is discarded by the session, so nothing is asked of it.
\<close>

fun integrity_error :: "'a res \<Rightarrow> bool" where
  "integrity_error (Inl (IntegrityError c)) = True"
| "integrity_error _ = False"

definition keeps :: "(db \<Rightarrow> bool) \<Rightarrow> (db, 'a) call \<Rightarrow> bool" where
  "keeps I m \<longleftrightarrow> (\<forall>d. I d \<longrightarrow> \<not> integrity_error (fst (m d)) \<longrightarrow> I (snd (m d)))"

lemma integrity_error_iff: "integrity_error r \<longleftrightarrow> (\<exists>c. r = Inl (IntegrityError c))"
  by (cases r rule: integrity_error.cases) auto

lemma keepsI:
  "(\<And>d r d'. \<lbrakk>I d; m d = (r, d'); \<not> integrity_error r\<rbrakk> \<Longrightarrow> I d') \<Longrightarrow> keeps I m"
  by (auto simp: keeps_def) (metis prod.collapse)

lemma keepsD: "\<lbrakk>keeps I m; I d; m d = (r, d'); \<not> integrity_error r\<rbrakk> \<Longrightarrow> I d'"
  by (auto simp: keeps_def dest: spec [of _ d])

text \<open>The invariant of a whole session: both what it sees and what it has committed.\<close>

definition session_inv :: "(db \<Rightarrow> bool) \<Rightarrow> session \<Rightarrow> bool" where
  "session_inv I s \<longleftrightarrow> I (ses_committed s) \<and> constraints (ses_committed s)
     \<and> (if ses_failed s then ses_view s = ses_committed s else I (ses_view s))"

lemma session_inv_new: "\<lbrakk>I d; constraints d\<rbrakk> \<Longrightarrow> session_inv I (new_session d)"
  by (simp add: session_inv_def new_session_def)

lemma session_inv_in_session:
  assumes "keeps I m" "session_inv I s"
  shows "session_inv I (snd (in_session m s))"
proof (cases "ses_failed s")
  case True
  with assms show ?thesis by (simp add: in_session_def)
next
  case False
  obtain r d where m: "m (ses_view s) = (r, d)" by fastforce
  show ?thesis
  proof (cases "integrity_error r")
    case True
    then show ?thesis using assms False m
      by (auto simp: in_session_def integrity_error_iff session_inv_def)
  next
    case noerr: False
    then have "I d" using assms False m by (auto simp: session_inv_def intro: keepsD)
    moreover have "in_session m s = (r, s\<lparr>ses_view := d\<rparr>)"
      using False m noerr by (auto simp: in_session_def integrity_error_iff split: sum.splits exn.splits)
    ultimately show ?thesis using assms False by (simp add: session_inv_def)
  qed
qed

lemma keeps_flush: "keeps I flush"
  by (auto simp: keeps_def flush_def)

lemma session_inv_commit:
  assumes "session_inv I s"
  shows "session_inv I (snd (commit s))"
proof (cases "in_session flush s")
  case (Pair r s')
  have inv: "session_inv I s'"
    using session_inv_in_session [OF keeps_flush assms] Pair by simp
  show ?thesis
  proof (cases r)
    case (Inl e)
    with Pair inv show ?thesis by (simp add: commit_def)
  next
    case (Inr x)
    then have "constraints (ses_view s') \<and> \<not> ses_failed s'"
      using Pair by (auto simp: in_session_def flush_def split: if_splits)
    with Pair Inr inv show ?thesis by (auto simp: commit_def session_inv_def)
  qed
qed

lemma session_inv_rollback: "session_inv I s \<Longrightarrow> session_inv I (snd (rollback s))"
  by (simp add: session_inv_def rollback_def)

end
