(* ===== verification/Repository.thy ===== *)
theory Repository
  imports Database Receipts Portfolio_Risk
begin

text \<open>
  The operations of \<open>AutomatedTradingRepository\<close> (\<open>infrastructure/repository.py\<close>) on the tables
  of \<open>Database\<close>.  Every operation is a call on the view of a session: it reads the view, may
  raise, and gives the changed view back.  Identifiers that the code draws at random
  (\<open>uuid4\<close>) and the clock are arguments; a drawn identifier that exists already violates the
  primary key at the flush.  A \<open>select\<close> without an order gives the rows in the order of their
  insertion.
\<close>

section \<open>Events\<close>

definition append_event ::
    "string \<Rightarrow> string \<Rightarrow> string \<Rightarrow> string \<Rightarrow> payload \<Rightarrow> int \<Rightarrow> (db, string) call" where
  "append_event event_id aggregate_id aggregate_type event_type event_payload occurred_at =
     bindC (store (\<lambda>d. d\<lparr>db_events := db_events d @
       [\<lparr>ve_event_id = event_id, ve_aggregate_id = aggregate_id, ve_aggregate_type = aggregate_type,
         ve_event_type = event_type, ve_event_payload = event_payload, ve_occurred_at = occurred_at\<rparr>]\<rparr>))
     (\<lambda>_. returnC event_id)"

definition transition_payload :: "payload \<Rightarrow> string \<Rightarrow> string \<Rightarrow> int \<Rightarrow> payload" where
  "transition_payload payload from_state to_state version = with_keys payload
     [(''from_state'', PStr from_state), (''to_state'', PStr to_state), (''version'', PInt version)]"

section \<open>Cycles, decisions and forward evidence\<close>

definition create_cycle ::
    "string \<Rightarrow> string \<Rightarrow> string \<Rightarrow> int \<Rightarrow> V2ExecutionMode \<Rightarrow> string \<Rightarrow> (db, unit) call" where
  "create_cycle cycle_id symbol timeframe bar_timestamp execution_mode fencing_token =
     store (\<lambda>d. d\<lparr>db_cycles := db_cycles d @
       [\<lparr>vy_cycle_id = cycle_id, vy_symbol = symbol, vy_timeframe = timeframe,
         vy_bar_timestamp = bar_timestamp, vy_execution_mode = execution_mode,
         vy_fencing_token = fencing_token, vy_completed_at = None, vy_decision_terminal = None\<rparr>]\<rparr>)"

definition complete_cycle :: "string \<Rightarrow> string \<Rightarrow> int \<Rightarrow> (db, unit) call" where
  "complete_cycle cycle_id decision_terminal completed_at = readC (\<lambda>d.
     someC (find_row vy_cycle_id cycle_id (db_cycles d)) (ValueError ''Cycle not found'') (\<lambda>_.
     store (\<lambda>d. d\<lparr>db_cycles := update_row vy_cycle_id cycle_id
       (\<lambda>y. y\<lparr>vy_decision_terminal := Some decision_terminal, vy_completed_at := Some completed_at\<rparr>)
       (db_cycles d)\<rparr>)))"

definition create_decision ::
    "string \<Rightarrow> string \<Rightarrow> string option \<Rightarrow> string option \<Rightarrow> payload \<Rightarrow> (db, unit) call" where
  "create_decision decision_id cycle_id candidate_key terminal_reason payload =
     store (\<lambda>d. d\<lparr>db_decisions := db_decisions d @
       [\<lparr>vd_decision_id = decision_id, vd_cycle_id = cycle_id, vd_candidate_key = candidate_key,
         vd_terminal_reason = terminal_reason, vd_payload = payload\<rparr>]\<rparr>)"

definition append_forward_snapshot ::
    "V2DecisionSnapshot \<Rightarrow> (db, V2DecisionSnapshot) call" where
  "append_forward_snapshot row = readC (\<lambda>d.
     case find_row vs_snapshot_id (vs_snapshot_id row) (db_snapshots d) of
       Some existing \<Rightarrow>
         guardC (vs_snapshot_hash existing \<noteq> vs_snapshot_hash row \<or> vs_payload existing \<noteq> vs_payload row)
           (ValueError ''FORWARD_SNAPSHOT_IMMUTABLE_VIOLATION'') (returnC existing)
     | None \<Rightarrow>
         (case find_row vs_decision_id (vs_decision_id row) (db_snapshots d) of
            Some existing \<Rightarrow>
              guardC (vs_snapshot_hash existing \<noteq> vs_snapshot_hash row)
                (ValueError ''FORWARD_SNAPSHOT_DECISION_IMMUTABLE_VIOLATION'') (returnC existing)
          | None \<Rightarrow> bindC (store (\<lambda>d. d\<lparr>db_snapshots := db_snapshots d @ [row]\<rparr>)) (\<lambda>_. returnC row)))"

text \<open>
  One shadow record; \<open>canonical_hash\<close> belongs to another module and is an argument.  The loop
  over the records stops at the first one that raises.
\<close>

definition append_shadow_record ::
    "(payload \<Rightarrow> string) \<Rightarrow> string \<Rightarrow> string \<times> string \<times> payload \<Rightarrow> (db, V2ShadowRecord) call" where
  "append_shadow_record canonical_hash snapshot_id record = (case record of (shadow_id, variant, payload) \<Rightarrow>
     readC (\<lambda>d. case List.find (\<lambda>h. vh_snapshot_id h = snapshot_id \<and> vh_variant h = variant) (db_shadows d) of
       Some existing \<Rightarrow>
         guardC (vh_payload_hash existing \<noteq> canonical_hash payload \<or> vh_payload existing \<noteq> payload)
           (ValueError ''SHADOW_RECORD_IMMUTABLE_VIOLATION'') (returnC existing)
     | None \<Rightarrow>
         (let row = \<lparr>vh_shadow_id = shadow_id, vh_snapshot_id = snapshot_id, vh_variant = variant,
                     vh_payload_hash = canonical_hash payload, vh_payload = payload\<rparr>
          in bindC (store (\<lambda>d. d\<lparr>db_shadows := db_shadows d @ [row]\<rparr>)) (\<lambda>_. returnC row))))"

fun append_shadow_records ::
    "(payload \<Rightarrow> string) \<Rightarrow> string \<Rightarrow> (string \<times> string \<times> payload) list \<Rightarrow> (db, V2ShadowRecord list) call" where
  "append_shadow_records canonical_hash snapshot_id [] = returnC []"
| "append_shadow_records canonical_hash snapshot_id (record # records) =
     bindC (append_shadow_record canonical_hash snapshot_id record) (\<lambda>row.
     bindC (append_shadow_records canonical_hash snapshot_id records) (\<lambda>rows. returnC (row # rows)))"

definition append_shadow_outcome ::
    "(payload \<Rightarrow> string) \<Rightarrow> string \<Rightarrow> string \<Rightarrow> payload \<Rightarrow> (db, V2ShadowOutcome) call" where
  "append_shadow_outcome canonical_hash outcome_id shadow_id payload = readC (\<lambda>d.
     case find_row vw_shadow_id shadow_id (db_outcomes d) of
       Some existing \<Rightarrow>
         guardC (vw_outcome_hash existing \<noteq> canonical_hash payload \<or> vw_payload existing \<noteq> payload)
           (ValueError ''SHADOW_OUTCOME_IMMUTABLE_VIOLATION'') (returnC existing)
     | None \<Rightarrow>
         (let row = \<lparr>vw_outcome_id = outcome_id, vw_shadow_id = shadow_id,
                     vw_outcome_hash = canonical_hash payload, vw_payload = payload\<rparr>
          in bindC (store (\<lambda>d. d\<lparr>db_outcomes := db_outcomes d @ [row]\<rparr>)) (\<lambda>_. returnC row)))"

section \<open>Intents\<close>

text \<open>The row a caller asks for; \<open>version\<close> is always 0.\<close>

definition create_intent :: "V2ExecutionIntent \<Rightarrow> (db, unit) call" where
  "create_intent row =
     guardC (case vi_initial_risk_usdt row of None \<Rightarrow> False | Some q \<Rightarrow> q \<le> 0)
       (ValueError ''initial_risk_usdt must be finite and positive when supplied'')
       (store (\<lambda>d. d\<lparr>db_intents := db_intents d @ [row\<lparr>vi_version := 0\<rparr>]\<rparr>))"

definition transition_intent ::
    "string \<Rightarrow> int \<Rightarrow> string \<Rightarrow> V2IntentState \<Rightarrow> V2IntentState \<Rightarrow> string \<Rightarrow> payload \<Rightarrow> int option \<Rightarrow> (db, unit) call" where
  "transition_intent event_id now intent_id expected_current next_state event_type payload occurred_at =
     readC (\<lambda>d. someC (find_row vi_intent_id intent_id (db_intents d)) (ValueError ''Intent not found'') (\<lambda>intent.
     let current = vi_state intent; version = vi_version intent + 1 in
     guardC (current \<noteq> expected_current) (ValueError ''Intent expected state'') (
     bindC (pureC (validate_intent_transition current next_state)) (\<lambda>_.
     bindC (modifyC (\<lambda>d. d\<lparr>db_intents := update_row vi_intent_id intent_id
       (\<lambda>i. i\<lparr>vi_state := next_state, vi_version := version\<rparr>) (db_intents d)\<rparr>)) (\<lambda>_.
     bindC (append_event event_id intent_id ''INTENT'' event_type
       (transition_payload payload (intent_value current) (intent_value next_state) version)
       (case occurred_at of Some t \<Rightarrow> t | None \<Rightarrow> now)) (\<lambda>_. flush))))))"

definition has_text :: "string option \<Rightarrow> bool" where
  "has_text x \<longleftrightarrow> x \<noteq> None \<and> x \<noteq> Some []"

definition reconcile_intent_from_confirmed_fill :: "string \<Rightarrow> int \<Rightarrow> string \<Rightarrow> (db, unit) call" where
  "reconcile_intent_from_confirmed_fill event_id now intent_id = readC (\<lambda>d.
     someC (find_row vi_intent_id intent_id (db_intents d)) (ValueError ''Intent not found'') (\<lambda>intent.
     case find_row vo_intent_id intent_id (db_orders d) of
       None \<Rightarrow> pureC (Inl (ValueError ''confirmed exchange order identity is required''))
     | Some order \<Rightarrow>
         guardC (\<not> has_text (vo_exchange_order_id order))
           (ValueError ''confirmed exchange order identity is required'') (
         someC (List.find (\<lambda>f. vf_intent_id f = intent_id \<and> Some (vf_exchange_order_id f) = vo_exchange_order_id order)
             (db_fills d)) (ValueError ''confirmed exchange fill receipt is required'') (\<lambda>fill.
         let current = vi_state intent; version = vi_version intent + 1 in
         if current = V2IntentState.FILLED then returnC () else
         guardC (current \<notin> {V2IntentState.EXCHANGE_ACKNOWLEDGED, V2IntentState.CANCELLED, V2IntentState.EXPIRED})
           (ValueError ''intent state cannot be reconciled from a fill'') (
         bindC (modifyC (\<lambda>d. d\<lparr>db_intents := update_row vi_intent_id intent_id
           (\<lambda>i. i\<lparr>vi_state := V2IntentState.FILLED, vi_version := version\<rparr>) (db_intents d)\<rparr>)) (\<lambda>_.
         bindC (append_event event_id intent_id ''INTENT'' ''ExchangeFillReconciled''
           [''from_state'' \<mapsto> PStr (intent_value current), ''to_state'' \<mapsto> PStr ''FILLED'',
            ''exchange_order_id'' \<mapsto> PStr (the (vo_exchange_order_id order)),
            ''trade_id'' \<mapsto> (case vf_trade_id fill of None \<Rightarrow> PNull | Some t \<Rightarrow> PStr t),
            ''fill_source'' \<mapsto> PStr (vf_fill_source fill), ''version'' \<mapsto> PInt version] now) (\<lambda>_. flush)))))))"

section \<open>Exposure reservations\<close>

definition active_position_states :: "V2PositionState list" where
  "active_position_states = [V2PositionState.POSITION_PROJECTED, V2PositionState.PROTECTED, V2PositionState.REDUCING]"

definition active_intent_states :: "V2IntentState list" where
  "active_intent_states = [V2IntentState.INTENT_CREATED, V2IntentState.EXCHANGE_SUBMITTING,
     V2IntentState.EXCHANGE_UNKNOWN, V2IntentState.EXCHANGE_ACKNOWLEDGED, V2IntentState.FILLED]"

text \<open>The exposure of one row, \<open>None\<close> when its risk is unknown.\<close>

definition risk_exposure :: "string \<Rightarrow> string \<Rightarrow> string \<Rightarrow> dec option \<Rightarrow> RiskExposure option" where
  "risk_exposure source symbol direction risk = (case risk of
     None \<Rightarrow> None
   | Some q \<Rightarrow> if q \<le> 0 then None
       else Some \<lparr>re_symbol = symbol, re_direction = direction, re_initial_risk_usdt = q, re_source = source\<rparr>)"

definition exposed_positions :: "V2ExecutionMode \<Rightarrow> db \<Rightarrow> V2ManagedPosition list" where
  "exposed_positions mode d = filter (\<lambda>p. vp_execution_mode p = mode \<and> vp_state p \<in> set active_position_states) (db_positions d)"

definition exposed_intents :: "V2ExecutionMode \<Rightarrow> db \<Rightarrow> V2ExecutionIntent list" where
  "exposed_intents mode d =
     (let position_intent_ids = set (map vp_intent_id (exposed_positions mode d));
          terminal_position_intent_ids = set (map vp_intent_id (filter (\<lambda>p. vp_execution_mode p = mode
            \<and> vp_state p \<in> {V2PositionState.CLOSED, V2PositionState.QUARANTINED}) (db_positions d)))
      in filter (\<lambda>i. \<not> (vi_intent_id i \<in> position_intent_ids \<or> vi_intent_id i \<in> terminal_position_intent_ids
              \<or> take 5 (vi_candidate_key i) = ''exit:''))
           (filter (\<lambda>i. vi_execution_mode i = mode \<and> vi_state i \<in> set active_intent_states) (db_intents d)))"

definition position_risk :: "db \<Rightarrow> V2ManagedPosition \<Rightarrow> RiskExposure option" where
  "position_risk d p = risk_exposure ''position'' (vp_symbol p) (vp_direction p)
     (Option.bind (find_row vi_intent_id (vp_intent_id p) (db_intents d)) vi_initial_risk_usdt)"

definition intent_risk :: "V2ExecutionIntent \<Rightarrow> RiskExposure option" where
  "intent_risk i = risk_exposure ''intent'' (vi_symbol i) (vi_direction i) (vi_initial_risk_usdt i)"

definition list_active_initial_risk_exposures :: "V2ExecutionMode \<Rightarrow> db \<Rightarrow> RiskExposure list \<times> bool" where
  "list_active_initial_risk_exposures mode d =
     (let risks = map (position_risk d) (exposed_positions mode d) @ map intent_risk (exposed_intents mode d)
      in (List.map_filter id risks, None \<in> set risks))"

section \<open>Orders and fills\<close>

definition save_order_submission ::
    "string \<Rightarrow> string \<Rightarrow> string \<Rightarrow> dec \<Rightarrow> int \<Rightarrow> int \<Rightarrow> (db, string) call" where
  "save_order_submission order_record_id intent_id client_order_id quantity leverage submitted_at =
     bindC (store (\<lambda>d. d\<lparr>db_orders := db_orders d @
       [\<lparr>vo_order_record_id = order_record_id, vo_intent_id = intent_id, vo_client_order_id = client_order_id,
         vo_exchange_order_id = None, vo_quantity = quantity, vo_leverage = leverage,
         vo_submitted_at = Some submitted_at, vo_acknowledged_at = None, vo_filled_quantity = None,
         vo_average_fill_price = None, vo_total_fee = None, vo_fill_timestamp = None, vo_trade_ids = []\<rparr>]\<rparr>))
     (\<lambda>_. returnC order_record_id)"

definition save_exchange_order_receipt :: "string \<Rightarrow> string \<Rightarrow> int \<Rightarrow> (db, unit) call" where
  "save_exchange_order_receipt order_record_id exchange_order_id acknowledged_at = readC (\<lambda>d.
     someC (find_row vo_order_record_id order_record_id (db_orders d)) (ValueError ''Order record not found'') (\<lambda>_.
     guardC (exchange_order_id = []) (ValueError ''exchange_order_id is required'') (
     store (\<lambda>d. d\<lparr>db_orders := update_row vo_order_record_id order_record_id
       (\<lambda>w. w\<lparr>vo_exchange_order_id := Some exchange_order_id, vo_acknowledged_at := Some acknowledged_at\<rparr>)
       (db_orders d)\<rparr>))))"

definition fills_of :: "db \<Rightarrow> string \<Rightarrow> V2ExchangeFill list" where
  "fills_of d order_record_id = filter (\<lambda>f. vf_exchange_order_record_id f = order_record_id) (db_fills d)"

record fill_aggregate =
  fa_filled_quantity :: dec
  fa_average_fill_price :: dec
  fa_total_fee :: dec
  fa_trade_ids :: "string option list"
  fa_exchange_order_id :: string
  fa_fill_timestamp :: int

text \<open>\<open>_aggregate_fills\<close> once the rows are read; the division is guarded by the code.\<close>

definition aggregate_rows :: "V2ExchangeFill list \<Rightarrow> fill_aggregate res" where
  "aggregate_rows fills = (if fills = [] then Inl (ValueError ''No confirmed fills for order'') else
     (let total_qty = dsum (map vf_filled_quantity fills);
          notional = dsum (map (\<lambda>f. dmul (vf_filled_quantity f) (vf_fill_price f)) fills);
          total_fee = dsum (map (\<lambda>f. case vf_commission f of None \<Rightarrow> 0 | Some c \<Rightarrow> c) fills)
      in Inr \<lparr>fa_filled_quantity = total_qty,
              fa_average_fill_price = (if 0 < total_qty then ddiv notional total_qty else 0),
              fa_total_fee = total_fee, fa_trade_ids = map vf_trade_id fills,
              fa_exchange_order_id = vf_exchange_order_id (hd fills),
              fa_fill_timestamp = Max (set (map vf_exchange_event_time fills))\<rparr>))"

definition with_aggregate :: "fill_aggregate \<Rightarrow> V2ExchangeOrder \<Rightarrow> V2ExchangeOrder" where
  "with_aggregate agg w = w\<lparr>vo_filled_quantity := Some (fa_filled_quantity agg),
     vo_average_fill_price := Some (fa_average_fill_price agg), vo_total_fee := Some (fa_total_fee agg),
     vo_fill_timestamp := Some (fa_fill_timestamp agg), vo_trade_ids := fa_trade_ids agg,
     vo_exchange_order_id := (if has_text (vo_exchange_order_id w) then vo_exchange_order_id w
                              else Some (fa_exchange_order_id agg))\<rparr>"

definition refresh_order_aggregate_from_fills :: "string \<Rightarrow> (db, unit) call" where
  "refresh_order_aggregate_from_fills order_record_id = readC (\<lambda>d.
     if find_row vo_order_record_id order_record_id (db_orders d) = None \<or> fills_of d order_record_id = []
     then returnC ()
     else bindC (pureC (aggregate_rows (fills_of d order_record_id))) (\<lambda>agg.
       modifyC (\<lambda>d. d\<lparr>db_orders := update_row vo_order_record_id order_record_id (with_aggregate agg) (db_orders d)\<rparr>)))"

definition save_exchange_fill_receipt :: "V2ExchangeFill \<Rightarrow> (db, string) call" where
  "save_exchange_fill_receipt fill = readC (\<lambda>d.
     let record_id = vf_exchange_order_record_id fill in
     someC (find_row vo_order_record_id record_id (db_orders d)) (ValueError ''Order record not found'') (\<lambda>order.
     guardC (vo_intent_id order \<noteq> vf_intent_id fill)
       (ValueError ''Fill intent_id does not match order intent_id'') (
     guardC (has_text (vo_exchange_order_id order) \<and> vo_exchange_order_id order \<noteq> Some (vf_exchange_order_id fill))
       (ValueError ''Fill exchange_order_id does not match saved order exchange_order_id'') (
     bindC (modifyC (\<lambda>d. if has_text (vo_exchange_order_id order) then d
       else d\<lparr>db_orders := update_row vo_order_record_id record_id
              (\<lambda>w. w\<lparr>vo_exchange_order_id := Some (vf_exchange_order_id fill)\<rparr>) (db_orders d)\<rparr>)) (\<lambda>_.
     bindC (store (\<lambda>d. d\<lparr>db_fills := db_fills d @ [fill]\<rparr>)) (\<lambda>_.
     bindC (refresh_order_aggregate_from_fills record_id) (\<lambda>_.
     bindC flush (\<lambda>_. returnC (vf_fill_id fill)))))))))"

definition get_exchange_fill_by_trade :: "string \<Rightarrow> string \<Rightarrow> db \<Rightarrow> V2ExchangeFill option" where
  "get_exchange_fill_by_trade account_id trade_id d =
     List.find (\<lambda>f. vf_account_id f = account_id \<and> vf_trade_id f = Some trade_id) (db_fills d)"

text \<open>
  The fill argument carries what the caller passes; the operation itself sets the missing trade
  id, the source, the missing commission and the hash.
\<close>

definition save_order_level_fill_recovery :: "V2ExchangeFill \<Rightarrow> (db, string) call" where
  "save_order_level_fill_recovery fill = readC (\<lambda>d.
     case List.find (\<lambda>f. vf_exchange_order_record_id f = vf_exchange_order_record_id fill
            \<and> vf_fill_source f = ''BINANCE_ORDER_STATUS_RECOVERY'') (db_fills d) of
       Some existing \<Rightarrow> returnC (vf_fill_id existing)
     | None \<Rightarrow> save_exchange_fill_receipt (fill\<lparr>vf_trade_id := None,
         vf_fill_source := ''BINANCE_ORDER_STATUS_RECOVERY'', vf_commission := None,
         vf_commission_asset := None, vf_raw_hash := ''order-status:'' @ vf_exchange_order_id fill\<rparr>))"

text \<open>
  \<open>quantize(Decimal("0.00000001"))\<close> rounds half to even at the eighth place and raises when the
  result needs more than 28 digits.  The compatibility wrapper splits the quantity over the trade ids and gives the remainder to the last.
\<close>

definition quantize8 :: "dec \<Rightarrow> dec res" where
  "quantize8 x = (let k = round_half_even (x * 10 ^ 8) in
     guardR (10 ^ 28 \<le> \<bar>k\<bar>) (OtherException ''InvalidOperation'') (Inr (of_int k / 10 ^ 8)))"

fun save_trades ::
    "(string \<times> string) list \<Rightarrow> dec \<Rightarrow> dec \<Rightarrow> dec \<Rightarrow> V2ExchangeFill \<Rightarrow> (db, unit) call" where
  "save_trades [] per_qty whole allocated fill = returnC ()"
| "save_trades ((fill_id, trade_id) # rest) per_qty whole allocated fill =
     (let qty = (if rest = [] then dsub whole allocated else per_qty) in
      bindC (save_exchange_fill_receipt (fill\<lparr>vf_fill_id := fill_id, vf_trade_id := Some trade_id,
        vf_filled_quantity := qty,
        vf_raw_hash := vf_exchange_order_id fill @ '':'' @ trade_id\<rparr>)) (\<lambda>_.
      save_trades rest per_qty whole (dadd allocated qty) fill))"

definition save_fill_receipt ::
    "(nat \<Rightarrow> string) \<Rightarrow> string \<Rightarrow> FillReceipt \<Rightarrow> string \<Rightarrow> string \<Rightarrow> string \<Rightarrow> bool \<Rightarrow> (db, unit) call" where
  "save_fill_receipt new_id order_record_id receipt account_id symbol side reduce_only =
     bindC (pureC (assert_fill_receipt_valid receipt)) (\<lambda>_. readC (\<lambda>d.
     someC (find_row vo_order_record_id order_record_id (db_orders d)) (ValueError ''Order record not found'') (\<lambda>order.
     guardC (vo_intent_id order \<noteq> fr_intent_id receipt)
       (ValueError ''FillReceipt intent_id does not match order intent_id'') (
     bindC (modifyC (\<lambda>d. d\<lparr>db_orders := update_row vo_order_record_id order_record_id
       (\<lambda>w. w\<lparr>vo_exchange_order_id := Some (fr_exchange_order_id receipt)\<rparr>) (db_orders d)\<rparr>)) (\<lambda>_.
     let n = rat_of_nat (length (fr_trade_ids receipt)) in
     bindC (pureC (quantize8 (ddiv (fr_filled_quantity receipt) n))) (\<lambda>per_qty.
     save_trades (zip (map new_id [0..<length (fr_trade_ids receipt)]) (fr_trade_ids receipt)) per_qty
       (fr_filled_quantity receipt) 0
       \<lparr>vf_fill_id = [], vf_intent_id = fr_intent_id receipt, vf_exchange_order_record_id = order_record_id,
        vf_account_id = account_id, vf_exchange_order_id = fr_exchange_order_id receipt, vf_trade_id = None,
        vf_fill_source = ''BINANCE_USER_TRADE'', vf_symbol = symbol, vf_side = side,
        vf_reduce_only = reduce_only, vf_filled_quantity = 0,
        vf_fill_price = fr_average_fill_price receipt,
        vf_commission = Some (ddiv (fr_total_fee receipt) n), vf_commission_asset = Some ''USDT'',
        vf_exchange_event_time = fr_fill_timestamp receipt, vf_received_at = fr_fill_timestamp receipt,
        vf_raw_hash = []\<rparr>))))))"

section \<open>Positions\<close>

definition open_position ::
    "string \<Rightarrow> string \<Rightarrow> V2ExecutionMode \<Rightarrow> db \<Rightarrow> V2ManagedPosition option" where
  "open_position symbol direction mode d =
     List.find (\<lambda>p. vp_symbol p = symbol \<and> vp_direction p = direction \<and> vp_execution_mode p = mode
       \<and> pos_open p) (db_positions d)"

definition absorb_fills :: "fill_aggregate \<Rightarrow> int \<Rightarrow> V2ManagedPosition \<Rightarrow> V2ManagedPosition res" where
  "absorb_fills agg projected_at p =
     (let previous_quantity = vp_quantity p;
          total_quantity = dadd previous_quantity (fa_filled_quantity agg)
      in bindR (ddivR (dadd (dmul previous_quantity (vp_entry_price p))
                  (dmul (fa_filled_quantity agg) (fa_average_fill_price agg))) total_quantity) (\<lambda>price.
         Inr (p\<lparr>vp_entry_price := price, vp_quantity := total_quantity,
                vp_entry_fee := dadd (vp_entry_fee p) (fa_total_fee agg), vp_projected_at := projected_at\<rparr>)))"

definition project_position_from_confirmed_fills ::
    "string \<Rightarrow> string \<Rightarrow> string \<Rightarrow> string \<Rightarrow> string \<Rightarrow> V2ExecutionMode \<Rightarrow> int \<Rightarrow> bool \<Rightarrow> (db, unit) call" where
  "project_position_from_confirmed_fills position_id intent_id order_record_id symbol direction
      execution_mode projected_at allow_existing_position_aggregation = readC (\<lambda>d.
     someC (find_row vo_order_record_id order_record_id (db_orders d)) (ValueError ''Order record not found'') (\<lambda>order.
     guardC (vo_intent_id order \<noteq> intent_id) (ValueError ''Cannot project: order intent_id'') (
     bindC (pureC (aggregate_rows (fills_of d order_record_id))) (\<lambda>agg.
     guardC (\<not> has_text (vo_exchange_order_id order))
       (ValueError ''Cannot project position: order has no exchange_order_id'') (
     let insert = store (\<lambda>d. d\<lparr>db_positions := db_positions d @
           [\<lparr>vp_position_id = position_id, vp_intent_id = intent_id, vp_order_record_id = order_record_id,
             vp_symbol = symbol, vp_direction = direction, vp_execution_mode = execution_mode,
             vp_quantity = fa_filled_quantity agg, vp_entry_price = fa_average_fill_price agg,
             vp_entry_fee = fa_total_fee agg, vp_state = V2PositionState.POSITION_PROJECTED, vp_version = 0,
             vp_projected_at = projected_at, vp_protected_at = None, vp_closed_at = None, vp_realized_pnl = None\<rparr>]\<rparr>) in
     case open_position symbol direction execution_mode d of
       Some existing \<Rightarrow>
         if allow_existing_position_aggregation then
           bindC (pureC (absorb_fills agg projected_at existing)) (\<lambda>merged.
             store (\<lambda>d. d\<lparr>db_positions := update_row vp_position_id (vp_position_id existing)
               (\<lambda>_. merged) (db_positions d)\<rparr>))
         else insert
     | None \<Rightarrow> insert)))))"

definition reconcile_position_quantity_from_authoritative_snapshot ::
    "string \<Rightarrow> string \<Rightarrow> dec \<Rightarrow> int \<Rightarrow> (db, unit) call" where
  "reconcile_position_quantity_from_authoritative_snapshot event_id position_id quantity occurred_at =
     guardC (quantity \<le> 0) (ValueError ''authoritative position quantity must be positive'') (readC (\<lambda>d.
     someC (find_row vp_position_id position_id (db_positions d)) (ValueError ''Position not found'') (\<lambda>position.
     if vp_quantity position = quantity then returnC () else
     bindC (modifyC (\<lambda>d. d\<lparr>db_positions := update_row vp_position_id position_id
       (\<lambda>p. p\<lparr>vp_quantity := quantity, vp_projected_at := occurred_at\<rparr>) (db_positions d)\<rparr>)) (\<lambda>_.
     bindC (append_event event_id position_id ''POSITION'' ''PositionQuantityReconciledFromAuthoritativeSnapshot''
       [''from_quantity'' \<mapsto> PDec (vp_quantity position), ''to_quantity'' \<mapsto> PDec quantity,
        ''source'' \<mapsto> PStr ''binance_authoritative_snapshot''] occurred_at) (\<lambda>_. flush)))))"

definition transition_position ::
    "string \<Rightarrow> int \<Rightarrow> string \<Rightarrow> V2PositionState \<Rightarrow> V2PositionState \<Rightarrow> string \<Rightarrow> payload \<Rightarrow> int option \<Rightarrow> (db, unit) call" where
  "transition_position event_id now position_id expected_current next_state event_type payload occurred_at =
     readC (\<lambda>d. someC (find_row vp_position_id position_id (db_positions d)) (ValueError ''Position not found'') (\<lambda>position.
     let current = vp_state position; version = vp_version position + 1;
         stamp = (case occurred_at of Some t \<Rightarrow> t | None \<Rightarrow> now) in
     guardC (current \<noteq> expected_current) (ValueError ''Position expected state'') (
     bindC (pureC (validate_position_transition current next_state)) (\<lambda>_.
     bindC (modifyC (\<lambda>d. d\<lparr>db_positions := update_row vp_position_id position_id
       (\<lambda>p. p\<lparr>vp_state := next_state, vp_version := version,
          vp_closed_at := (if next_state = V2PositionState.CLOSED then Some stamp else vp_closed_at p),
          vp_protected_at := (if next_state = V2PositionState.PROTECTED then Some stamp else vp_protected_at p)\<rparr>)
       (db_positions d)\<rparr>)) (\<lambda>_.
     bindC (append_event event_id position_id ''POSITION'' event_type
       (transition_payload payload (position_value current) (position_value next_state) version) stamp) (\<lambda>_. flush))))))"

definition project_position ::
    "(nat \<Rightarrow> string) \<Rightarrow> int \<Rightarrow> string \<Rightarrow> string \<Rightarrow> string \<Rightarrow> string \<Rightarrow> string \<Rightarrow> V2ExecutionMode
      \<Rightarrow> FillReceipt \<Rightarrow> V2PositionState \<Rightarrow> int \<Rightarrow> (db, unit) call" where
  "project_position new_id now position_id intent_id order_record_id symbol direction execution_mode
      fill_receipt state projected_at =
     bindC (pureC (assert_fill_receipt_valid fill_receipt)) (\<lambda>_. readC (\<lambda>d.
     someC (find_row vo_order_record_id order_record_id (db_orders d)) (ValueError ''Order record not found'') (\<lambda>order.
     guardC (\<not> has_text (vo_exchange_order_id order))
       (ValueError ''Cannot project position: order has no exchange_order_id'') (
     guardC (fills_of d order_record_id = []) (ValueError ''No confirmed fills for order'') (
     bindC (project_position_from_confirmed_fills position_id intent_id order_record_id symbol direction
       execution_mode projected_at False) (\<lambda>_.
     if state = V2PositionState.POSITION_PROJECTED then returnC ()
     else if state = V2PositionState.CLOSED then
       bindC (transition_position (new_id 0) now position_id V2PositionState.POSITION_PROJECTED
         V2PositionState.REDUCING ''PositionReducingForCloseSeed'' Map.empty None) (\<lambda>_.
       transition_position (new_id 1) now position_id V2PositionState.REDUCING
         V2PositionState.CLOSED ''PositionClosedSeed'' Map.empty None)
     else transition_position (new_id 0) now position_id V2PositionState.POSITION_PROJECTED state
       ''PositionProjectedThenTransitioned'' Map.empty None))))))"

definition quantity_tolerance :: dec where
  "quantity_tolerance = 1 / 10 ^ 8"

definition repair_quarantined_position_from_confirmed_exit ::
    "string \<Rightarrow> string \<Rightarrow> string \<Rightarrow> int \<Rightarrow> payload \<Rightarrow> (db, unit) call" where
  "repair_quarantined_position_from_confirmed_exit event_id position_id exit_order_record_id occurred_at payload =
     readC (\<lambda>d. someC (find_row vp_position_id position_id (db_positions d)) (ValueError ''Position not found'') (\<lambda>position.
     guardC (vp_state position \<noteq> V2PositionState.QUARANTINED)
       (ValueError ''Position is not QUARANTINED; use the normal state machine'') (
     case find_row vo_order_record_id exit_order_record_id (db_orders d) of
       None \<Rightarrow> pureC (Inl (ValueError ''quarantine repair requires an acknowledged exit order''))
     | Some order \<Rightarrow>
     guardC (\<not> has_text (vo_exchange_order_id order))
       (ValueError ''quarantine repair requires an acknowledged exit order'') (
     let fills = fills_of d exit_order_record_id; reduced_quantity = dsum (map vf_filled_quantity fills);
         version = vp_version position + 1 in
     guardC (fills = [] \<or> list_ex (\<lambda>f. \<not> vf_reduce_only f) fills)
       (ValueError ''quarantine repair requires persisted reduce-only fills'') (
     guardC (list_ex (\<lambda>f. vf_symbol f \<noteq> vp_symbol position) fills)
       (ValueError ''quarantine repair fill symbol does not match position'') (
     guardC (dadd reduced_quantity quantity_tolerance < vp_quantity position)
       (ValueError ''quarantine repair fill quantity is below projected quantity'') (
     bindC (modifyC (\<lambda>d. d\<lparr>db_positions := update_row vp_position_id position_id
       (\<lambda>p. p\<lparr>vp_state := V2PositionState.CLOSED, vp_closed_at := Some occurred_at, vp_version := version\<rparr>)
       (db_positions d)\<rparr>)) (\<lambda>_.
     bindC (append_event event_id position_id ''POSITION'' ''QuarantinedProjectionCorrectedFromConfirmedExit''
       (with_keys payload [(''exit_order_record_id'', PStr exit_order_record_id),
          (''exchange_order_id'', PStr (the (vo_exchange_order_id order))),
          (''trade_ids'', PTexts (map vf_trade_id fills)),
          (''from_state'', PStr ''QUARANTINED''), (''to_state'', PStr ''CLOSED''), (''version'', PInt version)])
       occurred_at) (\<lambda>_. flush)))))))))"

definition finalize_quarantined_historical_attribution ::
    "string \<Rightarrow> V2AdjudicationFinalization \<Rightarrow> (db, unit) call" where
  "finalize_quarantined_historical_attribution event_id row = readC (\<lambda>d.
     someC (find_row vp_position_id (vz_position_id row) (db_positions d)) (ValueError ''RECOVERY_FINALIZATION_INCOMPLETE'') (\<lambda>position.
     case List.find (\<lambda>z. vz_adjudication_id z = vz_adjudication_id row \<and> vz_position_id z = vz_position_id row)
         (db_finalizations d) of
       Some existing \<Rightarrow>
         guardC (vz_exchange_trade_id existing \<noteq> vz_exchange_trade_id row
             \<or> vz_allocated_quantity existing \<noteq> vz_allocated_quantity row)
           (ValueError ''RECOVERY_FINALIZATION_CONFLICT'') (returnC ())
     | None \<Rightarrow>
     guardC (vp_state position \<noteq> V2PositionState.QUARANTINED) (ValueError ''RECOVERY_FINALIZATION_INCOMPLETE'') (
     guardC (vp_quantity position \<noteq> vz_allocated_quantity row) (ValueError ''RECOVERY_FINALIZATION_INCOMPLETE'') (
     bindC (pureC (validate_historical_attribution_transition (vp_state position) V2PositionState.CLOSED)) (\<lambda>_.
     let version = vp_version position + 1 in
     bindC (modifyC (\<lambda>d. d\<lparr>db_positions := update_row vp_position_id (vz_position_id row)
       (\<lambda>p. p\<lparr>vp_state := V2PositionState.CLOSED, vp_closed_at := Some (vz_finalized_at row), vp_version := version\<rparr>)
       (db_positions d)\<rparr>)) (\<lambda>_.
     bindC (append_event event_id (vz_position_id row) ''POSITION'' ''QuarantinedLifecycleHistoricallyAttributedExit''
       [''adjudication_id'' \<mapsto> PStr (vz_adjudication_id row), ''exchange_order_id'' \<mapsto> PStr (vz_exchange_order_id row),
        ''exchange_trade_id'' \<mapsto> PStr (vz_exchange_trade_id row),
        ''aggregate_exchange_fill_quantity'' \<mapsto> PDec (vz_aggregate_quantity row),
        ''allocated_quantity'' \<mapsto> PDec (vz_allocated_quantity row),
        ''operator_identity'' \<mapsto> PStr (vz_operator_identity row), ''operator_reason'' \<mapsto> PStr (vz_operator_reason row),
        ''from_state'' \<mapsto> PStr ''QUARANTINED'', ''to_state'' \<mapsto> PStr ''CLOSED'', ''version'' \<mapsto> PInt version]
       (vz_finalized_at row)) (\<lambda>_.
     store (\<lambda>d. d\<lparr>db_finalizations := db_finalizations d @
       [row\<lparr>vz_before_state := ''QUARANTINED'', vz_after_state := ''CLOSED''\<rparr>]\<rparr>))))))))"

section \<open>Protections\<close>

definition save_protection :: "V2ProtectionRecord \<Rightarrow> (db, unit) call" where
  "save_protection row =
     guardC (vr_state row = V2ProtectionState.PROTECTION_ACTIVE)
       (ValueError ''save_protection cannot create PROTECTION_ACTIVE'') (
     guardC (vr_state row \<noteq> V2ProtectionState.PROTECTION_INTENT)
       (ValueError ''save_protection only accepts PROTECTION_INTENT'') (
     store (\<lambda>d. d\<lparr>db_protections := db_protections d @
       [row\<lparr>vr_original_stop_loss_price := Some (case vr_original_stop_loss_price row of
              Some q \<Rightarrow> q | None \<Rightarrow> vr_stop_loss_price row),
            vr_version := 0, vr_activated_at := None\<rparr>]\<rparr>)))"

definition update_protection_stop ::
    "string \<Rightarrow> int \<Rightarrow> string \<Rightarrow> dec \<Rightarrow> string \<Rightarrow> string \<Rightarrow> int option \<Rightarrow> (db, unit) call" where
  "update_protection_stop event_id now protection_id stop_loss_price stop_client_order_id
      stop_exchange_order_id occurred_at = readC (\<lambda>d.
     someC (find_row vr_protection_id protection_id (db_protections d)) (ValueError ''Protection not found'') (\<lambda>protection.
     let version = vr_version protection + 1 in
     bindC (modifyC (\<lambda>d. d\<lparr>db_protections := update_row vr_protection_id protection_id
       (\<lambda>r. r\<lparr>vr_stop_loss_price := stop_loss_price, vr_stop_client_order_id := stop_client_order_id,
            vr_stop_exchange_order_id := Some stop_exchange_order_id, vr_version := version\<rparr>)
       (db_protections d)\<rparr>)) (\<lambda>_.
     bindC (append_event event_id protection_id ''PROTECTION'' ''ProfitProtectionStopTightened''
       [''stop_loss_price'' \<mapsto> PDec stop_loss_price, ''stop_exchange_order_id'' \<mapsto> PStr stop_exchange_order_id,
        ''version'' \<mapsto> PInt version]
       (case occurred_at of Some t \<Rightarrow> t | None \<Rightarrow> now)) (\<lambda>_. flush))))"

definition transition_protection ::
    "string \<Rightarrow> int \<Rightarrow> string \<Rightarrow> V2ProtectionState \<Rightarrow> V2ProtectionState \<Rightarrow> string \<Rightarrow> payload \<Rightarrow> int option \<Rightarrow> (db, unit) call" where
  "transition_protection event_id now protection_id expected_current next_state event_type payload occurred_at =
     readC (\<lambda>d. someC (find_row vr_protection_id protection_id (db_protections d)) (ValueError ''Protection not found'') (\<lambda>protection.
     let current = vr_state protection; version = vr_version protection + 1;
         stamp = (case occurred_at of Some t \<Rightarrow> t | None \<Rightarrow> now) in
     guardC (current \<noteq> expected_current) (ValueError ''Protection expected state'') (
     bindC (pureC (validate_protection_transition current next_state)) (\<lambda>_.
     bindC (pureC (if next_state = V2ProtectionState.PROTECTION_ACTIVE
       then assert_protection_active_requires_exchange_order_id (vr_stop_exchange_order_id protection) else Inr ())) (\<lambda>_.
     bindC (modifyC (\<lambda>d. d\<lparr>db_protections := update_row vr_protection_id protection_id
       (\<lambda>r. r\<lparr>vr_state := next_state, vr_version := version,
          vr_activated_at := (if next_state = V2ProtectionState.PROTECTION_ACTIVE then Some stamp else vr_activated_at r)\<rparr>)
       (db_protections d)\<rparr>)) (\<lambda>_.
     bindC (append_event event_id protection_id ''PROTECTION'' event_type
       (transition_payload payload (protection_value current) (protection_value next_state) version) stamp) (\<lambda>_. flush)))))))"

definition update_protection_active ::
    "(nat \<Rightarrow> string) \<Rightarrow> int \<Rightarrow> string \<Rightarrow> ProtectionReceipt \<Rightarrow> V2ProtectionState \<Rightarrow> int \<Rightarrow> (db, unit) call" where
  "update_protection_active new_id now protection_id receipt new_state activated_at = readC (\<lambda>d.
     someC (find_row vr_protection_id protection_id (db_protections d)) (ValueError ''Protection not found'') (\<lambda>protection.
     bindC (pureC (assert_protection_active_requires_exchange_order_id (Some (pr_stop_exchange_order_id receipt)))) (\<lambda>_.
     bindC (store (\<lambda>d. d\<lparr>db_protections := update_row vr_protection_id protection_id
       (\<lambda>r. r\<lparr>vr_stop_exchange_order_id := Some (pr_stop_exchange_order_id receipt),
            vr_tp_exchange_order_id := pr_tp_exchange_order_id receipt\<rparr>) (db_protections d)\<rparr>)) (\<lambda>_.
     let submitting = vr_state protection = V2ProtectionState.PROTECTION_INTENT in
     bindC (if submitting then transition_protection (new_id 0) now protection_id
         V2ProtectionState.PROTECTION_INTENT V2ProtectionState.PROTECTION_SUBMITTING ''ProtectionSubmitting''
         Map.empty (Some activated_at) else returnC ()) (\<lambda>_.
     transition_protection (new_id 1) now protection_id
       (if submitting then V2ProtectionState.PROTECTION_SUBMITTING else vr_state protection) new_state
       ''ProtectionActivated''
       [''stop_exchange_order_id'' \<mapsto> PStr (pr_stop_exchange_order_id receipt),
        ''tp_exchange_order_id'' \<mapsto> (case pr_tp_exchange_order_id receipt of None \<Rightarrow> PNull | Some t \<Rightarrow> PStr t)]
       (Some activated_at))))))"

section \<open>Reconciliations, incidents and runtime control\<close>

definition record_reconciliation :: "V2ReconciliationSnapshot \<Rightarrow> (db, string) call" where
  "record_reconciliation row =
     bindC (store (\<lambda>d. d\<lparr>db_reconciliations := db_reconciliations d @ [row]\<rparr>)) (\<lambda>_. returnC (vq_snapshot_id row))"

definition record_incident :: "V2ExecutionIncident \<Rightarrow> (db, string) call" where
  "record_incident row =
     bindC (store (\<lambda>d. d\<lparr>db_incidents := db_incidents d @ [row\<lparr>vn_resolved := False, vn_resolved_at := None\<rparr>]\<rparr>))
       (\<lambda>_. returnC (vn_incident_id row))"

definition mismatch_incident :: "V2ExecutionIncident \<Rightarrow> bool" where
  "mismatch_incident n \<longleftrightarrow> \<not> vn_resolved n
     \<and> vn_incident_type n \<in> {''LOCAL_GHOST_QUARANTINED'', ''EXTERNAL_POSITION_QUARANTINED''}"

definition resolve_reconciliation_incidents :: "int \<Rightarrow> (db, nat) call" where
  "resolve_reconciliation_incidents resolved_at = readC (\<lambda>d.
     bindC (store (\<lambda>d. d\<lparr>db_incidents := map (\<lambda>n. if mismatch_incident n
         then n\<lparr>vn_resolved := True, vn_resolved_at := Some resolved_at\<rparr> else n) (db_incidents d)\<rparr>))
       (\<lambda>_. returnC (length (filter mismatch_incident (db_incidents d)))))"

definition new_control :: "string \<Rightarrow> bool \<Rightarrow> string option \<Rightarrow> string option \<Rightarrow> V2RuntimeControl" where
  "new_control scope entry_enabled reason updated_by =
     \<lparr>vc_scope = scope, vc_entry_enabled = entry_enabled, vc_reason = reason, vc_updated_by = updated_by,
      vc_updated_at = None, vc_version = 0\<rparr>"

definition get_runtime_control :: "string \<Rightarrow> (db, V2RuntimeControl) call" where
  "get_runtime_control scope = readC (\<lambda>d. case find_row vc_scope scope (db_controls d) of
     Some control \<Rightarrow> returnC control
   | None \<Rightarrow> (let control = new_control scope False (Some ''default_disabled_until_gate5'') (Some ''system'')
       in bindC (store (\<lambda>d. d\<lparr>db_controls := db_controls d @ [control]\<rparr>)) (\<lambda>_. returnC control)))"

definition set_runtime_control ::
    "int \<Rightarrow> string \<Rightarrow> bool \<Rightarrow> string option \<Rightarrow> string option \<Rightarrow> int option \<Rightarrow> (db, V2RuntimeControl) call" where
  "set_runtime_control now scope entry_enabled reason updated_by expected_version =
     bindC (get_runtime_control scope) (\<lambda>control.
     guardC (case expected_version of None \<Rightarrow> False | Some v \<Rightarrow> vc_version control \<noteq> v)
       (ValueError ''Runtime control version conflict'') (
     let control' = control\<lparr>vc_entry_enabled := entry_enabled, vc_reason := reason, vc_updated_by := updated_by,
           vc_version := vc_version control + 1, vc_updated_at := Some now\<rparr>
     in bindC (store (\<lambda>d. d\<lparr>db_controls := update_row vc_scope scope (\<lambda>_. control') (db_controls d)\<rparr>))
       (\<lambda>_. returnC control')))"

text \<open>
  The insert runs in a savepoint.  \<open>concurrent\<close> is the row another session committed for the
  scope between the read and the insert, if it did: then the savepoint is rolled back and that
  row is returned.
\<close>

definition ensure_runtime_control ::
    "V2RuntimeControl option \<Rightarrow> string \<Rightarrow> bool \<Rightarrow> string option \<Rightarrow> string option \<Rightarrow> (db, V2RuntimeControl) call" where
  "ensure_runtime_control concurrent scope entry_enabled reason updated_by = readC (\<lambda>d.
     case find_row vc_scope scope (db_controls d) of
       Some existing \<Rightarrow> returnC existing
     | None \<Rightarrow> (case concurrent of
         Some row \<Rightarrow> bindC (modifyC (\<lambda>d. d\<lparr>db_controls := db_controls d @ [row\<lparr>vc_scope := scope\<rparr>]\<rparr>))
           (\<lambda>_. returnC (row\<lparr>vc_scope := scope\<rparr>))
       | None \<Rightarrow> (let created = new_control scope entry_enabled reason updated_by
           in bindC (store (\<lambda>d. d\<lparr>db_controls := db_controls d @ [created]\<rparr>)) (\<lambda>_. returnC created))))"

definition control_matches :: "string \<Rightarrow> int \<Rightarrow> bool \<Rightarrow> string option \<Rightarrow> V2RuntimeControl \<Rightarrow> bool" where
  "control_matches scope expected_version expected_entry_enabled expected_reason c \<longleftrightarrow>
     vc_scope c = scope \<and> vc_version c = expected_version \<and> vc_entry_enabled c = expected_entry_enabled
     \<and> vc_reason c = expected_reason"

definition compare_and_set_runtime_control ::
    "int \<Rightarrow> string \<Rightarrow> int \<Rightarrow> bool \<Rightarrow> string option \<Rightarrow> bool \<Rightarrow> string option \<Rightarrow> string option \<Rightarrow> (db, bool) call" where
  "compare_and_set_runtime_control now scope expected_version expected_entry_enabled expected_reason
      entry_enabled reason updated_by = readC (\<lambda>d.
     let hit = control_matches scope expected_version expected_entry_enabled expected_reason in
     bindC (store (\<lambda>d. d\<lparr>db_controls := map (\<lambda>c. if hit c then c\<lparr>vc_entry_enabled := entry_enabled,
         vc_reason := reason, vc_updated_by := updated_by, vc_version := vc_version c + 1,
         vc_updated_at := Some now\<rparr> else c) (db_controls d)\<rparr>))
       (\<lambda>_. returnC (length (filter hit (db_controls d)) = 1)))"

section \<open>Queries\<close>

definition get_open_positions :: "V2ExecutionMode \<Rightarrow> string option \<Rightarrow> db \<Rightarrow> V2ManagedPosition list" where
  "get_open_positions mode symbol d =
     filter (\<lambda>p. vp_execution_mode p = mode \<and> pos_open p
       \<and> (case symbol of Some s \<Rightarrow> s \<noteq> [] \<longrightarrow> vp_symbol p = s | None \<Rightarrow> True)) (db_positions d)"

definition list_managed_positions :: "V2ExecutionMode \<Rightarrow> nat \<Rightarrow> bool \<Rightarrow> db \<Rightarrow> V2ManagedPosition list" where
  "list_managed_positions mode limit include_terminal d =
     take limit (sort_key (\<lambda>p. - vp_projected_at p)
       (filter (\<lambda>p. vp_execution_mode p = mode \<and> (include_terminal \<or> pos_open p)) (db_positions d)))"

definition list_exchange_unknown_intents :: "V2ExecutionMode \<Rightarrow> db \<Rightarrow> V2ExecutionIntent list" where
  "list_exchange_unknown_intents mode d =
     filter (\<lambda>i. vi_execution_mode i = mode \<and> vi_state i = V2IntentState.EXCHANGE_UNKNOWN) (db_intents d)"

definition get_position_by_id :: "string \<Rightarrow> db \<Rightarrow> V2ManagedPosition option" where
  "get_position_by_id position_id d = find_row vp_position_id position_id (db_positions d)"

end
