(* ===== verification/Event_Log.thy ===== *)
theory Event_Log
  imports Database
begin

text \<open>
  What it means that the append-only event table explains the versioned rows: replaying the
  events of a row from its first state gives its current state and version.  The locale
  \<open>versioned_rows\<close> states it once for the three kinds of rows that carry a state and a version;
  \<open>Repository_Invariants\<close> interprets it on intents, positions and protections.
\<close>

section \<open>Replay\<close>

definition version_key :: string where "version_key = ''version''"

text \<open>The events of one row that carry a version number, in the order they were appended.\<close>

definition versioned :: "string \<Rightarrow> string \<Rightarrow> V2ExecutionEvent \<Rightarrow> bool" where
  "versioned kind k e \<longleftrightarrow> ve_aggregate_type e = kind \<and> ve_aggregate_id e = k \<and> ve_event_payload e version_key \<noteq> None"

definition log_of :: "string \<Rightarrow> string \<Rightarrow> V2ExecutionEvent list \<Rightarrow> payload list" where
  "log_of kind k events = map ve_event_payload (filter (versioned kind k) events)"

definition replay_step :: "(string \<Rightarrow> string \<Rightarrow> bool) \<Rightarrow> string \<times> int \<Rightarrow> payload \<Rightarrow> (string \<times> int) option" where
  "replay_step allowed sv p =
     (if p version_key \<noteq> Some (PInt (snd sv + 1)) then None
      else case (p ''from_state'', p ''to_state'') of
        (None, None) \<Rightarrow> Some (fst sv, snd sv + 1)
      | (Some (PStr f), Some (PStr t)) \<Rightarrow> if f = fst sv \<and> allowed f t then Some (t, snd sv + 1) else None
      | _ \<Rightarrow> None)"

fun replay :: "(string \<Rightarrow> string \<Rightarrow> bool) \<Rightarrow> string \<times> int \<Rightarrow> payload list \<Rightarrow> (string \<times> int) option" where
  "replay allowed sv [] = Some sv"
| "replay allowed sv (p # ps) = (case replay_step allowed sv p of None \<Rightarrow> None | Some sv' \<Rightarrow> replay allowed sv' ps)"

lemma replay_snoc:
  "replay allowed sv (ps @ [p]) = Option.bind (replay allowed sv ps) (\<lambda>sv'. replay_step allowed sv' p)"
  by (induction allowed sv ps rule: replay.induct) (auto split: option.splits)

lemma log_of_snoc:
  "log_of kind k (es @ [e]) = log_of kind k es @ (if versioned kind k e then [ve_event_payload e] else [])"
  by (simp add: log_of_def)

text \<open>A log that replays numbers its events without a gap.\<close>

lemma replay_version:
  "replay allowed sv ps = Some sv' \<Longrightarrow> snd sv' = snd sv + int (length ps)"
  by (induction allowed sv ps rule: replay.induct)
    (auto simp: replay_step_def split: option.splits if_splits pval.splits)

section \<open>Versioned rows\<close>

text \<open>A legal step between two states, read off the texts an event records.\<close>

definition shown_rel :: "('s \<Rightarrow> string) \<Rightarrow> ('s \<Rightarrow> 's \<Rightarrow> bool) \<Rightarrow> string \<Rightarrow> string \<Rightarrow> bool" where
  "shown_rel shown legal f t \<longleftrightarrow> (\<exists>s s'. f = shown s \<and> t = shown s' \<and> legal s s')"

text \<open>The events of a row lead from a first state to its state and version.\<close>

definition explained ::
    "('s \<Rightarrow> string) \<Rightarrow> ('s \<Rightarrow> bool) \<Rightarrow> ('s \<Rightarrow> 's \<Rightarrow> bool) \<Rightarrow> payload list \<Rightarrow> 's \<Rightarrow> int \<Rightarrow> bool" where
  "explained shown initial legal ps s v \<longleftrightarrow>
     (\<exists>s0. initial s0 \<and> replay (shown_rel shown legal) (shown s0, 0) ps = Some (shown s, v))"

locale versioned_rows =
  fixes key :: "'r \<Rightarrow> string"
    and state :: "'r \<Rightarrow> 's"
    and version :: "'r \<Rightarrow> int"
    and kind :: string
    and shown :: "'s \<Rightarrow> string"
    and initial :: "'s \<Rightarrow> bool"
    and legal :: "'s \<Rightarrow> 's \<Rightarrow> bool"
  assumes shown_inj: "shown s = shown t \<Longrightarrow> s = t"
begin

lemma allowed_shown [simp]: "shown_rel shown legal (shown s) (shown t) \<longleftrightarrow> legal s t"
  by (auto simp: shown_rel_def dest: shown_inj)

text \<open>Each row is explained by its events, and every versioned event belongs to a row.\<close>

definition sourced :: "'r list \<Rightarrow> V2ExecutionEvent list \<Rightarrow> bool" where
  "sourced rows events \<longleftrightarrow>
     (\<forall>r\<in>set rows. explained shown initial legal (log_of kind (key r) events) (state r) (version r))
   \<and> (\<forall>e\<in>set events. versioned kind (ve_aggregate_id e) e \<longrightarrow> (\<exists>r\<in>set rows. key r = ve_aggregate_id e))"

lemma sourced_explains:
  "\<lbrakk>sourced rows events; r \<in> set rows\<rbrakk> \<Longrightarrow> explained shown initial legal (log_of kind (key r) events) (state r) (version r)"
  by (simp add: sourced_def)

lemma sourced_empty: "sourced [] []"
  by (simp add: sourced_def)

lemma log_of_fresh:
  assumes "sourced rows events" "\<forall>r\<in>set rows. key r \<noteq> k"
  shows "log_of kind k events = []"
  using assms by (auto simp: sourced_def log_of_def versioned_def filter_empty_conv)

lemma sourced_insert:
  assumes "sourced rows events" "distinct (map key (rows @ [r]))" "initial (state r)" "version r = 0"
  shows "sourced (rows @ [r]) events"
proof -
  have "key r \<notin> key ` set rows" using assms(2) by simp
  then have "\<forall>q\<in>set rows. key q \<noteq> key r" by (metis imageI)
  then have "log_of kind (key r) events = []" by (rule log_of_fresh [OF assms(1)])
  with assms show ?thesis by (auto simp: sourced_def explained_def)
qed

lemma log_of_filter:
  "log_of kind k events = map ve_event_payload
     (filter (\<lambda>e. ve_aggregate_id e = k) (filter (\<lambda>e. versioned kind (ve_aggregate_id e) e) events))"
  by (auto simp: log_of_def versioned_def intro!: arg_cong [of _ _ "map _"] filter_cong)

lemma sourced_frame:
  assumes src: "sourced rows events"
    and rows: "map (\<lambda>r. (key r, state r, version r)) rows' = map (\<lambda>r. (key r, state r, version r)) rows"
    and evs: "filter (\<lambda>e. versioned kind (ve_aggregate_id e) e) events' = filter (\<lambda>e. versioned kind (ve_aggregate_id e) e) events"
  shows "sourced rows' events'"
proof -
  let ?img = "\<lambda>r. (key r, state r, version r)"
  have img: "?img ` set rows' = ?img ` set rows" using arg_cong [OF rows, of set] by simp
  have log: "log_of kind k events' = log_of kind k events" for k
    by (simp add: log_of_filter evs)
  have "explained shown initial legal (log_of kind (key r) events') (state r) (version r)"
    if r: "r \<in> set rows'" for r
  proof -
    have "?img r \<in> ?img ` set rows" unfolding img [symmetric] by (rule imageI [OF r])
    then obtain q where q: "q \<in> set rows" "?img r = ?img q" by (rule imageE)
    from q(2) have "key r = key q" "state r = state q" "version r = version q" by simp_all
    with sourced_explains [OF src q(1)] show ?thesis by (simp add: log)
  qed
  moreover have "\<exists>r\<in>set rows'. key r = ve_aggregate_id e"
    if e: "e \<in> set events'" "versioned kind (ve_aggregate_id e) e" for e
  proof -
    have "e \<in> set (filter (\<lambda>e. versioned kind (ve_aggregate_id e) e) events')" using e by simp
    then have "e \<in> set events" unfolding evs by simp
    with src e obtain q where q: "q \<in> set rows" "key q = ve_aggregate_id e" unfolding sourced_def by blast
    have "?img q \<in> ?img ` set rows'" unfolding img by (rule imageI [OF q(1)])
    then obtain r where r: "r \<in> set rows'" "?img q = ?img r" by (rule imageE)
    from r(2) q(2) have "key r = ve_aggregate_id e" by simp
    with r(1) show ?thesis by blast
  qed
  ultimately show ?thesis unfolding sourced_def by blast
qed

text \<open>A change of one row together with the event that records it.\<close>

lemma sourced_step:
  assumes src: "sourced rows events" and row: "find_row key k rows = Some r"
    and keys: "distinct (map key (update_row key k f rows))" and fkey: "\<And>q. key (f q) = key q"
    and ver: "version (f r) = version r + 1"
    and ev: "ve_aggregate_type e = kind" "ve_aggregate_id e = k"
    and step: "replay_step (shown_rel shown legal) (shown (state r), version r) (ve_event_payload e) =
        Some (shown (state (f r)), version r + 1)"
  shows "sourced (update_row key k f rows) (events @ [e])"
proof -
  have versioned: "versioned kind k e"
    using ev step by (auto simp: versioned_def replay_step_def split: if_splits)
  have r: "r \<in> set rows" "key r = k" using find_row_Some [OF row] by auto
  have "distinct (map key rows)" using keys fkey by (simp add: map_update_row)
  then have uniq: "q = r" if "q \<in> set rows" "key q = k" for q
    using that r by (metis find_row_unique option.inject)
  have log: "log_of kind k' (events @ [e]) = log_of kind k' events @ (if k' = k then [ve_event_payload e] else [])" for k'
    using versioned by (auto simp: log_of_snoc versioned_def)
  have "explained shown initial legal (log_of kind (key q) (events @ [e])) (state q) (version q)"
    if "q \<in> set (update_row key k f rows)" for q
  proof -
    from that obtain p where p: "p \<in> set rows" "q = (if key p = k then f p else p)"
      by (auto simp: set_update_row)
    have ex: "explained shown initial legal (log_of kind (key p) events) (state p) (version p)"
      using sourced_explains [OF src p(1)] .
    show ?thesis
    proof (cases "key p = k")
      case True
      then have "p = r" using uniq p by blast
      with ex p True fkey ver step show ?thesis
        by (auto simp: log replay_snoc explained_def)
    next
      case False
      with ex p show ?thesis by (simp add: log)
    qed
  qed
  moreover have "\<exists>q\<in>set (update_row key k f rows). key q = ve_aggregate_id e'"
    if e': "e' \<in> set (events @ [e])" "versioned kind (ve_aggregate_id e') e'" for e'
  proof -
    obtain p where p: "p \<in> set rows" "key p = ve_aggregate_id e'"
      using e' src r ev by (auto simp: sourced_def)
    let ?q = "if key p = k then f p else p"
    have "?q \<in> set (update_row key k f rows)" using p(1) unfolding set_update_row by (rule imageI)
    moreover have "key ?q = ve_aggregate_id e'" using p(2) fkey by simp
    ultimately show ?thesis by (rule bexI [rotated])
  qed
  ultimately show ?thesis by (auto simp: sourced_def)
qed

text \<open>Two databases with the same events agree on every row with a fixed first state.\<close>

lemma sourced_determined:
  assumes "sourced rows events" "sourced rows' events" "r \<in> set rows" "r' \<in> set rows'" "key r = key r'"
    and "\<And>s t. \<lbrakk>initial s; initial t\<rbrakk> \<Longrightarrow> s = t"
  shows "state r = state r' \<and> version r = version r'"
proof -
  obtain s where s: "initial s"
    "replay (shown_rel shown legal) (shown s, 0) (log_of kind (key r) events) = Some (shown (state r), version r)"
    using assms(1,3) unfolding sourced_def explained_def by blast
  obtain t where t: "initial t"
    "replay (shown_rel shown legal) (shown t, 0) (log_of kind (key r') events) = Some (shown (state r'), version r')"
    using assms(2,4) unfolding sourced_def explained_def by blast
  have "s = t" using assms(6) s t by blast
  then have "shown (state r) = shown (state r') \<and> version r = version r'"
    using s t assms(5) by simp
  then show ?thesis by (auto dest: shown_inj)
qed

end

end
