(* ===== verification/Repository_Invariants.thy ===== *)
theory Repository_Invariants
  imports Repository Event_Log
begin

text \<open>
  What every operation of the repository keeps: the event table explains every intent, position
  and protection; a managed position has confirmed fills of its own intent; the cached totals of
  an order are those of its fill rows.  The facts hold for every database a session can reach
  by repository calls, commits and rollbacks in any order.
\<close>

section \<open>The steps the event table may record\<close>

text \<open>
  A step the validator accepts, or the correction of a guessed outcome by a confirmed fill; for
  positions, a step the validator accepts, or the closing of a quarantined position by the two
  evidence-based operations.
\<close>

definition intent_step :: "V2IntentState \<Rightarrow> V2IntentState \<Rightarrow> bool" where
  "intent_step s t \<longleftrightarrow> is_ok (validate_intent_transition s t)
     \<or> (s \<in> {V2IntentState.CANCELLED, V2IntentState.EXPIRED} \<and> t = V2IntentState.FILLED)"

definition position_step :: "V2PositionState \<Rightarrow> V2PositionState \<Rightarrow> bool" where
  "position_step s t \<longleftrightarrow> is_ok (validate_position_transition s t)
     \<or> is_ok (validate_historical_attribution_transition s t)"

definition protection_step :: "V2ProtectionState \<Rightarrow> V2ProtectionState \<Rightarrow> bool" where
  "protection_step s t \<longleftrightarrow> is_ok (validate_protection_transition s t)"

interpretation intent_log: versioned_rows vi_intent_id vi_state vi_version "''INTENT''" intent_value
  "\<lambda>_. True" intent_step
proof
  fix s t show "intent_value s = intent_value t \<Longrightarrow> s = t" by (cases s; cases t) simp_all
qed

interpretation position_log: versioned_rows vp_position_id vp_state vp_version "''POSITION''" position_value
  "\<lambda>s. s = V2PositionState.POSITION_PROJECTED" position_step
proof
  fix s t show "position_value s = position_value t \<Longrightarrow> s = t" by (cases s; cases t) simp_all
qed

interpretation protection_log: versioned_rows vr_protection_id vr_state vr_version "''PROTECTION''" protection_value
  "\<lambda>s. s = V2ProtectionState.PROTECTION_INTENT" protection_step
proof
  fix s t show "protection_value s = protection_value t \<Longrightarrow> s = t" by (cases s; cases t) simp_all
qed

section \<open>The invariant\<close>

definition logs_ok :: "db \<Rightarrow> bool" where
  "logs_ok d \<longleftrightarrow> intent_log.sourced (db_intents d) (db_events d)
     \<and> position_log.sourced (db_positions d) (db_events d)
     \<and> protection_log.sourced (db_protections d) (db_events d)"

definition fills_ok :: "db \<Rightarrow> bool" where
  "fills_ok d \<longleftrightarrow> (\<forall>f\<in>set (db_fills d). \<exists>w\<in>set (db_orders d).
     vo_order_record_id w = vf_exchange_order_record_id f \<and> vo_intent_id w = vf_intent_id f)"

definition position_evidence :: "db \<Rightarrow> V2ManagedPosition \<Rightarrow> bool" where
  "position_evidence d p \<longleftrightarrow> (\<exists>w\<in>set (db_orders d). vo_order_record_id w = vp_order_record_id p
     \<and> vo_intent_id w = vp_intent_id p \<and> has_text (vo_exchange_order_id w))
     \<and> fills_of d (vp_order_record_id p) \<noteq> []"

definition positions_ok :: "db \<Rightarrow> bool" where
  "positions_ok d \<longleftrightarrow> (\<forall>p\<in>set (db_positions d). position_evidence d p)"

definition cache_of :: "V2ExchangeOrder \<Rightarrow> V2ExchangeFill list \<Rightarrow> bool" where
  "cache_of w fills \<longleftrightarrow> (\<exists>agg. aggregate_rows fills = Inr agg
     \<and> vo_filled_quantity w = Some (fa_filled_quantity agg)
     \<and> vo_average_fill_price w = Some (fa_average_fill_price agg)
     \<and> vo_total_fee w = Some (fa_total_fee agg) \<and> vo_fill_timestamp w = Some (fa_fill_timestamp agg)
     \<and> vo_trade_ids w = fa_trade_ids agg)"

definition caches_ok :: "db \<Rightarrow> bool" where
  "caches_ok d \<longleftrightarrow> (\<forall>w\<in>set (db_orders d). fills_of d (vo_order_record_id w) \<noteq> [] \<longrightarrow>
     cache_of w (fills_of d (vo_order_record_id w)))"

definition repo_inv :: "db \<Rightarrow> bool" where
  "repo_inv d \<longleftrightarrow> logs_ok d \<and> fills_ok d \<and> positions_ok d \<and> caches_ok d"

lemmas repo_inv_defs = repo_inv_def logs_ok_def fills_ok_def positions_ok_def position_evidence_def
  caches_ok_def fills_of_def

lemma repo_inv_empty: "repo_inv empty_db"
  by (simp add: repo_inv_defs empty_db_def intent_log.sourced_empty position_log.sourced_empty
      protection_log.sourced_empty)

text \<open>Tables the invariant does not read.\<close>

definition same_ledger :: "db \<Rightarrow> db \<Rightarrow> bool" where
  "same_ledger d d' \<longleftrightarrow> db_intents d' = db_intents d \<and> db_orders d' = db_orders d \<and> db_fills d' = db_fills d
     \<and> db_positions d' = db_positions d \<and> db_protections d' = db_protections d \<and> db_events d' = db_events d"

lemma repo_inv_same_ledger: "\<lbrakk>repo_inv d; same_ledger d d'\<rbrakk> \<Longrightarrow> repo_inv d'"
  by (simp add: repo_inv_defs same_ledger_def)

lemma repo_inv_finalizations [simp]: "repo_inv (d\<lparr>db_finalizations := z\<rparr>) = repo_inv d"
  by (simp add: repo_inv_defs)

section \<open>How calls compose\<close>

text \<open>The combinators of a call, on a state with the invariant.\<close>

lemma keeps_returnC: "keeps I (returnC x)"
  by (simp add: keeps_def)

lemma keeps_pureC: "keeps I (pureC r)"
  by (simp add: keeps_def)

lemma keeps_bindC:
  assumes "keeps I m" "\<And>x. keeps I (f x)"
  shows "keeps I (bindC m f)"
proof (rule keepsI)
  fix d r d' assume I: "I d" and run: "bindC m f d = (r, d')" and ok: "\<not> integrity_error r"
  obtain q d1 where m: "m d = (q, d1)" by fastforce
  show "I d'"
  proof (cases q)
    case (Inl e)
    then have "m d = (Inl e, d')" "r = Inl e" using run m by (auto simp: bindC_def)
    then have "\<not> integrity_error (fst (m d))" "snd (m d) = d'" using ok by (auto simp: integrity_error_iff)
    then show ?thesis using assms(1) I unfolding keeps_def by metis
  next
    case (Inr x)
    then have "I d1" using keepsD [OF assms(1) I m] by simp
    moreover have "f x d1 = (r, d')" using run m Inr by (simp add: bindC_def)
    ultimately show ?thesis using keepsD [OF assms(2) _ _ ok] by blast
  qed
qed

lemma keeps_bind_pure: "(\<And>x. r = Inr x \<Longrightarrow> keeps I (f x)) \<Longrightarrow> keeps I (bindC (pureC r) f)"
  by (cases r) (auto simp: keeps_def)

lemma keeps_readC: "(\<And>d. keeps I (f d)) \<Longrightarrow> keeps I (readC f)"
  by (auto simp: keeps_def)

lemma keeps_guardC: "(\<not> b \<Longrightarrow> keeps I m) \<Longrightarrow> keeps I (guardC b e m)"
  by (cases b) (auto simp: keeps_def)

lemma keeps_someC: "(\<And>y. x = Some y \<Longrightarrow> keeps I (f y)) \<Longrightarrow> keeps I (someC x e f)"
  by (cases x) (auto simp: keeps_def)

lemma keeps_store: "(\<And>d. \<lbrakk>I d; constraints (f d)\<rbrakk> \<Longrightarrow> I (f d)) \<Longrightarrow> keeps I (store f)"
  by (auto simp: keeps_def store_def flush_def split: if_splits)

lemma keeps_modifyC: "(\<And>d. I d \<Longrightarrow> I (f d)) \<Longrightarrow> keeps I (modifyC f)"
  by (simp add: keeps_def)

lemma keeps_if: "\<lbrakk>b \<Longrightarrow> keeps I m; \<not> b \<Longrightarrow> keeps I n\<rbrakk> \<Longrightarrow> keeps I (if b then m else n)"
  by simp

lemma keeps_option:
  "\<lbrakk>x = None \<Longrightarrow> keeps I m; \<And>y. x = Some y \<Longrightarrow> keeps I (f y)\<rbrakk>
    \<Longrightarrow> keeps I (case x of None \<Rightarrow> m | Some y \<Rightarrow> f y)"
  by (cases x) auto

lemmas keeps_intros = keeps_readC keeps_guardC keeps_someC keeps_if keeps_option keeps_bind_pure
  keeps_bindC keeps_returnC keeps_pureC keeps_flush

text \<open>A store that leaves the ledger alone.\<close>

lemma keeps_store_elsewhere:
  "(\<And>d. same_ledger d (f d)) \<Longrightarrow> keeps repo_inv (store f)"
  by (rule keeps_store) (blast intro: repo_inv_same_ledger)

lemma keeps_modify_elsewhere:
  "(\<And>d. same_ledger d (f d)) \<Longrightarrow> keeps repo_inv (modifyC f)"
  by (rule keeps_modifyC) (blast intro: repo_inv_same_ledger)

section \<open>Operations outside the ledger\<close>

lemma keeps_elsewhere:
  "keeps repo_inv (create_cycle a1 a2 a3 a4 a5 a6)"
  "keeps repo_inv (complete_cycle b1 b2 b3)"
  "keeps repo_inv (create_decision c1 c2 c3 c4 c5)"
  "keeps repo_inv (append_forward_snapshot e1)"
  "keeps repo_inv (append_shadow_outcome f1 f2 f3 f4)"
  "keeps repo_inv (record_reconciliation g1)"
  "keeps repo_inv (record_incident h1)"
  "keeps repo_inv (resolve_reconciliation_incidents i1)"
  "keeps repo_inv (get_runtime_control j1)"
  "keeps repo_inv (ensure_runtime_control k1 k2 k3 k4 k5)"
  "keeps repo_inv (compare_and_set_runtime_control l1 l2 l3 l4 l5 l6 l7 l8)"
  unfolding create_cycle_def complete_cycle_def create_decision_def append_forward_snapshot_def
    append_shadow_outcome_def record_reconciliation_def record_incident_def
    resolve_reconciliation_incidents_def get_runtime_control_def ensure_runtime_control_def
    compare_and_set_runtime_control_def Let_def
  by (intro keeps_intros keeps_store_elsewhere keeps_modify_elsewhere; simp add: same_ledger_def)+

lemma keeps_set_runtime_control: "keeps repo_inv (set_runtime_control a1 a2 a3 a4 a5 a6)"
  unfolding set_runtime_control_def Let_def
  by (intro keeps_bindC keeps_elsewhere keeps_guardC keeps_store_elsewhere keeps_returnC)
    (simp add: same_ledger_def)

lemma keeps_append_shadow_records: "keeps repo_inv (append_shadow_records h sid records)"
proof (induction records)
  case (Cons r rs)
  have "keeps repo_inv (append_shadow_record h sid r)"
    unfolding append_shadow_record_def Let_def
    by (cases r) (auto intro!: keeps_intros keeps_store_elsewhere simp: same_ledger_def)
  with Cons show ?case unfolding append_shadow_records.simps by (intro keeps_bindC keeps_returnC)
next
  case Nil
  show ?case unfolding append_shadow_records.simps by (rule keeps_returnC)
qed

section \<open>Events\<close>

text \<open>An event without a version number is a note: it explains nothing and disturbs nothing.\<close>

lemma repo_inv_note:
  assumes "repo_inv d" "ve_event_payload e version_key = None"
  shows "repo_inv (d\<lparr>db_events := db_events d @ [e]\<rparr>)"
proof -
  have "\<not> versioned knd k e" for knd k using assms(2) by (simp add: versioned_def)
  with assms(1) show ?thesis
    by (auto simp: repo_inv_defs intro: intent_log.sourced_frame position_log.sourced_frame
        protection_log.sourced_frame)
qed

lemma keeps_append_note:
  "payload version_key = None \<Longrightarrow> keeps repo_inv (append_event i k kind ty payload t)"
  unfolding append_event_def
  by (intro keeps_bindC keeps_returnC keeps_store) (simp add: repo_inv_note)

text \<open>A new event of one kind leaves the logs of the other kinds alone.\<close>

lemma sourced_other_event:
  "\<lbrakk>intent_log.sourced rows es; ve_aggregate_type e \<noteq> ''INTENT''\<rbrakk> \<Longrightarrow> intent_log.sourced rows (es @ [e])"
  "\<lbrakk>position_log.sourced rows2 es; ve_aggregate_type e \<noteq> ''POSITION''\<rbrakk> \<Longrightarrow> position_log.sourced rows2 (es @ [e])"
  "\<lbrakk>protection_log.sourced rows3 es; ve_aggregate_type e \<noteq> ''PROTECTION''\<rbrakk> \<Longrightarrow> protection_log.sourced rows3 (es @ [e])"
  by (auto simp: versioned_def intro: intent_log.sourced_frame position_log.sourced_frame
      protection_log.sourced_frame)

text \<open>What the key ``version'' and the two states of a transition event say.\<close>

lemma transition_payload_step:
  "allowed f t \<Longrightarrow> replay_step allowed (f, v) (transition_payload p f t (v + 1)) = Some (t, v + 1)"
  by (simp add: replay_step_def transition_payload_def with_keys_def version_key_def)

section \<open>Running a call to its leaves\<close>

text \<open>
  \<open>wp m Q d\<close>: when the call \<open>m\<close> runs on \<open>d\<close> and does not end in an integrity error, its result and
  the state it leaves satisfy \<open>Q\<close>.  The rules follow the control flow of an operation and collect
  the conditions of the branch, so that a proof about an operation only treats its ends.
\<close>

definition wp :: "(db, 'a) call \<Rightarrow> ('a res \<Rightarrow> db \<Rightarrow> bool) \<Rightarrow> db \<Rightarrow> bool" where
  "wp m Q d \<longleftrightarrow> (\<not> integrity_error (fst (m d)) \<longrightarrow> Q (fst (m d)) (snd (m d)))"

lemma keeps_wp: "(\<And>d. I d \<Longrightarrow> wp m (\<lambda>_. I) d) \<Longrightarrow> keeps I m"
  by (simp add: keeps_def wp_def)

lemma wpD: "\<lbrakk>wp m Q d; m d = (r, d'); \<not> integrity_error r\<rbrakk> \<Longrightarrow> Q r d'"
  by (simp add: wp_def)

lemma wp_readC: "wp (f d) Q d \<Longrightarrow> wp (readC f) Q d"
  by (simp add: wp_def)

lemma wp_guardC: "\<lbrakk>b \<Longrightarrow> Q (Inl e) d; \<not> b \<Longrightarrow> wp m Q d\<rbrakk> \<Longrightarrow> wp (guardC b e m) Q d"
  by (cases b) (simp_all add: wp_def)

lemma wp_someC: "\<lbrakk>x = None \<Longrightarrow> Q (Inl e) d; \<And>y. x = Some y \<Longrightarrow> wp (f y) Q d\<rbrakk> \<Longrightarrow> wp (someC x e f) Q d"
  by (cases x) (simp_all add: wp_def)

lemma wp_pure_bind:
  "\<lbrakk>\<And>e. r = Inl e \<Longrightarrow> Q (Inl e) d; \<And>x. r = Inr x \<Longrightarrow> wp (f x) Q d\<rbrakk> \<Longrightarrow> wp (bindC (pureC r) f) Q d"
  by (cases r) (simp_all add: wp_def)

lemma wp_modify_bind: "wp (f ()) Q (g d) \<Longrightarrow> wp (bindC (modifyC g) f) Q d"
  by (simp add: wp_def)

lemma wp_return: "Q (Inr x) d \<Longrightarrow> wp (returnC x) Q d"
  by (simp add: wp_def)

lemma wp_pure: "Q r d \<Longrightarrow> wp (pureC r) Q d"
  by (simp add: wp_def)

lemma wp_if: "\<lbrakk>b \<Longrightarrow> wp m Q d; \<not> b \<Longrightarrow> wp n Q d\<rbrakk> \<Longrightarrow> wp (if b then m else n) Q d"
  by simp

lemma wp_option:
  "\<lbrakk>x = None \<Longrightarrow> wp m Q d; \<And>y. x = Some y \<Longrightarrow> wp (f y) Q d\<rbrakk>
    \<Longrightarrow> wp (case x of None \<Rightarrow> m | Some y \<Rightarrow> f y) Q d"
  by (cases x) simp_all

lemma wp_store: "(constraints (g d) \<Longrightarrow> Q (Inr ()) (g d)) \<Longrightarrow> wp (store g) Q d"
  by (auto simp: wp_def store_def flush_def)

lemma wp_store_bind: "(constraints (g d) \<Longrightarrow> wp (f ()) Q (g d)) \<Longrightarrow> wp (bindC (store g) f) Q d"
  by (auto simp: wp_def store_def flush_def bindC_def)

lemma wp_flush: "(constraints d \<Longrightarrow> Q (Inr ()) d) \<Longrightarrow> wp flush Q d"
  by (auto simp: wp_def flush_def)

lemma wp_flush_bind: "(constraints d \<Longrightarrow> wp (f ()) Q d) \<Longrightarrow> wp (bindC flush f) Q d"
  by (auto simp: wp_def flush_def bindC_def)

lemma wp_bind:
  "wp m (\<lambda>r d1. case r of Inl e \<Rightarrow> Q (Inl e) d1 | Inr x \<Rightarrow> wp (f x) Q d1) d \<Longrightarrow> wp (bindC m f) Q d"
  by (cases "m d"; cases "fst (m d)") (auto simp: wp_def bindC_def integrity_error_iff)

text \<open>A change of a row with the event that records it.\<close>

lemma wp_recorded:
  assumes "\<And>e d'. \<lbrakk>d' = (g d)\<lparr>db_events := db_events (g d) @ [e]\<rparr>; constraints d'; ve_aggregate_type e = kind;
      ve_aggregate_id e = k; ve_event_payload e = p\<rbrakk> \<Longrightarrow> wp (f ()) Q d'"
  shows "wp (bindC (modifyC g) (\<lambda>_. bindC (append_event i k kind ty p t) (\<lambda>_. f ()))) Q d"
  unfolding append_event_def
  by (intro wp_modify_bind wp_bind wp_store_bind wp_return) (simp add: assms)

lemmas wp_intros = wp_readC wp_guardC wp_someC wp_pure_bind wp_if wp_option wp_return wp_pure wp_recorded wp_flush

lemma distinct_keys:
  "constraints d \<Longrightarrow> distinct (map vi_intent_id (db_intents d)) \<and> distinct (map vp_position_id (db_positions d))
     \<and> distinct (map vr_protection_id (db_protections d)) \<and> distinct (map vo_order_record_id (db_orders d))"
  by (simp add: constraints_def ledger_constraints_def unique_on_def)

text \<open>Changes of rows that the evidence parts of the invariant do not read.\<close>

lemma evidence_frame:
  assumes "fills_ok d \<and> positions_ok d \<and> caches_ok d"
    and "db_orders d' = db_orders d" "db_fills d' = db_fills d"
    and "\<And>p. p \<in> set (db_positions d') \<Longrightarrow> \<exists>q\<in>set (db_positions d).
      vp_order_record_id q = vp_order_record_id p \<and> vp_intent_id q = vp_intent_id p"
  shows "fills_ok d' \<and> positions_ok d' \<and> caches_ok d'"
proof -
  have "position_evidence d' p" if p: "p \<in> set (db_positions d')" for p
  proof -
    obtain q where q: "q \<in> set (db_positions d)" "vp_order_record_id q = vp_order_record_id p"
      "vp_intent_id q = vp_intent_id p" using assms(4) [OF p] by blast
    then have "position_evidence d q" using assms(1) by (simp add: positions_ok_def)
    then show ?thesis using q assms(2,3) by (simp add: position_evidence_def fills_of_def)
  qed
  then show ?thesis using assms(1-3) by (simp add: fills_ok_def positions_ok_def caches_ok_def fills_of_def)
qed

text \<open>One row and its event change; the rest of the ledger stays.\<close>

lemma repo_inv_intent_step:
  assumes inv: "repo_inv d" and row: "find_row vi_intent_id k (db_intents d) = Some row"
    and cons: "constraints (d\<lparr>db_intents := update_row vi_intent_id k f (db_intents d), db_events := db_events d @ [e]\<rparr>)"
    and f: "\<And>q. vi_intent_id (f q) = vi_intent_id q" "vi_version (f row) = vi_version row + 1"
    and ev: "ve_aggregate_type e = ''INTENT''" "ve_aggregate_id e = k"
    and step: "replay_step (shown_rel intent_value intent_step) (intent_value (vi_state row), vi_version row)
      (ve_event_payload e) = Some (intent_value (vi_state (f row)), vi_version row + 1)"
  shows "repo_inv (d\<lparr>db_intents := update_row vi_intent_id k f (db_intents d), db_events := db_events d @ [e]\<rparr>)"
    (is "repo_inv ?d")
proof -
  have keys: "distinct (map vi_intent_id (update_row vi_intent_id k f (db_intents d)))"
    using distinct_keys [OF cons] by simp
  have "intent_log.sourced (db_intents d) (db_events d)" using inv by (simp add: repo_inv_def logs_ok_def)
  from intent_log.sourced_step [OF this row keys f ev step] show ?thesis
    using inv ev evidence_frame [of d ?d]
    by (auto simp: repo_inv_def logs_ok_def intro: sourced_other_event)
qed

lemma repo_inv_position_step:
  assumes inv: "repo_inv d" and row: "find_row vp_position_id k (db_positions d) = Some row"
    and cons: "constraints (d\<lparr>db_positions := update_row vp_position_id k f (db_positions d), db_events := db_events d @ [e]\<rparr>)"
    and f: "\<And>q. vp_position_id (f q) = vp_position_id q" "vp_version (f row) = vp_version row + 1"
    and f': "\<And>q. vp_order_record_id (f q) = vp_order_record_id q \<and> vp_intent_id (f q) = vp_intent_id q"
    and ev: "ve_aggregate_type e = ''POSITION''" "ve_aggregate_id e = k"
    and step: "replay_step (shown_rel position_value position_step) (position_value (vp_state row), vp_version row)
      (ve_event_payload e) = Some (position_value (vp_state (f row)), vp_version row + 1)"
  shows "repo_inv (d\<lparr>db_positions := update_row vp_position_id k f (db_positions d), db_events := db_events d @ [e]\<rparr>)"
    (is "repo_inv ?d")
proof -
  have keys: "distinct (map vp_position_id (update_row vp_position_id k f (db_positions d)))"
    using distinct_keys [OF cons] by simp
  have "position_log.sourced (db_positions d) (db_events d)" using inv by (simp add: repo_inv_def logs_ok_def)
  note src = position_log.sourced_step [OF this row keys f ev step]
  have "fills_ok ?d \<and> positions_ok ?d \<and> caches_ok ?d"
  proof (rule evidence_frame)
    fix p assume "p \<in> set (db_positions ?d)"
    then obtain q where "q \<in> set (db_positions d)" "p = (if vp_position_id q = k then f q else q)"
      by (auto simp: set_update_row split: if_splits)
    then show "\<exists>q\<in>set (db_positions d). vp_order_record_id q = vp_order_record_id p \<and> vp_intent_id q = vp_intent_id p"
      using f' by (intro bexI [of _ q]) auto
  qed (use inv in \<open>auto simp: repo_inv_def\<close>)
  with src show ?thesis
    using inv ev by (auto simp: repo_inv_def logs_ok_def intro: sourced_other_event)
qed

lemma repo_inv_protection_step:
  assumes inv: "repo_inv d" and row: "find_row vr_protection_id k (db_protections d) = Some row"
    and cons: "constraints (d\<lparr>db_protections := update_row vr_protection_id k f (db_protections d), db_events := db_events d @ [e]\<rparr>)"
    and f: "\<And>q. vr_protection_id (f q) = vr_protection_id q" "vr_version (f row) = vr_version row + 1"
    and ev: "ve_aggregate_type e = ''PROTECTION''" "ve_aggregate_id e = k"
    and step: "replay_step (shown_rel protection_value protection_step) (protection_value (vr_state row), vr_version row)
      (ve_event_payload e) = Some (protection_value (vr_state (f row)), vr_version row + 1)"
  shows "repo_inv (d\<lparr>db_protections := update_row vr_protection_id k f (db_protections d), db_events := db_events d @ [e]\<rparr>)"
    (is "repo_inv ?d")
proof -
  have keys: "distinct (map vr_protection_id (update_row vr_protection_id k f (db_protections d)))"
    using distinct_keys [OF cons] by simp
  have "protection_log.sourced (db_protections d) (db_events d)" using inv by (simp add: repo_inv_def logs_ok_def)
  from protection_log.sourced_step [OF this row keys f ev step] show ?thesis
    using inv ev evidence_frame [of d ?d]
    by (auto simp: repo_inv_def logs_ok_def intro: sourced_other_event)
qed

section \<open>Transitions keep the invariant\<close>

lemma keeps_transition_intent: "keeps repo_inv (transition_intent i now k cur nxt ty p at1)"
  unfolding transition_intent_def Let_def
  by (rule keeps_wp, intro wp_intros; (simp; fail)?)
    (clarsimp, rule repo_inv_intent_step; simp?; rule transition_payload_step; simp add: intent_step_def)

lemma keeps_transition_position: "keeps repo_inv (transition_position i now k cur nxt ty p at1)"
  unfolding transition_position_def Let_def
  by (rule keeps_wp, intro wp_intros; (simp; fail)?)
    (clarsimp, rule repo_inv_position_step; simp?; rule transition_payload_step; simp add: position_step_def)

lemma keeps_transition_protection: "keeps repo_inv (transition_protection i now k cur nxt ty p at1)"
  unfolding transition_protection_def Let_def
  by (rule keeps_wp, intro wp_intros; (simp; fail)?)
    (clarsimp, rule repo_inv_protection_step; simp?; rule transition_payload_step; simp add: protection_step_def)

section \<open>Corrections keep the invariant\<close>

lemma recorded_step:
  assumes "allowed f t" "p version_key = Some (PInt (v + 1))" "p ''from_state'' = Some (PStr f)"
    "p ''to_state'' = Some (PStr t)"
  shows "replay_step allowed (f, v) p = Some (t, v + 1)"
  using assms by (simp add: replay_step_def)

lemma fill_correction_step:
  "s \<in> {V2IntentState.EXCHANGE_ACKNOWLEDGED, V2IntentState.CANCELLED, V2IntentState.EXPIRED}
    \<Longrightarrow> shown_rel intent_value intent_step (intent_value s) ''FILLED''"
  using intent_log.allowed_shown [of s V2IntentState.FILLED]
  by (auto simp: intent_step_def intent_lc.validate_ok_iff)

lemma quarantine_closing_step: "shown_rel position_value position_step ''QUARANTINED'' ''CLOSED''"
  using position_log.allowed_shown [of V2PositionState.QUARANTINED V2PositionState.CLOSED]
  by (simp add: position_step_def validate_historical_attribution_transition_def)

lemma keeps_reconcile_intent: "keeps repo_inv (reconcile_intent_from_confirmed_fill i now k)"
  unfolding reconcile_intent_from_confirmed_fill_def Let_def
  by (rule keeps_wp, intro wp_intros; (simp; fail)?)
    (clarsimp, rule repo_inv_intent_step; simp?; rule recorded_step;
      simp add: fill_correction_step version_key_def)

lemma keeps_repair_quarantined:
  "keeps repo_inv (repair_quarantined_position_from_confirmed_exit i k w t p)"
  unfolding repair_quarantined_position_from_confirmed_exit_def Let_def
  by (rule keeps_wp, intro wp_intros; (simp; fail)?)
    (clarsimp, rule repo_inv_position_step; simp?; rule recorded_step;
      simp add: quarantine_closing_step version_key_def with_keys_def)

lemma keeps_finalize_quarantined: "keeps repo_inv (finalize_quarantined_historical_attribution i z)"
  unfolding finalize_quarantined_historical_attribution_def Let_def
  by (rule keeps_wp, intro wp_intros wp_store; (simp; fail)?)
    (clarsimp,
      rule repo_inv_position_step; simp?; rule recorded_step;
      simp add: quarantine_closing_step version_key_def with_keys_def)

lemma keeps_update_protection_stop: "keeps repo_inv (update_protection_stop i now k q c x at1)"
  unfolding update_protection_stop_def Let_def
  by (rule keeps_wp, intro wp_intros; (simp; fail)?)
    (clarsimp, rule repo_inv_protection_step; simp add: replay_step_def version_key_def)

section \<open>New rows keep the invariant\<close>

lemma keeps_create_intent: "keeps repo_inv (create_intent row)"
  unfolding create_intent_def
proof (intro keeps_guardC keeps_store)
  fix d assume inv: "repo_inv d"
    and c: "constraints (d\<lparr>db_intents := db_intents d @ [row\<lparr>vi_version := 0\<rparr>]\<rparr>)" (is "constraints ?d")
  have "intent_log.sourced (db_intents d @ [row\<lparr>vi_version := 0\<rparr>]) (db_events d)"
    using inv distinct_keys [OF c] by (intro intent_log.sourced_insert) (simp_all add: repo_inv_def logs_ok_def)
  then show "repo_inv ?d" using inv evidence_frame [of d ?d] by (auto simp: repo_inv_def logs_ok_def)
qed

lemma keeps_save_protection: "keeps repo_inv (save_protection row)"
  unfolding save_protection_def
proof (intro keeps_guardC keeps_store)
  fix d :: db
  let ?row = "row\<lparr>vr_original_stop_loss_price := Some (case vr_original_stop_loss_price row of
              Some q \<Rightarrow> q | None \<Rightarrow> vr_stop_loss_price row), vr_version := 0, vr_activated_at := None\<rparr>"
  let ?d = "d\<lparr>db_protections := db_protections d @ [?row]\<rparr>"
  assume inv: "repo_inv d" and c: "constraints ?d" and "\<not> vr_state row \<noteq> V2ProtectionState.PROTECTION_INTENT"
  then have "protection_log.sourced (db_protections d @ [?row]) (db_events d)"
    using distinct_keys [OF c] by (intro protection_log.sourced_insert) (simp_all add: repo_inv_def logs_ok_def)
  then show "repo_inv ?d" using inv evidence_frame [of d ?d] by (auto simp: repo_inv_def logs_ok_def)
qed

text \<open>Changes of orders and fills: what the evidence parts need to know of them.\<close>

lemma keeps_save_order_submission: "keeps repo_inv (save_order_submission k i c q l t)"
  unfolding save_order_submission_def
proof (intro keeps_bindC keeps_returnC keeps_store)
  fix d :: db
  let ?w = "\<lparr>vo_order_record_id = k, vo_intent_id = i, vo_client_order_id = c,
         vo_exchange_order_id = None, vo_quantity = q, vo_leverage = l,
         vo_submitted_at = Some t, vo_acknowledged_at = None, vo_filled_quantity = None,
         vo_average_fill_price = None, vo_total_fee = None, vo_fill_timestamp = None, vo_trade_ids = []\<rparr>"
  let ?d = "d\<lparr>db_orders := db_orders d @ [?w]\<rparr>"
  assume inv: "repo_inv d" and cons: "constraints ?d"
  have "k \<notin> vo_order_record_id ` set (db_orders d)" using distinct_keys [OF cons] by simp
  then have "\<forall>f\<in>set (db_fills d). vf_exchange_order_record_id f \<noteq> k"
    using inv by (auto simp: repo_inv_def fills_ok_def) (metis imageI)
  then have "fills_of d k = []" by (auto simp: fills_of_def filter_empty_conv)
  with inv show "repo_inv ?d"
    by (auto simp: repo_inv_def logs_ok_def fills_ok_def positions_ok_def position_evidence_def caches_ok_def fills_of_def)
qed

text \<open>An assignment to orders that keeps what the fill rows fix.\<close>

lemma repo_inv_orders:
  assumes inv: "repo_inv d"
    and ids: "\<And>w. vo_order_record_id (f w) = vo_order_record_id w \<and> vo_intent_id (f w) = vo_intent_id w"
    and cached: "\<And>w. vo_filled_quantity (f w) = vo_filled_quantity w \<and> vo_average_fill_price (f w) = vo_average_fill_price w
      \<and> vo_total_fee (f w) = vo_total_fee w \<and> vo_fill_timestamp (f w) = vo_fill_timestamp w \<and> vo_trade_ids (f w) = vo_trade_ids w"
    and known: "\<And>w. has_text (vo_exchange_order_id w) \<Longrightarrow> has_text (vo_exchange_order_id (f w))"
  shows "repo_inv (d\<lparr>db_orders := update_row vo_order_record_id k f (db_orders d)\<rparr>)"
proof -
  define g where "g w = (if vo_order_record_id w = k then f w else w)" for w
  let ?d = "d\<lparr>db_orders := update_row vo_order_record_id k f (db_orders d)\<rparr>"
  have orders: "set (db_orders ?d) = g ` set (db_orders d)" by (simp add: set_update_row g_def [abs_def])
  have g: "vo_order_record_id (g w) = vo_order_record_id w" "vo_intent_id (g w) = vo_intent_id w"
    "has_text (vo_exchange_order_id w) \<Longrightarrow> has_text (vo_exchange_order_id (g w))"
    "cache_of (g w) fs \<longleftrightarrow> cache_of w fs" for w fs
    using ids [of w] known [of w] cached [of w] by (auto simp: g_def cache_of_def)
  have fo: "fills_of ?d k' = fills_of d k'" for k' by (simp add: fills_of_def)
  have same: "db_fills ?d = db_fills d" "db_positions ?d = db_positions d" by simp_all
  have moved: "\<exists>w'\<in>g ` S. P w'" if "w \<in> S" "P (g w)" for w S P using that by blast
  have "fills_ok ?d"
    unfolding fills_ok_def orders same
  proof
    fix x assume "x \<in> set (db_fills d)"
    then obtain w where "w \<in> set (db_orders d)"
      "vo_order_record_id w = vf_exchange_order_record_id x \<and> vo_intent_id w = vf_intent_id x"
      using inv unfolding repo_inv_def fills_ok_def by blast
    then show "\<exists>w\<in>g ` set (db_orders d). vo_order_record_id w = vf_exchange_order_record_id x \<and> vo_intent_id w = vf_intent_id x"
      by (intro moved [of w]) (simp_all add: g)
  qed
  moreover have "positions_ok ?d"
    unfolding positions_ok_def position_evidence_def orders same fo
  proof
    fix p assume "p \<in> set (db_positions d)"
    then obtain w where w: "w \<in> set (db_orders d)" "vo_order_record_id w = vp_order_record_id p"
      "vo_intent_id w = vp_intent_id p" "has_text (vo_exchange_order_id w)"
      and fs: "fills_of d (vp_order_record_id p) \<noteq> []"
      using inv unfolding repo_inv_def positions_ok_def position_evidence_def by blast
    from w have "\<exists>w\<in>g ` set (db_orders d). vo_order_record_id w = vp_order_record_id p
        \<and> vo_intent_id w = vp_intent_id p \<and> has_text (vo_exchange_order_id w)"
      by (intro moved [of w]) (simp_all add: g)
    with fs show "(\<exists>w\<in>g ` set (db_orders d). vo_order_record_id w = vp_order_record_id p
        \<and> vo_intent_id w = vp_intent_id p \<and> has_text (vo_exchange_order_id w)) \<and> fills_of d (vp_order_record_id p) \<noteq> []"
      by blast
  qed
  moreover have "caches_ok ?d"
    using inv unfolding repo_inv_def caches_ok_def orders fo by (simp add: g)
  ultimately show ?thesis using inv by (simp add: repo_inv_def logs_ok_def)
qed

lemma keeps_save_exchange_order_receipt: "keeps repo_inv (save_exchange_order_receipt k x t)"
  unfolding save_exchange_order_receipt_def
  by (intro keeps_readC keeps_someC keeps_guardC keeps_store repo_inv_orders) (auto simp: has_text_def)

section \<open>A new fill keeps the invariant\<close>

lemma update_row_twice:
  "(\<And>r. key (f r) = key r) \<Longrightarrow> update_row key k g (update_row key k f rows) = update_row key k (\<lambda>r. g (f r)) rows"
  by (auto simp: update_row_def)

lemma find_row_update:
  "(\<And>r. key (f r) = key r) \<Longrightarrow> find_row key k (update_row key k f rows) = map_option f (find_row key k rows)"
  by (induction rows) auto

lemma with_aggregate_ids [simp]:
  "vo_order_record_id (with_aggregate agg w) = vo_order_record_id w"
  "vo_intent_id (with_aggregate agg w) = vo_intent_id w"
  "has_text (vo_exchange_order_id w) \<Longrightarrow> vo_exchange_order_id (with_aggregate agg w) = vo_exchange_order_id w"
  by (simp_all add: with_aggregate_def)

lemma cache_of_with_aggregate: "aggregate_rows fills = Inr agg \<Longrightarrow> cache_of (with_aggregate agg w) fills"
  by (simp add: cache_of_def with_aggregate_def)

lemma repo_inv_new_fill:
  assumes inv: "repo_inv d" and row: "find_row vo_order_record_id k (db_orders d) = Some w0"
    and intent: "vo_intent_id w0 = vf_intent_id x" and k: "vf_exchange_order_record_id x = k"
    and keys: "distinct (map vo_order_record_id (db_orders d))"
    and agg: "aggregate_rows (fills_of d k @ [x]) = Inr agg"
    and h: "\<And>w. vo_order_record_id (h w) = vo_order_record_id w \<and> vo_intent_id (h w) = vo_intent_id w"
    and kept: "has_text (vo_exchange_order_id w0) \<Longrightarrow> h w0 = w0"
  shows "repo_inv (d\<lparr>db_orders := update_row vo_order_record_id k (\<lambda>w. with_aggregate agg (h w)) (db_orders d),
    db_fills := db_fills d @ [x]\<rparr>)" (is "repo_inv ?d")
proof -
  define g where "g w = (if vo_order_record_id w = k then with_aggregate agg (h w) else w)" for w
  have orders: "set (db_orders ?d) = g ` set (db_orders d)" by (simp add: set_update_row g_def [abs_def])
  have g: "vo_order_record_id (g w) = vo_order_record_id w" "vo_intent_id (g w) = vo_intent_id w" for w
    using h [of w] by (auto simp: g_def)
  have w0: "w0 \<in> set (db_orders d)" "vo_order_record_id w0 = k" using find_row_Some [OF row] by auto
  have uniq: "w = w0" if "w \<in> set (db_orders d)" "vo_order_record_id w = k" for w
    using find_row_unique [OF keys that(1)] that(2) row by simp
  have ack: "has_text (vo_exchange_order_id (g w))" if "w \<in> set (db_orders d)" "has_text (vo_exchange_order_id w)" for w
    using that uniq [OF that(1)] kept by (auto simp: g_def)
  have fo: "fills_of ?d k' = fills_of d k' @ (if k' = k then [x] else [])" for k'
    using k by (auto simp: fills_of_def)
  have moved: "\<exists>w'\<in>g ` S. P w'" if "w \<in> S" "P (g w)" for w S P using that by blast
  have "\<exists>w\<in>g ` set (db_orders d). vo_order_record_id w = vf_exchange_order_record_id y \<and> vo_intent_id w = vf_intent_id y"
    if y: "y \<in> set (db_fills ?d)" for y
  proof -
    have "\<exists>w\<in>set (db_orders d). vo_order_record_id w = vf_exchange_order_record_id y \<and> vo_intent_id w = vf_intent_id y"
    proof (cases "y = x")
      case True
      then show ?thesis using w0 intent k by (intro bexI [of _ w0]) simp_all
    next
      case False
      then have "y \<in> set (db_fills d)" using y by simp
      then show ?thesis using inv unfolding repo_inv_def fills_ok_def by blast
    qed
    then obtain w where "w \<in> set (db_orders d)"
      "vo_order_record_id w = vf_exchange_order_record_id y \<and> vo_intent_id w = vf_intent_id y" by (elim bexE)
    then show ?thesis by (intro moved [of w]) (simp_all add: g)
  qed
  then have "fills_ok ?d" unfolding fills_ok_def orders by blast
  moreover have "position_evidence ?d p" if p: "p \<in> set (db_positions d)" for p
  proof -
    obtain w where w: "w \<in> set (db_orders d)" "vo_order_record_id w = vp_order_record_id p"
      "vo_intent_id w = vp_intent_id p" "has_text (vo_exchange_order_id w)"
      and fs: "fills_of d (vp_order_record_id p) \<noteq> []"
      using inv p unfolding repo_inv_def positions_ok_def position_evidence_def by blast
    have "\<exists>w\<in>g ` set (db_orders d). vo_order_record_id w = vp_order_record_id p
        \<and> vo_intent_id w = vp_intent_id p \<and> has_text (vo_exchange_order_id w)"
      using w ack by (intro moved [of w]) (simp_all add: g)
    with fs show ?thesis unfolding position_evidence_def orders fo by simp
  qed
  then have "positions_ok ?d" by (simp add: positions_ok_def)
  moreover have "cache_of (g w) (fills_of ?d (vo_order_record_id (g w)))"
    if w: "w \<in> set (db_orders d)" "fills_of ?d (vo_order_record_id (g w)) \<noteq> []" for w
  proof (cases "vo_order_record_id w = k")
    case True
    with agg show ?thesis unfolding fo g by (simp add: g_def cache_of_with_aggregate)
  next
    case False
    with w inv show ?thesis unfolding fo g by (simp add: g_def repo_inv_def caches_ok_def)
  qed
  then have "caches_ok ?d" unfolding caches_ok_def orders by (simp only: ball_simps) simp
  ultimately show ?thesis using inv by (simp add: repo_inv_def logs_ok_def)
qed

lemma aggregate_rows_some: "fills \<noteq> [] \<Longrightarrow> \<exists>agg. aggregate_rows fills = Inr agg"
  by (simp add: aggregate_rows_def Let_def)

text \<open>After the row is stored, the refresh finds the order and at least the new fill.\<close>

lemma wp_refresh:
  assumes "find_row vo_order_record_id k (db_orders d) \<noteq> None" "aggregate_rows (fills_of d k) = Inr agg"
    and "wp (f ()) Q (d\<lparr>db_orders := update_row vo_order_record_id k (with_aggregate agg) (db_orders d)\<rparr>)"
  shows "wp (bindC (refresh_order_aggregate_from_fills k) f) Q d"
proof -
  have "fills_of d k \<noteq> []" using assms(2) by (auto simp: aggregate_rows_def)
  with assms show ?thesis
    by (auto simp: wp_def bindC_def refresh_order_aggregate_from_fills_def modifyC_def)
qed

lemma keeps_save_exchange_fill_receipt: "keeps repo_inv (save_exchange_fill_receipt x)"
  unfolding save_exchange_fill_receipt_def Let_def
proof (rule keeps_wp, intro wp_readC wp_someC wp_guardC wp_modify_bind wp_store_bind; (simp; fail)?)
  fix d :: db and w0 :: V2ExchangeOrder
  let ?k = "vf_exchange_order_record_id x"
  define h where "h w = (if has_text (vo_exchange_order_id w0) then w
    else w\<lparr>vo_exchange_order_id := Some (vf_exchange_order_id x)\<rparr>)" for w :: V2ExchangeOrder
  let ?d1 = "if has_text (vo_exchange_order_id w0) then d
    else d\<lparr>db_orders := update_row vo_order_record_id ?k
      (\<lambda>w. w\<lparr>vo_exchange_order_id := Some (vf_exchange_order_id x)\<rparr>) (db_orders d)\<rparr>"
  let ?d2 = "?d1\<lparr>db_fills := db_fills ?d1 @ [x]\<rparr>"
  assume inv: "repo_inv d" and row: "find_row vo_order_record_id ?k (db_orders d) = Some w0"
    and intent: "\<not> vo_intent_id w0 \<noteq> vf_intent_id x" and cons: "constraints ?d2"
  have d1: "?d1 = d\<lparr>db_orders := update_row vo_order_record_id ?k h (db_orders d)\<rparr>"
  proof (cases "has_text (vo_exchange_order_id w0)")
    case True
    then have "h w = w" for w by (simp add: h_def)
    then have "update_row vo_order_record_id ?k h (db_orders d) = db_orders d"
      by (auto simp: update_row_def intro: map_idI)
    with True show ?thesis by simp
  qed (simp add: h_def [abs_def])
  have keys: "distinct (map vo_order_record_id (db_orders d))"
    using distinct_keys [OF cons] unfolding d1 by (simp add: map_update_row h_def)
  have fills: "fills_of ?d2 ?k = fills_of d ?k @ [x]" unfolding d1 by (simp add: fills_of_def)
  obtain agg where agg: "aggregate_rows (fills_of d ?k @ [x]) = Inr agg" using aggregate_rows_some by blast
  have found: "find_row vo_order_record_id ?k (db_orders ?d2) \<noteq> None"
    unfolding d1 using row by (simp add: find_row_update h_def)
  have final: "?d2\<lparr>db_orders := update_row vo_order_record_id ?k (with_aggregate agg) (db_orders ?d2)\<rparr>
    = d\<lparr>db_orders := update_row vo_order_record_id ?k (\<lambda>w. with_aggregate agg (h w)) (db_orders d),
        db_fills := db_fills d @ [x]\<rparr>"
    unfolding d1 by (simp add: update_row_twice h_def)
  have "repo_inv (?d2\<lparr>db_orders := update_row vo_order_record_id ?k (with_aggregate agg) (db_orders ?d2)\<rparr>)"
    unfolding final using inv row intent keys agg
    by (intro repo_inv_new_fill) (auto simp: h_def)
  with found agg show "wp (bindC (refresh_order_aggregate_from_fills ?k)
      (\<lambda>_. bindC flush (\<lambda>_. returnC (vf_fill_id x)))) (\<lambda>_. repo_inv) ?d2"
    by (intro wp_refresh [where agg = agg] wp_flush_bind wp_return) (simp_all only: fills simp_thms)
qed

lemma keeps_save_order_level_fill_recovery: "keeps repo_inv (save_order_level_fill_recovery x)"
  unfolding save_order_level_fill_recovery_def
  by (intro keeps_intros keeps_save_exchange_fill_receipt)

lemma keeps_save_trades: "keeps repo_inv (save_trades trades per_qty whole allocated x)"
proof (induction trades per_qty whole allocated x rule: save_trades.induct)
  case (1 per_qty whole allocated x)
  show ?case unfolding save_trades.simps by (rule keeps_returnC)
next
  case (2 i t rest per_qty whole allocated x)
  then show ?case unfolding save_trades.simps Let_def
    by (intro keeps_bindC keeps_save_exchange_fill_receipt) simp
qed

lemma keeps_save_fill_receipt: "keeps repo_inv (save_fill_receipt new_id k receipt a sy si ro)"
  unfolding save_fill_receipt_def Let_def
proof (intro keeps_bind_pure keeps_readC keeps_someC keeps_guardC keeps_bindC keeps_modifyC keeps_save_trades)
  fix u and d :: db assume "assert_fill_receipt_valid receipt = Inr u" and inv: "repo_inv d"
  then have "fr_exchange_order_id receipt \<noteq> []" by (auto simp: assert_fill_receipt_valid_def guardR_def split: if_splits)
  with inv show "repo_inv (d\<lparr>db_orders := update_row vo_order_record_id k
      (\<lambda>w. w\<lparr>vo_exchange_order_id := Some (fr_exchange_order_id receipt)\<rparr>) (db_orders d)\<rparr>)"
    by (intro repo_inv_orders) (simp_all add: has_text_def)
qed

section \<open>Projections keep the invariant\<close>

lemma positions_insert:
  assumes inv: "repo_inv d" and cons: "constraints (d\<lparr>db_positions := db_positions d @ [p]\<rparr>)"
    and p: "vp_state p = V2PositionState.POSITION_PROJECTED" "vp_version p = 0" "position_evidence d p"
  shows "repo_inv (d\<lparr>db_positions := db_positions d @ [p]\<rparr>)" (is "repo_inv ?d")
proof -
  have "position_log.sourced (db_positions d @ [p]) (db_events d)"
    using inv distinct_keys [OF cons] p by (intro position_log.sourced_insert) (simp_all add: repo_inv_def logs_ok_def)
  moreover have "position_evidence ?d q = position_evidence d q" for q
    by (simp add: position_evidence_def fills_of_def)
  ultimately show ?thesis using inv p
    by (simp add: repo_inv_def logs_ok_def positions_ok_def fills_ok_def caches_ok_def fills_of_def)
qed

text \<open>An assignment to a position that keeps its identity, state and version.\<close>

lemma positions_frame:
  assumes inv: "repo_inv d" and keys: "distinct (map vp_position_id (db_positions d))"
    and row: "find_row vp_position_id k (db_positions d) = Some p"
    and f: "vp_position_id (f p) = k" "vp_state (f p) = vp_state p" "vp_version (f p) = vp_version p"
      "vp_order_record_id (f p) = vp_order_record_id p" "vp_intent_id (f p) = vp_intent_id p"
  shows "repo_inv (d\<lparr>db_positions := update_row vp_position_id k f (db_positions d)\<rparr>)" (is "repo_inv ?d")
proof -
  let ?img = "\<lambda>q. (vp_position_id q, vp_state q, vp_version q)"
  let ?ref = "\<lambda>q. (vp_order_record_id q, vp_intent_id q)"
  have uniq: "q = p" if "q \<in> set (db_positions d)" "vp_position_id q = k" for q
    using find_row_unique [OF keys that(1)] that(2) row by simp
  have same: "?img (if vp_position_id q = k then f q else q) = ?img q"
    "?ref (if vp_position_id q = k then f q else q) = ?ref q" if "q \<in> set (db_positions d)" for q
  proof (atomize (full), cases "vp_position_id q = k")
    case True
    then have "q = p" using uniq that by blast
    with True f show "?img (if vp_position_id q = k then f q else q) = ?img q
      \<and> ?ref (if vp_position_id q = k then f q else q) = ?ref q" by simp
  qed simp
  have "db_positions ?d = map (\<lambda>q. if vp_position_id q = k then f q else q) (db_positions d)"
    by (simp add: update_row_def)
  then have "map ?img (db_positions ?d) = map (\<lambda>q. ?img (if vp_position_id q = k then f q else q)) (db_positions d)"
    by (simp only: map_map o_def)
  also have "\<dots> = map ?img (db_positions d)" by (rule map_cong [OF refl same(1)])
  finally have img: "map ?img (db_positions ?d) = map ?img (db_positions d)" .
  have "position_log.sourced (db_positions d) (db_events d)" using inv by (simp add: repo_inv_def logs_ok_def)
  then have "position_log.sourced (db_positions ?d) (db_events ?d)"
    by (rule position_log.sourced_frame [OF _ img]) simp
  moreover have "fills_ok ?d \<and> positions_ok ?d \<and> caches_ok ?d"
  proof (rule evidence_frame)
    fix q assume "q \<in> set (db_positions ?d)"
    then have "q \<in> set (update_row vp_position_id k f (db_positions d))" by simp
    then obtain q' where q': "q' \<in> set (db_positions d)" "q = (if vp_position_id q' = k then f q' else q')"
      unfolding set_update_row by (rule imageE)
    have "?ref q = ?ref q'" unfolding q'(2) by (rule same(2) [OF q'(1)])
    then show "\<exists>q'\<in>set (db_positions d). vp_order_record_id q' = vp_order_record_id q \<and> vp_intent_id q' = vp_intent_id q"
      using q'(1) by (intro bexI [of _ q']) simp_all
  qed (use inv in \<open>simp_all add: repo_inv_def\<close>)
  ultimately show ?thesis using inv by (simp add: repo_inv_def logs_ok_def)
qed

lemma keeps_project_from_fills: "keeps repo_inv (project_position_from_confirmed_fills k i w sy di m t a)"
  unfolding project_position_from_confirmed_fills_def Let_def
proof (rule keeps_wp, intro wp_readC wp_someC wp_guardC wp_pure_bind wp_option wp_if wp_store; (simp; fail)?)
  fix d :: db and order agg p
  assume inv: "repo_inv d" and order: "find_row vo_order_record_id w (db_orders d) = Some order"
    "\<not> vo_intent_id order \<noteq> i" "\<not> \<not> has_text (vo_exchange_order_id order)"
    and agg: "aggregate_rows (fills_of d w) = Inr agg"
  then have ev: "position_evidence d \<lparr>vp_position_id = k, vp_intent_id = i, vp_order_record_id = w, vp_symbol = sy,
     vp_direction = di, vp_execution_mode = m, vp_quantity = fa_filled_quantity agg,
     vp_entry_price = fa_average_fill_price agg, vp_entry_fee = fa_total_fee agg,
     vp_state = V2PositionState.POSITION_PROJECTED, vp_version = 0, vp_projected_at = t,
     vp_protected_at = None, vp_closed_at = None, vp_realized_pnl = None\<rparr>" (is "position_evidence d ?p")
    using find_row_Some [OF order(1)] by (auto simp: position_evidence_def aggregate_rows_def)
  { assume "constraints (d\<lparr>db_positions := db_positions d @ [?p]\<rparr>)"
    with inv ev show "repo_inv (d\<lparr>db_positions := db_positions d @ [?p]\<rparr>)"
      by (intro positions_insert) simp_all
    then show "repo_inv (d\<lparr>db_positions := db_positions d @ [?p]\<rparr>)" . }
  fix merged
  assume p: "open_position sy di m d = Some p" and merged: "absorb_fills agg t p = Inr merged"
    and cons: "constraints (d\<lparr>db_positions := update_row vp_position_id (vp_position_id p) (\<lambda>_. merged) (db_positions d)\<rparr>)"
  have keep: "vp_position_id merged = vp_position_id p" "vp_state merged = vp_state p" "vp_version merged = vp_version p"
    "vp_order_record_id merged = vp_order_record_id p" "vp_intent_id merged = vp_intent_id p"
    using merged by (auto simp: absorb_fills_def Let_def res_simps)
  have keys: "distinct (map vp_position_id (db_positions d))"
    using distinct_keys [OF cons] keep by (simp add: update_row_def if_distrib cong: if_cong map_cong)
  have "p \<in> set (db_positions d)" using p by (auto simp: open_position_def find_Some_iff)
  with keys have "find_row vp_position_id (vp_position_id p) (db_positions d) = Some p" by (rule find_row_unique)
  with inv keys keep show "repo_inv (d\<lparr>db_positions := update_row vp_position_id (vp_position_id p) (\<lambda>_. merged) (db_positions d)\<rparr>)"
    by (intro positions_frame) simp_all
qed

lemma keeps_reconcile_quantity:
  "keeps repo_inv (reconcile_position_quantity_from_authoritative_snapshot i k q t)"
  unfolding reconcile_position_quantity_from_authoritative_snapshot_def
proof (rule keeps_wp, intro wp_intros; (simp; fail)?)
  fix d :: db and row :: V2ManagedPosition and d' :: db and e
  let ?f = "\<lambda>p. p\<lparr>vp_quantity := q, vp_projected_at := t\<rparr>"
  let ?g = "d\<lparr>db_positions := update_row vp_position_id k ?f (db_positions d)\<rparr>"
  assume inv: "repo_inv d" and row: "find_row vp_position_id k (db_positions d) = Some row"
    and d': "d' = ?g\<lparr>db_events := db_events ?g @ [e]\<rparr>" "constraints d'"
    and e: "ve_event_payload e = [''from_quantity'' \<mapsto> PDec (vp_quantity row), ''to_quantity'' \<mapsto> PDec q,
        ''source'' \<mapsto> PStr ''binance_authoritative_snapshot'']"
  have "distinct (map vp_position_id (db_positions d))"
    using distinct_keys [OF d'(2)] unfolding d'(1) by (simp add: map_update_row)
  then have "repo_inv ?g" using inv row find_row_Some [OF row] by (intro positions_frame) auto
  then show "repo_inv d'" unfolding d'(1) by (rule repo_inv_note) (simp add: e version_key_def)
qed

lemma keeps_project_position: "keeps repo_inv (project_position new_id now k i w sy di m receipt st t)"
  unfolding project_position_def
  by (intro keeps_bind_pure keeps_readC keeps_someC keeps_guardC keeps_bindC keeps_if keeps_project_from_fills
      keeps_transition_position keeps_returnC)

lemma keeps_update_protection_active: "keeps repo_inv (update_protection_active new_id now k receipt st t)"
  unfolding update_protection_active_def Let_def
proof (rule keeps_readC, rule keeps_someC, rule keeps_bind_pure, rule keeps_bindC)
  let ?f = "\<lambda>r. r\<lparr>vr_stop_exchange_order_id := Some (pr_stop_exchange_order_id receipt),
            vr_tp_exchange_order_id := pr_tp_exchange_order_id receipt\<rparr>"
  show "keeps repo_inv (store (\<lambda>d. d\<lparr>db_protections := update_row vr_protection_id k ?f (db_protections d)\<rparr>))"
  proof (rule keeps_store)
    fix d :: db assume inv: "repo_inv d"
    let ?d = "d\<lparr>db_protections := update_row vr_protection_id k ?f (db_protections d)\<rparr>"
    have "protection_log.sourced (db_protections d) (db_events d)" using inv by (simp add: repo_inv_def logs_ok_def)
    then have "protection_log.sourced (db_protections ?d) (db_events ?d)"
      by (rule protection_log.sourced_frame) simp_all
    then show "repo_inv ?d" using inv evidence_frame [of d ?d] by (auto simp: repo_inv_def logs_ok_def)
  qed
qed (intro keeps_bindC keeps_if keeps_transition_protection keeps_returnC)

section \<open>Reachable sessions\<close>

text \<open>
  The calls a client of the repository can make.  \<open>append_event\<close> is public; outside the repository
  it is called with notes only (\<open>fact_persistence.py\<close>, line 377), events without a version.
\<close>

definition unit_call :: "(db, 'a) call \<Rightarrow> (db, unit) call" where
  "unit_call m = bindC m (\<lambda>_. returnC ())"

inductive repository_call :: "(db, unit) call \<Rightarrow> bool" where
  "repository_call (create_cycle a1 a2 a3 a4 a5 a6)"
| "repository_call (complete_cycle a1 a2 a3)"
| "repository_call (create_decision a1 a2 a3 a4 a5)"
| "repository_call (unit_call (append_forward_snapshot row1))"
| "repository_call (unit_call (append_shadow_records a1 a2 a3))"
| "repository_call (unit_call (append_shadow_outcome a1 a2 a3 a4))"
| "repository_call (create_intent intent_row)"
| "repository_call (transition_intent a1 a2 a3 a4 a5 a6 a7 a8)"
| "repository_call (reconcile_intent_from_confirmed_fill a1 a2 a3)"
| "repository_call (unit_call (save_order_submission a1 a2 a3 a4 a5 a6))"
| "repository_call (save_exchange_order_receipt a1 a2 a3)"
| "repository_call (unit_call (save_exchange_fill_receipt fill))"
| "repository_call (unit_call (save_order_level_fill_recovery fill))"
| "repository_call (save_fill_receipt a1 a2 a3 a4 a5 a6 a7)"
| "repository_call (project_position_from_confirmed_fills a1 a2 a3 a4 a5 a6 a7 a8)"
| "repository_call (project_position a1 a2 a3 a4 a5 a6 a7 a8 a9 a10 a11)"
| "repository_call (reconcile_position_quantity_from_authoritative_snapshot a1 a2 a3 a4)"
| "repository_call (transition_position a1 a2 a3 b4 b5 a6 a7 a8)"
| "repository_call (repair_quarantined_position_from_confirmed_exit a1 a2 a3 a4 a5)"
| "repository_call (finalize_quarantined_historical_attribution a1 z)"
| "repository_call (save_protection protection_row)"
| "repository_call (update_protection_stop a1 a2 a3 a4 a5 a6 a7)"
| "repository_call (transition_protection a1 a2 a3 c4 c5 a6 a7 a8)"
| "repository_call (update_protection_active a1 a2 a3 a4 a5 a6)"
| "payload version_key = None \<Longrightarrow> repository_call (unit_call (append_event a1 a2 a3 a4 payload a5))"
| "repository_call (unit_call (record_reconciliation snapshot))"
| "repository_call (unit_call (record_incident incident))"
| "repository_call (unit_call (resolve_reconciliation_incidents a1))"
| "repository_call (unit_call (get_runtime_control a1))"
| "repository_call (unit_call (set_runtime_control a1 a2 a3 a4 a5 a6))"
| "repository_call (unit_call (ensure_runtime_control a1 a2 a3 a4 a5))"
| "repository_call (unit_call (compare_and_set_runtime_control a1 a2 a3 a4 a5 a6 a7 a8))"

lemma repository_call_keeps: "repository_call m \<Longrightarrow> keeps repo_inv m"
  by (cases rule: repository_call.cases)
    (auto simp only: unit_call_def intro!: keeps_bindC keeps_returnC keeps_elsewhere keeps_append_shadow_records
      keeps_create_intent keeps_transition_intent keeps_reconcile_intent keeps_save_order_submission
      keeps_save_exchange_order_receipt keeps_save_exchange_fill_receipt keeps_save_order_level_fill_recovery
      keeps_save_fill_receipt keeps_project_from_fills keeps_project_position keeps_reconcile_quantity
      keeps_transition_position keeps_repair_quarantined keeps_finalize_quarantined keeps_save_protection
      keeps_update_protection_stop keeps_transition_protection keeps_update_protection_active
      keeps_append_note keeps_set_runtime_control)

text \<open>The sessions that start on an empty database and run any mix of calls, commits and rollbacks.\<close>

inductive reach_session :: "session \<Rightarrow> bool" where
  start: "reach_session (new_session empty_db)"
| call: "\<lbrakk>reach_session s; repository_call m\<rbrakk> \<Longrightarrow> reach_session (snd (in_session m s))"
| commits: "reach_session s \<Longrightarrow> reach_session (snd (commit s))"
| rollbacks: "reach_session s \<Longrightarrow> reach_session (snd (rollback s))"

lemma reach_session_inv: "reach_session s \<Longrightarrow> session_inv repo_inv s"
proof (induction rule: reach_session.induct)
  case start
  show ?case by (rule session_inv_new) (rule repo_inv_empty, rule constraints_empty)
qed (auto intro: session_inv_in_session repository_call_keeps session_inv_commit session_inv_rollback)

text \<open>The databases a session shows: what it has committed and what its transaction sees.\<close>

lemma reach_repo_inv:
  "\<lbrakk>reach_session s; d \<in> {ses_committed s, ses_view s}\<rbrakk> \<Longrightarrow> repo_inv d"
  using reach_session_inv [of s] by (auto simp: session_inv_def split: if_splits)

end
