(* ===== verification/Repository_Facts.thy ===== *)
theory Repository_Facts
  imports Repository_Invariants "HOL-Library.Sublist" "HOL-Library.Multiset"
begin

text \<open>
  The properties of the repository: the event table explains the state, positions rest on fills,
  cached totals are exact, evidence tables only grow, exposure is neither lost nor counted twice
  when a filled intent becomes a position, and runtime control is compare-and-set.
\<close>

section \<open>Append-only tables\<close>

definition extends :: "db \<Rightarrow> db \<Rightarrow> bool" where
  "extends d d' \<longleftrightarrow> prefix (db_events d) (db_events d') \<and> prefix (db_fills d) (db_fills d')
     \<and> prefix (db_snapshots d) (db_snapshots d') \<and> prefix (db_shadows d) (db_shadows d')
     \<and> prefix (db_outcomes d) (db_outcomes d') \<and> prefix (db_finalizations d) (db_finalizations d')
     \<and> prefix (db_reconciliations d) (db_reconciliations d')"

lemma extends_refl [simp]: "extends d d"
  by (simp add: extends_def)

lemma extends_trans: "\<lbrakk>extends d d1; extends d1 d2\<rbrakk> \<Longrightarrow> extends d d2"
  by (auto simp: extends_def intro: prefix_order.trans)

lemma keeps_extends_store: "(\<And>d. extends d (f d)) \<Longrightarrow> keeps (extends d0) (store f)"
  by (rule keeps_store) (blast intro: extends_trans)

lemma keeps_extends_modify: "(\<And>d. extends d (f d)) \<Longrightarrow> keeps (extends d0) (modifyC f)"
  by (rule keeps_modifyC) (blast intro: extends_trans)

lemmas extends_intros = keeps_intros keeps_extends_store keeps_extends_modify

lemma extends_append_event: "keeps (extends d0) (append_event i k kind ty p t)"
  unfolding append_event_def by (intro extends_intros) (simp add: extends_def)

lemma extends_transitions:
  "keeps (extends d0) (transition_intent a1 a2 a3 a4 a5 a6 a7 a8)"
  "keeps (extends d0) (transition_position a1 a2 a3 b4 b5 a6 a7 a8)"
  "keeps (extends d0) (transition_protection a1 a2 a3 c4 c5 a6 a7 a8)"
  unfolding transition_intent_def transition_position_def transition_protection_def Let_def
  by (intro extends_append_event extends_intros; simp add: extends_def)+

lemma extends_corrections:
  "keeps (extends d0) (reconcile_intent_from_confirmed_fill a1 a2 a3)"
  "keeps (extends d0) (repair_quarantined_position_from_confirmed_exit b1 b2 b3 b4 b5)"
  "keeps (extends d0) (finalize_quarantined_historical_attribution c1 c2)"
  "keeps (extends d0) (update_protection_stop e1 e2 e3 e4 e5 e6 e7)"
  "keeps (extends d0) (reconcile_position_quantity_from_authoritative_snapshot f1 f2 f3 f4)"
  unfolding reconcile_intent_from_confirmed_fill_def repair_quarantined_position_from_confirmed_exit_def
    finalize_quarantined_historical_attribution_def update_protection_stop_def
    reconcile_position_quantity_from_authoritative_snapshot_def Let_def
  by (intro extends_append_event extends_intros; simp add: extends_def)+

lemma extends_rows:
  "keeps (extends d0) (create_cycle a1 a2 a3 a4 a5 a6)"
  "keeps (extends d0) (complete_cycle b1 b2 b3)"
  "keeps (extends d0) (create_decision c1 c2 c3 c4 c5)"
  "keeps (extends d0) (append_forward_snapshot e1)"
  "keeps (extends d0) (append_shadow_outcome f1 f2 f3 f4)"
  "keeps (extends d0) (record_reconciliation g1)"
  "keeps (extends d0) (record_incident h1)"
  "keeps (extends d0) (resolve_reconciliation_incidents i1)"
  "keeps (extends d0) (get_runtime_control j1)"
  "keeps (extends d0) (ensure_runtime_control k1 k2 k3 k4 k5)"
  "keeps (extends d0) (compare_and_set_runtime_control l1 l2 l3 l4 l5 l6 l7 l8)"
  "keeps (extends d0) (create_intent m1)"
  "keeps (extends d0) (save_order_submission n1 n2 n3 n4 n5 n6)"
  "keeps (extends d0) (save_exchange_order_receipt o1 o2 o3)"
  "keeps (extends d0) (save_protection p1)"
  "keeps (extends d0) (project_position_from_confirmed_fills q1 q2 q3 q4 q5 q6 q7 q8)"
  unfolding create_cycle_def complete_cycle_def create_decision_def append_forward_snapshot_def
    append_shadow_outcome_def record_reconciliation_def record_incident_def
    resolve_reconciliation_incidents_def get_runtime_control_def ensure_runtime_control_def
    compare_and_set_runtime_control_def create_intent_def save_order_submission_def
    save_exchange_order_receipt_def save_protection_def project_position_from_confirmed_fills_def Let_def
  by (intro extends_intros; simp add: extends_def)+

lemma extends_shadow_records: "keeps (extends d0) (append_shadow_records h sid records)"
proof (induction records)
  case (Cons r rs)
  have "keeps (extends d0) (append_shadow_record h sid r)"
    unfolding append_shadow_record_def Let_def
    by (cases r) (auto intro!: extends_intros simp: extends_def)
  with Cons show ?case unfolding append_shadow_records.simps by (intro keeps_bindC keeps_returnC)
next
  case Nil
  show ?case unfolding append_shadow_records.simps by (rule keeps_returnC)
qed

lemma extends_fill_receipt: "keeps (extends d0) (save_exchange_fill_receipt x)"
  unfolding save_exchange_fill_receipt_def refresh_order_aggregate_from_fills_def Let_def
  by (intro extends_intros; simp add: extends_def)+

lemma extends_save_trades: "keeps (extends d0) (save_trades trades per_qty whole allocated x)"
proof (induction trades per_qty whole allocated x rule: save_trades.induct)
  case (1 per_qty whole allocated x)
  show ?case unfolding save_trades.simps by (rule keeps_returnC)
next
  case (2 i t rest per_qty whole allocated x)
  then show ?case unfolding save_trades.simps Let_def
    by (intro keeps_bindC extends_fill_receipt) simp
qed

lemma extends_composites:
  "keeps (extends d0) (save_order_level_fill_recovery x)"
  "keeps (extends d0) (save_fill_receipt a1 a2 a3 a4 a5 a6 a7)"
  "keeps (extends d0) (project_position b1 b2 b3 b4 b5 b6 b7 b8 b9 b10 b11)"
  "keeps (extends d0) (update_protection_active c1 c2 c3 c4 c5 c6)"
  "keeps (extends d0) (set_runtime_control e1 e2 e3 e4 e5 e6)"
  unfolding save_order_level_fill_recovery_def save_fill_receipt_def project_position_def
    update_protection_active_def set_runtime_control_def Let_def
  by (intro extends_fill_receipt extends_save_trades extends_transitions extends_rows extends_intros;
      simp add: extends_def)+

lemma repository_call_extends: "repository_call m \<Longrightarrow> keeps (extends d0) m"
  by (cases rule: repository_call.cases)
    (auto simp only: unit_call_def intro!: keeps_bindC keeps_returnC extends_rows extends_shadow_records
      extends_transitions extends_corrections extends_append_event extends_fill_receipt extends_composites)

text \<open>
  C21.  Events, fills, forward snapshots, shadow evidence, finalizations and reconciliation snapshots
  are append-only: whatever repository call runs, and however it ends short of an integrity
  error, every row of these tables is kept in its place and new rows come after the old ones.
\<close>

theorem evidence_append_only:
  assumes "repository_call m" "m d = (r, d')" "\<not> integrity_error r"
  shows "prefix (db_events d) (db_events d') \<and> prefix (db_fills d) (db_fills d')
    \<and> prefix (db_snapshots d) (db_snapshots d') \<and> prefix (db_shadows d) (db_shadows d')
    \<and> prefix (db_outcomes d) (db_outcomes d') \<and> prefix (db_finalizations d) (db_finalizations d')
    \<and> prefix (db_reconciliations d) (db_reconciliations d')"
  using keepsD [OF repository_call_extends [OF assms(1), of d] extends_refl assms(2,3)]
  by (simp add: extends_def)

section \<open>The event table explains the state\<close>

text \<open>
  C16.  In every database a session shows, committed or in its running transaction, replaying the
  events of an intent, a position or a protection gives exactly its current state and version.
  The replay starts in a first state (POSITION_PROJECTED for positions, PROTECTION_INTENT for
  protections), numbers the events without a gap, and every recorded step is one the validators
  accept or one of the evidence-based corrections.
\<close>

theorem event_log_explains_state:
  assumes "reach_session s" "d \<in> {ses_committed s, ses_view s}"
  shows "(\<forall>i\<in>set (db_intents d). explained intent_value (\<lambda>_. True) intent_step
            (log_of ''INTENT'' (vi_intent_id i) (db_events d)) (vi_state i) (vi_version i))
    \<and> (\<forall>p\<in>set (db_positions d). explained position_value (\<lambda>s. s = V2PositionState.POSITION_PROJECTED) position_step
            (log_of ''POSITION'' (vp_position_id p) (db_events d)) (vp_state p) (vp_version p))
    \<and> (\<forall>r\<in>set (db_protections d). explained protection_value (\<lambda>s. s = V2ProtectionState.PROTECTION_INTENT) protection_step
            (log_of ''PROTECTION'' (vr_protection_id r) (db_events d)) (vr_state r) (vr_version r))"
  using reach_repo_inv [OF assms]
  by (auto simp: repo_inv_def logs_ok_def intro: intent_log.sourced_explains position_log.sourced_explains
      protection_log.sourced_explains)

section \<open>Positions rest on fills\<close>

lemma reach_committed:
  "reach_session s \<Longrightarrow> repo_inv (ses_committed s) \<and> constraints (ses_committed s)"
  using reach_session_inv [of s] by (simp add: session_inv_def)

lemma order_unique:
  assumes "constraints d" "w \<in> set (db_orders d)" "w' \<in> set (db_orders d)" "vo_order_record_id w = vo_order_record_id w'"
  shows "w = w'"
  using assms(2-4) distinct_keys [OF assms(1)] by (metis find_row_unique option.inject)

text \<open>
  No managed position without confirmed fills: in every committed database each position has the
  order it names, that order belongs to the same intent and has an exchange order id, and there
  is a fill row of the order, of the same intent, with a positive quantity and price.
\<close>

theorem managed_positions_rest_on_fills:
  assumes "reach_session s" "p \<in> set (db_positions (ses_committed s))"
  shows "\<exists>w\<in>set (db_orders (ses_committed s)). \<exists>f\<in>set (db_fills (ses_committed s)).
    vo_order_record_id w = vp_order_record_id p \<and> vo_intent_id w = vp_intent_id p
    \<and> has_text (vo_exchange_order_id w)
    \<and> vf_exchange_order_record_id f = vo_order_record_id w \<and> vf_intent_id f = vp_intent_id p
    \<and> 0 < vf_filled_quantity f \<and> 0 < vf_fill_price f"
proof -
  let ?d = "ses_committed s"
  have inv: "repo_inv ?d" and cons: "constraints ?d" using reach_committed [OF assms(1)] by auto
  obtain w where w: "w \<in> set (db_orders ?d)" "vo_order_record_id w = vp_order_record_id p"
    "vo_intent_id w = vp_intent_id p" "has_text (vo_exchange_order_id w)"
    and "fills_of ?d (vp_order_record_id p) \<noteq> []"
    using inv assms(2) by (auto simp: repo_inv_def positions_ok_def position_evidence_def)
  then obtain f where f: "f \<in> set (db_fills ?d)" "vf_exchange_order_record_id f = vo_order_record_id w"
    by (auto simp: fills_of_def filter_empty_conv)
  obtain w' where w': "w' \<in> set (db_orders ?d)" "vo_order_record_id w' = vf_exchange_order_record_id f"
    "vo_intent_id w' = vf_intent_id f"
    using inv f(1) unfolding repo_inv_def fills_ok_def by blast
  have "w' = w" using order_unique [OF cons w'(1) w(1)] w'(2) f(2) by simp
  moreover have "0 < vf_filled_quantity f \<and> 0 < vf_fill_price f"
    using cons f(1) by (auto simp: constraints_def ledger_constraints_def check_fill_def list_all_iff)
  ultimately show ?thesis using w w' f by (intro bexI [of _ w] bexI [of _ f]) auto
qed

section \<open>Cached totals\<close>

text \<open>
  The totals cached on an order are the totals of its fill rows: the sum of the quantities, the
  quantity-weighted price and the fees, with the trade ids in the order they arrived.
\<close>

theorem order_totals_are_fill_totals:
  assumes "reach_session s" "d \<in> {ses_committed s, ses_view s}" "w \<in> set (db_orders d)"
    and "fills_of d (vo_order_record_id w) = f # fs"
  shows "vo_filled_quantity w = Some (dsum (map vf_filled_quantity (f # fs)))
    \<and> vo_trade_ids w = map vf_trade_id (f # fs)
    \<and> vo_total_fee w = Some (dsum (map (\<lambda>x. case vf_commission x of None \<Rightarrow> 0 | Some c \<Rightarrow> c) (f # fs)))
    \<and> (0 < dsum (map vf_filled_quantity (f # fs)) \<longrightarrow> vo_average_fill_price w =
         Some (ddiv (dsum (map (\<lambda>x. dmul (vf_filled_quantity x) (vf_fill_price x)) (f # fs)))
           (dsum (map vf_filled_quantity (f # fs)))))"
proof -
  have "cache_of w (f # fs)"
    using reach_repo_inv [OF assms(1,2)] assms(3,4) by (auto simp: repo_inv_def caches_ok_def)
  then show ?thesis by (auto simp: cache_of_def aggregate_rows_def Let_def)
qed

section \<open>Committed databases\<close>

lemma unique_onD: "\<lbrakk>unique_on k xs; x \<in> set xs; y \<in> set xs; k x = k y\<rbrakk> \<Longrightarrow> x = y"
  by (auto simp: unique_on_def distinct_map dest: inj_onD)

lemma unique_optD:
  "\<lbrakk>unique_opt k xs; x \<in> set xs; y \<in> set xs; k x = k y; k x \<noteq> None\<rbrakk> \<Longrightarrow> x = y"
  by (auto simp: unique_opt_def map_filter_def distinct_map dest!: inj_onD [of _ _ x y])

text \<open>
  A committed database satisfies the declared constraints, whatever calls, failures and rollbacks
  came before: at most one open position per symbol, direction and mode, at most one position per
  intent, one row per client order id and one per trade of an account, and an active protection
  carries the exchange id of its stop.
\<close>

theorem committed_database_consistent:
  assumes "reach_session s" "d = ses_committed s"
  shows "(\<forall>p\<in>set (db_positions d). \<forall>q\<in>set (db_positions d). pos_open p \<longrightarrow> pos_open q \<longrightarrow> vp_symbol p = vp_symbol q
        \<longrightarrow> vp_direction p = vp_direction q \<longrightarrow> vp_execution_mode p = vp_execution_mode q \<longrightarrow> p = q)
    \<and> (\<forall>p\<in>set (db_positions d). \<forall>q\<in>set (db_positions d). vp_intent_id p = vp_intent_id q \<longrightarrow> p = q)
    \<and> (\<forall>v\<in>set (db_orders d). \<forall>w\<in>set (db_orders d). vo_client_order_id v = vo_client_order_id w \<longrightarrow> v = w)
    \<and> (\<forall>f\<in>set (db_fills d). \<forall>g\<in>set (db_fills d). vf_account_id f = vf_account_id g
        \<longrightarrow> vf_trade_id f \<noteq> None \<longrightarrow> vf_trade_id f = vf_trade_id g \<longrightarrow> f = g)
    \<and> (\<forall>r\<in>set (db_protections d). vr_state r = V2ProtectionState.PROTECTION_ACTIVE \<longrightarrow> has_text (vr_stop_exchange_order_id r))"
proof -
  have c: "ledger_constraints d" using reach_committed [OF assms(1)] assms(2) by (simp add: constraints_def)
  then have u: "unique_on (\<lambda>p. (vp_symbol p, vp_direction p, vp_execution_mode p)) (filter pos_open (db_positions d))"
    "unique_on vp_intent_id (db_positions d)" "unique_on vo_client_order_id (db_orders d)"
    "unique_opt (\<lambda>f. map_option (Pair (vf_account_id f)) (vf_trade_id f)) (db_fills d)"
    "list_all check_protection (db_protections d)"
    unfolding ledger_constraints_def by blast+
  show ?thesis
  proof (intro conjI ballI impI)
    fix p q assume "p \<in> set (db_positions d)" "q \<in> set (db_positions d)" "pos_open p" "pos_open q"
      "vp_symbol p = vp_symbol q" "vp_direction p = vp_direction q" "vp_execution_mode p = vp_execution_mode q"
    then show "p = q" by (intro unique_onD [OF u(1)]) auto
  next
    fix p q assume "p \<in> set (db_positions d)" "q \<in> set (db_positions d)" "vp_intent_id p = vp_intent_id q"
    then show "p = q" by (rule unique_onD [OF u(2)])
  next
    fix v w assume "v \<in> set (db_orders d)" "w \<in> set (db_orders d)" "vo_client_order_id v = vo_client_order_id w"
    then show "v = w" by (rule unique_onD [OF u(3)])
  next
    fix f g assume "f \<in> set (db_fills d)" "g \<in> set (db_fills d)" "vf_account_id f = vf_account_id g"
      "vf_trade_id f \<noteq> None" "vf_trade_id f = vf_trade_id g"
    then show "f = g" by (intro unique_optD [OF u(4)]) auto
  next
    fix r assume "r \<in> set (db_protections d)" "vr_state r = V2ProtectionState.PROTECTION_ACTIVE"
    then show "has_text (vr_stop_exchange_order_id r)"
      using u(5) by (auto simp: list_all_iff check_protection_def has_text_def)
  qed
qed

section \<open>Exposure is conserved\<close>

lemma map_filter_append: "List.map_filter f (xs @ ys) = List.map_filter f xs @ List.map_filter f ys"
  by (simp add: map_filter_def)

definition risk_amounts :: "V2ExecutionMode \<Rightarrow> db \<Rightarrow> dec multiset" where
  "risk_amounts mode d = mset (map re_initial_risk_usdt (fst (list_active_initial_risk_exposures mode d)))"

text \<open>The amounts of a list of risks, as a multiset.\<close>

definition amounts :: "RiskExposure option list \<Rightarrow> dec multiset" where
  "amounts rs = mset (map re_initial_risk_usdt (List.map_filter id rs))"

lemma amounts_simps [simp]:
  "amounts [] = {#}"
  "amounts (r # rs) = (case r of None \<Rightarrow> {#} | Some e \<Rightarrow> {#re_initial_risk_usdt e#}) + amounts rs"
  "amounts (xs @ ys) = amounts xs + amounts ys"
  by (auto simp: amounts_def map_filter_simps map_filter_append split: option.splits)

lemma amounts_partition:
  "amounts (map f xs) = amounts (map f (filter P xs)) + amounts (map f (filter (\<lambda>x. \<not> P x) xs))"
  by (induction xs) (auto split: option.splits)

lemma unknown_partition:
  "None \<in> set (map f xs) \<longleftrightarrow> None \<in> set (map f (filter P xs)) \<or> None \<in> set (map f (filter (\<lambda>x. \<not> P x) xs))"
  by auto

lemma risk_amounts_eq:
  "risk_amounts mode d = amounts (map (position_risk d) (exposed_positions mode d)) + amounts (map intent_risk (exposed_intents mode d))"
  by (simp add: risk_amounts_def list_active_initial_risk_exposures_def Let_def amounts_def map_filter_append)

lemma filter_key:
  "\<lbrakk>distinct (map key xs); x \<in> set xs\<rbrakk> \<Longrightarrow> filter (\<lambda>y. key y = key x) xs = [x]"
  by (induction xs) (auto simp: filter_empty_conv image_iff)

text \<open>What a successful projection without aggregation adds.\<close>

lemma projection_effect:
  assumes "project_position_from_confirmed_fills k i w sy di m t False d = (Inr (), d')"
  shows "\<exists>p. d' = d\<lparr>db_positions := db_positions d @ [p]\<rparr> \<and> constraints d' \<and> vp_intent_id p = i
    \<and> vp_execution_mode p = m \<and> vp_state p = V2PositionState.POSITION_PROJECTED
    \<and> vp_symbol p = sy \<and> vp_direction p = di"
proof -
  have "wp (project_position_from_confirmed_fills k i w sy di m t False) (\<lambda>r d'. r = Inr () \<longrightarrow>
      (\<exists>p. d' = d\<lparr>db_positions := db_positions d @ [p]\<rparr> \<and> constraints d' \<and> vp_intent_id p = i
      \<and> vp_execution_mode p = m \<and> vp_state p = V2PositionState.POSITION_PROJECTED
      \<and> vp_symbol p = sy \<and> vp_direction p = di)) d"
    unfolding project_position_from_confirmed_fills_def Let_def
    by (intro wp_readC wp_someC wp_guardC wp_pure_bind wp_option wp_if wp_store) auto
  from wpD [OF this assms] show ?thesis by simp
qed

text \<open>
  C19.  Exposure is neither lost nor counted twice when a filled entry becomes a managed position: with
  the intent of a projected position active and not an exit, the projection leaves the multiset
  of the reserved risk amounts unchanged, and an unknown risk stays unknown.
\<close>

theorem exposure_conserved_by_projection:
  assumes run: "project_position_from_confirmed_fills k (vi_intent_id row) w sy di m t False d = (Inr (), d')"
    and row: "row \<in> set (db_intents d)" "vi_execution_mode row = m" "vi_state row \<in> set active_intent_states"
      "take 5 (vi_candidate_key row) \<noteq> ''exit:''"
  shows "mset (map re_initial_risk_usdt (fst (list_active_initial_risk_exposures m d')))
       = mset (map re_initial_risk_usdt (fst (list_active_initial_risk_exposures m d)))
    \<and> (snd (list_active_initial_risk_exposures m d') \<longleftrightarrow> snd (list_active_initial_risk_exposures m d))"
proof -
  let ?i = "vi_intent_id row"
  obtain p where d': "d' = d\<lparr>db_positions := db_positions d @ [p]\<rparr>" and cons: "constraints d'"
    and p: "vp_intent_id p = ?i" "vp_execution_mode p = m" "vp_state p = V2PositionState.POSITION_PROJECTED"
    using projection_effect [OF run] by blast
  have fresh: "?i \<notin> vp_intent_id ` set (db_positions d)"
    using cons p(1) unfolding d' by (simp add: constraints_def ledger_constraints_def unique_on_def)
  have keys: "distinct (map vi_intent_id (db_intents d))" using distinct_keys [OF cons] by (simp add: d')
  have found: "find_row vi_intent_id ?i (db_intents d) = Some row" by (rule find_row_unique [OF keys row(1)])
  have pos: "exposed_positions m d' = exposed_positions m d @ [p]"
    using p by (simp add: exposed_positions_def d' active_position_states_def)
  have same: "position_risk d' = position_risk d" by (simp add: position_risk_def [abs_def] d')
  have ints: "exposed_intents m d' = filter (\<lambda>j. vi_intent_id j \<noteq> ?i) (exposed_intents m d)"
    using p by (auto simp: exposed_intents_def exposed_positions_def d' active_position_states_def Let_def
        intro!: filter_cong)
  have "row \<in> set (exposed_intents m d)"
    using row fresh by (auto simp: exposed_intents_def exposed_positions_def Let_def image_iff)
  moreover have "distinct (map vi_intent_id (exposed_intents m d))"
    using keys by (simp add: exposed_intents_def Let_def distinct_map_filter)
  ultimately have own: "filter (\<lambda>j. vi_intent_id j = ?i) (exposed_intents m d) = [row]"
    using filter_key [of vi_intent_id] by metis
  have risk: "amounts [position_risk d p] = amounts [intent_risk row] \<and> (position_risk d p = None \<longleftrightarrow> intent_risk row = None)"
    using found p(1) by (auto simp: position_risk_def intent_risk_def risk_exposure_def split: option.splits)
  have part: "amounts (map intent_risk (exposed_intents m d)) = amounts [intent_risk row]
      + amounts (map intent_risk (exposed_intents m d'))"
    using amounts_partition [of intent_risk "exposed_intents m d" "\<lambda>j. vi_intent_id j = ?i"] own ints by simp
  have "risk_amounts m d' = risk_amounts m d"
    unfolding risk_amounts_eq pos part using risk by (simp add: same)
  moreover have "snd (list_active_initial_risk_exposures m d') = snd (list_active_initial_risk_exposures m d)"
    using unknown_partition [of intent_risk "exposed_intents m d" "\<lambda>j. vi_intent_id j = ?i"] own ints risk
    by (auto simp: list_active_initial_risk_exposures_def Let_def pos same)
  ultimately show ?thesis by (simp add: risk_amounts_def)
qed

section \<open>Quarantine repair\<close>

text \<open>
  A quarantined position is closed by the repair only on persisted evidence: the exit order is
  acknowledged, it has fills, every one of them reduce-only and in the symbol of the position,
  and their sum reaches the position up to the tolerance of one unit in the eighth place.
\<close>

theorem quarantine_repair_needs_exit_fills:
  assumes "repair_quarantined_position_from_confirmed_exit i k w t pl d = (Inr (), d')"
  shows "\<exists>p order. find_row vp_position_id k (db_positions d) = Some p \<and> vp_state p = V2PositionState.QUARANTINED
    \<and> find_row vo_order_record_id w (db_orders d) = Some order \<and> has_text (vo_exchange_order_id order)
    \<and> fills_of d w \<noteq> [] \<and> (\<forall>f\<in>set (fills_of d w). vf_reduce_only f \<and> vf_symbol f = vp_symbol p)
    \<and> vp_quantity p \<le> dadd (dsum (map vf_filled_quantity (fills_of d w))) quantity_tolerance
    \<and> find_row vp_position_id k (db_positions d') =
        Some (p\<lparr>vp_state := V2PositionState.CLOSED, vp_closed_at := Some t, vp_version := vp_version p + 1\<rparr>)"
proof -
  have "wp (repair_quarantined_position_from_confirmed_exit i k w t pl) (\<lambda>r d'. r = Inr () \<longrightarrow>
    (\<exists>p order. find_row vp_position_id k (db_positions d) = Some p \<and> vp_state p = V2PositionState.QUARANTINED
    \<and> find_row vo_order_record_id w (db_orders d) = Some order \<and> has_text (vo_exchange_order_id order)
    \<and> fills_of d w \<noteq> [] \<and> (\<forall>f\<in>set (fills_of d w). vf_reduce_only f \<and> vf_symbol f = vp_symbol p)
    \<and> vp_quantity p \<le> dadd (dsum (map vf_filled_quantity (fills_of d w))) quantity_tolerance
    \<and> find_row vp_position_id k (db_positions d') =
        Some (p\<lparr>vp_state := V2PositionState.CLOSED, vp_closed_at := Some t, vp_version := vp_version p + 1\<rparr>))) d"
    unfolding repair_quarantined_position_from_confirmed_exit_def Let_def
    by (intro wp_intros) (auto simp: find_row_update list_ex_iff not_less)
  from wpD [OF this assms] show ?thesis by simp
qed

section \<open>Runtime control\<close>

text \<open>The calls that touch the runtime control.\<close>

inductive control_call :: "(db, unit) call \<Rightarrow> bool" where
  "control_call (unit_call (get_runtime_control a1))"
| "control_call (unit_call (set_runtime_control a1 a2 a3 a4 a5 a6))"
| "control_call (unit_call (ensure_runtime_control None a2 a3 a4 a5))"
| "control_call (unit_call (compare_and_set_runtime_control a1 a2 a3 a4 a5 a6 a7 a8))"

text \<open>The version of a scope, never seen below \<open>v\<close>.\<close>

definition control_beyond :: "string \<Rightarrow> int \<Rightarrow> db \<Rightarrow> bool" where
  "control_beyond scope v d \<longleftrightarrow> unique_on vc_scope (db_controls d)
     \<and> (\<exists>c\<in>set (db_controls d). vc_scope c = scope \<and> v < vc_version c)"

lemma control_unique: "constraints d \<Longrightarrow> unique_on vc_scope (db_controls d)"
  by (simp add: constraints_def control_constraints_def)

lemma beyond_get_runtime_control: "keeps (control_beyond scope v) (get_runtime_control a1)"
  unfolding get_runtime_control_def Let_def
  by (intro keeps_intros keeps_store)
    (auto simp: control_beyond_def dest: control_unique)

lemma beyond_ensure_runtime_control: "keeps (control_beyond scope v) (ensure_runtime_control None a2 a3 a4 a5)"
  unfolding ensure_runtime_control_def Let_def
  by (auto intro!: keeps_intros keeps_store simp: control_beyond_def dest: control_unique)

text \<open>A change that keeps scopes and does not lower the version of the row it meets.\<close>

lemma control_beyond_map:
  assumes "control_beyond scope v d" "constraints (d\<lparr>db_controls := map f (db_controls d)\<rparr>)"
    and "\<And>c. c \<in> set (db_controls d) \<Longrightarrow> vc_scope c = scope \<Longrightarrow> v < vc_version c \<Longrightarrow> vc_scope (f c) = scope \<and> v < vc_version (f c)"
  shows "control_beyond scope v (d\<lparr>db_controls := map f (db_controls d)\<rparr>)"
proof -
  obtain c where c: "c \<in> set (db_controls d)" "vc_scope c = scope" "v < vc_version c"
    using assms(1) by (auto simp: control_beyond_def)
  have "f c \<in> set (map f (db_controls d))" using c(1) by simp
  moreover have "vc_scope (f c) = scope \<and> v < vc_version (f c)" by (rule assms(3) [OF c])
  ultimately show ?thesis using control_unique [OF assms(2)] unfolding control_beyond_def by auto
qed

lemma beyond_compare_and_set:
  "keeps (control_beyond scope v) (compare_and_set_runtime_control b1 b2 b3 b4 b5 b6 b7 b8)"
  unfolding compare_and_set_runtime_control_def Let_def
  by (intro keeps_readC keeps_bindC keeps_returnC keeps_store control_beyond_map) auto

lemma find_row_append:
  "find_row key k (xs @ ys) = (case find_row key k xs of None \<Rightarrow> find_row key k ys | Some x \<Rightarrow> Some x)"
  by (induction xs) auto

lemma wp_conseq: "\<lbrakk>wp m Q d; \<And>r d'. Q r d' \<Longrightarrow> Q' r d'\<rbrakk> \<Longrightarrow> wp m Q' d"
  by (simp add: wp_def)

lemma wp_get_runtime_control:
  assumes "control_beyond scope v d"
  shows "wp (get_runtime_control k) (\<lambda>r d1. control_beyond scope v d1
    \<and> (\<forall>c. r = Inr c \<longrightarrow> find_row vc_scope k (db_controls d1) = Some c)) d"
  unfolding get_runtime_control_def Let_def
  by (intro wp_readC wp_option wp_return wp_store_bind)
    (use assms in \<open>auto simp: control_beyond_def new_control_def find_row_append dest: control_unique\<close>)

lemma beyond_set_runtime_control: "keeps (control_beyond scope v) (set_runtime_control a1 k a3 a4 a5 a6)"
  unfolding set_runtime_control_def Let_def
proof (rule keeps_wp, rule wp_bind, rule wp_conseq, erule wp_get_runtime_control)
  fix r :: "V2RuntimeControl res" and d1 :: db
  assume "control_beyond scope v d1 \<and> (\<forall>c. r = Inr c \<longrightarrow> find_row vc_scope k (db_controls d1) = Some c)"
  then have inv: "control_beyond scope v d1" and r: "\<And>c. r = Inr c \<Longrightarrow> find_row vc_scope k (db_controls d1) = Some c"
    by auto
  show "case r of Inl e \<Rightarrow> control_beyond scope v d1 | Inr control \<Rightarrow>
      wp (guardC (case a6 of None \<Rightarrow> False | Some v \<Rightarrow> vc_version control \<noteq> v)
        (ValueError ''Runtime control version conflict'')
        (bindC (store (\<lambda>d. d\<lparr>db_controls := update_row vc_scope k
            (\<lambda>_. control\<lparr>vc_entry_enabled := a3, vc_reason := a4, vc_updated_by := a5,
              vc_version := vc_version control + 1, vc_updated_at := Some a1\<rparr>) (db_controls d)\<rparr>))
          (\<lambda>_. returnC (control\<lparr>vc_entry_enabled := a3, vc_reason := a4, vc_updated_by := a5,
              vc_version := vc_version control + 1, vc_updated_at := Some a1\<rparr>))))
        (\<lambda>_. control_beyond scope v) d1"
  proof (cases r)
    case (Inr control)
    have row: "find_row vc_scope k (db_controls d1) = Some control" by (rule r [OF Inr])
    have "v < vc_version control" if "k = scope"
    proof -
      obtain c where "c \<in> set (db_controls d1)" "vc_scope c = scope" "v < vc_version c"
        and "unique_on vc_scope (db_controls d1)" using inv by (auto simp: control_beyond_def)
      then show ?thesis using unique_onD find_row_Some [OF row] that by metis
    qed
    then show ?thesis unfolding Inr sum.case
      using inv find_row_Some [OF row]
      by (intro wp_guardC wp_store_bind wp_return) (auto simp: update_row_def intro!: control_beyond_map)
  qed (use inv in simp)
qed

lemma control_call_beyond: "control_call m \<Longrightarrow> keeps (control_beyond scope v) m"
  by (cases rule: control_call.cases)
    (auto simp only: unit_call_def intro!: keeps_bindC keeps_returnC beyond_get_runtime_control
      beyond_set_runtime_control beyond_ensure_runtime_control beyond_compare_and_set)

text \<open>A sequence of control calls, each on the database the previous one left.\<close>

fun run_controls :: "(db, unit) call list \<Rightarrow> (db, unit) call" where
  "run_controls [] = returnC ()"
| "run_controls (m # ms) = bindC m (\<lambda>_. run_controls ms)"

lemma run_controls_beyond: "(\<And>m. m \<in> set ms \<Longrightarrow> control_call m) \<Longrightarrow> keeps (control_beyond scope v) (run_controls ms)"
proof (induction ms)
  case Nil
  show ?case unfolding run_controls.simps by (rule keeps_returnC)
next
  case (Cons m ms)
  then have "keeps (control_beyond scope v) m" "keeps (control_beyond scope v) (run_controls ms)"
    by (auto intro: control_call_beyond)
  then show ?case unfolding run_controls.simps by (rule keeps_bindC)
qed

lemma cas_hit:
  assumes "compare_and_set_runtime_control t1 k v e0 r0 e r u d = (Inr True, d1)"
  shows "control_beyond k v d1"
proof -
  let ?hit = "control_matches k v e0 r0"
  have d1: "constraints d1" "length (filter ?hit (db_controls d)) = 1"
    "d1 = d\<lparr>db_controls := map (\<lambda>c. if ?hit c then c\<lparr>vc_entry_enabled := e, vc_reason := r, vc_updated_by := u,
       vc_version := vc_version c + 1, vc_updated_at := Some t1\<rparr> else c) (db_controls d)\<rparr>"
    using assms by (auto simp: compare_and_set_runtime_control_def bindC_def store_def flush_def Let_def split: if_splits)
  from d1(2) obtain c where "filter ?hit (db_controls d) = [c]" by (auto simp: length_Suc_conv)
  then have "c \<in> set (filter ?hit (db_controls d))" by simp
  then have "c \<in> set (db_controls d)" "?hit c" by simp_all
  let ?c = "c\<lparr>vc_entry_enabled := e, vc_reason := r, vc_updated_by := u,
    vc_version := vc_version c + 1, vc_updated_at := Some t1\<rparr>"
  have "?c \<in> set (db_controls d1)" unfolding d1(3)
    using \<open>c \<in> set (db_controls d)\<close> \<open>?hit c\<close> by (simp add: image_iff) (intro disjI1 bexI [of _ c]; simp)
  moreover have "vc_scope ?c = k \<and> v < vc_version ?c" using \<open>?hit c\<close> by (simp add: control_matches_def)
  ultimately show ?thesis using control_unique [OF d1(1)] unfolding control_beyond_def by blast
qed

text \<open>
  Compare-and-set is exclusive.  When one caller has changed a runtime control it had observed at
  some version, every other caller that observed the same version fails, whatever control calls
  run in between: a stale observer can never overwrite the newer decision.
\<close>

theorem runtime_control_exclusive:
  assumes "compare_and_set_runtime_control t1 k v e0 r0 e r u d = (Inr True, d1)"
    and "\<forall>m\<in>set ms. control_call m" "run_controls ms d1 = (Inr (), d2)"
    and "compare_and_set_runtime_control t2 k v e0' r0' e' r' u' d2 = (Inr b, d3)"
  shows "\<not> b"
proof
  assume b
  have "control_beyond k v d2"
    using keepsD [OF run_controls_beyond cas_hit [OF assms(1)] assms(3)] assms(2) by simp
  then obtain c where c: "c \<in> set (db_controls d2)" "vc_scope c = k" "v < vc_version c"
    and u: "unique_on vc_scope (db_controls d2)" by (auto simp: control_beyond_def)
  have "length (filter (control_matches k v e0' r0') (db_controls d2)) = 1"
    using assms(4) \<open>b\<close>
    by (auto simp: compare_and_set_runtime_control_def bindC_def store_def flush_def Let_def split: if_splits)
  then obtain c' where "c' \<in> set (db_controls d2)" "control_matches k v e0' r0' c'"
    by (metis One_nat_def filter_empty_conv list.size(3) zero_neq_one)
  then show False using unique_onD [OF u, of c c'] c by (auto simp: control_matches_def)
qed

section \<open>A run\<close>

text \<open>An entry from its intent to a protected position, as the engine records it.\<close>

definition demo_intent :: V2ExecutionIntent where
  "demo_intent = \<lparr>vi_intent_id = ''i1'', vi_cycle_id = ''c1'', vi_decision_id = None, vi_symbol = ''BTC/USDT'',
     vi_direction = ''long'', vi_candidate_key = ''k1'', vi_candidate_type = V2CandidateType.PRIMARY,
     vi_execution_mode = V2ExecutionMode.BINANCE_TESTNET, vi_decision_bar_timestamp = 0,
     vi_decision_funnel_id = None, vi_initial_risk_usdt = Some 5, vi_state = V2IntentState.INTENT_CREATED,
     vi_version = 0\<rparr>"

definition demo_row :: V2ExchangeFill where
  "demo_row = \<lparr>vf_fill_id = ''f1'', vf_intent_id = ''i1'', vf_exchange_order_record_id = ''o1'',
     vf_account_id = ''acc'', vf_exchange_order_id = ''x1'', vf_trade_id = Some ''t1'',
     vf_fill_source = ''BINANCE_USER_TRADE'', vf_symbol = ''BTC/USDT'', vf_side = ''BUY'', vf_reduce_only = False,
     vf_filled_quantity = 2, vf_fill_price = 100, vf_commission = Some 1, vf_commission_asset = Some ''USDT'',
     vf_exchange_event_time = 4, vf_received_at = 5, vf_raw_hash = ''h''\<rparr>"

definition demo_protection :: V2ProtectionRecord where
  "demo_protection = \<lparr>vr_protection_id = ''r1'', vr_position_id = ''p1'', vr_stop_loss_price = 95,
     vr_original_stop_loss_price = None, vr_take_profit_price = None, vr_stop_client_order_id = ''s1'',
     vr_tp_client_order_id = None, vr_stop_exchange_order_id = None, vr_tp_exchange_order_id = None,
     vr_state = V2ProtectionState.PROTECTION_INTENT, vr_version = 0, vr_policy = ''P1'', vr_activated_at = None\<rparr>"

definition demo_entry_calls :: "(db, unit) call list" where
  "demo_entry_calls =
     [create_intent demo_intent,
      transition_intent ''e1'' 1 ''i1'' V2IntentState.INTENT_CREATED V2IntentState.EXCHANGE_SUBMITTING ''Submitting'' Map.empty None,
      unit_call (save_order_submission ''o1'' ''i1'' ''v2e'' 2 3 1),
      save_exchange_order_receipt ''o1'' ''x1'' 2,
      transition_intent ''e2'' 2 ''i1'' V2IntentState.EXCHANGE_SUBMITTING V2IntentState.EXCHANGE_ACKNOWLEDGED ''Acked'' Map.empty None,
      unit_call (save_exchange_fill_receipt demo_row),
      transition_intent ''e3'' 5 ''i1'' V2IntentState.EXCHANGE_ACKNOWLEDGED V2IntentState.FILLED ''Filled'' Map.empty None]"

definition demo_position_calls :: "(db, unit) call list" where
  "demo_position_calls =
     [project_position_from_confirmed_fills ''p1'' ''i1'' ''o1'' ''BTC/USDT'' ''long'' V2ExecutionMode.BINANCE_TESTNET 6 False,
      save_protection demo_protection,
      update_protection_active (\<lambda>n. ''a'' @ nat_str n) 7 ''r1''
        \<lparr>pr_position_id = ''p1'', pr_stop_exchange_order_id = ''x2'', pr_tp_exchange_order_id = None,
         pr_submission_timestamp = 7\<rparr> V2ProtectionState.PROTECTION_ACTIVE 7,
      transition_position ''e4'' 8 ''p1'' V2PositionState.POSITION_PROJECTED V2PositionState.PROTECTED ''Protected'' Map.empty None]"

definition run_session :: "(db, unit) call list \<Rightarrow> session \<Rightarrow> session" where
  "run_session ms s = fold (\<lambda>m s. snd (in_session m s)) ms s"

lemma reach_run_session:
  "\<lbrakk>reach_session s; \<And>m. m \<in> set ms \<Longrightarrow> repository_call m\<rbrakk> \<Longrightarrow> reach_session (run_session ms s)"
  unfolding run_session_def by (induction ms arbitrary: s) (auto intro: reach_session.call)

definition demo_session :: session where
  "demo_session = snd (commit (run_session (demo_entry_calls @ demo_position_calls) (new_session empty_db)))"

lemma reach_demo: "reach_session demo_session"
  unfolding demo_session_def
  by (intro reach_session.commits reach_run_session reach_session.start)
    (auto simp: demo_entry_calls_def demo_position_calls_def intro: repository_call.intros)

definition summary :: "db \<Rightarrow> V2PositionState list \<times> dec option list \<times> string list \<times> int list" where
  "summary d = (map vp_state (db_positions d), map vo_filled_quantity (db_orders d),
     map vf_fill_id (fills_of d ''o1''), map vi_version (db_intents d))"

lemma demo_summary: "summary (ses_committed demo_session) = ([V2PositionState.PROTECTED], [Some 2], [''f1''], [3])"
  by code_simp

lemma demo_rows:
  "\<exists>p. db_positions (ses_committed demo_session) = [p] \<and> vp_state p = V2PositionState.PROTECTED"
  "\<exists>w. db_orders (ses_committed demo_session) = [w] \<and> vo_filled_quantity w = Some 2"
  using demo_summary by (auto simp: summary_def)

theorem event_log_explains_state_witness:
  "reach_session demo_session \<and> (\<exists>p. db_positions (ses_committed demo_session) = [p]
     \<and> vp_state p = V2PositionState.PROTECTED
     \<and> explained position_value (\<lambda>s. s = V2PositionState.POSITION_PROJECTED) position_step
         (log_of ''POSITION'' (vp_position_id p) (db_events (ses_committed demo_session))) V2PositionState.PROTECTED (vp_version p))"
  using event_log_explains_state [OF reach_demo, of "ses_committed demo_session"] demo_rows(1) reach_demo by auto

theorem managed_positions_rest_on_fills_witness:
  "\<exists>p. db_positions (ses_committed demo_session) = [p]
     \<and> (\<exists>w\<in>set (db_orders (ses_committed demo_session)). \<exists>f\<in>set (db_fills (ses_committed demo_session)).
       vo_order_record_id w = vp_order_record_id p \<and> vf_exchange_order_record_id f = vo_order_record_id w
       \<and> 0 < vf_filled_quantity f)"
proof -
  obtain p where p: "db_positions (ses_committed demo_session) = [p]" using demo_rows(1) by blast
  then have "p \<in> set (db_positions (ses_committed demo_session))" by simp
  from managed_positions_rest_on_fills [OF reach_demo this] p show ?thesis by blast
qed

lemma demo_order_fills:
  "\<exists>w f. w \<in> set (db_orders (ses_committed demo_session)) \<and> vo_filled_quantity w = Some 2
     \<and> fills_of (ses_committed demo_session) (vo_order_record_id w) = [f]"
proof -
  obtain p where p: "db_positions (ses_committed demo_session) = [p]" using demo_rows(1) by blast
  obtain w where w: "db_orders (ses_committed demo_session) = [w]" "vo_filled_quantity w = Some 2"
    using demo_rows(2) by blast
  obtain f where f: "fills_of (ses_committed demo_session) ''o1'' = [f]" using demo_summary by (auto simp: summary_def)
  then have "f \<in> set (fills_of (ses_committed demo_session) ''o1'')" by simp
  then have "f \<in> set (db_fills (ses_committed demo_session))" "vf_exchange_order_record_id f = ''o1''"
    by (simp_all add: fills_of_def)
  then have "vo_order_record_id w = ''o1''"
    using reach_committed [OF reach_demo] w by (auto simp: repo_inv_def fills_ok_def)
  with w f show ?thesis by auto
qed

theorem order_totals_are_fill_totals_witness:
  "\<exists>w (f :: V2ExchangeFill). w \<in> set (db_orders (ses_committed demo_session)) \<and> vo_filled_quantity w = Some 2
     \<and> vo_filled_quantity w = Some (dsum [vf_filled_quantity f]) \<and> vo_trade_ids w = [vf_trade_id f]"
proof -
  obtain w f where w: "w \<in> set (db_orders (ses_committed demo_session))" "vo_filled_quantity w = Some 2"
    "fills_of (ses_committed demo_session) (vo_order_record_id w) = [f]"
    using demo_order_fills by blast
  have "ses_committed demo_session \<in> {ses_committed demo_session, ses_view demo_session}" by simp
  note facts = order_totals_are_fill_totals [OF reach_demo this w(1,3)]
  have "vo_filled_quantity w = Some (dsum [vf_filled_quantity f]) \<and> vo_trade_ids w = [vf_trade_id f]"
    using facts by (elim conjE) (simp only: list.map simp_thms)
  with w show ?thesis by blast
qed

theorem committed_database_consistent_witness:
  "reach_session demo_session \<and> db_positions (ses_committed demo_session) \<noteq> []
    \<and> inj_on vp_intent_id (set (db_positions (ses_committed demo_session)))"
  using committed_database_consistent [OF reach_demo refl] demo_rows(1) reach_demo by (auto simp: inj_on_def)

definition demo_filled :: db where
  "demo_filled = ses_view (run_session demo_entry_calls (new_session empty_db))"

definition demo_projection :: "(db, unit) call" where
  "demo_projection = project_position_from_confirmed_fills ''p1'' ''i1'' ''o1'' ''BTC/USDT'' ''long''
     V2ExecutionMode.BINANCE_TESTNET 6 False"

lemma demo_filled_summary:
  "(map (\<lambda>i. (vi_intent_id i, vi_execution_mode i, vi_state i, vi_candidate_key i)) (db_intents demo_filled),
    fst (demo_projection demo_filled))
   = ([(''i1'', V2ExecutionMode.BINANCE_TESTNET, V2IntentState.FILLED, ''k1'')], Inr ())"
  by code_simp

theorem exposure_conserved_by_projection_witness:
  "\<exists>d'. demo_projection demo_filled = (Inr (), d')
     \<and> mset (map re_initial_risk_usdt (fst (list_active_initial_risk_exposures V2ExecutionMode.BINANCE_TESTNET d')))
       = mset (map re_initial_risk_usdt (fst (list_active_initial_risk_exposures V2ExecutionMode.BINANCE_TESTNET demo_filled)))"
proof -
  obtain d' where run: "demo_projection demo_filled = (Inr (), d')"
    using demo_filled_summary by (cases "demo_projection demo_filled") auto
  obtain row where "db_intents demo_filled = [row]" "vi_intent_id row = ''i1''"
    "vi_execution_mode row = V2ExecutionMode.BINANCE_TESTNET" "vi_state row = V2IntentState.FILLED"
    "vi_candidate_key row = ''k1''"
    using demo_filled_summary by auto
  then have "mset (map re_initial_risk_usdt (fst (list_active_initial_risk_exposures V2ExecutionMode.BINANCE_TESTNET d')))
      = mset (map re_initial_risk_usdt (fst (list_active_initial_risk_exposures V2ExecutionMode.BINANCE_TESTNET demo_filled)))"
    using exposure_conserved_by_projection [of "''p1''" row "''o1''" "''BTC/USDT''" "''long''"
        V2ExecutionMode.BINANCE_TESTNET 6 demo_filled d'] run
    by (simp add: demo_projection_def active_intent_states_def)
  with run show ?thesis by blast
qed

definition demo_quarantine :: db where
  "demo_quarantine = empty_db\<lparr>
     db_orders := [\<lparr>vo_order_record_id = ''o2'', vo_intent_id = ''i2'', vo_client_order_id = ''v2x'',
       vo_exchange_order_id = Some ''x9'', vo_quantity = 2, vo_leverage = 3, vo_submitted_at = None,
       vo_acknowledged_at = None, vo_filled_quantity = None, vo_average_fill_price = None, vo_total_fee = None,
       vo_fill_timestamp = None, vo_trade_ids = []\<rparr>],
     db_fills := [demo_row\<lparr>vf_exchange_order_record_id := ''o2'', vf_reduce_only := True\<rparr>],
     db_positions := [\<lparr>vp_position_id = ''p1'', vp_intent_id = ''i1'', vp_order_record_id = ''o1'',
       vp_symbol = ''BTC/USDT'', vp_direction = ''long'', vp_execution_mode = V2ExecutionMode.BINANCE_TESTNET,
       vp_quantity = 2, vp_entry_price = 100, vp_entry_fee = 0, vp_state = V2PositionState.QUARANTINED,
       vp_version = 2, vp_projected_at = 0, vp_protected_at = None, vp_closed_at = None, vp_realized_pnl = None\<rparr>]\<rparr>"

lemma demo_repair_runs:
  "fst (repair_quarantined_position_from_confirmed_exit ''e9'' ''p1'' ''o2'' 9 Map.empty demo_quarantine) = Inr ()"
  by code_simp

theorem quarantine_repair_needs_exit_fills_witness:
  "\<exists>d' p. repair_quarantined_position_from_confirmed_exit ''e9'' ''p1'' ''o2'' 9 Map.empty demo_quarantine = (Inr (), d')
     \<and> find_row vp_position_id ''p1'' (db_positions demo_quarantine) = Some p
     \<and> vp_quantity p \<le> dadd (dsum (map vf_filled_quantity (fills_of demo_quarantine ''o2''))) quantity_tolerance"
proof -
  obtain d' where run: "repair_quarantined_position_from_confirmed_exit ''e9'' ''p1'' ''o2'' 9 Map.empty demo_quarantine = (Inr (), d')"
    using demo_repair_runs
    by (cases "repair_quarantined_position_from_confirmed_exit ''e9'' ''p1'' ''o2'' 9 Map.empty demo_quarantine") auto
  from quarantine_repair_needs_exit_fills [OF run] run show ?thesis by blast
qed

definition demo_control :: db where
  "demo_control = empty_db\<lparr>db_controls := [new_control ''global'' False None None]\<rparr>"

abbreviation demo_cas :: "(db, bool) call" where
  "demo_cas \<equiv> compare_and_set_runtime_control 1 ''global'' 0 False None True (Some ''armed'') (Some ''op'')"

lemma demo_cas_runs: "fst (demo_cas demo_control) = Inr True" "fst (demo_cas (snd (demo_cas demo_control))) = Inr False"
  by code_simp+

theorem runtime_control_exclusive_witness:
  "\<exists>d1 d2 b. demo_cas demo_control = (Inr True, d1) \<and> demo_cas d1 = (Inr b, d2) \<and> \<not> b"
proof -
  obtain d1 where 1: "demo_cas demo_control = (Inr True, d1)"
    using demo_cas_runs(1) by (cases "demo_cas demo_control") auto
  then obtain d2 where 2: "demo_cas d1 = (Inr False, d2)"
    using demo_cas_runs(2) by (cases "demo_cas d1") auto
  from runtime_control_exclusive [OF 1, of "[]" d1] 1 2 show ?thesis by auto
qed

theorem evidence_append_only_witness:
  "\<exists>d'. create_intent demo_intent empty_db = (Inr (), d') \<and> prefix (db_events empty_db) (db_events d')"
proof -
  have "fst (create_intent demo_intent empty_db) = Inr ()" by code_simp
  then obtain d' where "create_intent demo_intent empty_db = (Inr (), d')"
    by (cases "create_intent demo_intent empty_db") auto
  with evidence_append_only [OF repository_call.intros(7) this] show ?thesis by auto
qed

end
