(* ===== verification/Transactions.thy ===== *)
theory Transactions
  imports Database
begin

text \<open>
  Services that use the exchange and the database: the state is the world of the exchange next to
  the committed database.  A \<open>with get_session_factory()() as session\<close> block opens a session on the
  committed database and leaves behind what it committed.  The second part is a small calculus for
  predicates that every step of such a service keeps, however the step ends.
\<close>

section \<open>The exchange and the database\<close>

definition on_exchange :: "('w, 'a) call \<Rightarrow> ('w \<times> db, 'a) call" where
  "on_exchange m = (\<lambda>(w, d). case m w of (r, w') \<Rightarrow> (r, (w', d)))"

definition with_session :: "(session, 'a) call \<Rightarrow> ('w \<times> db, 'a) call" where
  "with_session m = (\<lambda>(w, d). case m (new_session d) of (r, s) \<Rightarrow> (r, (w, ses_committed s)))"

text \<open>The fresh identifiers and the clock readings of a run.\<close>

record draws =
  dr_id :: "nat \<Rightarrow> string"
  dr_now :: "nat \<Rightarrow> int"

text \<open>Reading rows inside a session.\<close>

definition look :: "(db \<Rightarrow> (session, 'a) call) \<Rightarrow> (session, 'a) call" where
  "look f s = f (ses_view s) s"

lemma transaction_simps [simp]:
  "on_exchange m (w, d) = (fst (m w), (snd (m w), d))"
  "with_session t (w, d) = (fst (t (new_session d)), (w, ses_committed (snd (t (new_session d)))))"
  "look f s = f (ses_view s) s"
  by (simp_all add: on_exchange_def with_session_def look_def split: prod.splits)

lemma on_exchange_iff: "on_exchange m (w, d) = (r, s) \<longleftrightarrow> (\<exists>w'. m w = (r, w') \<and> s = (w', d))"
  by (cases "m w") auto

lemma with_session_iff:
  "with_session m (w, d) = (r, s) \<longleftrightarrow> (\<exists>t. m (new_session d) = (r, t) \<and> s = (w, ses_committed t))"
  by (cases "m (new_session d)") auto

definition opt_text :: "string option \<Rightarrow> pval" where
  "opt_text x = (case x of None \<Rightarrow> PNull | Some s \<Rightarrow> PStr s)"

section \<open>What every step keeps\<close>

definition stays :: "('s \<Rightarrow> bool) \<Rightarrow> ('s, 'a) call \<Rightarrow> bool" where
  "stays Q m \<longleftrightarrow> (\<forall>s. Q s \<longrightarrow> Q (snd (m s)))"

named_theorems stays_intros \<open>rules for what the steps of a service keep\<close>

lemma staysI: "(\<And>s. Q s \<Longrightarrow> Q (snd (m s))) \<Longrightarrow> stays Q m"
  by (simp add: stays_def)

lemma staysD: "\<lbrakk>stays Q m; Q s\<rbrakk> \<Longrightarrow> Q (snd (m s))"
  by (simp add: stays_def)

lemma stays_pure [stays_intros]: "stays Q (returnC x)" "stays Q (pureC r)"
  by (simp_all add: stays_def)

lemma stays_bindC [stays_intros]: "\<lbrakk>stays Q m; \<And>x. stays Q (f x)\<rbrakk> \<Longrightarrow> stays Q (bindC m f)"
  unfolding stays_def bindC_def by (auto split: prod.splits sum.splits)

lemma stays_bind_pure: "(\<And>x. r = Inr x \<Longrightarrow> stays Q (f x)) \<Longrightarrow> stays Q (bindC (pureC r) f)"
  by (cases r) (simp_all add: stays_def)

lemma stays_catchC [stays_intros]: "\<lbrakk>stays Q m; \<And>e. stays Q (h e)\<rbrakk> \<Longrightarrow> stays Q (catchC m h)"
  unfolding stays_def catchC_def by (auto split: prod.splits sum.splits)

lemma stays_someC [stays_intros]: "(\<And>y. x = Some y \<Longrightarrow> stays Q (f y)) \<Longrightarrow> stays Q (someC x e f)"
  by (cases x) (auto simp: stays_def)

lemma stays_guardC [stays_intros]: "(\<not> b \<Longrightarrow> stays Q m) \<Longrightarrow> stays Q (guardC b e m)"
  by (cases b) (auto simp: stays_def)

lemma stays_readC [stays_intros]: "(\<And>s. stays Q (f s)) \<Longrightarrow> stays Q (readC f)"
  by (auto simp: stays_def)

lemma stays_look [stays_intros]: "(\<And>d. stays Q (f d)) \<Longrightarrow> stays Q (look f)"
  by (auto simp: stays_def)

lemma stays_if [stays_intros]: "\<lbrakk>b \<Longrightarrow> stays Q m; \<not> b \<Longrightarrow> stays Q m'\<rbrakk> \<Longrightarrow> stays Q (if b then m else m')"
  by simp

lemma stays_option [stays_intros]:
  "\<lbrakk>x = None \<Longrightarrow> stays Q m; \<And>y. x = Some y \<Longrightarrow> stays Q (f y)\<rbrakk> \<Longrightarrow> stays Q (case x of None \<Rightarrow> m | Some y \<Rightarrow> f y)"
  by (cases x) simp_all

lemma stays_prod [stays_intros]: "(\<And>a b. stays Q (f a b)) \<Longrightarrow> stays Q (case p of (a, b) \<Rightarrow> f a b)"
  by (cases p) simp

section \<open>The database beside the exchange\<close>

text \<open>A consistent database: an invariant of the repository together with the declared constraints.\<close>

definition holds_db :: "(db \<Rightarrow> bool) \<Rightarrow> 'w \<times> db \<Rightarrow> bool" where
  "holds_db I s \<longleftrightarrow> I (snd s) \<and> constraints (snd s)"

definition holds_world :: "('w \<Rightarrow> bool) \<Rightarrow> 'w \<times> db \<Rightarrow> bool" where
  "holds_world P s \<longleftrightarrow> P (fst s)"

lemma holds_simps [simp]:
  "holds_db I (w, d) \<longleftrightarrow> I d \<and> constraints d" "holds_world P (w, d) \<longleftrightarrow> P w"
  by (simp_all add: holds_db_def holds_world_def)

lemma stays_db_exchange [stays_intros]: "stays (holds_db I) (on_exchange m)"
  by (auto simp: stays_def)

lemma stays_db_session [stays_intros]:
  assumes "stays (session_inv I) m"
  shows "stays (holds_db I) (with_session m)"
proof (rule staysI)
  fix s :: "'b \<times> db"
  assume inv: "holds_db I s"
  obtain w d where s: "s = (w, d)" by (cases s)
  have "session_inv I (new_session d)" using inv unfolding s by (simp add: session_inv_new)
  then have "session_inv I (snd (m (new_session d)))" by (rule staysD [OF assms])
  then show "holds_db I (snd (with_session m s))" unfolding s by (simp add: session_inv_def)
qed

lemma stays_in_session [stays_intros]: "keeps I m \<Longrightarrow> stays (session_inv I) (in_session m)"
  by (rule staysI) (rule session_inv_in_session)

lemma stays_commit [stays_intros]: "stays (session_inv I) commit"
  by (rule staysI) (rule session_inv_commit)

lemma stays_rollback [stays_intros]: "stays (session_inv I) rollback"
  by (rule staysI) (rule session_inv_rollback)

lemma stays_world_session [stays_intros]: "stays (holds_world P) (with_session m)"
  by (auto simp: stays_def)

lemma stays_world_exchange [stays_intros]: "stays P m \<Longrightarrow> stays (holds_world P) (on_exchange m)"
  by (auto simp: stays_def)

text \<open>A session that only reads.\<close>

lemma with_session_read [simp]: "with_session (look (\<lambda>d. pureC (f d))) (w, d) = (f d, (w, d))"
  by (simp add: new_session_def)

lemma stays_bind_read:
  "(\<And>d x. f d = Inr x \<Longrightarrow> stays Q (g x)) \<Longrightarrow> stays Q (bindC (with_session (look (\<lambda>d. pureC (f d)))) g)"
  by (auto simp: stays_def bindC_def new_session_def split: prod.splits sum.splits)

section \<open>Successful and failed steps of a session\<close>

lemma in_session_Inr:
  "in_session m s = (Inr x, s') \<Longrightarrow> \<not> ses_failed s \<and> m (ses_view s) = (Inr x, ses_view s')"
  by (auto simp: in_session_def split: if_splits prod.splits sum.splits exn.splits)

lemma commit_Inr: "commit s = (Inr x, s') \<Longrightarrow> ses_committed s' = ses_view s"
  by (auto simp: commit_def in_session_def split: if_splits prod.splits sum.splits exn.splits)

lemma bindC_failed: "fst (m w) = Inl e \<Longrightarrow> bindC m f w = (Inl e, snd (m w))"
  by (cases "m w") (simp add: bindC_def)

lemma in_session_committed [simp]: "ses_committed (snd (in_session m s)) = ses_committed s"
  by (auto simp: in_session_def split: prod.splits sum.splits exn.splits)

lemma in_session_keeps_committed: "in_session m s = (q, t) \<Longrightarrow> ses_committed t = ses_committed s"
  using in_session_committed [of m s] by simp

lemma in_session_failed: "fst (m (ses_view s)) = Inl e \<Longrightarrow> \<exists>e'. fst (in_session m s) = Inl e'"
  by (cases "m (ses_view s)") (auto simp: in_session_def split: exn.splits)

end
