(* ===== verification/Ledger_Calls.thy ===== *)
theory Ledger_Calls
  imports Repository_Facts Transactions
begin

text \<open>
  What the services that write the ledger need of the repository: the rules for the invariant of
  the ledger inside a session, and what a call that returned has done.
\<close>

lemmas ledger_intros = stays_intros keeps_transition_position keeps_transition_intent keeps_transition_protection
  keeps_elsewhere keeps_save_exchange_order_receipt keeps_save_protection keeps_update_protection_active

lemma transition_intent_success:
  assumes "transition_intent event_id now i cur nxt ty p occ d = (Inr x, d')"
  shows "find_row vi_intent_id i (db_intents d') \<noteq> None \<and> vi_state (the (find_row vi_intent_id i (db_intents d'))) = nxt
    \<and> db_orders d' = db_orders d"
  using assms
  by (auto simp: transition_intent_def append_event_def store_def bindC_Inr_iff someC_iff guardC_iff Let_def
      find_row_update)

lemma save_receipt_success:
  assumes "save_exchange_order_receipt r x t d = (Inr y, d')"
  shows "db_intents d' = db_intents d \<and> map vo_intent_id (db_orders d') = map vo_intent_id (db_orders d)
    \<and> (\<forall>w. w \<in> set (db_orders d) \<and> vo_order_record_id w = r \<longrightarrow>
          w\<lparr>vo_exchange_order_id := Some x, vo_acknowledged_at := Some t\<rparr> \<in> set (db_orders d'))"
  using assms
  by (auto simp: save_exchange_order_receipt_def store_def someC_iff guardC_iff update_row_def)

lemma transition_protection_success:
  assumes "transition_protection e n pid cur nxt ty p occ d = (Inr x, d')"
    and "find_row vr_protection_id pid (db_protections d) = Some r"
  shows "\<exists>r'. find_row vr_protection_id pid (db_protections d') = Some r' \<and> vr_state r' = nxt
    \<and> vr_version r' = vr_version r + 1 \<and> vr_stop_client_order_id r' = vr_stop_client_order_id r
    \<and> vr_stop_exchange_order_id r' = vr_stop_exchange_order_id r \<and> vr_position_id r' = vr_position_id r"
  using assms
  by (auto simp: transition_protection_def append_event_def store_def bindC_Inr_iff someC_iff guardC_iff Let_def
      find_row_update)

lemma transition_protection_ids:
  assumes "transition_protection e n pid cur nxt ty p occ d = (Inr x, d')"
  shows "map vr_stop_client_order_id (db_protections d') = map vr_stop_client_order_id (db_protections d)"
  using assms
  by (auto simp: transition_protection_def append_event_def store_def bindC_Inr_iff someC_iff guardC_iff Let_def)

lemma save_protection_success:
  assumes "save_protection row d = (Inr x, d')"
  shows "vr_state row = V2ProtectionState.PROTECTION_INTENT \<and> unique_on vr_protection_id (db_protections d')
    \<and> unique_on vr_stop_client_order_id (db_protections d')
    \<and> (\<exists>r. db_protections d' = db_protections d @ [r] \<and> vr_protection_id r = vr_protection_id row
        \<and> vr_version r = 0 \<and> vr_state r = V2ProtectionState.PROTECTION_INTENT
        \<and> vr_stop_client_order_id r = vr_stop_client_order_id row \<and> vr_position_id r = vr_position_id row)"
  using assms
  by (auto simp: save_protection_def store_def guardC_iff constraints_def ledger_constraints_def)

lemma update_protection_active_success:
  assumes "update_protection_active ids now pid receipt V2ProtectionState.PROTECTION_ACTIVE t d = (Inr x, d')"
    and "find_row vr_protection_id pid (db_protections d) = Some r" "vr_state r = V2ProtectionState.PROTECTION_INTENT"
  shows "\<exists>r'. find_row vr_protection_id pid (db_protections d') = Some r' \<and> vr_state r' = V2ProtectionState.PROTECTION_ACTIVE
    \<and> vr_version r' = vr_version r + 2 \<and> vr_stop_client_order_id r' = vr_stop_client_order_id r
    \<and> vr_stop_exchange_order_id r' = Some (pr_stop_exchange_order_id receipt) \<and> vr_position_id r' = vr_position_id r"
proof -
  let ?f = "\<lambda>r. r\<lparr>vr_stop_exchange_order_id := Some (pr_stop_exchange_order_id receipt),
            vr_tp_exchange_order_id := pr_tp_exchange_order_id receipt\<rparr>"
  let ?d = "d\<lparr>db_protections := update_row vr_protection_id pid ?f (db_protections d)\<rparr>"
  from assms obtain d1 p where
    t1: "transition_protection (ids 0) now pid V2ProtectionState.PROTECTION_INTENT V2ProtectionState.PROTECTION_SUBMITTING
      ''ProtectionSubmitting'' Map.empty (Some t) ?d = (Inr (), d1)"
    and t2: "transition_protection (ids 1) now pid V2ProtectionState.PROTECTION_SUBMITTING V2ProtectionState.PROTECTION_ACTIVE
      ''ProtectionActivated'' p (Some t) d1 = (Inr (), d')"
    unfolding update_protection_active_def Let_def store_def by (auto simp: bindC_Inr_iff)
  have "find_row vr_protection_id pid (db_protections ?d) = Some (?f r)"
    using assms(2) by (simp add: find_row_update)
  from transition_protection_success [OF t1 this] obtain r1 where
    r1: "find_row vr_protection_id pid (db_protections d1) = Some r1" "vr_version r1 = vr_version r + 1"
      "vr_stop_client_order_id r1 = vr_stop_client_order_id r" "vr_position_id r1 = vr_position_id r"
      "vr_stop_exchange_order_id r1 = Some (pr_stop_exchange_order_id receipt)" by auto
  from transition_protection_success [OF t2 r1(1)] r1 show ?thesis by auto
qed

end
