(* ===== verification/Uuid5.thy ===== *)
theory Uuid5
  imports Sha256
begin

text \<open>
  \<open>str(uuid.uuid5(uuid.NAMESPACE_URL, name))\<close> of the standard library: the first sixteen bytes of
  the SHA-1 digest of the namespace and the name, with the version and variant bits set.  The
  local identities of exits and of margin-guard positions are built from it.
\<close>

section \<open>SHA-1\<close>

definition rotl :: "nat \<Rightarrow> w32 \<Rightarrow> w32" where
  "rotl n x = push_bit n x OR drop_bit (32 - n) x"

definition sha1_extend :: "w32 list \<Rightarrow> w32 list" where
  "sha1_extend w = (let t = length w in
     w @ [rotl 1 (w ! (t - 3) XOR w ! (t - 8) XOR w ! (t - 14) XOR w ! (t - 16))])"

definition sha1_schedule :: "w32 list \<Rightarrow> w32 list" where
  "sha1_schedule block = (sha1_extend ^^ 64) block"

datatype digest1 = Digest1 w32 w32 w32 w32 w32

definition sha1_mix :: "nat \<Rightarrow> w32 \<Rightarrow> w32 \<Rightarrow> w32 \<Rightarrow> w32" where
  "sha1_mix t b c d =
     (if t < 20 then ((b AND c) OR (NOT b AND d)) + 0x5a827999
      else if t < 40 then (b XOR c XOR d) + 0x6ed9eba1
      else if t < 60 then ((b AND c) OR (b AND d) OR (c AND d)) + 0x8f1bbcdc
      else (b XOR c XOR d) + 0xca62c1d6)"

fun sha1_step :: "digest1 \<Rightarrow> nat \<times> w32 \<Rightarrow> digest1" where
  "sha1_step (Digest1 a b c d e) (t, w) = Digest1 (rotl 5 a + sha1_mix t b c d + e + w) a (rotl 30 b) c d"

fun add_digest1 :: "digest1 \<Rightarrow> digest1 \<Rightarrow> digest1" where
  "add_digest1 (Digest1 a b c d e) (Digest1 a' b' c' d' e') = Digest1 (a + a') (b + b') (c + c') (d + d') (e + e')"

definition sha1_compress :: "digest1 \<Rightarrow> w32 list \<Rightarrow> digest1" where
  "sha1_compress dg block = add_digest1 dg (foldl sha1_step dg (zip [0..<80] (sha1_schedule block)))"

definition sha1 :: "nat list \<Rightarrow> digest1" where
  "sha1 bytes = foldl sha1_compress (Digest1 0x67452301 0xefcdab89 0x98badcfe 0x10325476 0xc3d2e1f0)
     (blocks (be_words (pad bytes)))"

section \<open>The identifier\<close>

definition NAMESPACE_URL :: "nat list" where
  "NAMESPACE_URL = [107, 167, 184, 17, 157, 173, 17, 209, 128, 180, 0, 192, 79, 212, 48, 200]"

fun uuid_text :: "digest1 \<Rightarrow> string" where
  "uuid_text (Digest1 a b c d e) =
     (let b' = hex_word ((b AND 0xffff0fff) OR 0x5000); c' = hex_word ((c AND 0x3fffffff) OR 0x80000000)
      in hex_word a @ ''-'' @ take 4 b' @ ''-'' @ drop 4 b' @ ''-'' @ take 4 c' @ ''-'' @ drop 4 c' @ hex_word d)"

definition uuid5 :: "string \<Rightarrow> string" where
  "uuid5 name = uuid_text (sha1 (NAMESPACE_URL @ map of_char name))"

lemma length_uuid5 [simp]: "length (uuid5 name) = 36"
  by (cases "sha1 (NAMESPACE_URL @ map of_char name)") (simp add: uuid5_def Let_def)

lemma set_uuid5: "set (uuid5 name) \<subseteq> insert CHR ''-'' hex_chars"
proof -
  have "set (take n (hex_word w)) \<subseteq> hex_chars" "set (drop n (hex_word w)) \<subseteq> hex_chars" for n w
    using set_hex_word [of w] set_take_subset [of n "hex_word w"] set_drop_subset [of n "hex_word w"] by blast+
  then show ?thesis using set_hex_word
    by (cases "sha1 (NAMESPACE_URL @ map of_char name)") (auto simp: uuid5_def Let_def subset_iff)
qed

end
