(* ===== verification/Fact_Persistence.thy ===== *)
theory Fact_Persistence
  imports Ledger_Calls Entry Exit Protection Uuid5
begin

text \<open>
  Writing execution facts (\<open>application/fact_persistence.py\<close>): the reservation of risk before an
  entry is submitted, what the exchange answered, the projection of a confirmed fill with its
  protection, and the same for exits.  Every function opens sessions of its own; the lock a session
  takes first (\<open>BEGIN IMMEDIATE\<close>) is why a block is one step here.  Texts of details are arguments,
  \<open>flt\<close> is what a numeric column holds after a float was written to it, and \<open>draws\<close> are the fresh
  identifiers and clock readings of a run.
\<close>

definition exit_intent_id :: "string \<Rightarrow> string" where
  "exit_intent_id client_order_id = uuid5 (''automated-trading-v2:exit:'' @ client_order_id)"

section \<open>Reserving an entry\<close>

record entry_facts =
  ek_cycle_id :: string
  ek_decision_id :: "string option"
  ek_intent_id :: string
  ek_symbol :: string
  ek_direction :: string
  ek_candidate_key :: string
  ek_candidate_type :: V2CandidateType
  ek_execution_mode :: V2ExecutionMode
  ek_decision_bar_timestamp :: int
  ek_fencing_token :: string

definition ensure_cycle :: "string \<Rightarrow> string \<Rightarrow> int \<Rightarrow> V2ExecutionMode \<Rightarrow> string \<Rightarrow> (session, unit) call" where
  "ensure_cycle cycle_id symbol bar_timestamp execution_mode fencing_token = look (\<lambda>d.
     if find_row vy_cycle_id cycle_id (db_cycles d) = None
     then in_session (create_cycle cycle_id symbol ''15m'' bar_timestamp execution_mode fencing_token)
     else returnC ())"

definition ensure_decision :: "entry_facts \<Rightarrow> (session, unit) call" where
  "ensure_decision ek = look (\<lambda>d.
     case ek_decision_id ek of
       None \<Rightarrow> returnC ()
     | Some decision_id \<Rightarrow>
         if decision_id \<noteq> [] \<and> find_row vd_decision_id decision_id (db_decisions d) = None
         then in_session (create_decision decision_id (ek_cycle_id ek) (Some (ek_candidate_key ek)) None Map.empty)
         else returnC ())"

definition entry_intent_row :: "entry_facts \<Rightarrow> dec option \<Rightarrow> V2ExecutionIntent" where
  "entry_intent_row ek initial_risk_usdt =
     \<lparr>vi_intent_id = ek_intent_id ek, vi_cycle_id = ek_cycle_id ek, vi_decision_id = ek_decision_id ek,
      vi_symbol = ek_symbol ek, vi_direction = ek_direction ek, vi_candidate_key = ek_candidate_key ek,
      vi_candidate_type = ek_candidate_type ek, vi_execution_mode = ek_execution_mode ek,
      vi_decision_bar_timestamp = ek_decision_bar_timestamp ek, vi_decision_funnel_id = None,
      vi_initial_risk_usdt = initial_risk_usdt, vi_state = V2IntentState.INTENT_CREATED, vi_version = 0\<rparr>"

text \<open>A new intent is created and moved to submitting in the same transaction.\<close>

definition open_intent ::
    "draws \<Rightarrow> V2ExecutionIntent \<Rightarrow> string \<Rightarrow> payload \<Rightarrow> int option \<Rightarrow> (session, unit) call" where
  "open_intent u row event_type payload occurred_at =
     bindC (in_session (create_intent row)) (\<lambda>_.
     in_session (transition_intent (dr_id u 0) (dr_now u 0) (vi_intent_id row) V2IntentState.INTENT_CREATED
       V2IntentState.EXCHANGE_SUBMITTING event_type payload occurred_at))"

text \<open>The gate on the database: why an entry may not be reserved, \<open>None\<close> when it may.\<close>

definition entry_blocked ::
    "entry_facts \<Rightarrow> dec \<Rightarrow> dec option \<Rightarrow> bool \<Rightarrow> int \<Rightarrow> db \<Rightarrow> string option" where
  "entry_blocked ek initial_risk_usdt account_equity portfolio_risk_enforced max_open_positions d =
     (if (case find_row vc_scope ''global'' (db_controls d) of None \<Rightarrow> False | Some control \<Rightarrow> \<not> vc_entry_enabled control)
      then Some ''ENTRY_PAUSED''
      else case list_active_initial_risk_exposures (ek_execution_mode ek) d of (committed, has_unknown_active_risk) \<Rightarrow>
        if has_unknown_active_risk then Some ''UNKNOWN_ACTIVE_INTENT_RISK''
        else (case account_equity of
                None \<Rightarrow> None
              | Some equity \<Rightarrow>
                  let verdict = evaluate_portfolio_risk equity (ek_symbol ek) (ek_direction ek) initial_risk_usdt
                        committed MAX_TOTAL_INITIAL_RISK_FRACTION MAX_SAME_DIRECTION_CLUSTER_RISK_FRACTION max_open_positions
                  in if portfolio_risk_blocks verdict (\<not> portfolio_risk_enforced)
                     then prd_reason_code verdict else None))"

definition reserve_entry :: "draws \<Rightarrow> entry_facts \<Rightarrow> dec \<Rightarrow> (session, unit) call" where
  "reserve_entry u ek initial_risk_usdt =
     bindC (ensure_cycle (ek_cycle_id ek) (ek_symbol ek) (ek_decision_bar_timestamp ek) (ek_execution_mode ek)
       (ek_fencing_token ek)) (\<lambda>_.
     bindC (ensure_decision ek) (\<lambda>_.
     look (\<lambda>d. if find_row vi_intent_id (ek_intent_id ek) (db_intents d) = None
         then open_intent u (entry_intent_row ek (Some initial_risk_usdt)) ''EntrySubmitting''
           [''client_order_identity'' \<mapsto> PStr ''derived_from_intent_id''] None
         else returnC ())))"

definition persist_entry_intent_before_submission ::
    "draws \<Rightarrow> entry_facts \<Rightarrow> dec \<Rightarrow> dec option \<Rightarrow> bool \<Rightarrow> int \<Rightarrow> ('w \<times> db, string option) call" where
  "persist_entry_intent_before_submission u ek initial_risk_usdt account_equity portfolio_risk_enforced max_open_positions =
     guardC (initial_risk_usdt \<le> 0)
       (ValueError ''initial_risk_usdt must be finite and positive for new exposure'') (
     with_session (look (\<lambda>d.
     case entry_blocked ek initial_risk_usdt account_equity portfolio_risk_enforced max_open_positions d of
       Some code \<Rightarrow> bindC rollback (\<lambda>_. returnC (Some code))
     | None \<Rightarrow>
         bindC (reserve_entry u ek initial_risk_usdt) (\<lambda>_. bindC commit (\<lambda>_. returnC None)))))"

section \<open>What the exchange answered\<close>

text \<open>\<open>result.fill_timestamp or datetime.now(UTC)\<close>\<close>

definition stamp_of :: "int option \<Rightarrow> int \<Rightarrow> int" where
  "stamp_of t now = (case t of Some s \<Rightarrow> s | None \<Rightarrow> now)"

text \<open>The order row of an intent, saved when there is none yet.\<close>

definition ensure_order ::
    "draws \<Rightarrow> string \<Rightarrow> string \<Rightarrow> dec \<Rightarrow> int \<Rightarrow> int \<Rightarrow> (session, string) call" where
  "ensure_order u intent_id client_order_id quantity leverage submitted_at = look (\<lambda>d.
     case find_row vo_intent_id intent_id (db_orders d) of
       Some order \<Rightarrow> returnC (vo_order_record_id order)
     | None \<Rightarrow> in_session (save_order_submission (dr_id u 0) intent_id client_order_id quantity leverage submitted_at))"

text \<open>One fill row of an order, before its identity, trade and quantity are filled in.\<close>

definition trade_row ::
    "string \<Rightarrow> string \<Rightarrow> string \<Rightarrow> string \<Rightarrow> string \<Rightarrow> bool \<Rightarrow> dec \<Rightarrow> dec option \<Rightarrow> int \<Rightarrow> int \<Rightarrow> V2ExchangeFill" where
  "trade_row intent_id order_record_id exchange_order_id symbol side reduce_only price commission event_time received_at =
     \<lparr>vf_fill_id = [], vf_intent_id = intent_id, vf_exchange_order_record_id = order_record_id,
      vf_account_id = ''binance_testnet'', vf_exchange_order_id = exchange_order_id, vf_trade_id = None,
      vf_fill_source = ''BINANCE_USER_TRADE'', vf_symbol = symbol, vf_side = side, vf_reduce_only = reduce_only,
      vf_filled_quantity = 0, vf_fill_price = price, vf_commission = commission, vf_commission_asset = Some ''USDT'',
      vf_exchange_event_time = event_time, vf_received_at = received_at, vf_raw_hash = []\<rparr>"

definition side_of :: "bool \<Rightarrow> string" where
  "side_of buys = (if buys then ''BUY'' else ''SELL'')"

text \<open>The trades with fresh row identifiers.\<close>

definition numbered :: "draws \<Rightarrow> string list \<Rightarrow> (string \<times> string) list" where
  "numbered u trades = zip (map (dr_id u) [0..<length trades]) trades"

definition submitted_states :: "V2IntentState list" where
  "submitted_states = [V2IntentState.EXCHANGE_SUBMITTING, V2IntentState.EXCHANGE_UNKNOWN]"

text \<open>
  A rejected result that has an exchange order: the order filled and the margin guard unwound it.
  Its fills are saved, and the intent counts as acknowledged.
\<close>

definition persist_guarded_entry ::
    "(dec \<Rightarrow> dec) \<Rightarrow> draws \<Rightarrow> string \<Rightarrow> V2ExecutionIntent \<Rightarrow> int \<Rightarrow> EntryExecutionResult \<Rightarrow> (session, unit) call" where
  "persist_guarded_entry flt u detail intent leverage result =
     (let stamp = stamp_of (er_fill_timestamp result) (dr_now u 0); xid = the (er_exchange_order_id result);
          n = length (er_trade_ids result) in
     bindC (ensure_order u (vi_intent_id intent) (er_client_order_id result)
       (flt (if er_requested_quantity result \<noteq> 0 then er_requested_quantity result else er_filled_quantity result))
       leverage stamp) (\<lambda>order_record_id.
     bindC (in_session (save_exchange_order_receipt order_record_id xid stamp)) (\<lambda>_.
     bindC (case er_average_fill_price result of
         Some price \<Rightarrow>
           if er_trade_ids result \<noteq> [] \<and> 0 < er_filled_quantity result
           then bindC (pureC (quantize8 (ddiv (er_filled_quantity result) (of_nat n)))) (\<lambda>per_qty.
             in_session (save_trades (numbered u (er_trade_ids result)) per_qty (er_filled_quantity result) 0
               (trade_row (vi_intent_id intent) order_record_id xid (vi_symbol intent)
                 (side_of (vi_direction intent = ''long'')) False price
                 (Some (ddiv (er_total_fee result) (of_nat n))) stamp (dr_now u 1))))
           else returnC ()
       | None \<Rightarrow> returnC ()) (\<lambda>_.
     if vi_state intent \<in> set submitted_states
     then in_session (transition_intent (dr_id u 0) (dr_now u 0) (vi_intent_id intent) (vi_state intent)
       V2IntentState.EXCHANGE_ACKNOWLEDGED ''EntryAcknowledgedWithMarginGuard''
       [''exchange_order_id'' \<mapsto> PStr xid, ''trade_ids'' \<mapsto> PTexts (map Some (er_trade_ids result)),
        ''margin_guard_exchange_order_id'' \<mapsto> opt_text (er_guard_exchange_order_id result),
        ''margin_guard_client_order_id'' \<mapsto> opt_text (er_guard_client_order_id result), ''detail'' \<mapsto> PStr detail] None)
     else returnC ()))))"

definition persist_acknowledged_entry ::
    "(dec \<Rightarrow> dec) \<Rightarrow> draws \<Rightarrow> V2ExecutionIntent \<Rightarrow> int \<Rightarrow> EntryExecutionResult \<Rightarrow> (session, unit) call" where
  "persist_acknowledged_entry flt u intent leverage result =
     (let xid = the (er_exchange_order_id result) in
     bindC (ensure_order u (vi_intent_id intent) (er_client_order_id result) (flt (er_requested_quantity result))
       leverage (dr_now u 0)) (\<lambda>order_record_id.
     bindC (in_session (save_exchange_order_receipt order_record_id xid (dr_now u 1))) (\<lambda>_.
     if vi_state intent \<in> set submitted_states
     then in_session (transition_intent (dr_id u 0) (dr_now u 0) (vi_intent_id intent) (vi_state intent)
       V2IntentState.EXCHANGE_ACKNOWLEDGED ''EntryAcknowledged'' [''exchange_order_id'' \<mapsto> PStr xid] None)
     else returnC ())))"

definition persist_entry_submission_result ::
    "(dec \<Rightarrow> dec) \<Rightarrow> draws \<Rightarrow> string \<Rightarrow> string \<Rightarrow> int \<Rightarrow> EntryExecutionResult \<Rightarrow> ('w \<times> db, unit) call" where
  "persist_entry_submission_result flt u detail intent_id leverage result = with_session (look (\<lambda>d.
     someC (find_row vi_intent_id intent_id (db_intents d)) (ValueError ''Intent not found before exchange result'') (\<lambda>intent.
     let move = (\<lambda>next event_type payload. in_session (transition_intent (dr_id u 0) (dr_now u 0) intent_id
           (vi_state intent) next event_type payload None)) in
     bindC (if er_status result = EntryExecutionStatus.UNKNOWN
         then move V2IntentState.EXCHANGE_UNKNOWN ''EntryOutcomeUnknown''
           [''client_order_id'' \<mapsto> PStr (er_client_order_id result)]
         else if er_status result = EntryExecutionStatus.REJECTED \<and> has_text (er_exchange_order_id result)
         then persist_guarded_entry flt u detail intent leverage result
         else if er_status result = EntryExecutionStatus.REJECTED
         then move V2IntentState.REJECTED ''EntryRejected'' [''detail'' \<mapsto> PStr detail]
         else if er_status result = EntryExecutionStatus.NOT_ATTEMPTED
         then move V2IntentState.CANCELLED ''EntryCancelledBeforeSubmit'' [''detail'' \<mapsto> PStr detail]
         else if has_text (er_exchange_order_id result)
         then persist_acknowledged_entry flt u intent leverage result
         else returnC ()) (\<lambda>_. commit))))"

section \<open>Projecting a confirmed entry\<close>

text \<open>The loop over the trades that skips a trade already saved for the same order.\<close>

fun save_new_trades ::
    "(string \<times> string) list \<Rightarrow> dec \<Rightarrow> dec \<Rightarrow> dec \<Rightarrow> V2ExchangeFill \<Rightarrow> (db, unit) call" where
  "save_new_trades [] per_qty whole allocated fill = returnC ()"
| "save_new_trades ((fill_id, trade_id) # rest) per_qty whole allocated fill =
     (let qty = (if rest = [] then dsub whole allocated else per_qty) in
      bindC (readC (\<lambda>d. case get_exchange_fill_by_trade (vf_account_id fill) trade_id d of
          Some existing \<Rightarrow>
            guardC (vf_intent_id existing \<noteq> vf_intent_id fill
              \<or> vf_exchange_order_record_id existing \<noteq> vf_exchange_order_record_id fill
              \<or> vf_exchange_order_id existing \<noteq> vf_exchange_order_id fill)
              (ValueError ''exchange fill identity is already attributed to a different V2 order'') (returnC ())
        | None \<Rightarrow> unit_call (save_exchange_fill_receipt (fill\<lparr>vf_fill_id := fill_id, vf_trade_id := Some trade_id,
            vf_filled_quantity := qty, vf_raw_hash := vf_exchange_order_id fill @ '':'' @ trade_id\<rparr>)))) (\<lambda>_.
      save_new_trades rest per_qty whole (dadd allocated qty) fill))"

definition save_trade_fills ::
    "draws \<Rightarrow> string list \<Rightarrow> dec \<Rightarrow> dec \<Rightarrow> V2ExchangeFill \<Rightarrow> (session, unit) call" where
  "save_trade_fills u trades whole total_fee row =
     (let n = of_nat (max (length trades) 1) in
     bindC (pureC (quantize8 (ddiv whole n))) (\<lambda>per_qty.
     in_session (save_new_trades (numbered u trades) per_qty whole 0 (row\<lparr>vf_commission := Some (ddiv total_fee n)\<rparr>))))"

definition reconstructed_risk :: "dec option \<Rightarrow> dec option \<Rightarrow> EntryExecutionResult \<Rightarrow> dec option" where
  "reconstructed_risk initial_risk_usdt stop_loss_price result = (case initial_risk_usdt of
     Some r \<Rightarrow> Some r
   | None \<Rightarrow> (case stop_loss_price of None \<Rightarrow> None | Some stop \<Rightarrow>
       (case er_average_fill_price result of None \<Rightarrow> None
        | Some price \<Rightarrow> Some (dmul (dabs (dsub price stop)) (er_filled_quantity result)))))"

text \<open>The intent of the entry: created when missing, its risk filled in when it was unknown.\<close>

definition ensure_entry_intent ::
    "draws \<Rightarrow> entry_facts \<Rightarrow> dec option \<Rightarrow> EntryExecutionResult \<Rightarrow> (session, unit) call" where
  "ensure_entry_intent u ek risk result = look (\<lambda>d.
     case find_row vi_intent_id (ek_intent_id ek) (db_intents d) of
       None \<Rightarrow> open_intent u (entry_intent_row ek risk) ''Submitting'' Map.empty None
     | Some intent \<Rightarrow>
         (case (vi_initial_risk_usdt intent, risk) of
            (None, Some r) \<Rightarrow>
              in_session (bindC (modifyC (\<lambda>d. d\<lparr>db_intents := update_row vi_intent_id (ek_intent_id ek)
                (\<lambda>i. i\<lparr>vi_initial_risk_usdt := Some r\<rparr>) (db_intents d)\<rparr>)) (\<lambda>_.
              bindC (append_event (dr_id u 1) (ek_intent_id ek) ''INTENT''
                ''InitialRiskReconstructedFromAuthoritativeFillAndStop''
                [''initial_risk_usdt'' \<mapsto> PDec r, ''source'' \<mapsto> PStr ''authoritative_fill_and_original_stop'']
                (stamp_of (er_fill_timestamp result) (dr_now u 1))) (\<lambda>_. flush)))
          | _ \<Rightarrow> returnC ()))"

definition acknowledge_entry :: "draws \<Rightarrow> entry_facts \<Rightarrow> EntryExecutionResult \<Rightarrow> (session, unit) call" where
  "acknowledge_entry u ek result = look (\<lambda>d.
     someC (find_row vi_intent_id (ek_intent_id ek) (db_intents d))
       (ValueError ''Intent was not durable after creation'') (\<lambda>intent.
     if vi_state intent \<in> set submitted_states
     then in_session (transition_intent (dr_id u 2) (dr_now u 2) (ek_intent_id ek) (vi_state intent)
       V2IntentState.EXCHANGE_ACKNOWLEDGED ''Acked'' [''exchange_order_id'' \<mapsto> opt_text (er_exchange_order_id result)] None)
     else returnC ()))"

definition save_entry_fills ::
    "draws \<Rightarrow> entry_facts \<Rightarrow> string \<Rightarrow> EntryExecutionResult \<Rightarrow> (session, unit) call" where
  "save_entry_fills u ek order_id result =
     (let price = (case er_average_fill_price result of Some p \<Rightarrow> p | None \<Rightarrow> 0);
          row = trade_row (ek_intent_id ek) order_id (the (er_exchange_order_id result)) (ek_symbol ek)
            (side_of (ek_direction ek = ''long'')) False price None
            (stamp_of (er_fill_timestamp result) (dr_now u 3)) (dr_now u 4) in
     if er_fill_source result = ''BINANCE_ORDER_STATUS_RECOVERY''
     then bindC (in_session (save_order_level_fill_recovery
       (row\<lparr>vf_fill_id := dr_id u 0, vf_filled_quantity := er_filled_quantity result\<rparr>))) (\<lambda>_. returnC ())
     else save_trade_fills u (er_trade_ids result) (er_filled_quantity result) (er_total_fee result) row)"

definition save_entry_protection ::
    "(dec \<Rightarrow> dec) \<Rightarrow> draws \<Rightarrow> string \<Rightarrow> ProtectionResult option \<Rightarrow> dec option \<Rightarrow> dec option \<Rightarrow> string option \<Rightarrow> string option
      \<Rightarrow> (session, unit) call" where
  "save_entry_protection flt u position_id protection stop_loss_price take_profit_price stop_order_id tp_order_id =
     (case (protection, stop_order_id, stop_loss_price) of
        (Some pres, Some stop_cid, Some stop) \<Rightarrow>
          if stop_cid = [] then returnC ()
          else
            bindC (in_session (save_protection
              \<lparr>vr_protection_id = dr_id u 0, vr_position_id = position_id, vr_stop_loss_price = flt stop,
               vr_original_stop_loss_price = None,
               vr_take_profit_price = (case take_profit_price of None \<Rightarrow> None | Some t \<Rightarrow> if t = 0 then None else Some (flt t)),
               vr_stop_client_order_id = stop_cid, vr_tp_client_order_id = tp_order_id,
               vr_stop_exchange_order_id = None, vr_tp_exchange_order_id = None,
               vr_state = V2ProtectionState.PROTECTION_INTENT, vr_version = 0, vr_policy = ''P1'', vr_activated_at = None\<rparr>)) (\<lambda>_.
            if is_active pres
            then
              bindC (in_session (transition_protection (dr_id u 4) (dr_now u 5) (dr_id u 0)
                V2ProtectionState.PROTECTION_INTENT V2ProtectionState.PROTECTION_SUBMITTING ''Submitting'' Map.empty None)) (\<lambda>_.
              bindC (pureC (mk_ProtectionReceipt \<lparr>pr_position_id = position_id,
                pr_stop_exchange_order_id = the (pe_stop_exchange_order_id pres),
                pr_tp_exchange_order_id = pe_tp_exchange_order_id pres, pr_submission_timestamp = dr_now u 6\<rparr>)) (\<lambda>receipt.
              bindC (in_session (update_protection_active (\<lambda>n. dr_id u (5 + n)) (dr_now u 7) (dr_id u 0) receipt
                V2ProtectionState.PROTECTION_ACTIVE (dr_now u 7))) (\<lambda>_.
              look (\<lambda>d. case find_row vp_position_id position_id (db_positions d) of
                 None \<Rightarrow> returnC ()
               | Some position \<Rightarrow>
                   if vp_state position = V2PositionState.POSITION_PROJECTED
                   then in_session (transition_position (dr_id u 7) (dr_now u 8) position_id
                     V2PositionState.POSITION_PROJECTED V2PositionState.PROTECTED ''Protected'' Map.empty None)
                   else returnC ()))))
            else returnC ())
      | _ \<Rightarrow> returnC ())"

definition persist_entry_and_protection ::
    "(dec \<Rightarrow> dec) \<Rightarrow> draws \<Rightarrow> entry_facts \<Rightarrow> int \<Rightarrow> EntryExecutionResult \<Rightarrow> string \<Rightarrow> ProtectionResult option
      \<Rightarrow> dec option \<Rightarrow> dec option \<Rightarrow> string option \<Rightarrow> string option \<Rightarrow> dec option \<Rightarrow> bool \<Rightarrow> bool \<Rightarrow> ('w \<times> db, unit) call" where
  "persist_entry_and_protection flt u ek leverage result position_id protection stop_loss_price take_profit_price
      stop_order_id tp_order_id initial_risk_usdt project allow_existing_position_aggregation =
     (let risk = reconstructed_risk initial_risk_usdt stop_loss_price result in
     guardC (case risk of None \<Rightarrow> False | Some r \<Rightarrow> r \<le> 0)
       (ValueError ''initial_risk_usdt must be positive when reconstructable'') (
     if \<not> position_projectable result then returnC ()
     else with_session (
       bindC (ensure_cycle (ek_cycle_id ek) (ek_symbol ek) (ek_decision_bar_timestamp ek) (ek_execution_mode ek)
         (ek_fencing_token ek)) (\<lambda>_.
       bindC (ensure_decision ek) (\<lambda>_.
       bindC (ensure_entry_intent u ek risk result) (\<lambda>_.
       bindC (acknowledge_entry u ek result) (\<lambda>_.
       bindC (ensure_order u (ek_intent_id ek) (er_client_order_id result)
         (flt (if er_requested_quantity result \<noteq> 0 then er_requested_quantity result else er_filled_quantity result))
         leverage (stamp_of (er_fill_timestamp result) (dr_now u 9))) (\<lambda>order_id.
       bindC (in_session (save_exchange_order_receipt order_id (the (er_exchange_order_id result))
         (stamp_of (er_fill_timestamp result) (dr_now u 10)))) (\<lambda>_.
       bindC (save_entry_fills u ek order_id result) (\<lambda>_.
       bindC (in_session (reconcile_intent_from_confirmed_fill (dr_id u 3) (dr_now u 11) (ek_intent_id ek))) (\<lambda>_.
       bindC (if project
         then in_session (project_position_from_confirmed_fills position_id (ek_intent_id ek) order_id (ek_symbol ek)
           (ek_direction ek) (ek_execution_mode ek) (dr_now u 12) allow_existing_position_aggregation)
         else returnC ()) (\<lambda>_.
       bindC (save_entry_protection flt u position_id protection stop_loss_price take_profit_price
         stop_order_id tp_order_id) (\<lambda>_. commit)))))))))))))"

end
