(* ===== verification/Exit_Persistence.thy ===== *)
theory Exit_Persistence
  imports Fact_Persistence
begin

text \<open>
  The exit half of \<open>application/fact_persistence.py\<close>: the intent of an exit before it is submitted,
  what the exchange answered, the confirmed exit with the settlement of the position, its
  protections and its shadow outcome (\<open>audit/forward_baseline.py\<close>), the cleaning of protections that
  outlived their position, and the recovery of a margin-guard unwind.
\<close>

section \<open>Before and after the submission\<close>

definition exit_intent_row ::
    "string \<Rightarrow> V2ManagedPosition \<Rightarrow> V2ExecutionIntent \<Rightarrow> V2ExecutionMode \<Rightarrow> ExitReason \<Rightarrow> string \<Rightarrow> int \<Rightarrow> V2ExecutionIntent" where
  "exit_intent_row cycle_id position entry_intent execution_mode reason client_order_id submitted_at =
     \<lparr>vi_intent_id = exit_intent_id client_order_id, vi_cycle_id = cycle_id, vi_decision_id = None,
      vi_symbol = vp_symbol position, vi_direction = vp_direction position,
      vi_candidate_key = ''exit:'' @ vp_position_id position @ '':'' @ exit_reason_value reason,
      vi_candidate_type = vi_candidate_type entry_intent, vi_execution_mode = execution_mode,
      vi_decision_bar_timestamp = submitted_at, vi_decision_funnel_id = None, vi_initial_risk_usdt = None,
      vi_state = V2IntentState.INTENT_CREATED, vi_version = 0\<rparr>"

definition persist_exit_intent_before_submission ::
    "(dec \<Rightarrow> dec) \<Rightarrow> draws \<Rightarrow> string \<Rightarrow> string \<Rightarrow> V2ExecutionMode \<Rightarrow> ExitReason \<Rightarrow> string \<Rightarrow> dec \<Rightarrow> string \<Rightarrow> int
      \<Rightarrow> ('w \<times> db, string) call" where
  "persist_exit_intent_before_submission flt u cycle_id position_id execution_mode reason client_order_id
      requested_quantity fencing_token submitted_at =
     guardC (requested_quantity \<le> 0) (ValueError ''exit requested_quantity must be positive'') (
     with_session (look (\<lambda>d.
     someC (find_row vp_position_id position_id (db_positions d)) (ValueError ''Position not found'') (\<lambda>position.
     someC (find_row vi_intent_id (vp_intent_id position) (db_intents d)) (ValueError ''Entry intent not found'') (\<lambda>entry_intent.
     someC (find_row vo_order_record_id (vp_order_record_id position) (db_orders d)) (ValueError ''Entry order not found'') (\<lambda>entry_order.
     bindC (ensure_cycle cycle_id (vp_symbol position) submitted_at execution_mode fencing_token) (\<lambda>_.
     bindC (look (\<lambda>d. if find_row vi_intent_id (exit_intent_id client_order_id) (db_intents d) = None
         then open_intent u (exit_intent_row cycle_id position entry_intent execution_mode reason client_order_id submitted_at)
           ''ExitSubmitting'' [''position_id'' \<mapsto> PStr position_id, ''reason'' \<mapsto> PStr (exit_reason_value reason),
             ''reduce_only'' \<mapsto> PJson (JBool True), ''client_order_id'' \<mapsto> PStr client_order_id] (Some submitted_at)
         else returnC ())) (\<lambda>_.
     bindC (look (\<lambda>d. case find_row vo_client_order_id client_order_id (db_orders d) of
         None \<Rightarrow> bindC (in_session (save_order_submission (dr_id u 1) (exit_intent_id client_order_id) client_order_id
           (flt requested_quantity) (vo_leverage entry_order) submitted_at)) (\<lambda>_. returnC ())
       | Some order \<Rightarrow>
           guardC (vo_intent_id order \<noteq> exit_intent_id client_order_id)
             (ValueError ''Exit client order id belongs to another intent'') (returnC ()))) (\<lambda>_.
     bindC commit (\<lambda>_. returnC (exit_intent_id client_order_id)))))))))))"

definition persist_exit_submission_result ::
    "draws \<Rightarrow> string \<Rightarrow> string \<Rightarrow> ExitExecutionResult \<Rightarrow> ('w \<times> db, unit) call" where
  "persist_exit_submission_result u detail position_id result = with_session (look (\<lambda>d.
     let intent_id = exit_intent_id (xr_client_order_id result) in
     someC (find_row vp_position_id position_id (db_positions d)) (ValueError ''Position not found'') (\<lambda>position.
     someC (find_row vi_intent_id intent_id (db_intents d)) (ValueError ''Exit intent not found before exchange result'') (\<lambda>intent.
     someC (find_row vo_client_order_id (xr_client_order_id result) (db_orders d))
       (ValueError ''Exit order not found before exchange result'') (\<lambda>order.
     let current = vi_state intent;
         move = (\<lambda>next event_type payload. in_session (transition_intent (dr_id u 0) (dr_now u 0) intent_id current next
           event_type payload None)) in
     bindC (if xr_status result = ExitExecutionStatus.UNKNOWN
         then (if current = V2IntentState.EXCHANGE_SUBMITTING
               then move V2IntentState.EXCHANGE_UNKNOWN ''ExitOutcomeUnknown''
                 [''client_order_id'' \<mapsto> PStr (xr_client_order_id result)]
               else returnC ())
         else if xr_status result \<in> {ExitExecutionStatus.FAILED, ExitExecutionStatus.NOT_ATTEMPTED}
         then (if current \<in> set submitted_states
               then move (if xr_status result = ExitExecutionStatus.FAILED then V2IntentState.REJECTED else V2IntentState.CANCELLED)
                 ''ExitSubmissionFailed'' [''detail'' \<mapsto> PStr detail]
               else returnC ())
         else (case xr_exchange_order_id result of
             None \<Rightarrow> returnC ()
           | Some xid \<Rightarrow>
               if xid = [] then returnC ()
               else
                 bindC (in_session (save_exchange_order_receipt (vo_order_record_id order) xid
                   (stamp_of (xr_fill_timestamp result) (dr_now u 1)))) (\<lambda>_.
                 bindC (if current \<in> set submitted_states
                   then move V2IntentState.EXCHANGE_ACKNOWLEDGED ''ExitAcknowledged'' [''exchange_order_id'' \<mapsto> PStr xid]
                   else returnC ()) (\<lambda>_.
                 if vp_state position \<in> {V2PositionState.POSITION_PROJECTED, V2PositionState.PROTECTED}
                 then in_session (transition_position (dr_id u 1) (dr_now u 2) position_id (vp_state position)
                   V2PositionState.REDUCING ''PositionReducing''
                   [''exit_intent_id'' \<mapsto> PStr intent_id, ''exchange_order_id'' \<mapsto> PStr xid]
                   (Some (stamp_of (xr_fill_timestamp result) (dr_now u 3))))
                 else returnC ())))) (\<lambda>_. commit))))))"

section \<open>Protections that outlived their position\<close>

definition cancellable_states :: "V2ProtectionState list" where
  "cancellable_states = [V2ProtectionState.PROTECTION_INTENT, V2ProtectionState.PROTECTION_SUBMITTING,
     V2ProtectionState.PROTECTION_ACTIVE, V2ProtectionState.PROTECTION_FAILED, V2ProtectionState.PROTECTION_UNKNOWN]"

text \<open>The position a protection row joins with, when its position is over.\<close>

definition terminal_position :: "V2ExecutionMode \<Rightarrow> string \<Rightarrow> db \<Rightarrow> V2ProtectionRecord \<Rightarrow> V2ManagedPosition option" where
  "terminal_position execution_mode symbol d r =
     (case find_row vp_position_id (vr_position_id r) (db_positions d) of
        None \<Rightarrow> None
      | Some p \<Rightarrow> if vp_execution_mode p = execution_mode \<and> vp_symbol p = symbol
          \<and> vp_state p \<in> {V2PositionState.CLOSED, V2PositionState.QUARANTINED} then Some p else None)"

definition stale_protections :: "V2ExecutionMode \<Rightarrow> string \<Rightarrow> db \<Rightarrow> V2ProtectionRecord list" where
  "stale_protections execution_mode symbol d =
     filter (\<lambda>r. terminal_position execution_mode symbol d r \<noteq> None \<and> vr_state r \<in> set cancellable_states) (db_protections d)"

definition protection_order_ids :: "V2ProtectionRecord \<Rightarrow> string set" where
  "protection_order_ids r =
     {x. x \<noteq> [] \<and> (vr_stop_exchange_order_id r = Some x \<or> vr_tp_exchange_order_id r = Some x)}"

lemma protection_order_ids_code [code]:
  "protection_order_ids r = set (filter (\<lambda>x. x \<noteq> []) (List.map_filter id [vr_stop_exchange_order_id r, vr_tp_exchange_order_id r]))"
  by (auto simp: protection_order_ids_def map_filter_simps split: option.splits)

text \<open>The loop; \<open>open_ids\<close> is the set of open orders of the exchange in sorted order.\<close>

fun cancel_stale :: "draws \<Rightarrow> string list \<Rightarrow> int \<Rightarrow> nat \<Rightarrow> V2ProtectionRecord list \<Rightarrow> (session, nat) call" where
  "cancel_stale u open_ids observed_at k [] = returnC 0"
| "cancel_stale u open_ids observed_at k (r # rs) = look (\<lambda>d.
     case find_row vp_position_id (vr_position_id r) (db_positions d) of
       None \<Rightarrow> cancel_stale u open_ids observed_at (Suc k) rs
     | Some position \<Rightarrow>
         if protection_order_ids r \<inter> set open_ids \<noteq> {} then cancel_stale u open_ids observed_at (Suc k) rs
         else
           bindC (in_session (transition_protection (dr_id u k) (dr_now u k) (vr_protection_id r) (vr_state r)
             V2ProtectionState.PROTECTION_CANCELLED ''ProtectionReconciledCancelledAfterPositionClosed''
             [''exchange_open_order_ids'' \<mapsto> PTexts (map Some open_ids),
              ''position_state'' \<mapsto> PStr (position_value (vp_state position))] (Some observed_at))) (\<lambda>_.
           bindC (cancel_stale u open_ids observed_at (Suc k) rs) (\<lambda>n. returnC (Suc n))))"

definition reconcile_closed_position_protections ::
    "draws \<Rightarrow> V2ExecutionMode \<Rightarrow> string \<Rightarrow> string list \<Rightarrow> int \<Rightarrow> ('w \<times> db, nat) call" where
  "reconcile_closed_position_protections u execution_mode symbol open_ids observed_at = with_session (look (\<lambda>d.
     bindC (cancel_stale u open_ids observed_at 0 (stale_protections execution_mode symbol d)) (\<lambda>changed.
     bindC (if changed > 0 then commit else returnC ()) (\<lambda>_. returnC changed))))"

section \<open>The shadow outcome\<close>

text \<open>A payload value as JSON; the text of a decimal is some non-empty text.\<close>

fun pval_json :: "pval \<Rightarrow> json" where
  "pval_json (PStr s) = JStr s"
| "pval_json (PInt i) = JInt i"
| "pval_json (PDec q) = JStr ''0''"
| "pval_json PNull = JNull"
| "pval_json (PTexts xs) = JList (map (\<lambda>x. case x of None \<Rightarrow> JNull | Some s \<Rightarrow> JStr s) xs)"
| "pval_json (PJson j) = j"

definition build_shadow_outcome ::
    "payload \<Rightarrow> string \<Rightarrow> dec \<Rightarrow> dec \<Rightarrow> dec \<Rightarrow> dec \<Rightarrow> dec \<Rightarrow> string \<Rightarrow> payload res" where
  "build_shadow_outcome snapshot dir entry_price exit_price quantity commission funding exit_reason =
     (let candidate = json_or (case snapshot ''trade_candidate_payload'' of None \<Rightarrow> JNull | Some v \<Rightarrow> pval_json v) (JObj []) in
     bindR (jget candidate ''stop_distance'') (\<lambda>distance.
     bindR (finite_decimal_of (json_or distance (JStr ''0''))) (\<lambda>stop_distance.
     let risk_amount = dmul stop_distance quantity;
         gross_pnl = (if dir = ''long'' then dmul (dsub exit_price entry_price) quantity
                      else dmul (dsub entry_price exit_price) quantity);
         net_pnl = dadd (dsub gross_pnl commission) funding;
         r = (\<lambda>value. if risk_amount > 0 then PDec (ddiv value risk_amount) else PNull)
     in Inr [''exit_reason'' \<mapsto> PStr exit_reason, ''entry_price'' \<mapsto> PDec entry_price, ''exit_price'' \<mapsto> PDec exit_price,
         ''quantity'' \<mapsto> PDec quantity, ''gross_pnl'' \<mapsto> PDec gross_pnl, ''net_pnl'' \<mapsto> PDec net_pnl,
         ''gross_R'' \<mapsto> r gross_pnl, ''net_R'' \<mapsto> r net_pnl, ''commission_R'' \<mapsto> r commission, ''funding_R'' \<mapsto> r funding,
         ''MFE_R'' \<mapsto> PNull, ''MAE_R'' \<mapsto> PNull, ''outcome_status'' \<mapsto> PStr ''CLOSED''])))"

fun append_outcomes :: "(payload \<Rightarrow> string) \<Rightarrow> (nat \<Rightarrow> string) \<Rightarrow> payload \<Rightarrow> V2ShadowRecord list \<Rightarrow> (db, unit) call" where
  "append_outcomes canonical_hash new_id outcome [] = returnC ()"
| "append_outcomes canonical_hash new_id outcome (shadow # rest) =
     bindC (append_shadow_outcome canonical_hash (new_id 0) (vh_shadow_id shadow)
       (outcome(''variant'' \<mapsto> PStr (vh_variant shadow)))) (\<lambda>_.
     append_outcomes canonical_hash (\<lambda>n. new_id (Suc n)) outcome rest)"

section \<open>A confirmed exit\<close>

text \<open>
  A position that is closed already: the same receipt again changes nothing, another one is refused.
\<close>

definition exit_already_recorded :: "string \<Rightarrow> ExitExecutionResult \<Rightarrow> db \<Rightarrow> bool res" where
  "exit_already_recorded position_id result d =
     (case find_row vp_position_id position_id (db_positions d) of
        None \<Rightarrow> Inl (ValueError ''Position not found'')
      | Some position \<Rightarrow>
          if vp_state position \<noteq> V2PositionState.CLOSED then Inr False
          else (case find_row vo_client_order_id (xr_client_order_id result) (db_orders d) of
              None \<Rightarrow> Inl (ValueError ''Position is already CLOSED with a different exit receipt'')
            | Some order \<Rightarrow>
                if vo_exchange_order_id order = xr_exchange_order_id result
                   \<and> set (filter (\<lambda>t. t \<noteq> []) (List.map_filter vf_trade_id (fills_of d (vo_order_record_id order)))) = set (xr_trade_ids result)
                then Inr True
                else Inl (ValueError ''Position is already CLOSED with a different exit receipt'')))"

text \<open>What the confirmed exit does to the state of the position.\<close>

definition settle_position ::
    "draws \<Rightarrow> string \<Rightarrow> string \<Rightarrow> ExitReason \<Rightarrow> ExitExecutionResult \<Rightarrow> V2ManagedPosition \<Rightarrow> (session, unit) call" where
  "settle_position u exit_id exit_order_id reason result position =
     (let pid = vp_position_id position; stamp = the (xr_fill_timestamp result); xid = the (xr_exchange_order_id result);
          current_state = vp_state position in
     bindC (if current_state = V2PositionState.QUARANTINED
       then in_session (repair_quarantined_position_from_confirmed_exit (dr_id u 1) pid exit_order_id stamp
         [''exit_intent_id'' \<mapsto> PStr exit_id, ''reason'' \<mapsto> PStr (exit_reason_value reason),
          ''repair'' \<mapsto> PStr ''exact_exchange_exit_fill''])
       else if current_state \<noteq> V2PositionState.REDUCING
       then in_session (transition_position (dr_id u 1) (dr_now u 1) pid current_state V2PositionState.REDUCING
         ''PositionReducing'' [''exit_intent_id'' \<mapsto> PStr exit_id, ''exchange_order_id'' \<mapsto> PStr xid,
          ''reason'' \<mapsto> PStr (exit_reason_value reason)] (Some stamp))
       else returnC ()) (\<lambda>_.
     if xr_status result = ExitExecutionStatus.CLOSED \<and> current_state \<noteq> V2PositionState.QUARANTINED
     then in_session (transition_position (dr_id u 2) (dr_now u 2) pid V2PositionState.REDUCING V2PositionState.CLOSED
       ''PositionClosed'' [''exit_intent_id'' \<mapsto> PStr exit_id, ''exchange_order_id'' \<mapsto> PStr xid,
        ''trade_ids'' \<mapsto> PTexts (map Some (xr_trade_ids result)), ''reason'' \<mapsto> PStr (exit_reason_value reason)] (Some stamp))
     else returnC ()))"

definition realized_pnl :: "V2ManagedPosition \<Rightarrow> ExitExecutionResult \<Rightarrow> dec" where
  "realized_pnl position result =
     (let price = the (xr_average_fill_price result);
          gross_pnl = (if vp_direction position = ''long'' then dmul (dsub price (vp_entry_price position)) (xr_reduced_quantity result)
                       else dmul (dsub (vp_entry_price position) price) (xr_reduced_quantity result))
      in dsub (dsub gross_pnl (vp_entry_fee position)) (xr_total_fee result))"

definition record_outcome_of_exit ::
    "(payload \<Rightarrow> string) \<Rightarrow> draws \<Rightarrow> ExitReason \<Rightarrow> ExitExecutionResult \<Rightarrow> V2ManagedPosition \<Rightarrow> V2ExecutionIntent \<Rightarrow> (session, unit) call" where
  "record_outcome_of_exit canonical_hash u reason result position entry_intent =
     bindC (in_session (modifyC (\<lambda>d. d\<lparr>db_positions := update_row vp_position_id (vp_position_id position)
       (\<lambda>p. p\<lparr>vp_realized_pnl := Some (realized_pnl position result)\<rparr>) (db_positions d)\<rparr>))) (\<lambda>_.
     look (\<lambda>d. if \<not> has_text (vi_decision_id entry_intent) then returnC ()
       else (case find_row vs_decision_id (the (vi_decision_id entry_intent)) (db_snapshots d) of
           None \<Rightarrow> returnC ()
         | Some snapshot \<Rightarrow>
             bindC (pureC (build_shadow_outcome (vs_payload snapshot) (vp_direction position) (vp_entry_price position)
               (the (xr_average_fill_price result)) (xr_reduced_quantity result)
               (dadd (vp_entry_fee position) (xr_total_fee result)) 0 (exit_reason_value reason))) (\<lambda>outcome.
             in_session (append_outcomes canonical_hash (dr_id u) outcome
               (filter (\<lambda>h. vh_snapshot_id h = vs_snapshot_id snapshot) (db_shadows d)))))))"

definition settle_protection ::
    "draws \<Rightarrow> nat \<Rightarrow> string option \<Rightarrow> ExitExecutionResult \<Rightarrow> V2ProtectionRecord \<Rightarrow> (session, unit) call" where
  "settle_protection u k protection_exchange_order_id result r =
     (let xid = the (xr_exchange_order_id result); stamp = the (xr_fill_timestamp result);
          trigger = (if has_text protection_exchange_order_id then the protection_exchange_order_id else xid);
          matched = (vr_stop_exchange_order_id r = Some trigger \<or> vr_tp_exchange_order_id r = Some trigger);
          fired = (matched \<and> vr_state r = V2ProtectionState.PROTECTION_ACTIVE);
          current = (if fired then V2ProtectionState.PROTECTION_TRIGGERED else vr_state r);
          move = (\<lambda>i from to event_type payload. in_session (transition_protection (dr_id u (k + i)) (dr_now u (k + i))
            (vr_protection_id r) from to event_type payload (Some stamp))) in
     bindC (if fired then move 0 V2ProtectionState.PROTECTION_ACTIVE V2ProtectionState.PROTECTION_TRIGGERED ''ProtectionTriggered''
         [''exchange_order_id'' \<mapsto> PStr xid, ''protection_exchange_order_id'' \<mapsto> opt_text protection_exchange_order_id]
       else returnC ()) (\<lambda>_.
     if matched \<and> current = V2ProtectionState.PROTECTION_TRIGGERED
     then move 1 V2ProtectionState.PROTECTION_TRIGGERED V2ProtectionState.PROTECTION_FILLED ''ProtectionFilled''
       [''trade_ids'' \<mapsto> PTexts (map Some (xr_trade_ids result))]
     else if xr_status result = ExitExecutionStatus.CLOSED \<and> current \<in> set cancellable_states
     then move 1 current V2ProtectionState.PROTECTION_CANCELLED ''ProtectionCancelledAfterConfirmedExit''
       [''exit_exchange_order_id'' \<mapsto> PStr xid, ''position_state'' \<mapsto> PStr ''CLOSED'']
     else returnC ()))"

fun settle_protections ::
    "draws \<Rightarrow> nat \<Rightarrow> string option \<Rightarrow> ExitExecutionResult \<Rightarrow> V2ProtectionRecord list \<Rightarrow> (session, unit) call" where
  "settle_protections u k protection_exchange_order_id result [] = returnC ()"
| "settle_protections u k protection_exchange_order_id result (r # rs) =
     bindC (settle_protection u k protection_exchange_order_id result r) (\<lambda>_.
     settle_protections u (k + 2) protection_exchange_order_id result rs)"

text \<open>The last session of \<open>persist_exit_result\<close>.\<close>

definition record_exit ::
    "(payload \<Rightarrow> string) \<Rightarrow> draws \<Rightarrow> string \<Rightarrow> ExitReason \<Rightarrow> ExitExecutionResult \<Rightarrow> string option \<Rightarrow> (session, unit) call" where
  "record_exit canonical_hash u position_id reason result protection_exchange_order_id = look (\<lambda>d.
     let exit_id = exit_intent_id (xr_client_order_id result); xid = the (xr_exchange_order_id result) in
     someC (find_row vp_position_id position_id (db_positions d)) (ValueError ''Position not found'') (\<lambda>position.
     someC (find_row vi_intent_id (vp_intent_id position) (db_intents d)) (ValueError ''Entry intent not found'') (\<lambda>entry_intent.
     someC (find_row vo_order_record_id (vp_order_record_id position) (db_orders d)) (ValueError ''Entry order not found'') (\<lambda>_.
     someC (find_row vo_client_order_id (xr_client_order_id result) (db_orders d))
       (ValueError ''Exit order disappeared before fill persistence'') (\<lambda>exit_order.
     bindC (save_trade_fills u (xr_trade_ids result) (xr_reduced_quantity result) (xr_total_fee result)
       (trade_row exit_id (vo_order_record_id exit_order) xid (vp_symbol position) (side_of (vp_direction position \<noteq> ''long''))
         True (the (xr_average_fill_price result)) None (the (xr_fill_timestamp result)) (dr_now u 0))) (\<lambda>_.
     bindC (in_session (transition_intent (dr_id u 0) (dr_now u 0) exit_id V2IntentState.EXCHANGE_ACKNOWLEDGED
       V2IntentState.FILLED ''ExitFilled'' [''position_id'' \<mapsto> PStr position_id,
        ''trade_ids'' \<mapsto> PTexts (map Some (xr_trade_ids result)), ''reduce_only'' \<mapsto> PJson (JBool True)] None)) (\<lambda>_.
     bindC (settle_position u exit_id (vo_order_record_id exit_order) reason result position) (\<lambda>_.
     bindC (if xr_status result = ExitExecutionStatus.CLOSED
       then record_outcome_of_exit canonical_hash u reason result position entry_intent
       else (case xr_remaining_quantity result of
           None \<Rightarrow> returnC ()
         | Some q \<Rightarrow> if 0 < q then in_session (modifyC (\<lambda>d. d\<lparr>db_positions := update_row vp_position_id position_id
             (\<lambda>p. p\<lparr>vp_quantity := q\<rparr>) (db_positions d)\<rparr>)) else returnC ())) (\<lambda>_.
     bindC (look (\<lambda>d. settle_protections u 3 protection_exchange_order_id result
       (filter (\<lambda>r. vr_position_id r = position_id) (db_protections d)))) (\<lambda>_. commit))))))))))"

definition persist_exit_result ::
    "(payload \<Rightarrow> string) \<Rightarrow> (dec \<Rightarrow> dec) \<Rightarrow> (nat \<Rightarrow> draws) \<Rightarrow> string \<Rightarrow> string \<Rightarrow> string \<Rightarrow> V2ExecutionMode \<Rightarrow> ExitReason
      \<Rightarrow> ExitExecutionResult \<Rightarrow> string \<Rightarrow> string option \<Rightarrow> ('w \<times> db, unit) call" where
  "persist_exit_result canonical_hash flt us detail cycle_id position_id execution_mode reason result fencing_token
      protection_exchange_order_id =
     (if xr_status result \<notin> {ExitExecutionStatus.CLOSED, ExitExecutionStatus.PARTIALLY_REDUCED} then returnC ()
      else
       guardC (\<not> has_text (xr_exchange_order_id result) \<or> xr_trade_ids result = [] \<or> xr_reduced_quantity result \<le> 0
         \<or> xr_average_fill_price result = None \<or> xr_fill_timestamp result = None)
         (ValueError ''confirmed exit persistence requires order id, trade ids, quantity, price, and timestamp'') (
       bindC (with_session (look (\<lambda>d. pureC (exit_already_recorded position_id result d)))) (\<lambda>recorded.
       if recorded then returnC ()
       else
         bindC (persist_exit_intent_before_submission flt (us 0) cycle_id position_id execution_mode reason
           (xr_client_order_id result) (xr_reduced_quantity result) fencing_token (the (xr_fill_timestamp result))) (\<lambda>_.
         bindC (persist_exit_submission_result (us 1) detail position_id result) (\<lambda>_.
         with_session (record_exit canonical_hash (us 2) position_id reason result protection_exchange_order_id))))))"

section \<open>Recovering a margin-guard unwind\<close>

text \<open>What the first session reads: the position when its life is over already, or what to replay.\<close>

datatype guard_facts =
    GuardDone string
  | GuardReplay V2ExecutionIntent V2ExchangeOrder V2ExecutionCycle "V2ManagedPosition option" "V2ExchangeFill list"

definition entry_side_facts :: "V2ExecutionIntent \<Rightarrow> db \<Rightarrow> (V2ExchangeOrder \<times> V2ExchangeFill list \<times> V2ExecutionCycle) res" where
  "entry_side_facts intent d =
     (case find_row vo_intent_id (vi_intent_id intent) (db_orders d) of
        None \<Rightarrow> Inl (ValueError ''margin-guard recovery requires an acknowledged entry order'')
      | Some order \<Rightarrow>
     guardR (\<not> has_text (vo_exchange_order_id order))
       (ValueError ''margin-guard recovery requires an acknowledged entry order'') (
     let entry_fills = filter (\<lambda>f. vf_intent_id f = vi_intent_id intent
           \<and> vf_exchange_order_record_id f = vo_order_record_id order \<and> \<not> vf_reduce_only f) (db_fills d) in
     guardR (entry_fills = [])
       (ValueError ''margin-guard recovery requires persisted non-reduce-only entry fills'') (
     case find_row vy_cycle_id (vi_cycle_id intent) (db_cycles d) of
       None \<Rightarrow> Inl (ValueError ''margin-guard recovery requires the original V2 cycle'')
     | Some cycle \<Rightarrow> Inr (order, entry_fills, cycle))))"

definition read_guard_facts :: "string \<Rightarrow> string \<Rightarrow> db \<Rightarrow> guard_facts res" where
  "read_guard_facts intent_id guard_client_order_id d =
     (case find_row vi_intent_id intent_id (db_intents d) of
        None \<Rightarrow> Inl (ValueError ''margin-guard entry intent not found'')
      | Some intent \<Rightarrow>
     guardR (vi_execution_mode intent \<noteq> V2ExecutionMode.BINANCE_TESTNET)
       (ValueError ''margin-guard recovery is permitted only for BINANCE_TESTNET facts'') (
     bindR (exit_client_order_id (''margin-guard:'' @ intent_id) 1) (\<lambda>expected.
     guardR (guard_client_order_id \<noteq> expected)
       (ValueError ''margin-guard client order id does not match the deterministic intent identity'') (
     let existing_position = find_row vp_intent_id intent_id (db_positions d);
         replay = bindR (entry_side_facts intent d) (\<lambda>(order, fills, cycle).
           Inr (GuardReplay intent order cycle existing_position fills)) in
     case existing_position of
       None \<Rightarrow> replay
     | Some p \<Rightarrow>
         if vp_state p = V2PositionState.CLOSED then Inr (GuardDone (vp_position_id p))
         else guardR (vp_state p \<noteq> V2PositionState.POSITION_PROJECTED)
           (ValueError ''margin-guard position: cannot replay a different lifecycle'') replay))))"

text \<open>The entry as the persisted fills show it.\<close>

definition guarded_entry_result :: "V2ExchangeOrder \<Rightarrow> V2ExchangeFill list \<Rightarrow> EntryExecutionResult res" where
  "guarded_entry_result order fills =
     (let entry_quantity = dsum (map vf_filled_quantity fills);
          entry_notional = dsum (map (\<lambda>f. dmul (vf_filled_quantity f) (vf_fill_price f)) fills);
          entry_fee = dsum (map (\<lambda>f. case vf_commission f of None \<Rightarrow> 0 | Some c \<Rightarrow> c) fills) in
     bindR (ddivR entry_notional entry_quantity) (\<lambda>price. Inr
       \<lparr>er_status = EntryExecutionStatus.FILLED, er_intent_state = V2IntentState.FILLED,
        er_client_order_id = vo_client_order_id order, er_reason_code = DecisionReasonCode.OK,
        er_exchange_order_id = vo_exchange_order_id order,
        er_trade_ids = filter (\<lambda>t. t \<noteq> []) (List.map_filter vf_trade_id fills),
        er_filled_quantity = entry_quantity, er_average_fill_price = Some price, er_total_fee = entry_fee,
        er_fill_timestamp = Some (Max (set (map vf_exchange_event_time fills))), er_fill_source = ''BINANCE_USER_TRADE'',
        er_requested_quantity = vo_quantity order, er_guard_exchange_order_id = None, er_guard_client_order_id = None\<rparr>))"

definition guard_exit_result :: "string \<Rightarrow> string \<Rightarrow> ExchangeFillReceipt list \<Rightarrow> ExitExecutionResult res" where
  "guard_exit_result guard_exchange_order_id guard_client_order_id guard_fills =
     (let guard_quantity = dsum (map ef_filled_quantity guard_fills);
          guard_notional = dsum (map (\<lambda>f. dmul (ef_filled_quantity f) (ef_fill_price f)) guard_fills);
          guard_fee = dsum (map ef_fee guard_fills) in
     bindR (ddivR guard_notional guard_quantity) (\<lambda>price. Inr
       \<lparr>xr_status = ExitExecutionStatus.CLOSED, xr_position_state = V2PositionState.CLOSED,
        xr_client_order_id = guard_client_order_id, xr_exchange_order_id = Some guard_exchange_order_id,
        xr_trade_ids = map ef_trade_id guard_fills, xr_reduced_quantity = guard_quantity,
        xr_average_fill_price = Some price, xr_total_fee = guard_fee, xr_remaining_quantity = Some 0,
        xr_fill_timestamp = Some (Max (set (map ef_fill_timestamp guard_fills))), xr_residual_protection_cancelled = []\<rparr>))"

definition entry_facts_of :: "V2ExecutionIntent \<Rightarrow> V2ExecutionCycle \<Rightarrow> entry_facts" where
  "entry_facts_of intent cycle =
     \<lparr>ek_cycle_id = vi_cycle_id intent, ek_decision_id = vi_decision_id intent, ek_intent_id = vi_intent_id intent,
      ek_symbol = vi_symbol intent, ek_direction = vi_direction intent, ek_candidate_key = vi_candidate_key intent,
      ek_candidate_type = vi_candidate_type intent, ek_execution_mode = vi_execution_mode intent,
      ek_decision_bar_timestamp = vi_decision_bar_timestamp intent, ek_fencing_token = vy_fencing_token cycle\<rparr>"

definition recover_confirmed_margin_guard_lifecycle ::
    "(payload \<Rightarrow> string) \<Rightarrow> (dec \<Rightarrow> dec) \<Rightarrow> (nat \<Rightarrow> draws) \<Rightarrow> string \<Rightarrow> string \<Rightarrow> string \<Rightarrow> string \<Rightarrow> ExchangeFillReceipt list
      \<Rightarrow> ('w \<times> db, string) call" where
  "recover_confirmed_margin_guard_lifecycle canonical_hash flt us detail intent_id guard_exchange_order_id
      guard_client_order_id guard_fills =
     guardC (guard_exchange_order_id = [] \<or> guard_client_order_id = [])
       (ValueError ''margin-guard recovery requires exact exchange and client order ids'') (
     guardC (guard_fills = []) (ValueError ''margin-guard recovery requires confirmed reduce-only fill receipts'') (
     guardC (list_ex (\<lambda>f. ef_exchange_order_id f \<noteq> guard_exchange_order_id) guard_fills)
       (ValueError ''margin-guard fill receipt does not match the exact guard order'') (
     guardC (list_ex (\<lambda>f. ef_filled_quantity f \<le> 0) guard_fills)
       (ValueError ''margin-guard recovery requires positive filled quantities'') (
     bindC (with_session (look (\<lambda>d. pureC (bindR (read_guard_facts intent_id guard_client_order_id d) (\<lambda>facts.
       case facts of
         GuardDone position_id \<Rightarrow> Inr (Inl position_id)
       | GuardReplay intent order cycle existing fills \<Rightarrow>
           bindR (guarded_entry_result order fills) (\<lambda>entry. Inr (Inr (intent, order, cycle, existing, entry)))))))) (\<lambda>read.
     case read of
       Inl position_id \<Rightarrow> returnC position_id
     | Inr (intent, order, cycle, existing, entry) \<Rightarrow>
         let position_id = (case existing of Some p \<Rightarrow> vp_position_id p
               | None \<Rightarrow> uuid5 (''automated-trading-v2:margin-guard:'' @ intent_id));
             guard_quantity = dsum (map ef_filled_quantity guard_fills) in
         bindC (if existing = None
           then persist_entry_and_protection flt (us 0) (entry_facts_of intent cycle) (vo_leverage order) entry position_id
             None None None None None (vi_initial_risk_usdt intent) True False
           else returnC ()) (\<lambda>_.
         guardC (dabs (dsub guard_quantity (er_filled_quantity entry)) > 1 / 10 ^ 8)
           (ValueError ''margin-guard fill quantity does not exactly close entry quantity'') (
         bindC (pureC (guard_exit_result guard_exchange_order_id guard_client_order_id guard_fills)) (\<lambda>result.
         bindC (persist_exit_result canonical_hash flt (\<lambda>k. us (Suc k)) detail (vi_cycle_id intent) position_id
           (vi_execution_mode intent) ExitReason.CANARY_MARGIN_CEILING result (vy_fencing_token cycle) None) (\<lambda>_.
         returnC position_id)))))))))"

end
