(* ===== verification/Persistence_Facts.thy ===== *)
theory Persistence_Facts
  imports Exit_Persistence
begin

text \<open>
  What the persistence of execution facts promises: every function keeps the invariant of the
  ledger and the declared constraints however it ends, a reservation is made only within the risk
  budget, an exit is recorded once, and only protections whose position is over and whose orders are
  gone are cancelled.
\<close>

section \<open>The invariant of the ledger\<close>

text \<open>Columns that neither the evidence nor the event log reads.\<close>

lemma repo_inv_intent_column:
  assumes "repo_inv d" "\<And>r. vi_intent_id (f r) = vi_intent_id r \<and> vi_state (f r) = vi_state r \<and> vi_version (f r) = vi_version r"
  shows "repo_inv (d\<lparr>db_intents := update_row vi_intent_id k f (db_intents d)\<rparr>)"
proof -
  have "intent_log.sourced (update_row vi_intent_id k f (db_intents d)) (db_events d)"
    by (rule intent_log.sourced_frame [of "db_intents d" "db_events d"])
      (use assms in \<open>simp_all add: repo_inv_def logs_ok_def update_row_def\<close>)
  with assms(1) show ?thesis by (simp add: repo_inv_defs)
qed

lemma repo_inv_position_column:
  assumes inv: "repo_inv d"
    and f: "\<And>r. vp_position_id (f r) = vp_position_id r \<and> vp_state (f r) = vp_state r \<and> vp_version (f r) = vp_version r
      \<and> vp_order_record_id (f r) = vp_order_record_id r \<and> vp_intent_id (f r) = vp_intent_id r"
  shows "repo_inv (d\<lparr>db_positions := update_row vp_position_id k f (db_positions d)\<rparr>)"
proof -
  let ?d = "d\<lparr>db_positions := update_row vp_position_id k f (db_positions d)\<rparr>"
  have "position_log.sourced (db_positions ?d) (db_events d)"
    by (rule position_log.sourced_frame [of "db_positions d" "db_events d"])
      (use assms in \<open>simp_all add: repo_inv_def logs_ok_def update_row_def\<close>)
  moreover have "fills_ok ?d \<and> positions_ok ?d \<and> caches_ok ?d"
  proof (rule evidence_frame [of d])
    fix p assume "p \<in> set (db_positions ?d)"
    then obtain q where "q \<in> set (db_positions d)" "p = q \<or> p = f q" by (auto simp: update_row_def)
    then show "\<exists>q\<in>set (db_positions d). vp_order_record_id q = vp_order_record_id p \<and> vp_intent_id q = vp_intent_id p"
      using f by auto
  qed (use inv in \<open>simp_all add: repo_inv_def\<close>)
  ultimately show ?thesis using inv by (simp add: repo_inv_def logs_ok_def)
qed

lemma keeps_position_columns:
  "keeps repo_inv (modifyC (\<lambda>d. d\<lparr>db_positions := update_row vp_position_id k (\<lambda>p. p\<lparr>vp_quantity := q\<rparr>) (db_positions d)\<rparr>))"
  "keeps repo_inv (modifyC (\<lambda>d. d\<lparr>db_positions := update_row vp_position_id k' (\<lambda>p. p\<lparr>vp_realized_pnl := r\<rparr>) (db_positions d)\<rparr>))"
  by (intro keeps_modifyC repo_inv_position_column; simp)+

lemma keeps_initial_risk:
  "keeps repo_inv (bindC (modifyC (\<lambda>d. d\<lparr>db_intents := update_row vi_intent_id k
     (\<lambda>i. i\<lparr>vi_initial_risk_usdt := r\<rparr>) (db_intents d)\<rparr>)) (\<lambda>_.
     bindC (append_event i k' kind ty [''initial_risk_usdt'' \<mapsto> x, ''source'' \<mapsto> y] t) (\<lambda>_. flush)))"
  by (intro keeps_bindC keeps_modifyC keeps_append_note keeps_flush repo_inv_intent_column)
    (auto simp: version_key_def)

lemma keeps_save_new_trades: "keeps repo_inv (save_new_trades trades per_qty whole allocated fill)"
proof (induction trades per_qty whole allocated fill rule: save_new_trades.induct)
  case (1 per_qty whole allocated fill)
  show ?case unfolding save_new_trades.simps by (rule keeps_returnC)
next
  case (2 fill_id trade_id rest per_qty whole allocated fill)
  then show ?case unfolding save_new_trades.simps Let_def unit_call_def
    by (intro keeps_intros keeps_save_exchange_fill_receipt) auto
qed

lemma keeps_append_outcomes: "keeps repo_inv (append_outcomes h ids outcome shadows)"
proof (induction shadows arbitrary: ids)
  case Nil
  show ?case unfolding append_outcomes.simps by (rule keeps_returnC)
next
  case (Cons s shadows)
  then show ?case unfolding append_outcomes.simps by (intro keeps_bindC keeps_elsewhere)
qed

lemmas persistence_intros = ledger_intros keeps_create_intent keeps_save_order_submission keeps_save_trades
  keeps_save_order_level_fill_recovery keeps_reconcile_intent keeps_project_from_fills keeps_repair_quarantined
  keeps_position_columns keeps_initial_risk keeps_save_new_trades keeps_append_outcomes

lemma stays_reservation_parts:
  "stays (session_inv repo_inv) (ensure_cycle a1 a2 a3 a4 a5)"
  "stays (session_inv repo_inv) (ensure_decision ek)"
  "stays (session_inv repo_inv) (open_intent u row ty p t)"
  "stays (session_inv repo_inv) (ensure_order u b1 b2 b3 b4 b5)"
  "stays (session_inv repo_inv) (save_trade_fills u b6 b7 b8 b9)"
  "stays (session_inv repo_inv) (reserve_entry u ek r)"
  unfolding reserve_entry_def ensure_cycle_def ensure_decision_def open_intent_def ensure_order_def save_trade_fills_def Let_def
  by (intro persistence_intros)+

lemma stays_entry_parts:
  "stays (session_inv repo_inv) (persist_guarded_entry flt u a1 a2 a3 r)"
  "stays (session_inv repo_inv) (persist_acknowledged_entry flt u a4 a5 r)"
  "stays (session_inv repo_inv) (acknowledge_entry u ek r)"
  "stays (session_inv repo_inv) (save_entry_fills u ek a6 r)"
  unfolding persist_guarded_entry_def persist_acknowledged_entry_def acknowledge_entry_def save_entry_fills_def Let_def
  by (intro persistence_intros stays_reservation_parts)+

lemma stays_ensure_entry_intent: "stays (session_inv repo_inv) (ensure_entry_intent u ek risk r)"
  unfolding ensure_entry_intent_def
  by (intro persistence_intros stays_reservation_parts)

lemma stays_save_entry_protection:
  "stays (session_inv repo_inv) (save_entry_protection flt u p pres stop tp stop_id tp_id)"
  unfolding save_entry_protection_def Let_def
  by (cases pres; cases stop_id; cases stop; simp only: prod.case option.case; intro persistence_intros)

lemma stays_cancel_stale: "stays (session_inv repo_inv) (cancel_stale u open_ids t k rs)"
proof (induction rs arbitrary: k)
  case Nil
  show ?case unfolding cancel_stale.simps by (rule stays_pure)
next
  case (Cons r rs)
  then show ?case unfolding cancel_stale.simps by (intro persistence_intros)
qed

lemma stays_settle_protections: "stays (session_inv repo_inv) (settle_protections u k px res rs)"
proof (induction rs arbitrary: k)
  case Nil
  show ?case unfolding settle_protections.simps by (rule stays_pure)
next
  case (Cons r rs)
  then show ?case unfolding settle_protections.simps settle_protection_def Let_def by (intro persistence_intros)
qed

lemma stays_exit_parts:
  "stays (session_inv repo_inv) (settle_position u a1 a2 reason res p)"
  "stays (session_inv repo_inv) (record_outcome_of_exit h u reason res p i)"
  "stays (session_inv repo_inv) (record_exit h u a3 reason res px)"
proof -
  show *: "stays (session_inv repo_inv) (settle_position u a1 a2 reason res p)" for a1 a2 p
    unfolding settle_position_def Let_def by (intro persistence_intros)
  show **: "stays (session_inv repo_inv) (record_outcome_of_exit h u reason res p i)" for p i
    unfolding record_outcome_of_exit_def by (intro persistence_intros)
  show "stays (session_inv repo_inv) (record_exit h u a3 reason res px)"
    unfolding record_exit_def Let_def
    by (intro persistence_intros stays_reservation_parts stays_settle_protections * **)
qed

lemmas persistence_parts = stays_reservation_parts stays_entry_parts stays_ensure_entry_intent
  stays_save_entry_protection stays_cancel_stale stays_settle_protections stays_exit_parts

lemma stays_entry_persistence:
  "stays (holds_db repo_inv) (persist_entry_intent_before_submission u ek r0 eq enf mo)"
  "stays (holds_db repo_inv) (persist_entry_submission_result flt u det i lev er)"
  "stays (holds_db repo_inv) (persist_entry_and_protection flt u ek lev er p pres sl tp so tpo r pr ag)"
  unfolding persist_entry_intent_before_submission_def persist_entry_submission_result_def
    persist_entry_and_protection_def Let_def
  by (intro persistence_intros persistence_parts)+

lemma stays_exit_persistence:
  "stays (holds_db repo_inv) (persist_exit_intent_before_submission flt u c p m reason cid q tok t)"
  "stays (holds_db repo_inv) (persist_exit_submission_result u det p xr)"
  "stays (holds_db repo_inv) (reconcile_closed_position_protections u m sy ids t)"
  unfolding persist_exit_intent_before_submission_def persist_exit_submission_result_def
    reconcile_closed_position_protections_def Let_def
  by (intro persistence_intros persistence_parts)+

lemma stays_persist_exit_result:
  "stays (holds_db repo_inv) (persist_exit_result h flt us det c p m reason xr tok px)"
  unfolding persist_exit_result_def
  by (intro persistence_intros persistence_parts stays_exit_persistence)

lemma stays_margin_guard_recovery:
  "stays (holds_db repo_inv) (recover_confirmed_margin_guard_lifecycle h flt us det i x c fills)"
  unfolding recover_confirmed_margin_guard_lifecycle_def Let_def
  by (intro persistence_intros; (split sum.split, intro allI impI conjI)?;
      intro persistence_intros stays_entry_persistence stays_persist_exit_result)

section \<open>A reservation\<close>

lemma in_session_Inr_iff:
  "in_session m s = (Inr x, s') \<longleftrightarrow> \<not> ses_failed s \<and> m (ses_view s) = (Inr x, ses_view s')
     \<and> ses_committed s' = ses_committed s \<and> \<not> ses_failed s'"
  by (cases s; cases s') (auto simp: in_session_def split: prod.splits sum.splits exn.splits)

lemma ensure_cycle_success:
  "ensure_cycle c sy t m tok s = (Inr x, s') \<Longrightarrow> \<exists>cs. ses_view s' = (ses_view s)\<lparr>db_cycles := cs\<rparr>"
  by (auto simp: ensure_cycle_def in_session_Inr_iff create_cycle_def store_def split: if_splits
      intro: exI [of _ "db_cycles (ses_view s)"])

lemma ensure_decision_success:
  "ensure_decision ek s = (Inr x, s') \<Longrightarrow> \<exists>ds. ses_view s' = (ses_view s)\<lparr>db_decisions := ds\<rparr>"
  by (auto simp: ensure_decision_def in_session_Inr_iff create_decision_def store_def split: if_splits option.splits
      intro: exI [of _ "db_decisions (ses_view s)"])

lemma open_intent_success:
  assumes "open_intent u row ty p t s = (Inr x, s')" "find_row vi_intent_id (vi_intent_id row) (db_intents (ses_view s)) = None"
  shows "\<exists>es. ses_view s' = (ses_view s)\<lparr>db_intents := db_intents (ses_view s)
    @ [row\<lparr>vi_state := V2IntentState.EXCHANGE_SUBMITTING, vi_version := 1\<rparr>], db_events := es\<rparr>"
proof -
  let ?r = "row\<lparr>vi_version := 0\<rparr>" and ?d = "ses_view s"
  have fresh: "\<forall>r\<in>set (db_intents ?d). vi_intent_id r \<noteq> vi_intent_id row" using assms(2) by (simp add: find_row_None)
  have found: "find_row vi_intent_id (vi_intent_id row) (db_intents ?d @ [?r]) = Some ?r"
    using assms(2) by (simp add: find_row_append)
  have upd: "update_row vi_intent_id (vi_intent_id row) f (db_intents ?d @ [?r]) = db_intents ?d @ [f ?r]" for f
    using fresh by (auto simp: update_row_def intro!: map_idI)
  from assms(1) show ?thesis
    by (clarsimp simp: open_intent_def bindC_Inr_iff in_session_Inr_iff create_intent_def transition_intent_def
        guardC_iff someC_iff append_event_def store_def Let_def found upd) (rule exI, rule refl)
qed

lemma exposures_of_new_intent:
  assumes "db_positions d' = db_positions d" "db_intents d' = db_intents d @ [row]"
    and "vi_intent_id row \<notin> vp_intent_id ` set (db_positions d)" "take 5 (vi_candidate_key row) \<noteq> ''exit:''"
    and "vi_state row \<in> set active_intent_states" "vi_execution_mode row = m"
    and "vi_initial_risk_usdt row = Some r" "0 < r"
  shows "list_active_initial_risk_exposures m d' =
    (fst (list_active_initial_risk_exposures m d) @ [\<lparr>re_symbol = vi_symbol row, re_direction = vi_direction row,
       re_initial_risk_usdt = r, re_source = ''intent''\<rparr>], snd (list_active_initial_risk_exposures m d))"
proof -
  have pos: "exposed_positions m d' = exposed_positions m d" using assms(1) by (simp add: exposed_positions_def)
  have "position_risk d' p = position_risk d p" if "p \<in> set (exposed_positions m d)" for p
    using that assms(2,3) by (auto simp: position_risk_def exposed_positions_def find_row_append split: option.splits)
  then have risks: "map (position_risk d') (exposed_positions m d') = map (position_risk d) (exposed_positions m d)"
    using pos by simp
  have new: "exposed_intents m d' = exposed_intents m d @ [row]"
    using assms(1-6) by (auto simp: exposed_intents_def exposed_positions_def Let_def)
  have "intent_risk row = Some \<lparr>re_symbol = vi_symbol row, re_direction = vi_direction row,
       re_initial_risk_usdt = r, re_source = ''intent''\<rparr>"
    using assms(7,8) by (simp add: intent_risk_def risk_exposure_def)
  then show ?thesis
    unfolding list_active_initial_risk_exposures_def Let_def risks new
    by (simp add: map_filter_def)
qed

lemma not_blocked:
  assumes "entry_blocked ek r (Some q) True mo d = None"
  shows "\<not> snd (list_active_initial_risk_exposures (ek_execution_mode ek) d)
    \<and> prd_allowed (evaluate_portfolio_risk q (ek_symbol ek) (ek_direction ek) r
        (fst (list_active_initial_risk_exposures (ek_execution_mode ek) d))
        MAX_TOTAL_INITIAL_RISK_FRACTION MAX_SAME_DIRECTION_CLUSTER_RISK_FRACTION mo)"
  using assms
  by (auto simp: entry_blocked_def evaluate_portfolio_risk_def portfolio_risk_blocks_def Let_def split: if_splits prod.splits)

text \<open>The new exposure is inside the two sums the gate compared with the ceilings.\<close>

lemma risk_fractions_after:
  assumes "new = \<lparr>re_symbol = sy, re_direction = dir, re_initial_risk_usdt = r, re_source = src\<rparr>"
  shows "ddiv (sum_risk (committed @ [new])) q = fst (risk_fractions q sy dir r committed)"
    and "ddiv (sum_risk (filter (\<lambda>e. in_cluster (re_symbol e) \<and> normalized_direction e = normalize_direction dir)
        (committed @ [new]))) q = snd (risk_fractions q sy dir r committed)"
proof -
  have "dsum (xs @ [x]) = dadd (dsum xs) x" for xs x by (simp add: dsum_def)
  moreover have "dadd (dsum xs) 0 = dsum xs" for xs
    using is_dec_dsum [of xs] by (simp add: dadd_def is_dec_def)
  ultimately show "ddiv (sum_risk (committed @ [new])) q = fst (risk_fractions q sy dir r committed)"
    and "ddiv (sum_risk (filter (\<lambda>e. in_cluster (re_symbol e) \<and> normalized_direction e = normalize_direction dir)
        (committed @ [new]))) q = snd (risk_fractions q sy dir r committed)"
    using assms by (simp_all add: risk_fractions_def sum_risk_def normalized_direction_def)
qed


text \<open>What a reservation that was granted has done to the database.\<close>

lemma reservation_effect:
  fixes w :: 'w
  assumes run: "persist_entry_intent_before_submission u ek r eq enf mo (w, d) = (Inr None, (w', d'))"
    and fresh: "find_row vi_intent_id (ek_intent_id ek) (db_intents d) = None"
  shows "entry_blocked ek r eq enf mo d = None \<and> 0 < r \<and> w' = w \<and> constraints d' \<and> db_positions d' = db_positions d
    \<and> db_intents d' = db_intents d
       @ [(entry_intent_row ek (Some r))\<lparr>vi_state := V2IntentState.EXCHANGE_SUBMITTING, vi_version := 1\<rparr>]"
proof -
  let ?s = "new_session d" and ?row = "entry_intent_row ek (Some r)"
  have view: "ses_view ?s = d" by (simp add: new_session_def)
  obtain s3 s4 x3 x4 where ok: "entry_blocked ek r eq enf mo d = None" "0 < r" "w' = w"
    and res: "reserve_entry u ek r ?s = (Inr x3, s3)" and s4: "commit s3 = (Inr x4, s4)" "d' = ses_committed s4"
    using run unfolding persist_entry_intent_before_submission_def
    by (auto simp: guardC_iff with_session_iff view rollback_def bindC_Inr_iff simp del: transaction_simps(2)
        split: option.splits)
  obtain s1 s2 x1 x2 where s1: "ensure_cycle (ek_cycle_id ek) (ek_symbol ek) (ek_decision_bar_timestamp ek)
      (ek_execution_mode ek) (ek_fencing_token ek) ?s = (Inr x1, s1)"
    and s2: "ensure_decision ek s1 = (Inr x2, s2)"
    and s3: "(if find_row vi_intent_id (ek_intent_id ek) (db_intents (ses_view s2)) = None
       then open_intent u ?row ''EntrySubmitting'' [''client_order_identity'' \<mapsto> PStr ''derived_from_intent_id''] None
       else returnC ()) s2 = (Inr x3, s3)"
    using res unfolding reserve_entry_def by (auto simp: bindC_Inr_iff)
  obtain cs where v1: "ses_view s1 = d\<lparr>db_cycles := cs\<rparr>" using ensure_cycle_success [OF s1] view by auto
  obtain ds where v2: "ses_view s2 = d\<lparr>db_cycles := cs, db_decisions := ds\<rparr>" using ensure_decision_success [OF s2] v1 by auto
  have id: "vi_intent_id ?row = ek_intent_id ek" by (simp add: entry_intent_row_def)
  have "\<exists>es. ses_view s3 = (ses_view s2)\<lparr>db_intents := db_intents (ses_view s2)
    @ [?row\<lparr>vi_state := V2IntentState.EXCHANGE_SUBMITTING, vi_version := 1\<rparr>], db_events := es\<rparr>"
    using s3 fresh v2 by (intro open_intent_success) (simp_all add: id)
  moreover have "d' = ses_view s3 \<and> constraints (ses_view s3)"
    using s4 by (auto simp: commit_def in_session_def flush_def split: if_splits prod.splits sum.splits exn.splits)
  ultimately show ?thesis using ok v2 by auto
qed


definition demo_facts :: entry_facts where
  "demo_facts = \<lparr>ek_cycle_id = ''c1'', ek_decision_id = None, ek_intent_id = ''i1'', ek_symbol = ''BTC/USDT'',
     ek_direction = ''long'', ek_candidate_key = ''k1'', ek_candidate_type = V2CandidateType.PRIMARY,
     ek_execution_mode = V2ExecutionMode.BINANCE_TESTNET, ek_decision_bar_timestamp = 0, ek_fencing_token = ''tok''\<rparr>"

text \<open>Identifiers of increasing length.\<close>

definition demo_ids :: draws where
  "demo_ids = \<lparr>dr_id = (\<lambda>n. replicate (Suc n) CHR ''e''), dr_now = (\<lambda>n. int n)\<rparr>"

abbreviation demo_reserve :: "dec \<Rightarrow> (unit \<times> db, string option) call" where
  "demo_reserve risk \<equiv> persist_entry_intent_before_submission demo_ids demo_facts risk (Some 10000) True MAX_OPEN_POSITIONS"

lemma demo_reserve_runs:
  "fst (demo_reserve 50 ((), empty_db)) = Inr None"
  "fst (demo_reserve 200 ((), empty_db)) = Inr (Some ''PORTFOLIO_TOTAL_RISK_LIMIT'')"
  by code_simp+


text \<open>
  C30.  A reservation is atomic: when it is refused, or when any step of it raises, the database is the
  one before the call.
\<close>

theorem refused_reservation_changes_nothing:
  assumes "persist_entry_intent_before_submission u ek r eq enf mo (w, d) = (res, (w', d'))" "res \<noteq> Inr None"
  shows "d' = d \<and> w' = w"
proof -
  let ?Q = "\<lambda>s. ses_committed s = d"
  have step: "stays ?Q (in_session m)" for m :: "(db, unit) call" by (rule staysI) simp
  have "stays ?Q (reserve_entry u ek r)"
    unfolding reserve_entry_def ensure_cycle_def ensure_decision_def open_intent_def by (intro stays_intros step)
  then have res: "ses_committed (snd (reserve_entry u ek r (new_session d))) = d" by (auto simp: stays_def new_session_def)
  have com: "\<exists>e. commit s = (Inl e, t) \<Longrightarrow> ses_committed t = ses_committed s" for s t
    by (auto simp: commit_def dest: in_session_keeps_committed split: prod.splits sum.splits)
  obtain r1 s1 where s1: "reserve_entry u ek r (new_session d) = (r1, s1)" by (cases "reserve_entry u ek r (new_session d)")
  show ?thesis
    using assms res com unfolding persist_entry_intent_before_submission_def
    by (cases r1; cases "commit s1")
      (auto simp: guardC_iff bindC_def s1 rollback_def new_session_def split: option.splits sum.splits prod.splits)
qed

theorem refused_reservation_changes_nothing_witness:
  "snd (demo_reserve 200 ((), empty_db)) = ((), empty_db)"
proof -
  obtain r w' d' where run: "demo_reserve 200 ((), empty_db) = (r, (w', d'))" by (cases "demo_reserve 200 ((), empty_db)") auto
  have "r \<noteq> Inr None" using demo_reserve_runs(2) run by simp
  from refused_reservation_changes_nothing [OF run this] run show ?thesis by simp
qed

end
