(* ===== verification/Exit_Facts.thy ===== *)
theory Exit_Facts
  imports Persistence_Facts
begin

text \<open>
  What the settlement of an exit does to the rows of its position: the protections that outlived
  the position, the position itself, and a receipt that is recorded a second time.
\<close>

section \<open>One row of a table\<close>

definition move_protection :: "V2ProtectionState \<Rightarrow> V2ProtectionRecord \<Rightarrow> V2ProtectionRecord" where
  "move_protection s r = r\<lparr>vr_state := s, vr_version := vr_version r + 1\<rparr>"

lemma move_protection_simps [simp]:
  "vr_protection_id (move_protection s r) = vr_protection_id r" "vr_position_id (move_protection s r) = vr_position_id r"
  "vr_state (move_protection s r) = s"
  by (simp_all add: move_protection_def)

text \<open>An update of the row with the key of a given row, where keys are unique.\<close>

lemma update_row_at:
  assumes "distinct (map key rows)" "r \<in> set rows"
  shows "update_row key (key r) f rows = map (\<lambda>q. if q = r then f r else q) rows"
  unfolding update_row_def using assms by (auto simp: inj_on_def distinct_map)

lemma transition_protection_effect:
  assumes "transition_protection e now (vr_protection_id r) cur nxt ty p occ d = (Inr x, d')"
    and "distinct (map vr_protection_id (db_protections d))" "r \<in> set (db_protections d)"
    and "nxt \<noteq> V2ProtectionState.PROTECTION_ACTIVE"
  shows "vr_state r = cur \<and> constraints d' \<and> (\<exists>es. d' = d\<lparr>db_protections :=
    map (\<lambda>q. if q = r then move_protection nxt r else q) (db_protections d), db_events := es\<rparr>)"
proof -
  let ?f = "\<lambda>q. q\<lparr>vr_state := nxt, vr_version := vr_version r + 1\<rparr>"
  have row: "find_row vr_protection_id (vr_protection_id r) (db_protections d) = Some r"
    by (rule find_row_unique [OF assms(2,3)])
  have "vr_state r = cur \<and> constraints d' \<and> (\<exists>es. d' = d\<lparr>db_protections :=
      update_row vr_protection_id (vr_protection_id r) ?f (db_protections d), db_events := es\<rparr>)"
    using assms(1,4) row
    by (auto simp: transition_protection_def append_event_def store_def bindC_Inr_iff someC_iff guardC_iff Let_def)
  then show ?thesis unfolding update_row_at [OF assms(2,3)] move_protection_def .
qed

section \<open>Protections that outlived their position\<close>

lemma cancel_stale_effect:
  assumes "cancel_stale u ids t k rs s = (Inr n, s')"
    and "distinct (map vr_protection_id (db_protections (ses_view s)))" "distinct (map vr_protection_id rs)"
    and "set rs \<subseteq> set (db_protections (ses_view s))"
    and "\<forall>r\<in>set rs. find_row vp_position_id (vr_position_id r) (db_positions (ses_view s)) \<noteq> None"
  shows "n = length (filter (\<lambda>r. protection_order_ids r \<inter> set ids = {}) rs) \<and> ses_committed s' = ses_committed s
    \<and> (\<exists>es. ses_view s' = (ses_view s)\<lparr>db_protections := map (\<lambda>r. if r \<in> set rs \<and> protection_order_ids r \<inter> set ids = {}
        then move_protection V2ProtectionState.PROTECTION_CANCELLED r else r) (db_protections (ses_view s)), db_events := es\<rparr>)"
  using assms
proof (induction rs arbitrary: k s n)
  case Nil
  have "\<exists>es. d = d\<lparr>db_events := es\<rparr>" for d :: db by (rule exI [of _ "db_events d"]) simp
  with Nil.prems(1) show ?case by auto
next
  case (Cons r rs)
  show ?case
  proof (cases "protection_order_ids r \<inter> set ids = {}")
    case False
    then have "cancel_stale u ids t (Suc k) rs s = (Inr n, s')" using Cons.prems(1,5) by (auto split: option.splits)
    from Cons.IH [OF this Cons.prems(2)] Cons.prems(3-5)
    have "n = length (filter (\<lambda>r. protection_order_ids r \<inter> set ids = {}) rs) \<and> ses_committed s' = ses_committed s
      \<and> (\<exists>es. ses_view s' = (ses_view s)\<lparr>db_protections := map (\<lambda>r. if r \<in> set rs \<and> protection_order_ids r \<inter> set ids = {}
        then move_protection V2ProtectionState.PROTECTION_CANCELLED r else r) (db_protections (ses_view s)), db_events := es\<rparr>)"
      by simp
    moreover have "map (\<lambda>q. if q \<in> set rs \<and> protection_order_ids q \<inter> set ids = {}
        then move_protection V2ProtectionState.PROTECTION_CANCELLED q else q) xs
      = map (\<lambda>q. if q \<in> set (r # rs) \<and> protection_order_ids q \<inter> set ids = {}
        then move_protection V2ProtectionState.PROTECTION_CANCELLED q else q) xs" for xs using False by auto
    ultimately show ?thesis using False by simp
  next
    case True
    let ?c = "move_protection V2ProtectionState.PROTECTION_CANCELLED" and ?d = "ses_view s"
    obtain s1 p m where t: "in_session (transition_protection (dr_id u k) (dr_now u k) (vr_protection_id r) (vr_state r)
          V2ProtectionState.PROTECTION_CANCELLED ''ProtectionReconciledCancelledAfterPositionClosed'' p (Some t)) s = (Inr (), s1)"
      and rest: "cancel_stale u ids t (Suc k) rs s1 = (Inr m, s')" "n = Suc m"
      using Cons.prems(1,5) True by (auto simp: bindC_Inr_iff split: option.splits)
    have run: "transition_protection (dr_id u k) (dr_now u k) (vr_protection_id r) (vr_state r)
          V2ProtectionState.PROTECTION_CANCELLED ''ProtectionReconciledCancelledAfterPositionClosed'' p (Some t) ?d = (Inr (), ses_view s1)"
      and c1: "ses_committed s1 = ses_committed s" using t unfolding in_session_Inr_iff by blast+
    have "r \<in> set (db_protections ?d)" using Cons.prems(4) by simp
    from transition_protection_effect [OF run Cons.prems(2) this] obtain es where
      v1: "ses_view s1 = ?d\<lparr>db_protections := map (\<lambda>q. if q = r then ?c r else q) (db_protections ?d), db_events := es\<rparr>"
      by blast
    have apart: "q \<noteq> r \<and> vr_protection_id q \<noteq> vr_protection_id r" if "q \<in> set rs" for q
      using that Cons.prems(3) by (force simp: image_iff)
    have "map vr_protection_id (db_protections (ses_view s1)) = map vr_protection_id (db_protections ?d)"
      by (simp add: v1)
    then have keys: "distinct (map vr_protection_id (db_protections (ses_view s1)))" using Cons.prems(2) by argo
    have "?c r \<notin> set rs" using apart by force
    then have comp: "map (\<lambda>q. if q \<in> set rs \<and> protection_order_ids q \<inter> set ids = {} then ?c q else q)
        (map (\<lambda>q. if q = r then ?c r else q) (db_protections ?d))
      = map (\<lambda>q. if q \<in> set (r # rs) \<and> protection_order_ids q \<inter> set ids = {} then ?c q else q) (db_protections ?d)"
      using True apart by auto
    have sub: "set rs \<subseteq> set (db_protections (ses_view s1))"
    proof
      fix q assume q: "q \<in> set rs"
      then have "q \<in> set (db_protections ?d)" "q \<noteq> r" using Cons.prems(4) apart by auto
      then show "q \<in> set (db_protections (ses_view s1))" unfolding v1 by (simp add: image_iff)
    qed
    have "distinct (map vr_protection_id rs)" using Cons.prems(3) by simp
    moreover have "\<forall>r\<in>set rs. find_row vp_position_id (vr_position_id r) (db_positions (ses_view s1)) \<noteq> None"
      using Cons.prems(5) by (simp add: v1)
    ultimately have "m = length (filter (\<lambda>r. protection_order_ids r \<inter> set ids = {}) rs) \<and> ses_committed s' = ses_committed s1
      \<and> (\<exists>es'. ses_view s' = (ses_view s1)\<lparr>db_protections := map (\<lambda>q. if q \<in> set rs \<and> protection_order_ids q \<inter> set ids = {} then ?c q else q)
          (db_protections (ses_view s1)), db_events := es'\<rparr>)"
      using Cons.IH [OF rest(1) keys _ sub] by blast
    moreover have prots: "db_protections (ses_view s1) = map (\<lambda>q. if q = r then ?c r else q) (db_protections ?d)"
      by (simp add: v1)
    ultimately obtain es' where "m = length (filter (\<lambda>r. protection_order_ids r \<inter> set ids = {}) rs)"
      "ses_committed s' = ses_committed s1"
      "ses_view s' = (ses_view s1)\<lparr>db_protections := map (\<lambda>q. if q \<in> set rs \<and> protection_order_ids q \<inter> set ids = {} then ?c q else q)
          (map (\<lambda>q. if q = r then ?c r else q) (db_protections ?d)), db_events := es'\<rparr>" unfolding prots by blast
    then show ?thesis unfolding comp using True rest(2) c1 by (simp add: v1) blast
  qed
qed


section \<open>The settlement of an exit\<close>

text \<open>What the view of a session satisfies while the session is usable.\<close>

definition view_inv :: "(db \<Rightarrow> bool) \<Rightarrow> session \<Rightarrow> bool" where
  "view_inv I s \<longleftrightarrow> ses_failed s \<or> I (ses_view s)"

lemma stays_view_inv:
  assumes "keeps I m"
  shows "stays (view_inv I) (in_session m)"
proof (rule staysI)
  fix s assume s: "view_inv I s"
  obtain r d where m: "m (ses_view s) = (r, d)" by fastforce
  have "ses_failed s \<or> integrity_error r \<or> I d" using assms s m unfolding keeps_def view_inv_def by (metis fst_conv snd_conv)
  with s show "view_inv I (snd (in_session m s))"
    by (auto simp: in_session_def m view_inv_def split: sum.splits exn.splits)
qed

lemma view_inv_after:
  "\<lbrakk>stays (view_inv I) m; m s = (r, s'); I (ses_view s); \<not> ses_failed s'\<rbrakk> \<Longrightarrow> I (ses_view s')"
  using staysD [of "view_inv I" m s] by (simp add: view_inv_def)

lemma commit_usable: "commit s = (Inr x, s') \<Longrightarrow> \<not> ses_failed s"
  by (auto simp: commit_def in_session_def split: if_splits)

text \<open>The columns of positions that an exit never changes, and the rows of positions and protections.\<close>

definition entry_columns :: "V2ManagedPosition \<Rightarrow> string \<times> string \<times> dec \<times> dec" where
  "entry_columns p = (vp_position_id p, vp_direction p, vp_entry_price p, vp_entry_fee p)"

definition rows_are :: "V2ManagedPosition list \<Rightarrow> V2ProtectionRecord list \<Rightarrow> db \<Rightarrow> bool" where
  "rows_are P R d \<longleftrightarrow> db_positions d = P \<and> db_protections d = R"

definition columns_are :: "(string \<times> string \<times> dec \<times> dec) list \<Rightarrow> db \<Rightarrow> bool" where
  "columns_are K d \<longleftrightarrow> map entry_columns (db_positions d) = K"

lemma keeps_rows:
  "keeps (rows_are P R) (create_cycle a1 a2 a3 a4 a5 a6)"
  "keeps (rows_are P R) (transition_intent b1 b2 b3 b4 b5 b6 b7 b8)"
  "keeps (rows_are P R) (create_intent c1)"
  "keeps (rows_are P R) (save_order_submission e1 e2 e3 e4 e5 e6)"
  "keeps (rows_are P R) (save_exchange_order_receipt f1 f2 f3)"
  "keeps (rows_are P R) (save_exchange_fill_receipt g1)"
  "keeps (rows_are P R) (append_shadow_outcome h1 h2 h3 h4)"
  unfolding create_cycle_def transition_intent_def create_intent_def save_order_submission_def append_event_def
    save_exchange_order_receipt_def save_exchange_fill_receipt_def refresh_order_aggregate_from_fills_def
    append_shadow_outcome_def Let_def
  by (intro keeps_intros keeps_store keeps_modifyC; simp add: rows_are_def)+

lemma keeps_rows_loops:
  "keeps (rows_are P R) (save_new_trades trades per_qty whole allocated fill)"
  "keeps (rows_are P R) (append_outcomes h ids outcome shadows)"
proof -
  show "keeps (rows_are P R) (save_new_trades trades per_qty whole allocated fill)"
  proof (induction trades per_qty whole allocated fill rule: save_new_trades.induct)
    case (1 per_qty whole allocated fill)
    show ?case unfolding save_new_trades.simps by (rule keeps_returnC)
  next
    case (2 fill_id trade_id rest per_qty whole allocated fill)
    then show ?case unfolding save_new_trades.simps Let_def unit_call_def by (intro keeps_intros keeps_rows) auto
  qed
  show "keeps (rows_are P R) (append_outcomes h ids outcome shadows)"
  proof (induction shadows arbitrary: ids)
    case Nil
    show ?case unfolding append_outcomes.simps by (rule keeps_returnC)
  next
    case (Cons s shadows)
    then show ?case unfolding append_outcomes.simps by (intro keeps_bindC keeps_rows)
  qed
qed

lemma keeps_columns:
  assumes "\<And>P R. keeps (rows_are P R) m"
  shows "keeps (columns_are K) m"
  using assms unfolding keeps_def rows_are_def columns_are_def by metis

lemma keeps_columns_transition_position: "keeps (columns_are K) (transition_position a1 a2 a3 a4 a5 a6 a7 a8)"
  unfolding transition_position_def append_event_def Let_def
  by (intro keeps_intros keeps_store keeps_modifyC)
    (auto simp: columns_are_def entry_columns_def update_row_def if_distrib cong: if_cong)

lemma exit_sessions_keep_columns:
  "stays (holds_db (columns_are K)) (persist_exit_intent_before_submission flt u c p m reason cid q tok t)"
  "stays (holds_db (columns_are K)) (persist_exit_submission_result u det p xr)"
  unfolding persist_exit_intent_before_submission_def persist_exit_submission_result_def ensure_cycle_def
    open_intent_def Let_def
  by (intro stays_intros keeps_columns keeps_rows keeps_columns_transition_position)+

lemma transition_position_success:
  assumes "transition_position e now k cur nxt ty p occ d = (Inr x, d')" "find_row vp_position_id k (db_positions d) = Some row"
  shows "db_protections d' = db_protections d \<and> (\<exists>row'. find_row vp_position_id k (db_positions d') = Some row'
    \<and> vp_state row' = nxt \<and> entry_columns row' = entry_columns row)"
  using assms
  by (auto simp: transition_position_def append_event_def store_def bindC_Inr_iff someC_iff guardC_iff Let_def
      find_row_update entry_columns_def)

lemma repair_success:
  assumes "repair_quarantined_position_from_confirmed_exit e k w t pl d = (Inr x, d')"
    and "find_row vp_position_id k (db_positions d) = Some row"
  shows "db_protections d' = db_protections d \<and> (\<exists>row'. find_row vp_position_id k (db_positions d') = Some row'
    \<and> vp_state row' = V2PositionState.CLOSED \<and> entry_columns row' = entry_columns row)"
  using assms
  by (auto simp: repair_quarantined_position_from_confirmed_exit_def append_event_def store_def bindC_Inr_iff someC_iff
      guardC_iff Let_def find_row_update entry_columns_def split: option.splits)

lemma settle_position_success:
  assumes run: "settle_position u a b reason result position s = (Inr x, s')" and "xr_status result = ExitExecutionStatus.CLOSED"
    and row: "find_row vp_position_id (vp_position_id position) (db_positions (ses_view s)) = Some row"
  shows "db_protections (ses_view s') = db_protections (ses_view s)
    \<and> (\<exists>row'. find_row vp_position_id (vp_position_id position) (db_positions (ses_view s')) = Some row'
        \<and> vp_state row' = V2PositionState.CLOSED \<and> entry_columns row' = entry_columns row)"
proof (cases "vp_state position = V2PositionState.QUARANTINED")
  case True
  with run show ?thesis
    by (auto simp: settle_position_def Let_def bindC_Inr_iff in_session_Inr_iff dest: repair_success [OF _ row])
next
  case False
  let ?k = "vp_position_id position"
  obtain s1 where one: "(if vp_state position \<noteq> V2PositionState.REDUCING
      then in_session (transition_position (dr_id u 1) (dr_now u 1) ?k (vp_state position) V2PositionState.REDUCING
         ''PositionReducing'' [''exit_intent_id'' \<mapsto> PStr a, ''exchange_order_id'' \<mapsto> PStr (the (xr_exchange_order_id result)),
          ''reason'' \<mapsto> PStr (exit_reason_value reason)] (Some (the (xr_fill_timestamp result))))
      else returnC ()) s = (Inr (), s1)"
    and two: "\<exists>p. in_session (transition_position (dr_id u 2) (dr_now u 2) ?k V2PositionState.REDUCING V2PositionState.CLOSED
       ''PositionClosed'' p (Some (the (xr_fill_timestamp result)))) s1 = (Inr x, s')"
    using run assms(2) False by (auto simp: settle_position_def Let_def bindC_Inr_iff)
  have "db_protections (ses_view s1) = db_protections (ses_view s) \<and> (\<exists>row1. find_row vp_position_id ?k (db_positions (ses_view s1)) = Some row1
      \<and> entry_columns row1 = entry_columns row)"
    using one row by (auto simp: in_session_Inr_iff dest: transition_position_success [OF _ row] split: if_splits)
  then obtain row1 where "db_protections (ses_view s1) = db_protections (ses_view s)"
    "find_row vp_position_id ?k (db_positions (ses_view s1)) = Some row1" "entry_columns row1 = entry_columns row" by blast
  with two show ?thesis unfolding in_session_Inr_iff by (auto dest!: transition_position_success)
qed

lemma record_outcome_success:
  assumes "record_outcome_of_exit h u reason result position i s = (Inr x, s')" "\<not> ses_failed s'"
  shows "db_protections (ses_view s') = db_protections (ses_view s) \<and> db_positions (ses_view s') =
    update_row vp_position_id (vp_position_id position) (\<lambda>p. p\<lparr>vp_realized_pnl := Some (realized_pnl position result)\<rparr>)
      (db_positions (ses_view s))"
proof -
  let ?P = "update_row vp_position_id (vp_position_id position) (\<lambda>p. p\<lparr>vp_realized_pnl := Some (realized_pnl position result)\<rparr>)
      (db_positions (ses_view s))" and ?R = "db_protections (ses_view s)"
  let ?rest = "look (\<lambda>d. if \<not> has_text (vi_decision_id i) then returnC ()
       else (case find_row vs_decision_id (the (vi_decision_id i)) (db_snapshots d) of
           None \<Rightarrow> returnC ()
         | Some snapshot \<Rightarrow>
             bindC (pureC (build_shadow_outcome (vs_payload snapshot) (vp_direction position) (vp_entry_price position)
               (the (xr_average_fill_price result)) (xr_reduced_quantity result)
               (dadd (vp_entry_fee position) (xr_total_fee result)) 0 (exit_reason_value reason))) (\<lambda>outcome.
             in_session (append_outcomes h (dr_id u) outcome
               (filter (\<lambda>h. vh_snapshot_id h = vs_snapshot_id snapshot) (db_shadows d))))))"
  obtain u1 s1 where first: "in_session (modifyC (\<lambda>d. d\<lparr>db_positions := update_row vp_position_id (vp_position_id position)
       (\<lambda>p. p\<lparr>vp_realized_pnl := Some (realized_pnl position result)\<rparr>) (db_positions d)\<rparr>)) s = (Inr u1, s1)"
    and run: "?rest s1 = (Inr x, s')"
    using assms(1) unfolding record_outcome_of_exit_def bindC_Inr_iff by blast
  have "ses_view s1 = (ses_view s)\<lparr>db_positions := ?P\<rparr>" using first by (auto simp: in_session_Inr_iff)
  then have s1: "rows_are ?P ?R (ses_view s1)" by (simp add: rows_are_def)
  have "stays (view_inv (rows_are ?P ?R)) ?rest"
    by (intro stays_look stays_if stays_option stays_bindC stays_pure stays_view_inv keeps_rows_loops)
  from view_inv_after [OF this run s1 assms(2)] show ?thesis by (simp add: rows_are_def)
qed

text \<open>One protection, and then all protections of the position.\<close>

lemma replace_twice:
  assumes "distinct (map key xs)" "r \<in> set xs" "key r1 = key r"
  shows "map (\<lambda>q. if q = r1 then r2 else q) (map (\<lambda>q. if q = r then r1 else q) xs) = map (\<lambda>q. if q = r then r2 else q) xs"
proof -
  have "inj_on key (set xs)" using assms(1) by (simp add: distinct_map)
  then have "r1 \<in> set xs \<Longrightarrow> r1 = r" using assms(2,3) by (metis inj_onD)
  then show ?thesis by auto
qed

lemma protection_step_effect:
  assumes "in_session (transition_protection e now (vr_protection_id r) cur nxt ty p occ) s = (Inr x, s')"
    and keys: "distinct (map vr_protection_id (db_protections (ses_view s)))" and r: "r \<in> set (db_protections (ses_view s))"
    and "nxt \<noteq> V2ProtectionState.PROTECTION_ACTIVE"
  shows "db_positions (ses_view s') = db_positions (ses_view s)
    \<and> db_protections (ses_view s') = map (\<lambda>q. if q = r then move_protection nxt r else q) (db_protections (ses_view s))
    \<and> distinct (map vr_protection_id (db_protections (ses_view s'))) \<and> move_protection nxt r \<in> set (db_protections (ses_view s'))"
proof -
  have run: "transition_protection e now (vr_protection_id r) cur nxt ty p occ (ses_view s) = (Inr x, ses_view s')"
    using assms(1) unfolding in_session_Inr_iff by blast
  from transition_protection_effect [OF run keys r assms(4)] obtain es where
    eff: "ses_view s' = (ses_view s)\<lparr>db_protections := map (\<lambda>q. if q = r then move_protection nxt r else q)
      (db_protections (ses_view s)), db_events := es\<rparr>" by blast
  have "map vr_protection_id (db_protections (ses_view s')) = map vr_protection_id (db_protections (ses_view s))"
    by (simp add: eff)
  then have "distinct (map vr_protection_id (db_protections (ses_view s')))" using keys by argo
  moreover have "move_protection nxt r \<in> set (db_protections (ses_view s'))" using r by (auto simp: eff image_iff)
  ultimately show ?thesis by (simp add: eff)
qed

lemma settle_protection_effect:
  assumes run: "settle_protection u k px result r s = (Inr x, s')"
    and keys: "distinct (map vr_protection_id (db_protections (ses_view s)))" and r: "r \<in> set (db_protections (ses_view s))"
  shows "db_positions (ses_view s') = db_positions (ses_view s) \<and> (\<exists>r'. vr_protection_id r' = vr_protection_id r
    \<and> vr_position_id r' = vr_position_id r
    \<and> (xr_status result = ExitExecutionStatus.CLOSED \<longrightarrow> vr_state r' \<notin> set cancellable_states)
    \<and> db_protections (ses_view s') = map (\<lambda>q. if q = r then r' else q) (db_protections (ses_view s)))"
proof -
  let ?xid = "the (xr_exchange_order_id result)" and ?t = "the (xr_fill_timestamp result)"
  let ?trigger = "if has_text px then the px else ?xid"
  let ?matched = "vr_stop_exchange_order_id r = Some ?trigger \<or> vr_tp_exchange_order_id r = Some ?trigger"
  let ?step = "\<lambda>i from to ty p. in_session (transition_protection (dr_id u (k + i)) (dr_now u (k + i))
            (vr_protection_id r) from to ty p (Some ?t))"
  consider
    (fired) s1 p1 p2 where "?step 0 V2ProtectionState.PROTECTION_ACTIVE V2ProtectionState.PROTECTION_TRIGGERED ''ProtectionTriggered'' p1 s = (Inr (), s1)"
      "?step 1 V2ProtectionState.PROTECTION_TRIGGERED V2ProtectionState.PROTECTION_FILLED ''ProtectionFilled'' p2 s1 = (Inr x, s')"
  | (filled) p1 where "?step 1 V2ProtectionState.PROTECTION_TRIGGERED V2ProtectionState.PROTECTION_FILLED ''ProtectionFilled'' p1 s = (Inr x, s')"
  | (cancelled) p1 where "?step 1 (vr_state r) V2ProtectionState.PROTECTION_CANCELLED ''ProtectionCancelledAfterConfirmedExit'' p1 s = (Inr x, s')"
  | (same) "s' = s" "xr_status result = ExitExecutionStatus.CLOSED \<longrightarrow> vr_state r \<notin> set cancellable_states"
    using run unfolding settle_protection_def Let_def
    by (cases "?matched \<and> vr_state r = V2ProtectionState.PROTECTION_ACTIVE") (auto simp: bindC_Inr_iff split: if_splits)
  then show ?thesis
  proof cases
    case fired
    let ?r1 = "move_protection V2ProtectionState.PROTECTION_TRIGGERED r"
    note one = protection_step_effect [OF fired(1) keys r]
    have "distinct (map vr_protection_id (db_protections (ses_view s1)))" "?r1 \<in> set (db_protections (ses_view s1))"
      using one by auto
    note two = protection_step_effect [of _ _ ?r1, OF _ this]
    show ?thesis
      using one two fired(2) replace_twice [OF keys r, of ?r1 "move_protection V2ProtectionState.PROTECTION_FILLED ?r1"]
      by (intro conjI exI [of _ "move_protection V2ProtectionState.PROTECTION_FILLED ?r1"])
        (auto simp: cancellable_states_def)
  next
    case filled
    from protection_step_effect [OF this keys r] show ?thesis
      by (intro conjI exI [of _ "move_protection V2ProtectionState.PROTECTION_FILLED r"]) (auto simp: cancellable_states_def)
  next
    case cancelled
    from protection_step_effect [OF this keys r] show ?thesis
      by (intro conjI exI [of _ "move_protection V2ProtectionState.PROTECTION_CANCELLED r"]) (auto simp: cancellable_states_def)
  next
    case same
    have "map (\<lambda>q. if q = r then r else q) xs = xs" for xs by (rule map_idI) simp
    with same show ?thesis by (intro conjI exI [of _ r]) auto
  qed
qed

lemma settle_protections_effect:
  assumes "settle_protections u k px result rs s = (Inr x, s')"
    and "distinct (map vr_protection_id (db_protections (ses_view s)))" "distinct (map vr_protection_id rs)"
    and "set rs \<subseteq> set (db_protections (ses_view s))" "xr_status result = ExitExecutionStatus.CLOSED"
  shows "db_positions (ses_view s') = db_positions (ses_view s)
    \<and> (\<forall>q\<in>set (db_protections (ses_view s')). vr_state q \<notin> set cancellable_states
        \<or> q \<in> set (db_protections (ses_view s)) \<and> q \<notin> set rs)"
  using assms
proof (induction rs arbitrary: k s)
  case Nil
  then show ?case by simp
next
  case (Cons r rs)
  obtain s1 where one: "settle_protection u k px result r s = (Inr (), s1)"
    and rest: "settle_protections u (k + 2) px result rs s1 = (Inr x, s')"
    using Cons.prems(1) by (auto simp: bindC_Inr_iff)
  have "r \<in> set (db_protections (ses_view s))" using Cons.prems(4) by simp
  from settle_protection_effect [OF one Cons.prems(2) this] Cons.prems(5) obtain r' where
    r': "vr_protection_id r' = vr_protection_id r" "vr_state r' \<notin> set cancellable_states"
    and prots: "db_protections (ses_view s1) = map (\<lambda>q. if q = r then r' else q) (db_protections (ses_view s))"
    and pos: "db_positions (ses_view s1) = db_positions (ses_view s)" by blast
  have "map vr_protection_id (db_protections (ses_view s1)) = map vr_protection_id (db_protections (ses_view s))"
    using r'(1) by (simp add: prots)
  then have keys: "distinct (map vr_protection_id (db_protections (ses_view s1)))" using Cons.prems(2) by argo
  have sub: "set rs \<subseteq> set (db_protections (ses_view s1))"
  proof
    fix q assume "q \<in> set rs"
    then have "q \<in> set (db_protections (ses_view s))" "q \<noteq> r" using Cons.prems(3,4) by auto
    then show "q \<in> set (db_protections (ses_view s1))" unfolding prots by (simp add: image_iff)
  qed
  have "distinct (map vr_protection_id rs)" using Cons.prems(3) by simp
  note IH = Cons.IH [OF rest keys this sub Cons.prems(5)]
  show ?case
  proof (intro conjI ballI)
    show "db_positions (ses_view s') = db_positions (ses_view s)" using IH pos by simp
  next
    fix q assume "q \<in> set (db_protections (ses_view s'))"
    with IH consider "vr_state q \<notin> set cancellable_states" | "q \<in> set (db_protections (ses_view s1))" "q \<notin> set rs" by blast
    then show "vr_state q \<notin> set cancellable_states \<or> q \<in> set (db_protections (ses_view s)) \<and> q \<notin> set (r # rs)"
      using r'(2) by cases (auto simp: prots split: if_splits)
  qed
qed

lemma settle_protections_failed: "stays ses_failed (settle_protections u k px result rs)"
proof -
  have step: "stays ses_failed (in_session m)" for m :: "(db, unit) call" by (rule staysI) (simp add: in_session_def)
  show ?thesis
  proof (induction rs arbitrary: k)
    case Nil
    show ?case unfolding settle_protections.simps by (rule stays_pure)
  next
    case (Cons r rs)
    then show ?case unfolding settle_protections.simps settle_protection_def Let_def by (intro stays_intros step)
  qed
qed

lemma find_row_columns:
  assumes "map entry_columns xs = map entry_columns ys"
  shows "map_option entry_columns (find_row vp_position_id k xs) = map_option entry_columns (find_row vp_position_id k ys)"
proof -
  have "length xs = length ys" using assms by (rule map_eq_imp_length_eq)
  then show ?thesis using assms by (induction xs ys rule: list_induct2) (auto simp: entry_columns_def)
qed

lemma realized_pnl_columns: "entry_columns p = entry_columns q \<Longrightarrow> realized_pnl p result = realized_pnl q result"
  by (simp add: realized_pnl_def entry_columns_def Let_def)

lemma record_exit_closes:
  assumes run: "record_exit h u pid reason result px (new_session d) = (Inr x, t)" and "constraints d"
    and closed: "xr_status result = ExitExecutionStatus.CLOSED" and row: "find_row vp_position_id pid (db_positions d) = Some p"
  shows "(\<exists>p'. find_row vp_position_id pid (db_positions (ses_committed t)) = Some p' \<and> vp_state p' = V2PositionState.CLOSED
      \<and> vp_realized_pnl p' = Some (realized_pnl p result))
    \<and> (\<forall>r\<in>set (db_protections (ses_committed t)). vr_position_id r = pid \<longrightarrow> vr_state r \<notin> set cancellable_states)"
proof -
  let ?s = "new_session d" and ?own = "\<lambda>s. filter (\<lambda>r. vr_position_id r = pid) (db_protections (ses_view s))"
  have pid: "vp_position_id p = pid" using find_row_Some [OF row] by simp
  have view: "ses_view ?s = d" by (simp add: new_session_def)
  obtain a1 a2 a3 i b c s1 s2 s3 s4 s5 y1 y2 y3 y4 y5 where
    A: "save_trade_fills u (xr_trade_ids result) (xr_reduced_quantity result) (xr_total_fee result) a1 ?s = (Inr y1, s1)"
    and B: "in_session (transition_intent (dr_id u 0) (dr_now u 0) a2 V2IntentState.EXCHANGE_ACKNOWLEDGED
       V2IntentState.FILLED ''ExitFilled'' a3 None) s1 = (Inr y2, s2)"
    and C: "settle_position u b c reason result p s2 = (Inr y3, s3)"
    and D: "record_outcome_of_exit h u reason result p i s3 = (Inr y4, s4)"
    and E: "settle_protections u 3 px result (?own s4) s4 = (Inr y5, s5)"
    and F: "commit s5 = (Inr x, t)"
    using run closed unfolding record_exit_def Let_def
    by (auto simp: view row bindC_Inr_iff someC_iff)
  have st: "stays (view_inv (rows_are (db_positions d) (db_protections d)))
     (save_trade_fills u (xr_trade_ids result) (xr_reduced_quantity result) (xr_total_fee result) a1)"
    unfolding save_trade_fills_def Let_def by (intro stays_bindC stays_pure stays_view_inv keeps_rows_loops)
  have "rows_are (db_positions d) (db_protections d) (ses_view s1)"
    by (rule view_inv_after [OF st A]) (use B in \<open>auto simp: view rows_are_def in_session_Inr_iff\<close>)
  then have "rows_are (db_positions d) (db_protections d) (ses_view s2)"
    by (rule view_inv_after [OF stays_view_inv [OF keeps_rows(2)] B]) (use B in \<open>auto simp: in_session_Inr_iff\<close>)
  then have v2: "db_positions (ses_view s2) = db_positions d" "db_protections (ses_view s2) = db_protections d"
    by (simp_all add: rows_are_def)
  obtain p3 where p3: "find_row vp_position_id pid (db_positions (ses_view s3)) = Some p3" "vp_state p3 = V2PositionState.CLOSED"
    and r3: "db_protections (ses_view s3) = db_protections d"
    using settle_position_success [OF C closed] row v2 pid by auto
  have usable: "\<not> ses_failed s4"
    using commit_usable [OF F] staysD [OF settle_protections_failed, of s4] E by (metis snd_conv)
  have v4: "db_protections (ses_view s4) = db_protections d"
    and p4: "find_row vp_position_id pid (db_positions (ses_view s4)) = Some (p3\<lparr>vp_realized_pnl := Some (realized_pnl p result)\<rparr>)"
    using record_outcome_success [OF D usable] p3 r3 pid by (simp_all add: find_row_update)
  have keys: "distinct (map vr_protection_id (db_protections d))" using assms(2) by (simp add: distinct_keys)
  have eff: "db_positions (ses_view s5) = db_positions (ses_view s4) \<and> (\<forall>q\<in>set (db_protections (ses_view s5)).
      vr_state q \<notin> set cancellable_states \<or> q \<in> set (db_protections (ses_view s4)) \<and> q \<notin> set (?own s4))"
    by (rule settle_protections_effect [OF E _ _ _ closed]) (auto simp: v4 keys distinct_map_filter)
  then have "\<forall>r\<in>set (db_protections (ses_view s5)). vr_position_id r = pid \<longrightarrow> vr_state r \<notin> set cancellable_states" by auto
  moreover have "ses_committed t = ses_view s5" by (rule commit_Inr [OF F])
  ultimately show ?thesis using eff p4 p3(2) by auto
qed


lemma recorded_trades:
  "set (filter (\<lambda>t. t \<noteq> []) (List.map_filter vf_trade_id (fills_of d w)))
    = {t. t \<noteq> [] \<and> (\<exists>f\<in>set (db_fills d). vf_exchange_order_record_id f = w \<and> vf_trade_id f = Some t)}"
  by (force simp: fills_of_def map_filter_def)

text \<open>
  C18.  A position that is closed: recording an exit never changes the database, whatever the receipt;
  the call returns for the receipt that closed the position and raises for every other one.
\<close>

theorem closed_position_receipts_immutable:
  assumes "persist_exit_result h flt us det c pid m reason result tok px (w, d) = (r, (w', d'))"
    and "find_row vp_position_id pid (db_positions d) = Some p" "vp_state p = V2PositionState.CLOSED"
  shows "d' = d \<and> w' = w \<and> (r = Inr () \<longrightarrow> xr_status result \<in> {ExitExecutionStatus.CLOSED, ExitExecutionStatus.PARTIALLY_REDUCED} \<longrightarrow>
    (\<exists>order\<in>set (db_orders d). vo_client_order_id order = xr_client_order_id result
      \<and> vo_exchange_order_id order = xr_exchange_order_id result
      \<and> {t. t \<noteq> [] \<and> (\<exists>f\<in>set (db_fills d). vf_exchange_order_record_id f = vo_order_record_id order \<and> vf_trade_id f = Some t)}
          = set (xr_trade_ids result)))"
proof -
  let ?confirmed = "xr_status result \<in> {ExitExecutionStatus.CLOSED, ExitExecutionStatus.PARTIALLY_REDUCED}"
  obtain y where y: "exit_already_recorded pid result d = y" by blast
  have not: "y \<noteq> Inr False" using assms(2,3) y by (auto simp: exit_already_recorded_def split: option.splits if_splits)
  have "d' = d \<and> w' = w \<and> (r = Inr () \<longrightarrow> ?confirmed \<longrightarrow> y = Inr True)"
    using assms(1) not unfolding persist_exit_result_def
    by (cases y) (auto simp: guardC_iff bindC_def y new_session_def [of d] split: if_splits)
  moreover have "\<exists>order\<in>set (db_orders d).
      vo_client_order_id order = xr_client_order_id result \<and> vo_exchange_order_id order = xr_exchange_order_id result
      \<and> {t. t \<noteq> [] \<and> (\<exists>f\<in>set (db_fills d). vf_exchange_order_record_id f = vo_order_record_id order \<and> vf_trade_id f = Some t)}
          = set (xr_trade_ids result)" if rec: "y = Inr True"
  proof -
    obtain order where "find_row vo_client_order_id (xr_client_order_id result) (db_orders d) = Some order"
      "vo_exchange_order_id order = xr_exchange_order_id result"
      "set (filter (\<lambda>t. t \<noteq> []) (List.map_filter vf_trade_id (fills_of d (vo_order_record_id order)))) = set (xr_trade_ids result)"
      using y rec assms(2,3) unfolding exit_already_recorded_def by (auto split: option.splits if_splits)
    then show ?thesis unfolding recorded_trades using find_row_Some by (intro bexI [of _ order]) fastforce+
  qed
  ultimately show ?thesis by blast
qed

section \<open>A settled exit\<close>

definition demo_closed :: db where
  "demo_closed = demo_quarantine\<lparr>
     db_positions := map (\<lambda>p. p\<lparr>vp_state := V2PositionState.CLOSED\<rparr>) (db_positions demo_quarantine),
     db_protections := [\<lparr>vr_protection_id = ''r1'', vr_position_id = ''p1'', vr_stop_loss_price = 90,
       vr_original_stop_loss_price = None, vr_take_profit_price = None, vr_stop_client_order_id = ''s1'',
       vr_tp_client_order_id = None, vr_stop_exchange_order_id = Some ''x5'', vr_tp_exchange_order_id = None,
       vr_state = V2ProtectionState.PROTECTION_ACTIVE, vr_version = 2, vr_policy = ''P1'', vr_activated_at = Some 1\<rparr>]\<rparr>"

abbreviation demo_clean :: "(unit \<times> db, nat) call" where
  "demo_clean \<equiv> reconcile_closed_position_protections demo_ids V2ExecutionMode.BINANCE_TESTNET ''BTC/USDT'' [''x6''] 9"

lemma demo_clean_runs:
  "fst (demo_clean ((), demo_closed)) = Inr 1" "constraints demo_closed"
  by code_simp+


definition demo_receipt :: ExitExecutionResult where
  "demo_receipt = (exit_result ExitExecutionStatus.CLOSED V2PositionState.CLOSED ''v2x'')\<lparr>xr_exchange_order_id := Some ''x9'',
     xr_trade_ids := [''t1''], xr_reduced_quantity := 2, xr_average_fill_price := Some 110, xr_fill_timestamp := Some 8\<rparr>"

abbreviation demo_record :: "(unit \<times> db, unit) call" where
  "demo_record \<equiv> persist_exit_result (\<lambda>_. ''h'') id (\<lambda>_. demo_ids) ''d'' ''c1'' ''p1'' V2ExecutionMode.BINANCE_TESTNET
     ExitReason.HARD_STOP demo_receipt ''tok'' None"

theorem closed_position_receipts_immutable_witness:
  "demo_record ((), demo_closed) = (Inr (), ((), demo_closed))"
proof -
  have "exit_already_recorded ''p1'' demo_receipt demo_closed = Inr True" by code_simp
  then have res: "fst (demo_record ((), demo_closed)) = Inr ()"
    unfolding persist_exit_result_def by (simp add: demo_receipt_def exit_result_def guardC_def has_text_def bindC_def new_session_def)
  obtain r w' d' where run: "demo_record ((), demo_closed) = (r, (w', d'))" by (cases "demo_record ((), demo_closed)") auto
  have "list_all (\<lambda>p. vp_position_id p = ''p1'' \<and> vp_state p = V2PositionState.CLOSED) (db_positions demo_closed)"
    "length (db_positions demo_closed) = 1" by code_simp+
  then obtain p where "find_row vp_position_id ''p1'' (db_positions demo_closed) = Some p" "vp_state p = V2PositionState.CLOSED"
    by (cases "db_positions demo_closed") auto
  from closed_position_receipts_immutable [OF run this] res run show ?thesis by simp
qed

text \<open>
  An exit whose intent, order and fill are stored and which is not settled yet.  The identity of
  the intent is a digest that is only compared with itself and with shorter identifiers.
\<close>

definition demo_open :: db where
  "demo_open = empty_db\<lparr>
     db_cycles := [\<lparr>vy_cycle_id = ''c1'', vy_symbol = ''BTC/USDT'', vy_timeframe = ''15m'', vy_bar_timestamp = 0,
       vy_execution_mode = V2ExecutionMode.BINANCE_TESTNET, vy_fencing_token = ''tok'', vy_completed_at = None,
       vy_decision_terminal = None\<rparr>],
     db_intents := [demo_intent\<lparr>vi_state := V2IntentState.FILLED\<rparr>,
       demo_intent\<lparr>vi_intent_id := exit_intent_id ''v2x'', vi_candidate_key := ''exit:p1'', vi_initial_risk_usdt := None,
         vi_state := V2IntentState.EXCHANGE_ACKNOWLEDGED, vi_version := 2\<rparr>],
     db_orders := [\<lparr>vo_order_record_id = ''o1'', vo_intent_id = ''i1'', vo_client_order_id = ''v2e'',
       vo_exchange_order_id = Some ''x1'', vo_quantity = 2, vo_leverage = 3, vo_submitted_at = None,
       vo_acknowledged_at = None, vo_filled_quantity = None, vo_average_fill_price = None, vo_total_fee = None,
       vo_fill_timestamp = None, vo_trade_ids = []\<rparr>,
       \<lparr>vo_order_record_id = ''o2'', vo_intent_id = exit_intent_id ''v2x'', vo_client_order_id = ''v2x'',
       vo_exchange_order_id = Some ''x9'', vo_quantity = 2, vo_leverage = 3, vo_submitted_at = None,
       vo_acknowledged_at = Some 8, vo_filled_quantity = None, vo_average_fill_price = None, vo_total_fee = None,
       vo_fill_timestamp = None, vo_trade_ids = []\<rparr>],
     db_fills := [demo_row\<lparr>vf_intent_id := exit_intent_id ''v2x'', vf_exchange_order_record_id := ''o2'',
       vf_account_id := ''binance_testnet'', vf_exchange_order_id := ''x9'', vf_reduce_only := True\<rparr>],
     db_positions := [\<lparr>vp_position_id = ''p1'', vp_intent_id = ''i1'', vp_order_record_id = ''o1'',
       vp_symbol = ''BTC/USDT'', vp_direction = ''long'', vp_execution_mode = V2ExecutionMode.BINANCE_TESTNET,
       vp_quantity = 2, vp_entry_price = 100, vp_entry_fee = 0, vp_state = V2PositionState.REDUCING,
       vp_version = 2, vp_projected_at = 0, vp_protected_at = None, vp_closed_at = None, vp_realized_pnl = None\<rparr>],
     db_protections := [\<lparr>vr_protection_id = ''r1'', vr_position_id = ''p1'', vr_stop_loss_price = 90,
       vr_original_stop_loss_price = None, vr_take_profit_price = None, vr_stop_client_order_id = ''s1'',
       vr_tp_client_order_id = None, vr_stop_exchange_order_id = Some ''x5'', vr_tp_exchange_order_id = None,
       vr_state = V2ProtectionState.PROTECTION_ACTIVE, vr_version = 2, vr_policy = ''P1'', vr_activated_at = Some 1\<rparr>]\<rparr>"

lemma exit_intent_id_long [simp]: "exit_intent_id c \<noteq> ''i1''" "''i1'' \<noteq> exit_intent_id c"
proof -
  have "length (exit_intent_id c) = 36" by (simp add: exit_intent_id_def)
  moreover have "length ''i1'' = 2" by simp
  ultimately show "exit_intent_id c \<noteq> ''i1''" "''i1'' \<noteq> exit_intent_id c" by (metis numeral_eq_iff semiring_norm(83,84,85,86,87,88,89,90))+
qed

lemmas constraint_simps = constraints_def evidence_constraints_def ledger_constraints_def control_constraints_def
  unique_on_def unique_opt_def map_filter_simps check_intent_def check_order_def check_fill_def check_position_def
  check_protection_def check_event_def

lemmas demo_simps = demo_open_def demo_intent_def demo_row_def empty_db_def demo_receipt_def exit_result_def demo_ids_def

lemma demo_open_constraints: "constraints demo_open"
  by (simp add: constraint_simps demo_simps)

lemmas run_simps = bindC_def someC_def guardC_def in_session_def commit_def flush_def store_def new_session_def has_text_def

lemma demo_first_session:
  "persist_exit_intent_before_submission id demo_ids ''c1'' ''p1'' V2ExecutionMode.BINANCE_TESTNET ExitReason.HARD_STOP
     ''v2x'' 2 ''tok'' 8 ((), demo_open) = (Inr (exit_intent_id ''v2x''), ((), demo_open))"
  using demo_open_constraints
  by (simp add: persist_exit_intent_before_submission_def ensure_cycle_def run_simps demo_simps)

lemma demo_second_session:
  "persist_exit_submission_result demo_ids ''d'' ''p1'' demo_receipt ((), demo_open) = (Inr (), ((), demo_open))"
  using demo_open_constraints
  by (simp add: persist_exit_submission_result_def save_exchange_order_receipt_def Let_def stamp_of_def submitted_states_def
      run_simps demo_simps)

lemma demo_third_session:
  "\<exists>t. record_exit (\<lambda>_. ''h'') demo_ids ''p1'' ExitReason.HARD_STOP demo_receipt None (new_session demo_open) = (Inr (), t)"
proof -
  have "quantize8 (ddiv 2 1) = Inr 2"
    "validate_intent_transition V2IntentState.EXCHANGE_ACKNOWLEDGED V2IntentState.FILLED = Inr ()"
    "validate_position_transition V2PositionState.REDUCING V2PositionState.CLOSED = Inr ()"
    "validate_protection_transition V2ProtectionState.PROTECTION_ACTIVE V2ProtectionState.PROTECTION_CANCELLED = Inr ()"
    by code_simp+
  then show ?thesis
    by (simp add: record_exit_def run_simps save_trade_fills_def numbered_def get_exchange_fill_by_trade_def trade_row_def
      transition_intent_def transition_position_def transition_protection_def append_event_def settle_position_def
      record_outcome_of_exit_def settle_protection_def cancellable_states_def constraint_simps demo_simps Let_def)
qed


end
