(* ===== verification/Recovery_Executor.thy ===== *)
theory Recovery_Executor
  imports Recovery Exit Protection Account_Writer Ledger_Calls
begin

text \<open>
  Executing a recovery plan (\<open>application/recovery_executor.py\<close>): one handler per kind of
  action over the exchange and the database, and the loop that runs a whole plan and catches the
  exceptions of each action.  Log lines are left out.
\<close>

section \<open>What the module is given\<close>

text \<open>
  What the module is given and what it draws: the adapter, its writer check, the reason text of an
  action, the row a query ordered by creation time returns, the price a column holds after a float
  was written to it.
\<close>

record 'w rx =
  rx_adapter :: "'w adapter"
  rx_writer_valid :: "'w \<Rightarrow> bool"
  rx_reason :: "RecoveryAction \<Rightarrow> string"
  rx_latest :: "V2ProtectionRecord list \<Rightarrow> V2ProtectionRecord option"
  rx_float :: "dec \<Rightarrow> dec"

definition DEFAULT_STEP_SIZE :: dec where
  "DEFAULT_STEP_SIZE = 1 / 1000"

text \<open>
  \<open>_recovery_writer_valid\<close>: the fence of the machine for the Binance adapter and for every adapter
  that carries a capability; an offline adapter without one stays usable.
\<close>

definition recovery_writer_valid ::
    "bool \<Rightarrow> machine \<Rightarrow> AccountWriterCapability option \<Rightarrow> int \<Rightarrow> files \<Rightarrow> bool" where
  "recovery_writer_valid is_binance m capability now fs =
     (if is_binance then capability_is_current m capability now fs
      else if capability = None then True
      else capability_is_current m capability now fs)"

record RecoveryExecutionResult =
  rr_executed :: "string list"
  rr_skipped :: "string list"
  rr_errors :: "(RecoveryActionType \<times> string \<times> exn) list"

section \<open>The handlers\<close>

definition recovery_incident ::
    "string \<Rightarrow> RecoveryAction \<Rightarrow> string \<Rightarrow> string option \<Rightarrow> V2ExecutionIncident" where
  "recovery_incident incident_id action incident_type position_id =
     \<lparr>vn_incident_id = incident_id, vn_incident_type = incident_type, vn_severity = ''MEDIUM'',
      vn_related_aggregate_id = Some (ra_target_ref action), vn_intent_id = None,
      vn_position_id = position_id, vn_context = [''symbol'' \<mapsto> opt_text (ra_symbol action)],
      vn_resolved = False, vn_resolved_at = None\<rparr>"

definition execute_emergency_close ::
    "'w rx \<Rightarrow> AuthoritativeAccountSnapshot \<Rightarrow> LocalStateView option \<Rightarrow> dec \<Rightarrow> RecoveryAction \<Rightarrow> ('w \<times> db, bool) call" where
  "execute_emergency_close x snapshot local_state step_size action =
     someC (case local_state of None \<Rightarrow> None
       | Some ls \<Rightarrow> List.find (\<lambda>p. lp_position_id p = ra_target_ref action) (ls_positions ls))
       (ValueError ''no local position for emergency close'') (\<lambda>position.
     let ex_pos = List.find (\<lambda>p. xp_symbol p = lp_symbol position \<and> xp_direction p = lp_direction position)
           (as_positions snapshot) in
     readC (\<lambda>(w, _).
     bindC (pureC (evaluate_exit (lp_position_id position) (lp_symbol position) (lp_direction position)
       ExitReason.PROTECTION_FAILURE_EMERGENCY (lp_quantity position) ex_pos step_size 1
       (Some (rx_writer_valid x w)) True)) (\<lambda>decision.
     if \<not> ed_approved decision then returnC False
     else bindC (on_exchange (execute_reduce_only_exit decision (rx_adapter x)
         (case ex_pos of Some p \<Rightarrow> xp_quantity p | None \<Rightarrow> lp_quantity position) step_size [])) (\<lambda>result.
       returnC (xr_status result \<notin>
         {ExitExecutionStatus.NOT_ATTEMPTED, ExitExecutionStatus.ALREADY_FLAT_RECONCILED})))))"

definition quarantine_local_position :: "'w rx \<Rightarrow> draws \<Rightarrow> RecoveryAction \<Rightarrow> ('w \<times> db, bool) call" where
  "quarantine_local_position x u action = with_session (look (\<lambda>d.
     case get_position_by_id (ra_target_ref action) d of
       None \<Rightarrow> returnC False
     | Some position \<Rightarrow>
         bindC (in_session (transition_position (dr_id u 0) (dr_now u 0) (ra_target_ref action)
           (vp_state position) V2PositionState.QUARANTINED ''PositionQuarantined''
           [''reason'' \<mapsto> PStr (rx_reason x action)] None)) (\<lambda>_.
         bindC (in_session (record_incident (recovery_incident (dr_id u 1) action
           ''LOCAL_GHOST_QUARANTINED'' (Some (ra_target_ref action))))) (\<lambda>_.
         bindC commit (\<lambda>_. returnC True)))))"

definition record_quarantine_incident :: "draws \<Rightarrow> RecoveryAction \<Rightarrow> string \<Rightarrow> ('w \<times> db, unit) call" where
  "record_quarantine_incident u action incident_type = with_session (
     bindC (in_session (record_incident (recovery_incident (dr_id u 0) action incident_type None))) (\<lambda>_. commit))"

definition mark_intent_not_submitted :: "'w rx \<Rightarrow> draws \<Rightarrow> RecoveryAction \<Rightarrow> ('w \<times> db, bool) call" where
  "mark_intent_not_submitted x u action = with_session (look (\<lambda>d.
     someC (find_row vi_intent_id (ra_target_ref action) (db_intents d)) (ValueError ''recovery intent not found'') (\<lambda>intent.
     if (case find_row vo_intent_id (ra_target_ref action) (db_orders d) of
           None \<Rightarrow> False | Some known_order \<Rightarrow> has_text (vo_exchange_order_id known_order))
     then returnC False
     else if vi_state intent \<in> {V2IntentState.CANCELLED, V2IntentState.REJECTED, V2IntentState.EXPIRED}
     then returnC True
     else bindC (in_session (transition_intent (dr_id u 0) (dr_now u 0) (ra_target_ref action)
         (vi_state intent) V2IntentState.CANCELLED ''RecoveryConfirmedNotSubmitted''
         [''reason'' \<mapsto> PStr (rx_reason x action)] None)) (\<lambda>_.
       bindC commit (\<lambda>_. returnC True)))))"

text \<open>The order is known to the exchange: its id is saved and the intent acknowledged.\<close>

definition acknowledge_intent :: "draws \<Rightarrow> string \<Rightarrow> ExchangeOrderReceipt \<Rightarrow> (session, bool) call" where
  "acknowledge_intent u intent_id receipt = look (\<lambda>d.
     someC (find_row vi_intent_id intent_id (db_intents d)) (ValueError ''pending intent/order facts missing'') (\<lambda>intent.
     someC (find_row vo_intent_id intent_id (db_orders d)) (ValueError ''pending intent/order facts missing'') (\<lambda>order.
     bindC (in_session (save_exchange_order_receipt (vo_order_record_id order)
       (or_exchange_order_id receipt) (or_acknowledged_at receipt))) (\<lambda>_.
     bindC (if vi_state intent = V2IntentState.EXCHANGE_ACKNOWLEDGED then returnC ()
       else in_session (transition_intent (dr_id u 0) (dr_now u 0) intent_id (vi_state intent)
         V2IntentState.EXCHANGE_ACKNOWLEDGED ''RecoveryExchangeAcknowledged''
         [''exchange_order_id'' \<mapsto> PStr (or_exchange_order_id receipt)] None)) (\<lambda>_.
     bindC commit (\<lambda>_. returnC True))))))"

definition resolve_unknown_intent ::
    "'w rx \<Rightarrow> draws \<Rightarrow> LocalStateView option \<Rightarrow> RecoveryAction \<Rightarrow> ('w \<times> db, bool) call" where
  "resolve_unknown_intent x u local_state action =
     someC (case local_state of None \<Rightarrow> None
       | Some ls \<Rightarrow> List.find (\<lambda>i. li_intent_id i = ra_target_ref action) (ls_intents ls))
       (ValueError ''no local pending-intent identity'') (\<lambda>intent_view.
     bindC (on_exchange (query_order_by_client_id (rx_adapter x) (li_symbol intent_view)
       (li_client_order_id intent_view))) (\<lambda>found.
     case found of
       None \<Rightarrow> mark_intent_not_submitted x u action
     | Some receipt \<Rightarrow> with_session (acknowledge_intent u (ra_target_ref action) receipt)))"

text \<open>\<open>_resubmit_protection\<close>: the plan read from the database, the exchange run, the new record.\<close>

definition latest_protection :: "'w rx \<Rightarrow> string \<Rightarrow> db \<Rightarrow> V2ProtectionRecord option" where
  "latest_protection x position_id d =
     rx_latest x (filter (\<lambda>r. vr_position_id r = position_id) (db_protections d))"

definition resubmission_plan ::
    "'w rx \<Rightarrow> AuthoritativeAccountSnapshot \<Rightarrow> RecoveryAction \<Rightarrow> db \<Rightarrow> ProtectionPlan option res" where
  "resubmission_plan x snapshot action d =
     (case find_row vp_position_id (ra_target_ref action) (db_positions d) of
        None \<Rightarrow> Inl (ValueError ''protection recovery position not found'')
      | Some position \<Rightarrow>
     (case latest_protection x (ra_target_ref action) d of
        None \<Rightarrow> Inl (ValueError ''position has no persisted protection prices'')
      | Some previous \<Rightarrow>
     (case List.find (\<lambda>p. xp_symbol p = vp_symbol position \<and> xp_direction p = vp_direction position)
         (as_positions snapshot) of
        None \<Rightarrow> Inr None
      | Some exchange_position \<Rightarrow>
          if xp_quantity exchange_position \<le> 0 then Inr None
          else
           (let revision = vr_version previous + 2 in
            bindR (stop_client_order_id (vp_position_id position) revision) (\<lambda>stop_client_id.
            bindR (case vr_take_profit_price previous of None \<Rightarrow> Inr None
                   | Some _ \<Rightarrow> bindR (target_client_order_id (vp_position_id position) revision) (\<lambda>t. Inr (Some t))) (\<lambda>tp_client_id.
            bindR (mk_ProtectionPlan
              \<lparr>pp_position_id = vp_position_id position, pp_symbol = vp_symbol position,
               pp_direction = vp_direction position, pp_quantity = xp_quantity exchange_position,
               pp_average_fill_price = vp_entry_price position, pp_stop_price = vr_stop_loss_price previous,
               pp_take_profit_price = vr_take_profit_price previous, pp_stop_client_order_id = stop_client_id,
               pp_tp_client_order_id = tp_client_id, pp_attempt = revision\<rparr>) (\<lambda>plan. Inr (Some plan))))))))"

definition resubmitted_row :: "'w rx \<Rightarrow> string \<Rightarrow> RecoveryAction \<Rightarrow> ProtectionPlan \<Rightarrow> V2ProtectionRecord" where
  "resubmitted_row x protection_id action plan =
     \<lparr>vr_protection_id = protection_id, vr_position_id = ra_target_ref action,
      vr_stop_loss_price = rx_float x (pp_stop_price plan), vr_original_stop_loss_price = None,
      vr_take_profit_price = map_option (rx_float x) (pp_take_profit_price plan),
      vr_stop_client_order_id = pp_stop_client_order_id plan,
      vr_tp_client_order_id = pp_tp_client_order_id plan, vr_stop_exchange_order_id = None,
      vr_tp_exchange_order_id = None, vr_state = V2ProtectionState.PROTECTION_INTENT, vr_version = 0,
      vr_policy = ''P1'', vr_activated_at = None\<rparr>"

definition save_resubmission ::
    "'w rx \<Rightarrow> draws \<Rightarrow> RecoveryAction \<Rightarrow> ProtectionPlan \<Rightarrow> string \<Rightarrow> string option \<Rightarrow> ('w \<times> db, bool) call" where
  "save_resubmission x u action plan stop_id tp_id = with_session (look (\<lambda>d.
     bindC (case latest_protection x (ra_target_ref action) d of
         None \<Rightarrow> returnC ()
       | Some previous \<Rightarrow>
           if vr_state previous = V2ProtectionState.PROTECTION_ACTIVE
           then in_session (transition_protection (dr_id u 0) (dr_now u 0) (vr_protection_id previous)
             V2ProtectionState.PROTECTION_ACTIVE V2ProtectionState.PROTECTION_CANCELLED
             ''ProtectionSupersededByRecovery'' [''reason'' \<mapsto> PStr (rx_reason x action)] None)
           else returnC ()) (\<lambda>_.
     bindC (in_session (save_protection (resubmitted_row x (dr_id u 1) action plan))) (\<lambda>_.
     bindC (pureC (mk_ProtectionReceipt \<lparr>pr_position_id = ra_target_ref action, pr_stop_exchange_order_id = stop_id,
       pr_tp_exchange_order_id = tp_id, pr_submission_timestamp = dr_now u 1\<rparr>)) (\<lambda>receipt.
     bindC (in_session (update_protection_active (\<lambda>n. dr_id u (n + 2)) (dr_now u 2) (dr_id u 1) receipt
       V2ProtectionState.PROTECTION_ACTIVE (dr_now u 2))) (\<lambda>_.
     bindC commit (\<lambda>_. returnC True)))))))"

definition resubmit_protection ::
    "'w rx \<Rightarrow> draws \<Rightarrow> AuthoritativeAccountSnapshot \<Rightarrow> RecoveryAction \<Rightarrow> ('w \<times> db, bool) call" where
  "resubmit_protection x u snapshot action =
     bindC (with_session (look (\<lambda>d. pureC (resubmission_plan x snapshot action d)))) (\<lambda>planned.
     case planned of
       None \<Rightarrow> returnC False
     | Some plan \<Rightarrow>
         bindC (on_exchange (ensure_protection plan (rx_adapter x) 2)) (\<lambda>result.
         case pe_stop_exchange_order_id result of
           Some stop_id \<Rightarrow>
             if is_active result \<and> stop_id \<noteq> []
             then save_resubmission x u action plan stop_id (pe_tp_exchange_order_id result)
             else bindC (record_quarantine_incident u action ''PROTECTION_RECOVERY_FAILED'') (\<lambda>_. returnC False)
         | None \<Rightarrow> bindC (record_quarantine_incident u action ''PROTECTION_RECOVERY_FAILED'') (\<lambda>_. returnC False)))"

section \<open>The loop\<close>

definition execute_one ::
    "'w rx \<Rightarrow> draws \<Rightarrow> AuthoritativeAccountSnapshot \<Rightarrow> LocalStateView option \<Rightarrow> dec \<Rightarrow> RecoveryAction \<Rightarrow> ('w \<times> db, bool) call" where
  "execute_one x u snapshot local_state step_size action = (case ra_action_type action of
     RecoveryActionType.EMERGENCY_REDUCE_ONLY_CLOSE \<Rightarrow>
       execute_emergency_close x snapshot local_state step_size action
   | RecoveryActionType.CANCEL_ORPHAN_PROTECTION_ORDER \<Rightarrow>
       someC (ra_symbol action) (ValueError ''symbol required to cancel orphan protection order'') (\<lambda>symbol.
         bindC (on_exchange (cancel_order (rx_adapter x) symbol (ra_target_ref action))) (\<lambda>_. returnC True))
   | RecoveryActionType.QUARANTINE_LOCAL_GHOST_POSITION \<Rightarrow> quarantine_local_position x u action
   | RecoveryActionType.QUARANTINE_EXTERNAL_POSITION \<Rightarrow>
       bindC (record_quarantine_incident u action ''EXTERNAL_POSITION_QUARANTINED'') (\<lambda>_. returnC True)
   | RecoveryActionType.RESOLVE_UNKNOWN_INTENT_BY_CLIENT_ID \<Rightarrow> resolve_unknown_intent x u local_state action
   | RecoveryActionType.MARK_INTENT_NOT_SUBMITTED \<Rightarrow> mark_intent_not_submitted x u action
   | RecoveryActionType.RESUBMIT_PROTECTION \<Rightarrow> resubmit_protection x u snapshot action
   | RecoveryActionType.MANUAL_INTERVENTION_REQUIRED \<Rightarrow>
       bindC (record_quarantine_incident u action ''MANUAL_INTERVENTION_REQUIRED'') (\<lambda>_. returnC True))"

definition record_outcome :: "RecoveryAction \<Rightarrow> bool res \<Rightarrow> RecoveryExecutionResult \<Rightarrow> RecoveryExecutionResult" where
  "record_outcome action r acc = (case r of
     Inr handled \<Rightarrow> if handled then acc\<lparr>rr_executed := rr_executed acc @ [ra_target_ref action]\<rparr>
                    else acc\<lparr>rr_skipped := rr_skipped acc @ [ra_target_ref action]\<rparr>
   | Inl e \<Rightarrow> acc\<lparr>rr_errors := rr_errors acc @ [(ra_action_type action, ra_target_ref action, e)]\<rparr>)"

fun recovery_loop ::
    "'w rx \<Rightarrow> (nat \<Rightarrow> draws) \<Rightarrow> AuthoritativeAccountSnapshot \<Rightarrow> LocalStateView option \<Rightarrow> dec \<Rightarrow> nat \<Rightarrow> RecoveryAction list
      \<Rightarrow> RecoveryExecutionResult \<Rightarrow> 'w \<times> db \<Rightarrow> RecoveryExecutionResult \<times> 'w \<times> db" where
  "recovery_loop x us snapshot local_state step_size n [] acc s = (acc, s)"
| "recovery_loop x us snapshot local_state step_size n (action # actions) acc s =
     (case execute_one x (us n) snapshot local_state step_size action s of (r, s') \<Rightarrow>
        recovery_loop x us snapshot local_state step_size (Suc n) actions (record_outcome action r acc) s')"

definition execute_recovery_actions ::
    "'w rx \<Rightarrow> (nat \<Rightarrow> draws) \<Rightarrow> RecoveryAction list \<Rightarrow> AuthoritativeAccountSnapshot \<Rightarrow> LocalStateView option \<Rightarrow> dec
      \<Rightarrow> 'w \<times> db \<Rightarrow> RecoveryExecutionResult \<times> 'w \<times> db" where
  "execute_recovery_actions x us actions snapshot local_state step_size =
     recovery_loop x us snapshot local_state step_size 0 actions
       \<lparr>rr_executed = [], rr_skipped = [], rr_errors = []\<rparr>"

section \<open>The ledger\<close>

lemma incident_stays: "stays (holds_db repo_inv) (record_quarantine_incident u action t)"
  unfolding record_quarantine_incident_def by (intro ledger_intros)

lemma mark_stays: "stays (holds_db repo_inv) (mark_intent_not_submitted x u action)"
  unfolding mark_intent_not_submitted_def by (intro ledger_intros)

lemma quarantine_stays: "stays (holds_db repo_inv) (quarantine_local_position x u action)"
  unfolding quarantine_local_position_def by (intro ledger_intros)

lemma resolve_stays: "stays (holds_db repo_inv) (resolve_unknown_intent x u local_state action)"
  unfolding resolve_unknown_intent_def acknowledge_intent_def by (intro ledger_intros mark_stays)

lemma resubmit_stays: "stays (holds_db repo_inv) (resubmit_protection x u snapshot action)"
  unfolding resubmit_protection_def save_resubmission_def by (intro ledger_intros incident_stays)

lemma close_stays: "stays (holds_db repo_inv) (execute_emergency_close x snapshot local_state step_size action)"
  unfolding execute_emergency_close_def Let_def by (intro ledger_intros)

lemma execute_one_stays: "stays (holds_db repo_inv) (execute_one x u snapshot local_state step_size action)"
  unfolding execute_one_def
  by (cases "ra_action_type action")
    (auto intro!: ledger_intros incident_stays mark_stays quarantine_stays resolve_stays resubmit_stays close_stays)

lemma recovery_loop_stays:
  assumes "\<And>u action. action \<in> set actions \<Longrightarrow> stays Q (execute_one x u snapshot local_state step_size action)" "Q s"
  shows "Q (snd (recovery_loop x us snapshot local_state step_size n actions acc s))"
  using assms
proof (induction actions arbitrary: n acc s)
  case (Cons action actions)
  have "Q (snd (execute_one x (us n) snapshot local_state step_size action s))"
    by (rule staysD [OF Cons.prems(1) Cons.prems(2)]) simp
  then show ?case using Cons.IH [of _ "Suc n"] Cons.prems(1) by (auto split: prod.splits)
qed simp

section \<open>What is sent\<close>

text \<open>The exchange calls a plan allows: none of them can open or increase a position.\<close>

fun allowed_call :: "RecoveryAction list \<Rightarrow> exchange_call \<Rightarrow> bool" where
  "allowed_call actions (MarketOrder cmd symbol side) \<longleftrightarrow> False"
| "allowed_call actions (ProtectionOrders cmd symbol side q) \<longleftrightarrow>
     (\<exists>a\<in>set actions. ra_action_type a = RecoveryActionType.RESUBMIT_PROTECTION \<and> sp_position_id cmd = ra_target_ref a)"
| "allowed_call actions (ReduceOnlyOrder cmd symbol side) \<longleftrightarrow>
     (\<exists>a\<in>set actions. ra_action_type a = RecoveryActionType.RESUBMIT_PROTECTION
        \<or> ra_action_type a = RecoveryActionType.EMERGENCY_REDUCE_ONLY_CLOSE \<and> sr_position_id cmd = ra_target_ref a)"
| "allowed_call actions (CancelOrder symbol ref) \<longleftrightarrow>
     (\<exists>a\<in>set actions. ra_action_type a = RecoveryActionType.CANCEL_ORPHAN_PROTECTION_ORDER
        \<and> ra_symbol a = Some symbol \<and> ra_target_ref a = ref)"

definition sent_ok :: "RecoveryAction list \<Rightarrow> 'w \<times> exchange_call list \<Rightarrow> bool" where
  "sent_ok actions s \<longleftrightarrow> list_all (allowed_call actions) (snd s)"

lemma sent_silent: "stays (sent_ok actions) (silent_call m)"
  by (auto simp: stays_def sent_ok_def)

lemma sent_logged: "allowed_call actions c \<Longrightarrow> stays (sent_ok actions) (logged_call c m)"
  by (auto simp: stays_def sent_ok_def)

lemma exit_sends:
  assumes "allowed_call actions (ReduceOnlyOrder (exit_command d) (ed_symbol d) (exchange_side d))"
  shows "stays (sent_ok actions) (execute_reduce_only_exit d (logged a) aq st [])"
proof (rule staysI)
  fix s :: "'a \<times> exchange_call list"
  assume ok: "sent_ok actions s"
  obtain w l where s: "s = (w, l)" by (cases s)
  show "sent_ok actions (snd (execute_reduce_only_exit d (logged a) aq st [] s))"
    using ok assms unfolding s
    by (auto simp: execute_reduce_only_exit_def on_already_flat_def after_exit_acknowledged_def sent_ok_def Let_def
        split: if_splits sum.splits prod.splits)
qed

lemma ensure_sends:
  assumes "action \<in> set actions" "ra_action_type action = RecoveryActionType.RESUBMIT_PROTECTION"
    and "pp_position_id plan = ra_target_ref action"
  shows "stays (sent_ok actions) (ensure_protection plan (logged a) n)"
proof (rule staysI)
  fix s :: "'a \<times> exchange_call list"
  assume ok: "sent_ok actions s"
  obtain w l where s: "s = (w, l)" by (cases s)
  obtain xs where xs: "snd (snd (ensure_protection plan (logged a) n s)) = l @ xs" "protective plan (nat n) xs"
    unfolding ensure_protection_def s
    using ensure_loop_logged [of "nat n" a n plan "[]" w l] by auto
  have "is_protection_of plan c \<Longrightarrow> allowed_call actions c"
      "allowed_call actions (ReduceOnlyOrder cmd symbol side)" for c cmd symbol side
    using assms by (auto simp: is_protection_of_def)
  then have "list_all (allowed_call actions) xs"
    using xs(2) unfolding protective_def by (fastforce simp: list_all_iff)
  with ok xs(1) show "sent_ok actions (snd (ensure_protection plan (logged a) n s))"
    by (simp add: sent_ok_def s)
qed

lemma resubmission_plan_target:
  "resubmission_plan x snapshot action d = Inr (Some plan) \<Longrightarrow> pp_position_id plan = ra_target_ref action"
  by (auto simp: resubmission_plan_def mk_ProtectionPlan_def bindR_Inr_iff guardR_Inr_iff Let_def
      dest: find_row_Some split: option.splits if_splits)

lemma evaluate_exit_position: "evaluate_exit p s dir rs rq ap st n f g = Inr d \<Longrightarrow> ed_position_id d = p"
  by (auto simp: evaluate_exit_def mk_ExitDecision_def bindR_Inr_iff guardR_Inr_iff Let_def
      split: option.splits if_splits)

lemma close_sends:
  assumes "rx_adapter x = logged a" "action \<in> set actions"
    and "ra_action_type action = RecoveryActionType.EMERGENCY_REDUCE_ONLY_CLOSE"
  shows "stays (holds_world (sent_ok actions)) (execute_emergency_close x snapshot local_state step_size action)"
  unfolding execute_emergency_close_def Let_def assms(1)
proof (intro stays_someC stays_readC stays_prod stays_bind_pure stays_if stays_bindC stays_pure stays_world_exchange)
  fix position d w d'
  assume p: "(case local_state of None \<Rightarrow> None
       | Some ls \<Rightarrow> List.find (\<lambda>p. lp_position_id p = ra_target_ref action) (ls_positions ls)) = Some position"
    and e: "evaluate_exit (lp_position_id position) (lp_symbol position) (lp_direction position)
       ExitReason.PROTECTION_FAILURE_EMERGENCY (lp_quantity position)
       (List.find (\<lambda>p. xp_symbol p = lp_symbol position \<and> xp_direction p = lp_direction position) (as_positions snapshot))
       step_size 1 (Some (rx_writer_valid x w)) True = Inr d"
  have "ed_position_id d = ra_target_ref action"
    using p evaluate_exit_position [OF e] by (auto simp: find_Some_iff split: option.splits)
  then show "stays (sent_ok actions) (execute_reduce_only_exit d (logged a) aq step_size [])" for aq
    by (intro exit_sends) (use assms in \<open>auto simp: exit_command_def\<close>)
qed

lemma resubmit_sends:
  assumes "rx_adapter x = logged a" "action \<in> set actions"
    and "ra_action_type action = RecoveryActionType.RESUBMIT_PROTECTION"
  shows "stays (holds_world (sent_ok actions)) (resubmit_protection x u snapshot action)"
  unfolding resubmit_protection_def save_resubmission_def record_quarantine_incident_def assms(1)
  by (intro stays_bind_read stays_option stays_pure stays_bindC stays_world_exchange ensure_sends [OF assms(2,3)]
      stays_if stays_world_session) (auto dest: resubmission_plan_target)

lemma resolve_sends:
  assumes "rx_adapter x = logged a"
  shows "stays (holds_world (sent_ok actions)) (resolve_unknown_intent x u local_state action)"
  unfolding resolve_unknown_intent_def mark_intent_not_submitted_def assms logged_simps
  by (intro stays_someC stays_bindC stays_option stays_world_exchange sent_silent stays_world_session)

lemma execute_one_sends:
  assumes "rx_adapter x = logged a" "action \<in> set actions"
  shows "stays (holds_world (sent_ok actions)) (execute_one x u snapshot local_state step_size action)"
proof (cases "ra_action_type action")
  case CANCEL_ORPHAN_PROTECTION_ORDER
  then show ?thesis using assms unfolding execute_one_def assms(1)
    by (auto intro!: stays_someC stays_bindC stays_world_exchange sent_logged stays_pure)
qed (use assms in \<open>auto simp: execute_one_def mark_intent_not_submitted_def record_quarantine_incident_def
    quarantine_local_position_def intro!: close_sends resubmit_sends resolve_sends stays_world_session stays_bindC stays_pure\<close>)

section \<open>Properties\<close>


text \<open>
  Running a recovery plan keeps the ledger: a committed database that satisfies the declared
  constraints and the invariant of the repository does so afterwards, even when actions fail
  half way through.
\<close>

theorem recovery_keeps_ledger:
  assumes "repo_inv d" "constraints d"
    and "execute_recovery_actions x us actions snapshot local_state step_size (w, d) = (r, (w', d'))"
  shows "repo_inv d' \<and> constraints d'"
proof -
  have "holds_db repo_inv (snd (execute_recovery_actions x us actions snapshot local_state step_size (w, d)))"
    unfolding execute_recovery_actions_def
    by (rule recovery_loop_stays) (use assms(1,2) in \<open>auto intro: execute_one_stays\<close>)
  then show ?thesis using assms(3) by simp
qed

text \<open>The targets a result accounts for.\<close>

definition settled_refs :: "RecoveryExecutionResult \<Rightarrow> string multiset" where
  "settled_refs r = mset (rr_executed r) + mset (rr_skipped r) + mset (map (\<lambda>(_, ref, _). ref) (rr_errors r))"

lemma record_outcome_refs: "settled_refs (record_outcome action r acc) = settled_refs acc + {#ra_target_ref action#}"
  by (auto simp: record_outcome_def settled_refs_def split: sum.splits)

lemma recovery_loop_refs:
  "settled_refs (fst (recovery_loop x us snapshot local_state step_size n actions acc s))
   = settled_refs acc + mset (map ra_target_ref actions)"
  by (induction actions arbitrary: n acc s) (auto simp: record_outcome_refs split: prod.splits)

text \<open>
  C28.  No action stops the plan: it returns for every list of actions, each action is tried once in
  order and ends up in exactly one of executed, skipped and errors, also when earlier ones raised.
\<close>

theorem recovery_runs_every_action:
  assumes "execute_recovery_actions x us actions snapshot local_state step_size s = (r, s')"
  shows "mset (rr_executed r) + mset (rr_skipped r) + mset (map (\<lambda>(_, ref, _). ref) (rr_errors r))
    = mset (map ra_target_ref actions)"
  using recovery_loop_refs [of x us snapshot local_state step_size 0 actions
      "\<lparr>rr_executed = [], rr_skipped = [], rr_errors = []\<rparr>" s] assms
  by (simp add: execute_recovery_actions_def settled_refs_def)

text \<open>An intent is settled as never submitted only when no order of it was acknowledged.\<close>

lemma mark_success:
  assumes "mark_intent_not_submitted x u action (w, d) = (Inr True, (w', d'))"
  shows "w' = w \<and> db_orders d' = db_orders d \<and> (\<exists>i. find_row vi_intent_id (ra_target_ref action) (db_intents d') = Some i
    \<and> vi_state i \<in> {V2IntentState.CANCELLED, V2IntentState.REJECTED, V2IntentState.EXPIRED})"
proof (cases "find_row vi_intent_id (ra_target_ref action) (db_intents d)")
  case None
  with assms show ?thesis by (simp add: mark_intent_not_submitted_def new_session_def)
next
  case (Some i)
  consider "vi_state i \<in> {V2IntentState.CANCELLED, V2IntentState.REJECTED, V2IntentState.EXPIRED}" "d' = d" "w' = w"
    | p s1 s2 where "in_session (transition_intent (dr_id u 0) (dr_now u 0) (ra_target_ref action)
        (vi_state i) V2IntentState.CANCELLED ''RecoveryConfirmedNotSubmitted'' p None) (new_session d) = (Inr (), s1)"
        "commit s1 = (Inr (), s2)" "d' = ses_committed s2" "w' = w"
    using assms Some
    by (cases "vi_state i")
      (auto simp: mark_intent_not_submitted_def new_session_def bindC_def split: prod.splits sum.splits if_splits option.splits)
  then show ?thesis
  proof cases
    case 1
    with Some show ?thesis by simp
  next
    case 2
    from in_session_Inr [OF 2(1)] commit_Inr [OF 2(2)]
    have "transition_intent (dr_id u 0) (dr_now u 0) (ra_target_ref action) (vi_state i) V2IntentState.CANCELLED
       ''RecoveryConfirmedNotSubmitted'' p None d = (Inr (), d')" by (simp add: new_session_def 2(3))
    with 2 show ?thesis by (auto dest!: transition_intent_success)
  qed
qed

lemma acknowledged_success:
  assumes "acknowledge_intent u ref receipt (new_session d) = (Inr True, s)"
  shows "map vo_intent_id (db_orders (ses_committed s)) = map vo_intent_id (db_orders d)
    \<and> (\<exists>i. find_row vi_intent_id ref (db_intents (ses_committed s)) = Some i \<and> vi_state i = V2IntentState.EXCHANGE_ACKNOWLEDGED)
    \<and> (\<exists>w\<in>set (db_orders (ses_committed s)). vo_intent_id w = ref \<and> vo_exchange_order_id w = Some (or_exchange_order_id receipt))"
proof -
  let ?xid = "or_exchange_order_id receipt" and ?t = "or_acknowledged_at receipt"
  from assms obtain intent order s1 s2 p ty where
    i: "find_row vi_intent_id ref (db_intents d) = Some intent"
    and o: "find_row vo_intent_id ref (db_orders d) = Some order"
    and s1: "in_session (save_exchange_order_receipt (vo_order_record_id order) ?xid ?t) (new_session d) = (Inr (), s1)"
    and s2: "(if vi_state intent = V2IntentState.EXCHANGE_ACKNOWLEDGED then returnC ()
         else in_session (transition_intent (dr_id u 0) (dr_now u 0) ref (vi_state intent)
           V2IntentState.EXCHANGE_ACKNOWLEDGED ty p None)) s1 = (Inr (), s2)"
    and s3: "commit s2 = (Inr (), s)"
    unfolding acknowledge_intent_def look_def someC_iff bindC_Inr_iff by (auto simp: new_session_def)
  let ?w = "order\<lparr>vo_exchange_order_id := Some ?xid, vo_acknowledged_at := Some ?t\<rparr>"
  have o': "order \<in> set (db_orders d)" "vo_intent_id order = ref" using find_row_Some [OF o] by auto
  have saved: "save_exchange_order_receipt (vo_order_record_id order) ?xid ?t d = (Inr (), ses_view s1)"
    using in_session_Inr [OF s1] by (simp add: new_session_def)
  have one: "db_intents (ses_view s1) = db_intents d"
    "map vo_intent_id (db_orders (ses_view s1)) = map vo_intent_id (db_orders d)" "?w \<in> set (db_orders (ses_view s1))"
    using save_receipt_success [OF saved] o' by auto
  have "transition_intent (dr_id u 0) (dr_now u 0) ref (vi_state intent) V2IntentState.EXCHANGE_ACKNOWLEDGED ty p None (ses_view s1)
      = (Inr (), ses_view s2)" if "vi_state intent \<noteq> V2IntentState.EXCHANGE_ACKNOWLEDGED"
    using s2 that by (auto dest: in_session_Inr)
  then have two: "(\<exists>i. find_row vi_intent_id ref (db_intents (ses_view s2)) = Some i \<and> vi_state i = V2IntentState.EXCHANGE_ACKNOWLEDGED)
    \<and> db_orders (ses_view s2) = db_orders (ses_view s1)"
    using s2 one(1) i transition_intent_success [of "dr_id u 0" "dr_now u 0" ref "vi_state intent" _ ty p None "ses_view s1"]
    by (cases "vi_state intent = V2IntentState.EXCHANGE_ACKNOWLEDGED") (simp, fastforce)
  show ?thesis using one two o'(2) commit_Inr [OF s3] by (auto intro!: bexI [of _ ?w])
qed

text \<open>
  An intent whose outcome was unknown is settled by what the exchange answers about its client
  order id, and nothing is sent again: when recovery reports it handled, either the exchange knows
  the order, the intent is acknowledged and its order row carries the exchange's id, or the exchange
  does not know it and the intent is cancelled or already over.  No order row is added and the
  exchange sees one query only.
\<close>

theorem unknown_intent_settled:
  assumes "resolve_unknown_intent x u local_state action (w, d) = (Inr True, (w', d'))"
  shows "\<exists>symbol cid found i. query_order_by_client_id (rx_adapter x) symbol cid w = (Inr found, w')
    \<and> map vo_intent_id (db_orders d') = map vo_intent_id (db_orders d)
    \<and> find_row vi_intent_id (ra_target_ref action) (db_intents d') = Some i
    \<and> (case found of
         None \<Rightarrow> vi_state i \<in> {V2IntentState.CANCELLED, V2IntentState.REJECTED, V2IntentState.EXPIRED}
       | Some receipt \<Rightarrow> vi_state i = V2IntentState.EXCHANGE_ACKNOWLEDGED
           \<and> (\<exists>order\<in>set (db_orders d'). vo_intent_id order = ra_target_ref action
                \<and> vo_exchange_order_id order = Some (or_exchange_order_id receipt)))"
proof -
  from assms obtain view :: LocalIntentView and found w1 where
    q: "query_order_by_client_id (rx_adapter x) (li_symbol view) (li_client_order_id view) w = (Inr found, w1)"
    and rest: "(case found of None \<Rightarrow> mark_intent_not_submitted x u action
      | Some receipt \<Rightarrow> with_session (acknowledge_intent u (ra_target_ref action) receipt)) (w1, d) = (Inr True, (w', d'))"
    unfolding resolve_unknown_intent_def someC_iff bindC_Inr_iff on_exchange_iff by auto
  show ?thesis
  proof (cases found)
    case None
    with q rest show ?thesis by (intro exI [of _ "li_symbol view"] exI [of _ "li_client_order_id view"])
      (auto dest!: mark_success)
  next
    case (Some receipt)
    then obtain s where run: "acknowledge_intent u (ra_target_ref action) receipt (new_session d) = (Inr True, s)"
        "w' = w1" "d' = ses_committed s"
      using rest by (cases "acknowledge_intent u (ra_target_ref action) receipt (new_session d)") auto
    from acknowledged_success [OF run(1)] q Some run(2,3) show ?thesis
      by (intro exI [of _ "li_symbol view"] exI [of _ "li_client_order_id view"]) auto
  qed
qed

text \<open>
  A resubmission that recovery reports handled is on record: the database then holds an active
  protection of the position with the exchange's stop order id.  It has version 2.
\<close>

theorem resubmission_recorded:
  assumes "save_resubmission x u action plan stop_id tp_id (w, d) = (Inr True, (w', d'))"
  shows "w' = w \<and> (\<exists>r\<in>set (db_protections d'). vr_position_id r = ra_target_ref action
    \<and> vr_state r = V2ProtectionState.PROTECTION_ACTIVE \<and> vr_stop_exchange_order_id r = Some stop_id
    \<and> vr_stop_client_order_id r = pp_stop_client_order_id plan \<and> vr_version r = 2)"
proof -
  let ?row = "resubmitted_row x (dr_id u 1) action plan"
  let ?receipt = "\<lparr>pr_position_id = ra_target_ref action, pr_stop_exchange_order_id = stop_id,
       pr_tp_exchange_order_id = tp_id, pr_submission_timestamp = dr_now u 1\<rparr>"
  from assms obtain s1 s2 s3 s4 where
    s2: "in_session (save_protection ?row) s1 = (Inr (), s2)"
    and s3: "in_session (update_protection_active (\<lambda>n. dr_id u (n + 2)) (dr_now u 2) (dr_id u 1) ?receipt
       V2ProtectionState.PROTECTION_ACTIVE (dr_now u 2)) s2 = (Inr (), s3)"
    and s4: "commit s3 = (Inr (), s4)" "w' = w" "d' = ses_committed s4"
    unfolding save_resubmission_def look_def bindC_Inr_iff with_session_iff
    by (auto simp: mk_ProtectionReceipt_def guardR_def split: if_splits)
  from in_session_Inr [OF s2] have sv: "save_protection ?row (ses_view s1) = (Inr (), ses_view s2)" by simp
  obtain r where r: "db_protections (ses_view s2) = db_protections (ses_view s1) @ [r]" "vr_protection_id r = dr_id u 1"
      "vr_version r = 0" "vr_state r = V2ProtectionState.PROTECTION_INTENT"
      "vr_stop_client_order_id r = pp_stop_client_order_id plan" "vr_position_id r = ra_target_ref action"
    using save_protection_success [OF sv] by (auto simp: resubmitted_row_def)
  have "find_row vr_protection_id (dr_id u 1) (db_protections (ses_view s2)) = Some r"
    using find_row_unique [of vr_protection_id "db_protections (ses_view s2)" r] save_protection_success [OF sv] r
    by (simp add: unique_on_def)
  from update_protection_active_success [OF conjunct2 [OF in_session_Inr [OF s3]] this r(4)] obtain r' where
    r': "find_row vr_protection_id (dr_id u 1) (db_protections (ses_view s3)) = Some r'"
      "vr_state r' = V2ProtectionState.PROTECTION_ACTIVE" "vr_version r' = 2"
      "vr_stop_client_order_id r' = pp_stop_client_order_id plan" "vr_stop_exchange_order_id r' = Some stop_id"
      "vr_position_id r' = ra_target_ref action"
    using r by auto
  then show ?thesis using s4 find_row_Some [OF r'(1)] commit_Inr [OF s4(1)] by auto
qed

lemma save_protection_duplicate:
  assumes "vr_stop_client_order_id row \<in> set (map vr_stop_client_order_id (db_protections d))"
  shows "\<exists>e. fst (save_protection row d) = Inl e"
proof (cases "save_protection row d")
  case (Pair r d')
  show ?thesis
  proof (cases r)
    case (Inr y)
    with Pair have "save_protection row d = (Inr y, d')" by simp
    from save_protection_success [OF this] assms have False
      by (auto simp: unique_on_def)
    then show ?thesis ..
  qed (use Pair in simp)
qed

text \<open>
  The revision of a resubmission is the version of the last record plus two, and a resubmitted
  record has version two again.  Two resubmissions of a position in a row therefore use the same
  client order id: after the exchange took the second stop, saving it violates the uniqueness of
  client order ids, recovery reports an error, and the database keeps its old records.
\<close>

theorem repeated_resubmission_lost:
  assumes "resubmission_plan x snapshot action d = Inr (Some plan)"
    and "latest_protection x (ra_target_ref action) d = Some r" "r \<in> set (db_protections d)" "vr_version r = 2"
    and "stop_client_order_id (ra_target_ref action) 4 = Inr (vr_stop_client_order_id r)"
  shows "\<exists>e. save_resubmission x u action plan stop_id tp_id (w, d) = (Inl e, (w, d))"
proof -
  have "pp_stop_client_order_id plan = vr_stop_client_order_id r"
    using assms(1,2,4,5) find_row_Some [of vp_position_id "ra_target_ref action" "db_positions d"]
    by (auto simp: resubmission_plan_def mk_ProtectionPlan_def bindR_Inr_iff guardR_Inr_iff Let_def
        split: option.splits if_splits)
  then have dup: "pp_stop_client_order_id plan \<in> set (map vr_stop_client_order_id (db_protections d))"
    using assms(3) by simp
  let ?first = "if vr_state r = V2ProtectionState.PROTECTION_ACTIVE
           then in_session (transition_protection (dr_id u 0) (dr_now u 0) (vr_protection_id r)
             V2ProtectionState.PROTECTION_ACTIVE V2ProtectionState.PROTECTION_CANCELLED
             ''ProtectionSupersededByRecovery'' [''reason'' \<mapsto> PStr (rx_reason x action)] None)
           else returnC ()"
  obtain q s1 where s1: "?first (new_session d) = (q, s1)" by (rule prod.exhaust)
  have c: "ses_committed s1 = d"
    using s1 by (auto simp: new_session_def split: if_splits dest!: in_session_keeps_committed)
  let ?next = "\<lambda>k. bindC (in_session (save_protection (resubmitted_row x (dr_id u 1) action plan))) k s1"
  have step: "(\<exists>e. fst (?next k) = Inl e) \<and> ses_committed (snd (?next k)) = d" if q: "q = Inr ()"
    for k :: "unit \<Rightarrow> (session, bool) call"
  proof -
    have "map vr_stop_client_order_id (db_protections (ses_view s1)) = map vr_stop_client_order_id (db_protections d)"
      using s1 q by (auto simp: new_session_def split: if_splits dest!: in_session_Inr transition_protection_ids)
    then have "\<exists>e. fst (save_protection (resubmitted_row x (dr_id u 1) action plan) (ses_view s1)) = Inl e"
      using dup by (intro save_protection_duplicate) (simp add: resubmitted_row_def)
    then obtain e where "fst (in_session (save_protection (resubmitted_row x (dr_id u 1) action plan)) s1) = Inl e"
      using in_session_failed by blast
    then show ?thesis using c by (simp add: bindC_failed)
  qed
  show ?thesis
  proof (cases q)
    case (Inl e)
    with s1 c show ?thesis
      by (simp add: save_resubmission_def assms(2) bindC_def new_session_def)
  next
    case (Inr y)
    with s1 step show ?thesis
      by (simp add: save_resubmission_def assms(2) bindC_def [of ?first] new_session_def)
  qed
qed

section \<open>Examples\<close>

definition demo_rx :: "'w adapter \<Rightarrow> 'w rx" where
  "demo_rx a = \<lparr>rx_adapter = a, rx_writer_valid = (\<lambda>_. True), rx_reason = (\<lambda>_. ''why''),
     rx_latest = (\<lambda>rs. if rs = [] then None else Some (last rs)), rx_float = (\<lambda>q. q)\<rparr>"

definition demo_draws :: draws where
  "demo_draws = \<lparr>dr_id = (\<lambda>n. ''id'' @ nat_str n), dr_now = int\<rparr>"

definition demo_account_held :: AuthoritativeAccountSnapshot where
  "demo_account_held = demo_account\<lparr>as_positions := [demo_held]\<rparr>"

definition demo_cancel :: RecoveryAction where
  "demo_cancel = recovery_action RecoveryActionType.CANCEL_ORPHAN_PROTECTION_ORDER ''9'' (Some ''BTC/USDT'')"

definition demo_mark :: RecoveryAction where
  "demo_mark = recovery_action RecoveryActionType.MARK_INTENT_NOT_SUBMITTED ''i1'' None"


theorem recovery_keeps_ledger_witness:
  "\<exists>r d'. execute_recovery_actions (demo_rx (scripted None [] (Inr demo_account))) (\<lambda>_. demo_draws)
      [recovery_action RecoveryActionType.QUARANTINE_EXTERNAL_POSITION ''BTC/USDT'' None] demo_account None DEFAULT_STEP_SIZE ((), empty_db) = (r, ((), d'))
    \<and> rr_executed r = [''BTC/USDT''] \<and> repo_inv d' \<and> constraints d'"
proof -
  let ?run = "execute_recovery_actions (demo_rx (scripted None [] (Inr demo_account))) (\<lambda>_. demo_draws)
      [recovery_action RecoveryActionType.QUARANTINE_EXTERNAL_POSITION ''BTC/USDT'' None] demo_account None DEFAULT_STEP_SIZE ((), empty_db)"
  obtain r d' where run: "?run = (r, ((), d'))" by (cases ?run) auto
  have "rr_executed (fst ?run) = [''BTC/USDT'']" by code_simp
  with run recovery_keeps_ledger [OF repo_inv_empty constraints_empty run] show ?thesis by auto
qed

theorem recovery_runs_every_action_witness:
  "\<exists>r s. execute_recovery_actions (demo_rx (scripted None [] (Inr demo_account))) (\<lambda>_. demo_draws) [demo_mark, demo_cancel]
      demo_account None DEFAULT_STEP_SIZE ((), empty_db) = (r, s)
    \<and> rr_executed r = [''9''] \<and> mset (rr_executed r) + mset (rr_skipped r) + mset (map (\<lambda>(_, ref, _). ref) (rr_errors r))
        = {#''i1'', ''9''#}"
proof -
  let ?run = "execute_recovery_actions (demo_rx (scripted None [] (Inr demo_account))) (\<lambda>_. demo_draws) [demo_mark, demo_cancel]
      demo_account None DEFAULT_STEP_SIZE ((), empty_db)"
  obtain r s where run: "?run = (r, s)" by (rule prod.exhaust)
  have "rr_executed (fst ?run) = [''9'']" by code_simp
  moreover have "mset (map ra_target_ref [demo_mark, demo_cancel]) = {#''i1'', ''9''#}"
    by (simp add: demo_mark_def demo_cancel_def)
  ultimately show ?thesis using run recovery_runs_every_action [OF run] by (intro exI [of _ r] exI [of _ s]) auto
qed

definition demo_unknown_db :: db where
  "demo_unknown_db = empty_db\<lparr>db_intents := [demo_intent\<lparr>vi_state := V2IntentState.EXCHANGE_UNKNOWN\<rparr>]\<rparr>"

definition demo_unknown_view :: LocalStateView where
  "demo_unknown_view = \<lparr>ls_positions = [], ls_intents = [\<lparr>li_intent_id = ''i1'', li_symbol = ''BTC/USDT'',
     li_client_order_id = ''A2E-x-1'', li_state = ''EXCHANGE_UNKNOWN'', li_has_confirmed_entry_fill = False,
     li_has_quarantined_lifecycle = False\<rparr>], ls_known_client_order_ids = {}, ls_external_baseline_positions = [],
     ls_historical_ledger_gap_intent_ids = {}\<rparr>"

theorem unknown_intent_settled_witness:
  "\<exists>d'. resolve_unknown_intent (demo_rx (scripted None [] (Inr demo_account))) demo_draws (Some demo_unknown_view) demo_mark
      ((), demo_unknown_db) = (Inr True, ((), d'))
    \<and> (\<exists>i. find_row vi_intent_id ''i1'' (db_intents d') = Some i \<and> vi_state i \<noteq> V2IntentState.EXCHANGE_UNKNOWN)"
proof -
  let ?run = "resolve_unknown_intent (demo_rx (scripted None [] (Inr demo_account))) demo_draws (Some demo_unknown_view) demo_mark
      ((), demo_unknown_db)"
  have "fst ?run = Inr True" by code_simp
  then obtain d' where run: "?run = (Inr True, ((), d'))" by (cases ?run) auto
  from unknown_intent_settled [OF run] obtain i where
    "find_row vi_intent_id ''i1'' (db_intents d') = Some i" "vi_state i \<noteq> V2IntentState.EXCHANGE_UNKNOWN"
    by (auto simp: demo_mark_def recovery_action_def split: option.splits)
  with run show ?thesis by blast
qed

definition demo_resubmit :: RecoveryAction where
  "demo_resubmit = recovery_action RecoveryActionType.RESUBMIT_PROTECTION ''p1'' (Some ''BTC/USDT'')"

definition demo_stop_plan :: ProtectionPlan where
  "demo_stop_plan = \<lparr>pp_position_id = ''p1'', pp_symbol = ''BTC/USDT'', pp_direction = ''long'', pp_quantity = 2,
     pp_average_fill_price = 100, pp_stop_price = 95, pp_take_profit_price = None,
     pp_stop_client_order_id = ''A2S-x'', pp_tp_client_order_id = None, pp_attempt = 4\<rparr>"

theorem resubmission_recorded_witness:
  "\<exists>d'. save_resubmission (demo_rx (scripted None [] (Inr demo_account))) demo_draws demo_resubmit demo_stop_plan ''77'' None
      ((), empty_db) = (Inr True, ((), d')) \<and> (\<exists>r\<in>set (db_protections d'). vr_stop_exchange_order_id r = Some ''77'')"
proof -
  let ?run = "save_resubmission (demo_rx (scripted None [] (Inr demo_account))) demo_draws demo_resubmit demo_stop_plan ''77'' None
      ((), empty_db)"
  have "fst ?run = Inr True" by code_simp
  then obtain d' where run: "?run = (Inr True, ((), d'))" by (cases ?run) auto
  from resubmission_recorded [OF run] run show ?thesis by blast
qed

text \<open>A position whose stop was already resubmitted once.\<close>

definition demo_resubmitted_db :: db where
  "demo_resubmitted_db = empty_db\<lparr>db_positions := [\<lparr>vp_position_id = ''p1'', vp_intent_id = ''i1'', vp_order_record_id = ''o1'',
       vp_symbol = ''BTC/USDT'', vp_direction = ''long'', vp_execution_mode = V2ExecutionMode.BINANCE_TESTNET,
       vp_quantity = 2, vp_entry_price = 100, vp_entry_fee = 0, vp_state = V2PositionState.PROTECTED, vp_version = 1,
       vp_projected_at = 0, vp_protected_at = None, vp_closed_at = None, vp_realized_pnl = None\<rparr>],
     db_protections := [demo_protection\<lparr>vr_stop_client_order_id := ''A2S-'' @ hash [''p1'', ''stop'', int_str 4] 18,
       vr_state := V2ProtectionState.PROTECTION_ACTIVE, vr_stop_exchange_order_id := Some ''77'', vr_version := 2\<rparr>]\<rparr>"

theorem repeated_resubmission_lost_witness:
  "\<exists>plan e. resubmission_plan (demo_rx (scripted None [] (Inr demo_account))) demo_account_held demo_resubmit demo_resubmitted_db
        = Inr (Some plan)
     \<and> save_resubmission (demo_rx (scripted None [] (Inr demo_account))) demo_draws demo_resubmit plan ''78'' None
         ((), demo_resubmitted_db) = (Inl e, ((), demo_resubmitted_db))"
proof -
  let ?x = "demo_rx (scripted None [] (Inr demo_account)) :: unit rx"
  have id: "stop_client_order_id ''p1'' 4 = Inr (''A2S-'' @ hash [''p1'', ''stop'', int_str 4] 18)"
    by (simp add: minted_ids)
  obtain plan where plan: "resubmission_plan ?x demo_account_held demo_resubmit demo_resubmitted_db = Inr (Some plan)"
    by (simp add: resubmission_plan_def latest_protection_def demo_rx_def demo_account_held_def demo_held_def
        demo_resubmit_def demo_resubmitted_db_def demo_protection_def mk_ProtectionPlan_def id)
  let ?r = "hd (db_protections demo_resubmitted_db)"
  have r: "latest_protection ?x (ra_target_ref demo_resubmit) demo_resubmitted_db = Some ?r"
      "?r \<in> set (db_protections demo_resubmitted_db)" "vr_version ?r = 2"
      "stop_client_order_id (ra_target_ref demo_resubmit) 4 = Inr (vr_stop_client_order_id ?r)"
    by (simp_all add: latest_protection_def demo_rx_def demo_resubmit_def demo_resubmitted_db_def demo_protection_def id)
  from repeated_resubmission_lost [OF plan r] plan show ?thesis by blast
qed

end
