(* ===== verification/Profit_Protection.thy ===== *)
theory Profit_Protection
  imports Ledger_Calls Reconciliation Exit Runtime_Lock
begin

text \<open>
  Profit protection: the stop levels of the policies P1 to P3 (\<open>application/risk_controls.py\<close>), and
  the step of the cycle that moves the stops of managed positions at the exchange and in the ledger
  (\<open>_apply_profit_protection\<close> in \<open>application/cycle_service.py\<close>).
\<close>

section \<open>Levels\<close>

record ProfitProtectionDecision =
  pd_policy :: string
  pd_trigger_r :: "dec option"
  pd_lock_r :: "dec option"
  pd_stop_price :: "dec option"

definition no_protection :: "string \<Rightarrow> ProfitProtectionDecision" where
  "no_protection policy = \<lparr>pd_policy = policy, pd_trigger_r = None, pd_lock_r = None, pd_stop_price = None\<rparr>"

text \<open>The favourable excursion in units of the initial risk, and the stop that locks a part of it.\<close>

definition mfe_r :: "string \<Rightarrow> dec \<Rightarrow> dec \<Rightarrow> dec \<Rightarrow> dec" where
  "mfe_r direction entry_price mark_price risk =
     (if direction = ''long'' then ddiv (dsub mark_price entry_price) risk else ddiv (dsub entry_price mark_price) risk)"

definition locked_at :: "string \<Rightarrow> string \<Rightarrow> dec \<Rightarrow> dec \<Rightarrow> dec \<Rightarrow> dec \<Rightarrow> ProfitProtectionDecision" where
  "locked_at policy direction entry_price risk trigger lock =
     \<lparr>pd_policy = policy, pd_trigger_r = Some trigger, pd_lock_r = Some lock,
      pd_stop_price = Some (if direction = ''long'' then dadd entry_price (dmul lock risk) else dsub entry_price (dmul lock risk))\<rparr>"

definition p1_profit_protection :: "string \<Rightarrow> dec \<Rightarrow> dec \<Rightarrow> dec \<Rightarrow> ProfitProtectionDecision res" where
  "p1_profit_protection direction entry_price original_stop_price mark_price =
     guardR (direction \<notin> {''long'', ''short''}) (ValueError ''direction must be long or short'')
       (let risk = dabs (dsub entry_price original_stop_price) in
        if risk \<le> 0 then Inr (no_protection ''P1'')
        else let m = mfe_r direction entry_price mark_price risk in
          if m \<ge> 1 then Inr (locked_at ''P1'' direction entry_price risk 1 (40 / 100))
          else if m \<ge> 60 / 100 then Inr (locked_at ''P1'' direction entry_price risk (60 / 100) (5 / 100))
          else Inr (no_protection ''P1''))"

definition shadow_profit_protection :: "string \<Rightarrow> string \<Rightarrow> dec \<Rightarrow> dec \<Rightarrow> dec \<Rightarrow> ProfitProtectionDecision res" where
  "shadow_profit_protection policy direction entry_price original_stop_price mark_price =
     (let risk = dabs (dsub entry_price original_stop_price) in
      if risk \<le> 0 then Inr (no_protection policy)
      else let m = mfe_r direction entry_price mark_price risk in
        if policy = ''P2''
        then (if m \<ge> 125 / 100 then Inr (locked_at policy direction entry_price risk (125 / 100) (50 / 100))
              else if m \<ge> 75 / 100 then Inr (locked_at policy direction entry_price risk (75 / 100) (5 / 100))
              else Inr (no_protection policy))
        else if policy = ''P3''
        then (if m < 1 then Inr (no_protection policy) else Inr (locked_at policy direction entry_price risk 1 (10 / 100)))
        else Inl (ValueError ''unsupported shadow policy''))"

section \<open>The step of the cycle\<close>

text \<open>
  What the step uses of the adapter; \<open>hasattr(adapter, "submit_stop_replacement")\<close> is whether the
  first operation is there.
\<close>

record 'w stop_adapter =
  sa_submit_stop_replacement :: "(string \<Rightarrow> string \<Rightarrow> dec \<Rightarrow> dec \<Rightarrow> string \<Rightarrow> ('w, ExchangeOrderReceipt) call) option"
  sa_cancel_order :: "string \<Rightarrow> string \<Rightarrow> ('w, ExchangeOrderReceipt) call"

text \<open>The entries the step adds to the payload of the result of the cycle.\<close>

record protection_payload =
  pf_shadow :: "(string \<times> dec \<times> ProfitProtectionDecision \<times> ProfitProtectionDecision) list"
  pf_moved :: "(string \<times> dec option \<times> dec \<times> string) list"

text \<open>A step at the exchange, in the session, and a note in the payload.\<close>

definition at_exchange :: "('w, 'a) call \<Rightarrow> (('w \<times> protection_payload) \<times> session, 'a) call" where
  "at_exchange m = (\<lambda>((w, p), s). case m w of (r, w') \<Rightarrow> (r, ((w', p), s)))"

definition in_ledger :: "(session, 'a) call \<Rightarrow> (('w \<times> protection_payload) \<times> session, 'a) call" where
  "in_ledger m = (\<lambda>(wp, s). case m s of (r, s') \<Rightarrow> (r, (wp, s')))"

definition note_payload :: "(protection_payload \<Rightarrow> protection_payload) \<Rightarrow> (('w \<times> protection_payload) \<times> session, unit) call" where
  "note_payload f = (\<lambda>((w, p), s). (Inr (), ((w, f p), s)))"

definition safe_stop :: "string \<Rightarrow> dec \<Rightarrow> dec \<Rightarrow> dec res" where
  "safe_stop direction stop_price tick_size =
     bindR (ddivR stop_price tick_size) (\<lambda>steps. Inr
       (dmul (to_integral_value (if direction = ''long'' then ROUND_CEILING else ROUND_FLOOR) steps) tick_size))"

definition is_tighter :: "string \<Rightarrow> dec \<Rightarrow> dec \<Rightarrow> bool" where
  "is_tighter direction stop_price current_stop \<longleftrightarrow>
     (if direction = ''long'' then stop_price > current_stop else stop_price < current_stop)"

definition replace_stop ::
    "'w stop_adapter \<Rightarrow> draws \<Rightarrow> int \<Rightarrow> dec \<Rightarrow> LocalPositionView \<Rightarrow> ProfitProtectionDecision \<Rightarrow> dec
      \<Rightarrow> (('w \<times> protection_payload) \<times> session, unit) call" where
  "replace_stop a u now tick_size position p1 stop =
     bindC (pureC (safe_stop (lp_direction position) stop tick_size)) (\<lambda>safe.
     case (List.find (\<lambda>ref. snd (snd ref) = exit_reason_value ExitReason.HARD_STOP) (lp_protection_order_refs position),
           sa_submit_stop_replacement a) of
       (Some old_stop, Some submit) \<Rightarrow>
         bindC (pureC (stop_client_order_id (lp_position_id position) (max (lp_protection_version position + 1) 1))) (\<lambda>client_id.
         bindC (at_exchange (submit (lp_symbol position) (if lp_direction position = ''long'' then ''sell'' else ''buy'')
           (lp_quantity position) safe client_id)) (\<lambda>receipt.
         bindC (at_exchange (sa_cancel_order a (lp_symbol position) (fst old_stop))) (\<lambda>_.
         bindC (in_ledger (in_session (update_protection_stop (dr_id u 0) (dr_now u 0)
           (case lp_protection_id position of None \<Rightarrow> [] | Some i \<Rightarrow> i) safe client_id (or_exchange_order_id receipt) (Some now)))) (\<lambda>_.
         note_payload (\<lambda>p. p\<lparr>pf_moved := pf_moved p @ [(lp_position_id position, pd_trigger_r p1, safe, or_exchange_order_id receipt)]\<rparr>)))))
     | _ \<Rightarrow> returnC ())"

definition protect_position ::
    "'w stop_adapter \<Rightarrow> draws \<Rightarrow> string \<Rightarrow> int \<Rightarrow> dec \<Rightarrow> ExchangePositionSnapshot list \<Rightarrow> LocalPositionView
      \<Rightarrow> (('w \<times> protection_payload) \<times> session, unit) call" where
  "protect_position a u symbol now tick_size held position =
     (if lp_symbol position \<noteq> symbol \<or> lp_state position \<in> {''CLOSED'', ''QUARANTINED''} then returnC ()
      else case (List.find (\<lambda>x. xp_symbol x = lp_symbol position \<and> xp_direction x = lp_direction position) held,
                 lp_original_stop_price position, lp_current_stop_price position) of
        (Some x, Some original, Some current) \<Rightarrow>
          let direction = lp_direction position; entry = lp_entry_price position; mark = xp_mark_price x in
          bindC (pureC (p1_profit_protection direction entry original mark)) (\<lambda>p1.
          bindC (pureC (shadow_profit_protection ''P2'' direction entry original mark)) (\<lambda>p2.
          bindC (pureC (shadow_profit_protection ''P3'' direction entry original mark)) (\<lambda>p3.
          bindC (note_payload (\<lambda>p. p\<lparr>pf_shadow := pf_shadow p @ [(lp_position_id position, mark, p2, p3)]\<rparr>)) (\<lambda>_.
          case pd_stop_price p1 of
            None \<Rightarrow> returnC ()
          | Some stop \<Rightarrow>
              if is_tighter direction stop current then replace_stop a u now tick_size position p1 stop else returnC ()))))
      | _ \<Rightarrow> returnC ())"

fun protect_positions ::
    "'w stop_adapter \<Rightarrow> (nat \<Rightarrow> draws) \<Rightarrow> string \<Rightarrow> int \<Rightarrow> dec \<Rightarrow> ExchangePositionSnapshot list \<Rightarrow> nat
      \<Rightarrow> LocalPositionView list \<Rightarrow> (('w \<times> protection_payload) \<times> session, unit) call" where
  "protect_positions a us symbol now tick_size held n [] = returnC ()"
| "protect_positions a us symbol now tick_size held n (position # positions) =
     bindC (protect_position a (us n) symbol now tick_size held position)
       (\<lambda>_. protect_positions a us symbol now tick_size held (Suc n) positions)"

definition apply_profit_protection ::
    "'w stop_adapter \<Rightarrow> (nat \<Rightarrow> draws) \<Rightarrow> bool \<Rightarrow> EngineActivation \<Rightarrow> string \<Rightarrow> int \<Rightarrow> AuthoritativeAccountSnapshot
      \<Rightarrow> LocalStateView \<Rightarrow> dec \<Rightarrow> (('w \<times> protection_payload) \<times> db, unit) call" where
  "apply_profit_protection a us persist_facts activation symbol now snapshot local_state tick_size = (\<lambda>(wp, d).
     if \<not> persist_facts \<or> activation \<noteq> EngineActivation.ACTIVE then (Inr (), (wp, d))
     else case bindC (protect_positions a us symbol now tick_size (as_positions snapshot) 0 (ls_positions local_state))
                 (\<lambda>_. in_ledger commit) (wp, new_session d) of
       (r, (wp', s)) \<Rightarrow> (r, (wp', ses_committed s)))"

section \<open>The level of P1\<close>

text \<open>A price with at most k decimals, of a size the context holds exactly.\<close>

definition priced :: "nat \<Rightarrow> dec \<Rightarrow> bool" where
  "priced k x \<longleftrightarrow> (\<exists>a. x = of_int a / 10 ^ k \<and> 0 < a \<and> a < 10 ^ 24)"

lemma scaled_up:
  assumes "x = of_int a / 10 ^ k" "\<bar>a\<bar> < 10 ^ 25"
  shows "scaled (k + 2) x"
proof -
  have "x = of_int (100 * a) / 10 ^ (k + 2)" using assms(1) by simp
  then show ?thesis unfolding scaled_def using assms(2) by (intro exI [of _ "100 * a"]) simp
qed

lemma priced_pos: "priced k x \<Longrightarrow> 0 < x"
  by (auto simp: priced_def)

lemma priced_diff:
  assumes "priced k x" "priced k y"
  obtains c where "x - y = of_int c / 10 ^ k" "\<bar>c\<bar> < 10 ^ 24" "dsub x y = x - y"
proof -
  obtain a b where ab: "x = of_int a / 10 ^ k" "0 < a" "a < 10 ^ 24" "y = of_int b / 10 ^ k" "0 < b" "b < 10 ^ 24"
    using assms by (auto simp: priced_def)
  have "x - y = of_int (a - b) / 10 ^ k" using ab by (simp add: diff_divide_distrib)
  moreover have "\<bar>a - b\<bar> < 10 ^ 24" using ab by linarith
  moreover have "is_dec (of_int (a - b) / 10 ^ k)" using \<open>\<bar>a - b\<bar> < 10 ^ 24\<close> by (intro is_dec_scaled) simp
  ultimately show ?thesis using that [of "a - b"] by (simp add: dsub_def is_dec_def)
qed

lemma lock_exact:
  assumes "priced k entry" "risk = of_int r / 10 ^ k" "0 \<le> r" "r < 10 ^ 24" "0 \<le> c" "c \<le> 100" "lock = of_int c / 100"
  shows "dadd entry (dmul lock risk) = entry + lock * risk" "dsub entry (dmul lock risk) = entry - lock * risk"
    "scaled (k + 2) (entry + lock * risk)" "scaled (k + 2) (entry - lock * risk)"
proof -
  obtain a where a: "entry = of_int a / 10 ^ k" "0 < a" "a < 10 ^ 24" using assms(1) by (auto simp: priced_def)
  have lr: "lock * risk = of_int (c * r) / 10 ^ (k + 2)" by (simp add: assms(2,7))
  have "c * r \<le> 100 * r" using assms(3,6) by (rule mult_right_mono [rotated])
  moreover have "0 \<le> c * r" using assms by simp
  ultimately have b: "0 \<le> c * r" "c * r < 10 ^ 26" using assms(4) by simp_all
  then have exact: "dmul lock risk = lock * risk"
    unfolding dmul_def lr using is_dec_scaled [of "c * r" "k + 2"] by (simp add: is_dec_def)
  have s: "entry + lock * risk = of_int (100 * a + c * r) / 10 ^ (k + 2)" "entry - lock * risk = of_int (100 * a - c * r) / 10 ^ (k + 2)"
    unfolding lr by (simp_all add: a(1) add_divide_distrib diff_divide_distrib)
  have "\<bar>100 * a + c * r\<bar> < 10 ^ 27" "\<bar>100 * a - c * r\<bar> < 10 ^ 27" using a b by simp_all
  then show "scaled (k + 2) (entry + lock * risk)" "scaled (k + 2) (entry - lock * risk)"
    unfolding s scaled_def by blast+
  then show "dadd entry (dmul lock risk) = entry + lock * risk" "dsub entry (dmul lock risk) = entry - lock * risk"
    unfolding exact dadd_def dsub_def by (simp_all add: scaled_is_dec [unfolded is_dec_def])
qed

text \<open>A quotient that is at least t after rounding is almost at least t before.\<close>

lemma ddiv_reached:
  assumes "t \<le> ddiv x r" "0 < r" "0 < t"
  shows "t * r < 2 * x" and "9 / 10 * t * r < x"
proof -
  define q where "q = x / r"
  have "\<bar>q\<bar> / (2 * 10 ^ 27) \<le> \<bar>q\<bar> / 100" by (simp add: divide_left_mono)
  then have "\<bar>ddiv x r - q\<bar> \<le> \<bar>q\<bar> / 100" using ctx_round_error [of q] by (simp add: ddiv_def q_def)
  then have "ddiv x r - q \<le> \<bar>q\<bar> / 100" by (rule abs_le_D1)
  then have "9 / 10 * t < q" using assms(1,3) by linarith
  then have "9 / 10 * t < x / r" unfolding q_def .
  then show "9 / 10 * t * r < x" using assms(2) by (simp add: pos_less_divide_eq)
  moreover have "t * r \<le> 2 * (9 / 10 * t * r)" using assms by simp
  ultimately show "t * r < 2 * x" by linarith
qed

lemma p1_level:
  assumes "priced k entry" "priced k original" "priced k mark"
    and "p1_profit_protection direction entry original mark = Inr d" "pd_stop_price d = Some s"
  shows "scaled (k + 2) s" "direction = ''long'' \<Longrightarrow> entry < s \<and> s < mark" "direction \<noteq> ''long'' \<Longrightarrow> mark < s \<and> s < entry"
proof -
  obtain c where c: "entry - original = of_int c / 10 ^ k" "\<bar>c\<bar> < 10 ^ 24" "dsub entry original = entry - original"
    using priced_diff [OF assms(1,2)] .
  define risk where "risk = dabs (dsub entry original)"
  have "is_dec (of_int c / 10 ^ k)" using c(2) by (intro is_dec_scaled) simp
  then have r: "risk = of_int \<bar>c\<bar> / 10 ^ k" by (simp add: risk_def c(1,3))
  have ml: "dsub mark entry = mark - entry" "dsub entry mark = entry - mark"
    using priced_diff [OF assms(3,1)] priced_diff [OF assms(1,3)] by metis+
  from assms(4,5) obtain t l where pos: "0 < risk" and t: "t \<le> mfe_r direction entry mark risk" and s: "d = locked_at ''P1'' direction entry risk t l"
    and tl: "t = 1 \<and> l = 40 / 100 \<or> t = 60 / 100 \<and> l = 5 / 100"
    by (auto simp: p1_profit_protection_def guardR_def no_protection_def Let_def risk_def [symmetric] not_le split: if_splits)
  obtain n :: int where n: "l = of_int n / 100" "0 \<le> n" "n \<le> 100"
    using that [of 40] that [of 5] tl by auto
  have "scaled (k + 2) (entry + l * risk)" "scaled (k + 2) (entry - l * risk)"
    "s = (if direction = ''long'' then entry + l * risk else entry - l * risk)"
    using lock_exact [OF assms(1) r _ _ n(2,3,1)] c(2) assms(5) unfolding s by (simp_all add: locked_at_def split: if_splits)
  moreover have "l * risk < (9 / 10 * t) * risk" "0 < l * risk" using tl pos by (auto intro!: mult_strict_right_mono)
  moreover have "direction = ''long'' \<Longrightarrow> 9 / 10 * t * risk < mark - entry" "direction \<noteq> ''long'' \<Longrightarrow> 9 / 10 * t * risk < entry - mark"
    using ddiv_reached(2) [of t "mark - entry" risk] ddiv_reached(2) [of t "entry - mark" risk] t tl pos
    by (auto simp: mfe_r_def ml)
  ultimately show "scaled (k + 2) s" "direction = ''long'' \<Longrightarrow> entry < s \<and> s < mark" "direction \<noteq> ''long'' \<Longrightarrow> mark < s \<and> s < entry"
    by auto
qed

text \<open>
  C12.  The stop that P1 asks for always locks a profit and never lies beyond the mark: above the entry
  and below the mark for a long position, the other way round for a short one.
\<close>

theorem p1_locks_profit:
  assumes "priced k entry" "priced k original" "priced k mark"
    and "p1_profit_protection direction entry original mark = Inr d" "pd_stop_price d = Some s"
  shows "if direction = ''long'' then entry < s \<and> s < mark else mark < s \<and> s < entry"
  using p1_level(2,3) [OF assms] by simp

section \<open>What the step sends\<close>

datatype stop_call = StopOrder string string dec dec string | StopCancel string string

definition recorded :: "'w stop_adapter \<Rightarrow> ('w \<times> stop_call list) stop_adapter" where
  "recorded a = \<lparr>
     sa_submit_stop_replacement = map_option (\<lambda>submit sy sd q px cid (w, l).
       case submit sy sd q px cid w of (r, w') \<Rightarrow> (r, (w', l @ [StopOrder sy sd q px cid]))) (sa_submit_stop_replacement a),
     sa_cancel_order = (\<lambda>sy i (w, l). case sa_cancel_order a sy i w of (r, w') \<Rightarrow> (r, (w', l @ [StopCancel sy i])))\<rparr>"

text \<open>
  What may be sent for one position: nothing, or a stop order for its size on the closing side,
  strictly better than the stop in force and than the entry and short of the mark by less than a
  tick, possibly followed by the cancellation of one of its protection orders.
\<close>

definition improves :: "ExchangePositionSnapshot list \<Rightarrow> dec \<Rightarrow> LocalPositionView \<Rightarrow> dec \<Rightarrow> bool" where
  "improves held tick pos s \<longleftrightarrow> (\<exists>x\<in>set held. \<exists>current. xp_symbol x = lp_symbol pos \<and> xp_direction x = lp_direction pos
     \<and> lp_current_stop_price pos = Some current
     \<and> (if lp_direction pos = ''long'' then current < s \<and> lp_entry_price pos < s \<and> s < xp_mark_price x + tick
        else s < current \<and> s < lp_entry_price pos \<and> xp_mark_price x - tick < s))"

definition stop_moves :: "ExchangePositionSnapshot list \<Rightarrow> dec \<Rightarrow> LocalPositionView \<Rightarrow> stop_call list \<Rightarrow> bool" where
  "stop_moves held tick pos moves \<longleftrightarrow> moves = []
     \<or> (\<exists>s cid. improves held tick pos s \<and> (let order = StopOrder (lp_symbol pos)
            (if lp_direction pos = ''long'' then ''sell'' else ''buy'') (lp_quantity pos) s cid in
          moves = [order] \<or> (\<exists>ref\<in>set (lp_protection_order_refs pos). moves = [order, StopCancel (lp_symbol pos) (fst ref)])))"

definition sends :: "(stop_call list \<Rightarrow> bool) \<Rightarrow> ((('w \<times> stop_call list) \<times> protection_payload) \<times> session, 'a) call \<Rightarrow> bool" where
  "sends P m \<longleftrightarrow> (\<forall>w l p s. \<exists>moves. P moves \<and> snd (fst (fst (snd (m (((w, l), p), s))))) = l @ moves)"

lemma sends_quiet: "P [] \<Longrightarrow> sends P (returnC x)" "P [] \<Longrightarrow> sends P (pureC r)" "P [] \<Longrightarrow> sends P (note_payload f)"
    "P [] \<Longrightarrow> sends P (in_ledger m)"
  by (auto simp: sends_def note_payload_def in_ledger_def split: prod.splits)

lemma sends_bind_pure: "\<lbrakk>\<And>x. r = Inr x \<Longrightarrow> sends P (f x); P []\<rbrakk> \<Longrightarrow> sends P (bindC (pureC r) f)"
  by (cases r) (auto simp: sends_def)

lemma sends_bind_note: "(\<And>x. sends P (f x)) \<Longrightarrow> sends P (bindC (note_payload g) f)"
  by (auto simp: sends_def note_payload_def bindC_def)

lemma sends_bind_ledger: "\<lbrakk>P []; \<And>x. sends P (f x)\<rbrakk> \<Longrightarrow> sends P (bindC (in_ledger m) f)"
  unfolding sends_def in_ledger_def bindC_def by (auto split: prod.splits sum.splits)

lemma sends_bind_recorded:
  assumes "P [c]" "\<And>x. sends (\<lambda>moves. P (c # moves)) (f x)"
  shows "sends P (bindC (at_exchange (\<lambda>(w, l). case m w of (r, w') \<Rightarrow> (r, (w', l @ [c])))) f)"
  unfolding sends_def
proof (intro allI)
  fix w l p s
  obtain r w' where m: "m w = (r, w')" by (cases "m w")
  show "\<exists>moves. P moves \<and> snd (fst (fst (snd (bindC (at_exchange (\<lambda>(w, l). case m w of (r, w') \<Rightarrow> (r, (w', l @ [c])))) f (((w, l), p), s)))))
      = l @ moves"
  proof (cases r)
    case (Inl e)
    then show ?thesis using m assms(1) by (auto simp: at_exchange_def bindC_def)
  next
    case (Inr x)
    obtain moves where "P (c # moves)" "snd (fst (fst (snd (f x (((w', l @ [c]), p), s))))) = (l @ [c]) @ moves"
      using assms(2) [of x] unfolding sends_def by blast
    then show ?thesis using m Inr by (intro exI [of _ "c # moves"]) (simp add: at_exchange_def bindC_def)
  qed
qed

lemma replace_stop_sends:
  assumes "\<And>s. safe_stop (lp_direction pos) stop tick = Inr s \<Longrightarrow> improves held tick pos s"
  shows "sends (stop_moves held tick pos) (replace_stop (recorded a) u now tick pos p1 stop)"
proof -
  let ?side = "if lp_direction pos = ''long'' then ''sell'' else ''buy''"
  let ?P = "stop_moves held tick pos"
  let ?old = "List.find (\<lambda>ref. snd (snd ref) = exit_reason_value ExitReason.HARD_STOP) (lp_protection_order_refs pos)"
  have empty: "?P []" by (simp add: stop_moves_def)
  show ?thesis
  proof (cases "?old = None \<or> sa_submit_stop_replacement a = None")
    case True
    then show ?thesis unfolding replace_stop_def
      by (intro sends_bind_pure empty) (auto simp: recorded_def sends_quiet empty split: option.splits)
  next
    case False
    then obtain old submit where old: "?old = Some old" and submit: "sa_submit_stop_replacement a = Some submit" by auto
    have ref: "old \<in> set (lp_protection_order_refs pos)" using old by (auto simp: find_Some_iff)
    show ?thesis unfolding replace_stop_def old recorded_def stop_adapter.simps submit option.map prod.case option.case
    proof (intro sends_bind_pure empty sends_bind_recorded sends_bind_ledger sends_quiet)
      fix s cid assume "safe_stop (lp_direction pos) stop tick = Inr s"
      then have "improves held tick pos s" by (rule assms)
      then show "?P [StopOrder (lp_symbol pos) ?side (lp_quantity pos) s cid]"
        "?P [StopOrder (lp_symbol pos) ?side (lp_quantity pos) s cid, StopCancel (lp_symbol pos) (fst old)]"
        using ref by (auto simp: stop_moves_def Let_def)
      then show "?P [StopOrder (lp_symbol pos) ?side (lp_quantity pos) s cid, StopCancel (lp_symbol pos) (fst old)]"
        "?P [StopOrder (lp_symbol pos) ?side (lp_quantity pos) s cid, StopCancel (lp_symbol pos) (fst old)]" by simp_all
    qed
  qed
qed

lemma safe_stop_exact:
  assumes "scaled (k + 2) stop" "priced k tick" "0 \<le> stop" "safe_stop direction stop tick = Inr s"
  shows "direction = ''long'' \<Longrightarrow> stop \<le> s \<and> s < stop + tick" "direction \<noteq> ''long'' \<Longrightarrow> s \<le> stop \<and> stop - tick < s"
proof -
  obtain a where "tick = of_int a / 10 ^ k" "0 < a" "a < 10 ^ 24" using assms(2) by (auto simp: priced_def)
  then have tick: "0 < tick" "scaled (k + 2) tick" using scaled_up [of tick a k] by simp_all
  note ceil = ceil_steps_exact [OF assms(1) tick(2) assms(3) tick(1)]
  note floor = floor_mode_exact [OF assms(1) tick(2) assms(3) tick(1)] floor_steps_exact [OF assms(1) tick(2) assms(3) tick(1)]
  have "s = (if direction = ''long'' then of_int \<lceil>stop / tick\<rceil> * tick else of_int \<lfloor>stop / tick\<rfloor> * tick)"
    using assms(4) tick(1) ceil(1) floor(1) by (auto simp: safe_stop_def)
  then show "direction = ''long'' \<Longrightarrow> stop \<le> s \<and> s < stop + tick" "direction \<noteq> ''long'' \<Longrightarrow> s \<le> stop \<and> stop - tick < s"
    using ceil(2,3) floor(3,4) by simp_all
qed

text \<open>The prices the step works on have at most k decimals.\<close>

definition priced_inputs :: "nat \<Rightarrow> dec \<Rightarrow> ExchangePositionSnapshot list \<Rightarrow> LocalPositionView list \<Rightarrow> bool" where
  "priced_inputs k tick held positions \<longleftrightarrow> priced k tick \<and> list_all (\<lambda>x. priced k (xp_mark_price x)) held
     \<and> list_all (\<lambda>pos. priced k (lp_entry_price pos)
          \<and> (case lp_original_stop_price pos of None \<Rightarrow> True | Some o' \<Rightarrow> priced k o')) positions"

lemma protect_position_sends:
  assumes "priced_inputs k tick held [pos]"
  shows "sends (stop_moves held tick pos) (protect_position (recorded a) u symbol now tick held pos)"
proof -
  let ?find = "List.find (\<lambda>x. xp_symbol x = lp_symbol pos \<and> xp_direction x = lp_direction pos) held"
  have empty: "stop_moves held tick pos []" by (simp add: stop_moves_def)
  have moved: "sends (stop_moves held tick pos) (replace_stop (recorded a) u now tick pos p1 stop)"
    if x: "?find = Some x" and orig: "lp_original_stop_price pos = Some original" and cur: "lp_current_stop_price pos = Some current"
      and p1: "p1_profit_protection (lp_direction pos) (lp_entry_price pos) original (xp_mark_price x) = Inr p1"
      and stop: "pd_stop_price p1 = Some stop" and tight: "is_tighter (lp_direction pos) stop current" for x original current p1 stop
  proof (rule replace_stop_sends)
    fix s assume s: "safe_stop (lp_direction pos) stop tick = Inr s"
    have x': "x \<in> set held" "xp_symbol x = lp_symbol pos" "xp_direction x = lp_direction pos" using x by (auto simp: find_Some_iff)
    have pr: "priced k tick" "priced k (lp_entry_price pos)" "priced k original" "priced k (xp_mark_price x)"
      using assms orig x'(1) by (auto simp: priced_inputs_def list_all_iff)
    note level = p1_level [OF pr(2,3,4) p1 stop]
    have "0 \<le> stop" using level(2,3) priced_pos [OF pr(2)] priced_pos [OF pr(4)] by force
    note safe = safe_stop_exact [OF level(1) pr(1) this s]
    show "improves held tick pos s" unfolding improves_def
      using x' cur tight level(2,3) safe by (intro bexI [of _ x] exI [of _ current]) (auto simp: is_tighter_def)
  qed
  show ?thesis unfolding protect_position_def Let_def
    by (auto intro!: sends_bind_pure sends_bind_note sends_quiet moved empty split: option.split)
qed

lemma sends_bindC:
  assumes "sends P m" "\<And>x. sends Q (f x)" "\<And>xs ys. P xs \<Longrightarrow> Q ys \<Longrightarrow> R (xs @ ys)" "\<And>xs. P xs \<Longrightarrow> R xs"
  shows "sends R (bindC m f)"
  unfolding sends_def
proof (intro allI)
  fix w l p s
  obtain r w' l' p' s' where m: "m (((w, l), p), s) = (r, (((w', l'), p'), s'))" by (metis surj_pair)
  obtain xs where xs: "P xs" "l' = l @ xs" using assms(1) m unfolding sends_def by (metis fst_conv snd_conv)
  show "\<exists>moves. R moves \<and> snd (fst (fst (snd (bindC m f (((w, l), p), s))))) = l @ moves"
  proof (cases r)
    case (Inl e)
    then show ?thesis using m xs assms(4) by (auto simp: bindC_def)
  next
    case (Inr x)
    obtain ys where "Q ys" "snd (fst (fst (snd (f x (((w', l'), p'), s'))))) = l' @ ys"
      using assms(2) [of x] unfolding sends_def by blast
    then show ?thesis using m Inr xs assms(3) by (intro exI [of _ "xs @ ys"]) (simp add: bindC_def)
  qed
qed

definition all_moves :: "ExchangePositionSnapshot list \<Rightarrow> dec \<Rightarrow> LocalPositionView list \<Rightarrow> stop_call list \<Rightarrow> bool" where
  "all_moves held tick positions moves \<longleftrightarrow> (\<exists>blocks. moves = concat blocks
     \<and> list_all2 (stop_moves held tick) (take (length blocks) positions) blocks)"

lemma all_moves_Nil [simp]: "all_moves held tick positions []"
  unfolding all_moves_def by (intro exI [of _ "[]"]) simp

lemma all_moves_Cons:
  assumes "stop_moves held tick pos xs" "all_moves held tick positions ys"
  shows "all_moves held tick (pos # positions) (xs @ ys)"
proof -
  obtain blocks where "ys = concat blocks" "list_all2 (stop_moves held tick) (take (length blocks) positions) blocks"
    using assms(2) by (auto simp: all_moves_def)
  then show ?thesis unfolding all_moves_def using assms(1) by (intro exI [of _ "xs # blocks"]) simp
qed

lemma protect_positions_sends:
  assumes "priced_inputs k tick held positions"
  shows "sends (all_moves held tick positions) (protect_positions (recorded a) us symbol now tick held n positions)"
  using assms
proof (induction positions arbitrary: n)
  case Nil
  show ?case unfolding protect_positions.simps by (rule sends_quiet) simp
next
  case (Cons pos positions)
  then have "priced_inputs k tick held [pos]" "priced_inputs k tick held positions" by (auto simp: priced_inputs_def)
  then show ?case unfolding protect_positions.simps
    using all_moves_Cons [OF _ all_moves_Nil]
    by (intro sends_bindC [OF protect_position_sends Cons.IH]) (auto intro: all_moves_Cons)
qed

text \<open>
  C8.  The orders that one run of the step sends, in order: for the positions of the ledger in turn, at
  most one replacement stop, strictly better than the stop in force, beyond the entry and short of
  the mark up to one tick; and an old protection order is cancelled only directly after its
  replacement, so no position loses its stop to a failed replacement.
\<close>

theorem stops_only_tighten:
  assumes "priced_inputs k tick (as_positions snapshot) (ls_positions local_state)"
    and "apply_profit_protection (recorded a) us persist activation symbol now snapshot local_state tick (((w, []), p), d)
      = (r, (((w', moves), p'), d'))"
  shows "all_moves (as_positions snapshot) tick (ls_positions local_state) moves
    \<and> (moves \<noteq> [] \<longrightarrow> persist \<and> activation = EngineActivation.ACTIVE)"
proof (cases "persist \<and> activation = EngineActivation.ACTIVE")
  case True
  let ?run = "bindC (protect_positions (recorded a) us symbol now tick (as_positions snapshot) 0 (ls_positions local_state))
    (\<lambda>_. in_ledger commit)"
  have "sends (all_moves (as_positions snapshot) tick (ls_positions local_state)) ?run"
    by (rule sends_bindC [OF protect_positions_sends [OF assms(1)] sends_quiet(4) [where P = "\<lambda>m. m = []"]]) simp_all
  then have "\<exists>m. all_moves (as_positions snapshot) tick (ls_positions local_state) m
      \<and> snd (fst (fst (snd (?run (((w, []), p), new_session d))))) = [] @ m" unfolding sends_def by (elim allE)
  with assms(2) True show ?thesis by (auto simp: apply_profit_protection_def split: prod.splits)
next
  case False
  then show ?thesis using assms(2) by (auto simp: apply_profit_protection_def)
qed


section \<open>What the step leaves in the ledger\<close>

text \<open>A predicate of the session alone, along the steps at the exchange and in the session.\<close>

definition of_session :: "(session \<Rightarrow> bool) \<Rightarrow> ('w \<times> protection_payload) \<times> session \<Rightarrow> bool" where
  "of_session P x \<longleftrightarrow> P (snd x)"

lemma stays_of_session [stays_intros]:
  "stays (of_session P) (at_exchange m)" "stays (of_session P) (note_payload f)"
  "stays P m' \<Longrightarrow> stays (of_session P) (in_ledger m')"
  by (auto simp: stays_def of_session_def at_exchange_def note_payload_def in_ledger_def split: prod.splits)

lemma protect_positions_stays:
  assumes "\<And>e1 e2 e3 e4 e5 e6 e7. stays P (in_session (update_protection_stop e1 e2 e3 e4 e5 e6 e7))"
  shows "stays (of_session P) (protect_positions a us symbol now tick held n positions)"
proof (induction positions arbitrary: n)
  case Nil
  show ?case unfolding protect_positions.simps by (rule stays_pure)
next
  case (Cons pos positions)
  show ?case unfolding protect_positions.simps protect_position_def replace_stop_def Let_def
    by (intro stays_intros Cons.IH assms)
qed

lemma profit_protection_holds:
  "stays (holds_db repo_inv) (apply_profit_protection a us persist activation symbol now snapshot local_state tick)"
proof (rule staysI)
  fix x :: "('a \<times> protection_payload) \<times> db" assume inv: "holds_db repo_inv x"
  obtain z d where x: "x = (z, d)" by (cases x)
  let ?run = "bindC (protect_positions a us symbol now tick (as_positions snapshot) 0 (ls_positions local_state)) (\<lambda>_. in_ledger commit)"
  have "of_session (session_inv repo_inv) (z, new_session d)"
    using inv by (simp add: x of_session_def session_inv_new)
  moreover have "stays (of_session (session_inv repo_inv)) ?run"
    by (intro stays_bindC protect_positions_stays stays_intros keeps_update_protection_stop)
  ultimately have "of_session (session_inv repo_inv) (snd (?run (z, new_session d)))" by (rule staysD [rotated])
  then show "holds_db repo_inv (snd (apply_profit_protection a us persist activation symbol now snapshot local_state tick x))"
    using inv by (auto simp: x apply_profit_protection_def of_session_def session_inv_def split: prod.splits)
qed

lemma commit_failed: "commit s = (Inl e, s') \<Longrightarrow> ses_committed s' = ses_committed s"
  by (auto simp: commit_def split: prod.splits sum.splits dest: in_session_keeps_committed)

text \<open>
  The whole step is one transaction of the ledger: when it ends in an exception, at whatever
  position, nothing of it is committed, although replacements may have reached the exchange.
\<close>

theorem failed_profit_step_commits_nothing:
  assumes "apply_profit_protection a us persist activation symbol now snapshot local_state tick (z, d) = (Inl e, (z', d'))"
  shows "d' = d"
proof -
  let ?run = "protect_positions a us symbol now tick (as_positions snapshot) 0 (ls_positions local_state)"
  obtain r z1 s1 where run: "?run (z, new_session d) = (r, (z1, s1))" by (metis surj_pair)
  have "stays (of_session (\<lambda>s. ses_committed s = d)) ?run"
    by (intro protect_positions_stays staysI) simp
  from staysD [OF this, of "(z, new_session d)"] run have "ses_committed s1 = d" by (simp add: of_session_def new_session_def)
  then show ?thesis using assms run
    by (cases r) (auto simp: apply_profit_protection_def bindC_def in_ledger_def split: if_splits prod.splits sum.splits
        dest: commit_failed)
qed

section \<open>Runs\<close>

text \<open>A long position seven tenths of its risk in profit, with the stop order x0 at 90.\<close>

definition demo_long :: LocalPositionView where
  "demo_long = \<lparr>lp_position_id = ''p1'', lp_symbol = ''BTC/USDT'', lp_direction = ''long'', lp_quantity = 2, lp_state = ''PROTECTED'',
     lp_claim_keys = {}, lp_has_active_protection = True, lp_protection_exchange_order_ids = {''x0''},
     lp_protection_order_refs = [(''x0'', ''c0'', ''HARD_STOP'')], lp_entry_price = 100, lp_original_stop_price = Some 90,
     lp_current_stop_price = Some 90, lp_protection_id = Some ''r1'', lp_protection_policy = ''P1'', lp_protection_version = 0\<rparr>"

definition demo_marked :: AuthoritativeAccountSnapshot where
  "demo_marked = \<lparr>as_balance = 1000, as_equity = 1000, as_positions = [\<lparr>xp_symbol = ''BTC/USDT'', xp_direction = ''long'',
     xp_quantity = 2, xp_entry_price = 100, xp_mark_price = 107, xp_unrealized_pnl = 14, xp_leverage = None\<rparr>],
     as_pending_orders = [], as_snapshot_timestamp = 0\<rparr>"

definition demo_book :: LocalStateView where
  "demo_book = \<lparr>ls_positions = [demo_long], ls_intents = [], ls_known_client_order_ids = {},
     ls_external_baseline_positions = [], ls_historical_ledger_gap_intent_ids = {}\<rparr>"

text \<open>The replacement is acknowledged, the cancellation of the old stop times out.\<close>

definition demo_stops :: "unit stop_adapter" where
  "demo_stops = \<lparr>sa_submit_stop_replacement = Some (\<lambda>sy sd q px cid w. (Inr \<lparr>or_exchange_order_id = ''x1'', or_client_order_id = cid,
       or_symbol = sy, or_side = sd, or_order_type = ''stop_market'', or_quantity = q, or_price = Some px, or_status = ''open'',
       or_acknowledged_at = 0, or_reduce_only = True\<rparr>, w)),
     sa_cancel_order = (\<lambda>sy i w. (Inl ExchangeTimeout, w))\<rparr>"

definition no_payload :: protection_payload where
  "no_payload = \<lparr>pf_shadow = [], pf_moved = []\<rparr>"

lemma demo_level:
  "p1_profit_protection ''long'' 100 90 107 = Inr (locked_at ''P1'' ''long'' 100 10 (3 / 5) (1 / 20))"
  "pd_stop_price (locked_at ''P1'' ''long'' 100 10 (3 / 5) (1 / 20)) = Some (201 / 2)"
  "shadow_profit_protection ''P2'' ''long'' 100 90 107 = Inr (no_protection ''P2'')"
  "shadow_profit_protection ''P3'' ''long'' 100 90 107 = Inr (no_protection ''P3'')"
  "safe_stop ''long'' (201 / 2) (1 / 10) = Inr (201 / 2)"
  by code_simp+

definition demo_client :: string where
  "demo_client = PREFIX_BY_LEG OrderLegKind.STOP @ ''-'' @ hash [''p1'', ''stop'', int_str 1] 18"

lemma demo_client_id: "stop_client_order_id ''p1'' 1 = Inr demo_client"
  by (simp add: stop_id_Inr demo_client_def)

lemma demo_run:
  "apply_profit_protection (recorded demo_stops) us True EngineActivation.ACTIVE ''BTC/USDT'' 9 demo_marked demo_book (1 / 10)
     ((((), []), no_payload), d)
   = (Inl ExchangeTimeout, ((((), [StopOrder ''BTC/USDT'' ''sell'' 2 (201 / 2) demo_client, StopCancel ''BTC/USDT'' ''x0'']),
        \<lparr>pf_shadow = [(''p1'', 107, no_protection ''P2'', no_protection ''P3'')], pf_moved = []\<rparr>), d))"
  by (simp add: apply_profit_protection_def demo_marked_def demo_book_def demo_long_def demo_stops_def recorded_def no_payload_def
      protect_position_def replace_stop_def demo_level demo_client_id is_tighter_def at_exchange_def note_payload_def in_ledger_def
      bindC_def new_session_def Let_def)

theorem p1_locks_profit_witness:
  "\<exists>d. p1_profit_protection ''long'' 100 90 107 = Inr d \<and> pd_stop_price d = Some (201 / 2) \<and> (100 :: dec) < 201 / 2 \<and> (201 / 2 :: dec) < 107"
proof -
  have "priced 0 100" "priced 0 90" "priced 0 107" by (auto simp: priced_def intro: exI [of _ "100 :: int"] exI [of _ "90 :: int"] exI [of _ "107 :: int"])
  from p1_locks_profit [OF this demo_level(1,2)] show ?thesis using demo_level(1,2) by simp
qed

lemma demo_priced: "priced_inputs 1 (1 / 10) (as_positions demo_marked) (ls_positions demo_book)"
  by (auto simp: priced_inputs_def demo_marked_def demo_book_def demo_long_def priced_def
      intro: exI [of _ "1 :: int"] exI [of _ "1070 :: int"] exI [of _ "1000 :: int"] exI [of _ "900 :: int"])

theorem stops_only_tighten_witness:
  "all_moves (as_positions demo_marked) (1 / 10) (ls_positions demo_book)
     [StopOrder ''BTC/USDT'' ''sell'' 2 (201 / 2) demo_client, StopCancel ''BTC/USDT'' ''x0'']"
  using stops_only_tighten [OF demo_priced demo_run] by (rule conjunct1)

text \<open>
  The replacement is live at the exchange and its order is unknown to the ledger, which still names
  the old stop.
\<close>

theorem failed_profit_step_commits_nothing_witness:
  "snd (snd (apply_profit_protection (recorded demo_stops) (\<lambda>_. \<lparr>dr_id = (\<lambda>_. ''e''), dr_now = (\<lambda>_. 0)\<rparr>) True EngineActivation.ACTIVE
     ''BTC/USDT'' 9 demo_marked demo_book (1 / 10) ((((), []), no_payload), empty_db))) = empty_db"
  using failed_profit_step_commits_nothing [OF demo_run] by (simp add: demo_run)

text \<open>
  The cycle passes the lot step of the market where this step expects the tick of the price: the
  stop it asks for then lies off the price grid.
\<close>

lemma step_size_is_no_tick:
  "safe_stop ''long'' (5005009 / 100) (1 / 1000) = Inr (5005009 / 100)" "(5005009 / 100 :: rat) / (1 / 10) \<notin> range of_int"
proof -
  show "safe_stop ''long'' (5005009 / 100) (1 / 1000) = Inr (5005009 / 100)" by code_simp
  show "(5005009 / 100 :: rat) / (1 / 10) \<notin> range of_int"
  proof
    assume "(5005009 / 100 :: rat) / (1 / 10) \<in> range of_int"
    then obtain z :: int where "rat_of_int z * 10 = 5005009" by auto
    then have "rat_of_int (z * 10) = rat_of_int 5005009" by simp
    then have "z * 10 = 5005009" by (simp only: of_int_eq_iff)
    then show False by presburger
  qed
qed

end
