(* ===== verification/Historical_Ledger.thy ===== *)
theory Historical_Ledger
  imports Ledger_Calls "HOL-Library.List_Lexorder" "HOL-Library.Char_ord"
begin

text \<open>
  The cutover of old entries whose exit cannot be attributed
  (\<open>application/historical_ledger.py\<close>): an incident is recorded once and resolved, and no order,
  fill or position is invented.  The text of a time and the fresh identifier are parameters.
\<close>

datatype HistoricalEvidenceSource =
    V2_SQLITE | LOCAL_LOGS | PROJECT_EVIDENCE | GIT_HISTORY | BINANCE_TESTNET_HISTORY

definition REQUIRED_SOURCES :: "HistoricalEvidenceSource set" where
  "REQUIRED_SOURCES = {V2_SQLITE, LOCAL_LOGS, PROJECT_EVIDENCE, GIT_HISTORY, BINANCE_TESTNET_HISTORY}"

fun source_text :: "HistoricalEvidenceSource \<Rightarrow> string" where
  "source_text V2_SQLITE = ''V2_SQLITE''"
| "source_text LOCAL_LOGS = ''LOCAL_LOGS''"
| "source_text PROJECT_EVIDENCE = ''PROJECT_EVIDENCE''"
| "source_text GIT_HISTORY = ''GIT_HISTORY''"
| "source_text BINANCE_TESTNET_HISTORY = ''BINANCE_TESTNET_HISTORY''"

definition INCIDENT_TYPE :: string where
  "INCIDENT_TYPE = ''HISTORICAL_LEDGER_GAP''"

record HistoricalLedgerGapResolution =
  hr_incident_id :: string
  hr_case_id :: string
  hr_created :: bool
  hr_strategy_performance_eligible :: bool

text \<open>The keyword arguments of the call.\<close>

record gap_request =
  gr_intent_id :: string
  gr_current_flat_symbols :: "string set"
  gr_current_open_order_ids :: "string set"
  gr_active_protection_ids :: "string set"
  gr_sources_checked :: "HistoricalEvidenceSource set"
  gr_cutover_epoch :: string
  gr_writer_started_at :: int
  gr_resolution_reason :: string
  gr_last_known_exchange_evidence :: "(string \<times> string) list"
  gr_observed_at :: int

definition sorted_texts :: "string set \<Rightarrow> pval" where
  "sorted_texts S = PTexts (map Some (sorted_list_of_set S))"

definition gap_case :: "gap_request \<Rightarrow> string" where
  "gap_case g = ''HIST-V2-ENTRY-'' @ take 8 (gr_intent_id g)"

definition entry_fill_rows :: "gap_request \<Rightarrow> db \<Rightarrow> V2ExchangeFill list" where
  "entry_fill_rows g d = filter (\<lambda>f. vf_intent_id f = gr_intent_id g \<and> \<not> vf_reduce_only f) (db_fills d)"

definition gap_context :: "(int \<Rightarrow> string) \<Rightarrow> gap_request \<Rightarrow> V2ExecutionIntent \<Rightarrow> V2ExchangeFill list \<Rightarrow> payload" where
  "gap_context isoformat g intent fills = map_of
     [(''case_id'', PStr (gap_case g)), (''position_id'', PNull),
      (''entry_identity'', PJson (JObj [(''intent_id'', JStr (gr_intent_id g)), (''symbol'', JStr (vi_symbol intent)),
        (''direction'', JStr (vi_direction intent)),
        (''entry_trade_ids'', JList (map JStr (filter (\<lambda>t. t \<noteq> []) (List.map_filter vf_trade_id fills)))),
        (''entry_exchange_order_ids'', JList (map JStr (sorted_list_of_set (vf_exchange_order_id ` set fills))))])),
      (''last_known_exchange_evidence'', PJson (JObj (map (\<lambda>(k, v). (k, JStr v)) (gr_last_known_exchange_evidence g)))),
      (''current_flat_snapshot'', PJson (JObj [(''flat_symbols'', JList (map JStr (sorted_list_of_set (gr_current_flat_symbols g))))])),
      (''current_open_order_ids'', sorted_texts (gr_current_open_order_ids g)),
      (''active_protection_ids'', sorted_texts (gr_active_protection_ids g)),
      (''exhaustive_search_timestamp'', PStr (isoformat (gr_observed_at g))),
      (''sources_checked'', sorted_texts (source_text ` gr_sources_checked g)),
      (''cutover_epoch'', PStr (gr_cutover_epoch g)), (''writer_started_at'', PStr (isoformat (gr_writer_started_at g))),
      (''resolution_reason'', PStr (gr_resolution_reason g)), (''resolution'', PStr ''HISTORICAL_LEDGER_GAP''),
      (''realized_pnl'', PStr ''UNKNOWN''), (''strategy_performance_eligible'', PJson (JBool False)),
      (''current_exposure_blocker'', PJson (JBool False))]"

definition gap_incident :: "(int \<Rightarrow> string) \<Rightarrow> string \<Rightarrow> gap_request \<Rightarrow> V2ExecutionIntent \<Rightarrow> V2ExchangeFill list \<Rightarrow> V2ExecutionIncident" where
  "gap_incident isoformat incident_id g intent fills =
     \<lparr>vn_incident_id = incident_id, vn_incident_type = INCIDENT_TYPE, vn_severity = ''MEDIUM'',
      vn_related_aggregate_id = Some (gr_intent_id g), vn_intent_id = Some (gr_intent_id g), vn_position_id = None,
      vn_context = gap_context isoformat g intent fills, vn_resolved = False, vn_resolved_at = None\<rparr>"

definition gap_resolution :: "gap_request \<Rightarrow> string \<Rightarrow> bool \<Rightarrow> HistoricalLedgerGapResolution" where
  "gap_resolution g incident_id created = \<lparr>hr_incident_id = incident_id, hr_case_id = gap_case g, hr_created = created,
     hr_strategy_performance_eligible = False\<rparr>"

text \<open>The preconditions of the cutover, in the order of the checks.\<close>

definition gap_preconditions :: "gap_request \<Rightarrow> V2ExecutionIntent \<Rightarrow> db \<Rightarrow> unit res" where
  "gap_preconditions g intent d =
     guardR (vi_execution_mode intent \<noteq> V2ExecutionMode.BINANCE_TESTNET)
       (ValueError ''HISTORICAL_LEDGER_GAP is permitted only for BINANCE_TESTNET'')
     (guardR (vi_symbol intent \<notin> gr_current_flat_symbols g)
       (ValueError ''historical cutover requires an authoritative current flat symbol snapshot'')
     (guardR (gr_current_open_order_ids g \<noteq> {}) (ValueError ''historical cutover requires no linked current exchange orders'')
     (guardR (gr_active_protection_ids g \<noteq> {}) (ValueError ''historical cutover requires no linked active protections'')
     (guardR (gr_cutover_epoch g = [] \<or> gr_resolution_reason g = [])
       (ValueError ''historical cutover requires an epoch and explicit resolution reason'')
     (guardR (\<not> REQUIRED_SOURCES \<subseteq> gr_sources_checked g) (ValueError ''historical cutover requires exhaustive evidence sources'')
     (guardR (entry_fill_rows g d = []) (ValueError ''historical cutover requires a confirmed non-reduce-only entry fill'')
     (guardR (gr_writer_started_at g \<le> Max (vf_exchange_event_time ` set (entry_fill_rows g d)))
       (ValueError ''historical cutover requires the writer startup to post-date the legacy episode'')
     (guardR (\<exists>p\<in>set (db_positions d). vp_intent_id p = gr_intent_id g)
       (ValueError ''historical cutover is only for unprojected entry lifecycles'')
     (guardR (\<exists>r\<in>set (db_protections d). vr_state r = V2ProtectionState.PROTECTION_ACTIVE \<and>
          (\<exists>p\<in>set (db_positions d). vp_position_id p = vr_position_id r \<and> vp_intent_id p = gr_intent_id g))
       (ValueError ''historical cutover refuses an entry with active local protection'')
     (Inr ()))))))))))"

definition existing_gap :: "gap_request \<Rightarrow> db \<Rightarrow> V2ExecutionIncident option" where
  "existing_gap g d = List.find (\<lambda>n. vn_incident_type n = INCIDENT_TYPE \<and> vn_intent_id n = Some (gr_intent_id g)) (db_incidents d)"

definition record_historical_ledger_gap ::
    "(int \<Rightarrow> string) \<Rightarrow> string \<Rightarrow> gap_request \<Rightarrow> (db, HistoricalLedgerGapResolution) call" where
  "record_historical_ledger_gap isoformat incident_id g = readC (\<lambda>d.
     someC (find_row vi_intent_id (gr_intent_id g) (db_intents d)) (ValueError ''Historical ledger gap intent not found'') (\<lambda>intent.
     bindC (pureC (gap_preconditions g intent d)) (\<lambda>_.
     case existing_gap g d of
       Some existing \<Rightarrow> returnC (gap_resolution g (vn_incident_id existing) False)
     | None \<Rightarrow>
         bindC (record_incident (gap_incident isoformat incident_id g intent (entry_fill_rows g d))) (\<lambda>recorded.
         readC (\<lambda>d. someC (find_row vn_incident_id recorded (db_incidents d)) (RuntimeError ''historical ledger incident was not durable'') (\<lambda>_.
         bindC (store (\<lambda>d. d\<lparr>db_incidents := update_row vn_incident_id recorded
           (\<lambda>n. n\<lparr>vn_resolved := True, vn_resolved_at := Some (gr_observed_at g)\<rparr>) (db_incidents d)\<rparr>)) (\<lambda>_.
         returnC (gap_resolution g recorded True))))))))"

section \<open>Properties\<close>

lemma keeps_historical_ledger_gap: "keeps repo_inv (record_historical_ledger_gap isoformat i g)"
  unfolding record_historical_ledger_gap_def
  by (intro keeps_intros keeps_elsewhere keeps_store_elsewhere; simp add: same_ledger_def)

text \<open>An update of the row that was just appended touches no other row.\<close>

lemma update_appended:
  assumes "unique_on key (rows @ [r])" "key r = k"
  shows "update_row key k f (rows @ [r]) = rows @ [f r]"
proof -
  have "key x \<noteq> k" if "x \<in> set rows" for x using assms that by (simp add: unique_on_def) (metis image_eqI)
  then show ?thesis using assms(2) by (simp add: update_row_def map_idI)
qed

lemma gap_created:
  assumes "record_historical_ledger_gap isoformat i g d = (Inr r, d1)" "existing_gap g d = None"
  obtains n intent where "find_row vi_intent_id (gr_intent_id g) (db_intents d) = Some intent" "gap_preconditions g intent d = Inr ()"
    "d1 = d\<lparr>db_incidents := db_incidents d @ [n]\<rparr>" "r = gap_resolution g i True" "vn_incident_id n = i" "vn_resolved n"
    "vn_incident_type n = INCIDENT_TYPE" "vn_intent_id n = Some (gr_intent_id g)" "vn_position_id n = None"
proof -
  obtain intent where intent: "find_row vi_intent_id (gr_intent_id g) (db_intents d) = Some intent" "gap_preconditions g intent d = Inr ()"
    using assms by (auto simp: record_historical_ledger_gap_def someC_iff bindC_Inr_iff)
  define row where "row = gap_incident isoformat i g intent (entry_fill_rows g d)"
  let ?row = "row\<lparr>vn_resolved := False, vn_resolved_at := None\<rparr>"
  have row: "vn_incident_id ?row = i" by (simp add: row_def gap_incident_def)
  have cons: "constraints (d\<lparr>db_incidents := db_incidents d @ [?row]\<rparr>)"
    and out: "d1 = d\<lparr>db_incidents := update_row vn_incident_id i (\<lambda>n. n\<lparr>vn_resolved := True, vn_resolved_at := Some (gr_observed_at g)\<rparr>)
        (db_incidents d @ [?row])\<rparr>" "r = gap_resolution g i True"
    using assms intent row
    by (auto simp: record_historical_ledger_gap_def record_incident_def store_def someC_iff bindC_Inr_iff row_def [symmetric])
  have "unique_on vn_incident_id (db_incidents d @ [?row])"
    using cons by (simp add: constraints_def control_constraints_def)
  note update = update_appended [OF this row]
  have fields: "vn_incident_type ?row = INCIDENT_TYPE" "vn_intent_id ?row = Some (gr_intent_id g)" "vn_position_id ?row = None"
    by (simp_all add: row_def gap_incident_def)
  show ?thesis
    by (rule that [OF intent, of "?row\<lparr>vn_resolved := True, vn_resolved_at := Some (gr_observed_at g)\<rparr>"])
      (use out(2) row fields in \<open>simp_all add: out(1) update\<close>)
qed

lemma gap_existing:
  assumes "record_historical_ledger_gap isoformat i g d = (Inr r, d1)" "existing_gap g d = Some n"
  shows "d1 = d" "r = gap_resolution g (vn_incident_id n) False"
  using assms by (auto simp: record_historical_ledger_gap_def someC_iff bindC_Inr_iff)

lemma gap_again:
  assumes "find_row vi_intent_id (gr_intent_id g) (db_intents d) = Some intent" "gap_preconditions g intent d = Inr ()"
    and "existing_gap g d = Some n"
  shows "record_historical_ledger_gap isoformat i g d = (Inr (gap_resolution g (vn_incident_id n) False), d)"
  using assms by (simp add: record_historical_ledger_gap_def someC_def)

text \<open>
  C13.  The cutover invents no lifecycle: when it returns, no table but the incidents has changed, and
  there exactly one resolved row for the intent was added, or none when one was there already.
  Recording the same gap again returns the same incident and changes nothing.
\<close>

theorem ledger_gap_recorded_once:
  assumes "record_historical_ledger_gap isoformat i g d = (Inr r, d1)"
  shows "(if hr_created r
      then \<exists>n. d1 = d\<lparr>db_incidents := db_incidents d @ [n]\<rparr> \<and> vn_resolved n \<and> vn_incident_id n = hr_incident_id r
        \<and> vn_intent_id n = Some (gr_intent_id g) \<and> vn_position_id n = None
      else d1 = d)
    \<and> record_historical_ledger_gap isoformat' i' g d1 = (Inr (r\<lparr>hr_created := False\<rparr>), d1)"
proof (cases "existing_gap g d")
  case None
  from gap_created [OF assms None] obtain n intent where
    n: "find_row vi_intent_id (gr_intent_id g) (db_intents d) = Some intent" "gap_preconditions g intent d = Inr ()"
    "d1 = d\<lparr>db_incidents := db_incidents d @ [n]\<rparr>" "r = gap_resolution g i True" "vn_incident_id n = i" "vn_resolved n"
    "vn_incident_type n = INCIDENT_TYPE" "vn_intent_id n = Some (gr_intent_id g)" "vn_position_id n = None" .
  have "List.find P (xs @ [x]) = Some x" if "List.find P xs = None" "P x" for P and x :: V2ExecutionIncident and xs
    using that by (induction xs) (auto split: if_splits)
  then have "existing_gap g d1 = Some n" using None n(3,7,8) by (simp add: existing_gap_def)
  then have "record_historical_ledger_gap isoformat' i' g d1 = (Inr (gap_resolution g (vn_incident_id n) False), d1)"
    using n(1,2,3) by (intro gap_again [of _ _ intent]) (simp_all add: gap_preconditions_def entry_fill_rows_def)
  then show ?thesis using n by (auto simp: gap_resolution_def)
next
  case (Some n)
  have out: "d1 = d" "r = gap_resolution g (vn_incident_id n) False" using gap_existing [OF assms Some] .
  obtain intent where "find_row vi_intent_id (gr_intent_id g) (db_intents d) = Some intent" "gap_preconditions g intent d = Inr ()"
    using assms by (auto simp: record_historical_ledger_gap_def someC_iff bindC_Inr_iff)
  from gap_again [OF this Some] show ?thesis unfolding out by (simp add: gap_resolution_def)
qed

section \<open>A run\<close>

definition demo_gap :: gap_request where
  "demo_gap = \<lparr>gr_intent_id = ''i1'', gr_current_flat_symbols = {''BTC/USDT''}, gr_current_open_order_ids = {},
     gr_active_protection_ids = {}, gr_sources_checked = REQUIRED_SOURCES, gr_cutover_epoch = ''e1'', gr_writer_started_at = 10,
     gr_resolution_reason = ''unattributable'', gr_last_known_exchange_evidence = [], gr_observed_at = 11\<rparr>"

definition demo_old_entry :: db where
  "demo_old_entry = empty_db\<lparr>
     db_intents := [\<lparr>vi_intent_id = ''i1'', vi_cycle_id = ''c1'', vi_decision_id = None, vi_symbol = ''BTC/USDT'', vi_direction = ''long'',
       vi_candidate_key = ''k'', vi_candidate_type = V2CandidateType.SAMPLING, vi_execution_mode = V2ExecutionMode.BINANCE_TESTNET,
       vi_decision_bar_timestamp = 0, vi_decision_funnel_id = None, vi_initial_risk_usdt = None, vi_state = V2IntentState.FILLED, vi_version = 3\<rparr>],
     db_fills := [\<lparr>vf_fill_id = ''f1'', vf_intent_id = ''i1'', vf_exchange_order_record_id = ''o1'', vf_account_id = ''a'',
       vf_exchange_order_id = ''x1'', vf_trade_id = Some ''t1'', vf_fill_source = ''s'', vf_symbol = ''BTC/USDT'', vf_side = ''buy'',
       vf_reduce_only = False, vf_filled_quantity = 1, vf_fill_price = 100, vf_commission = None, vf_commission_asset = None,
       vf_exchange_event_time = 5, vf_received_at = 5, vf_raw_hash = ''h''\<rparr>]\<rparr>"

lemma demo_gap_run: "fst (record_historical_ledger_gap (\<lambda>_. []) ''n1'' demo_gap demo_old_entry) = Inr (gap_resolution demo_gap ''n1'' True)"
  by code_simp

theorem ledger_gap_recorded_once_witness:
  "\<exists>d n. record_historical_ledger_gap (\<lambda>_. []) ''n1'' demo_gap demo_old_entry = (Inr (gap_resolution demo_gap ''n1'' True), d)
     \<and> db_incidents d = [n] \<and> vn_resolved n
     \<and> record_historical_ledger_gap (\<lambda>_. []) ''n2'' demo_gap d = (Inr (gap_resolution demo_gap ''n1'' False), d)"
proof -
  let ?run = "record_historical_ledger_gap (\<lambda>_. []) ''n1'' demo_gap demo_old_entry"
  have run: "?run = (Inr (gap_resolution demo_gap ''n1'' True), snd ?run)" using demo_gap_run by (metis prod.collapse)
  show ?thesis using ledger_gap_recorded_once [OF run, of "\<lambda>_. []" "''n2''"] run
    by (auto simp: gap_resolution_def demo_old_entry_def empty_db_def)
qed

end
