(* ===== verification/Ledger_Services.thy ===== *)
theory Ledger_Services
  imports Exit_Facts Recovery_Executor Profit_Protection Historical_Ledger
begin

text \<open>
  The services that write the ledger, together: what holds of the committed database after any
  sequence of their calls, with any answers of the exchange in between and however each call ends.
\<close>

inductive served :: "'w \<times> db \<Rightarrow> bool" where
  start: "served (w, empty_db)"
| exchange: "served (w, d) \<Longrightarrow> served (w', d)"
| reserve: "served s \<Longrightarrow> served (snd (persist_entry_intent_before_submission u ek r equity enforced n s))"
| entry_answer: "served s \<Longrightarrow> served (snd (persist_entry_submission_result flt u det i lev er s))"
| entry_fill: "served s \<Longrightarrow> served (snd (persist_entry_and_protection flt u ek lev er pid pres sl tp so tpo risk pr ag s))"
| exit_intent: "served s \<Longrightarrow> served (snd (persist_exit_intent_before_submission flt u c pid m reason cid q tok t s))"
| exit_answer: "served s \<Longrightarrow> served (snd (persist_exit_submission_result u det pid xr s))"
| exit_fill: "served s \<Longrightarrow> served (snd (persist_exit_result h flt us det c pid m reason xr tok px s))"
| clean: "served s \<Longrightarrow> served (snd (reconcile_closed_position_protections u m sy ids t s))"
| margin_guard: "served s \<Longrightarrow> served (snd (recover_confirmed_margin_guard_lifecycle h flt us det i x c fills s))"
| recover: "served s \<Longrightarrow> served (snd (execute_recovery_actions rx us actions snapshot local_state step_size s))"
| profit: "served (w, d) \<Longrightarrow> served (w', snd (snd (apply_profit_protection a us persist act sy t snapshot local_state tick ((w, pl), d))))"
| gap: "served s \<Longrightarrow> served (snd (with_session (bindC (in_session (record_historical_ledger_gap isoformat i g)) (\<lambda>_. commit)) s))"

lemma served_holds: "served s \<Longrightarrow> holds_db repo_inv s"
proof (induction rule: served.induct)
  case (start w)
  show ?case by (simp add: repo_inv_empty)
next
  case (exchange w d w')
  then show ?case by simp
next
  case (reserve s u ek r equity enforced n)
  from reserve.IH show ?case by (rule staysD [OF stays_entry_persistence(1)])
next
  case (entry_answer s flt u det i lev er)
  from entry_answer.IH show ?case by (rule staysD [OF stays_entry_persistence(2)])
next
  case (entry_fill s flt u ek lev er pid pres sl tp so tpo risk pr ag)
  from entry_fill.IH show ?case by (rule staysD [OF stays_entry_persistence(3)])
next
  case (exit_intent s flt u c pid m reason cid q tok t)
  from exit_intent.IH show ?case by (rule staysD [OF stays_exit_persistence(1)])
next
  case (exit_answer s u det pid xr)
  from exit_answer.IH show ?case by (rule staysD [OF stays_exit_persistence(2)])
next
  case (exit_fill s h flt us det c pid m reason xr tok px)
  from exit_fill.IH show ?case by (rule staysD [OF stays_persist_exit_result])
next
  case (clean s u m sy ids t)
  from clean.IH show ?case by (rule staysD [OF stays_exit_persistence(3)])
next
  case (margin_guard s h flt us det i x c fills)
  from margin_guard.IH show ?case by (rule staysD [OF stays_margin_guard_recovery])
next
  case (recover s rx us actions snapshot local_state step_size)
  then show ?case unfolding execute_recovery_actions_def
    by (intro recovery_loop_stays [where Q = "holds_db repo_inv"]) (auto intro: execute_one_stays)
next
  case (profit w d w' a us persist act sy t snapshot local_state tick pl)
  then have "holds_db repo_inv ((w, pl), d)" by simp
  from staysD [OF profit_protection_holds this] show ?case by (simp add: holds_db_def)
next
  case (gap s isoformat i g)
  have "stays (session_inv repo_inv) (bindC (in_session (record_historical_ledger_gap isoformat i g)) (\<lambda>_. commit))"
    by (intro stays_intros keeps_historical_ledger_gap)
  from staysD [OF stays_db_session [OF this] gap.IH] show ?case .
qed

text \<open>
  C27.  Whatever the services did, in any order, and wherever they failed: every managed position rests
  on an acknowledged order of its intent with at least one fill, its state and version are what the
  event log replays to, the totals of an order are the totals of its fills, and no two open
  positions share symbol, direction and mode.
\<close>

theorem services_keep_ledger:
  assumes "served (w, d)"
  shows "(\<forall>p\<in>set (db_positions d). position_evidence d p
      \<and> Event_Log.explained position_value (\<lambda>s. s = V2PositionState.POSITION_PROJECTED) position_step
            (log_of ''POSITION'' (vp_position_id p) (db_events d)) (vp_state p) (vp_version p))
    \<and> (\<forall>v\<in>set (db_orders d). fills_of d (vo_order_record_id v) \<noteq> [] \<longrightarrow> cache_of v (fills_of d (vo_order_record_id v)))
    \<and> (\<forall>p\<in>set (db_positions d). \<forall>q\<in>set (db_positions d). pos_open p \<longrightarrow> pos_open q \<longrightarrow> vp_symbol p = vp_symbol q
        \<longrightarrow> vp_direction p = vp_direction q \<longrightarrow> vp_execution_mode p = vp_execution_mode q \<longrightarrow> p = q)"
proof -
  have inv: "repo_inv d" and cons: "constraints d" using served_holds [OF assms] by simp_all
  have uniq: "unique_on (\<lambda>p. (vp_symbol p, vp_direction p, vp_execution_mode p)) (filter pos_open (db_positions d))"
    using cons unfolding constraints_def ledger_constraints_def by blast
  have logs: "position_log.sourced (db_positions d) (db_events d)" and ev: "positions_ok d" and caches: "caches_ok d"
    using inv unfolding repo_inv_def logs_ok_def by blast+
  show ?thesis
  proof (intro conjI ballI impI)
    fix p assume "p \<in> set (db_positions d)"
    then show "position_evidence d p"
      "Event_Log.explained position_value (\<lambda>s. s = V2PositionState.POSITION_PROJECTED) position_step
        (log_of ''POSITION'' (vp_position_id p) (db_events d)) (vp_state p) (vp_version p)"
      using ev logs by (auto simp: positions_ok_def intro: position_log.sourced_explains)
  next
    fix v assume "v \<in> set (db_orders d)" "fills_of d (vo_order_record_id v) \<noteq> []"
    then show "cache_of v (fills_of d (vo_order_record_id v))" using caches by (auto simp: caches_ok_def)
  next
    fix p q assume "p \<in> set (db_positions d)" "q \<in> set (db_positions d)" "pos_open p" "pos_open q"
      "vp_symbol p = vp_symbol q" "vp_direction p = vp_direction q" "vp_execution_mode p = vp_execution_mode q"
    then show "p = q" by (intro unique_onD [OF uniq]) auto
  qed
qed

definition demo_fill_result :: EntryExecutionResult where
  "demo_fill_result = \<lparr>er_status = EntryExecutionStatus.FILLED, er_intent_state = V2IntentState.FILLED,
     er_client_order_id = ''v2e'', er_reason_code = DecisionReasonCode.OK, er_exchange_order_id = Some ''x1'',
     er_trade_ids = [''t1''], er_filled_quantity = 2, er_average_fill_price = Some 100, er_total_fee = 0,
     er_fill_timestamp = Some 7, er_fill_source = ''BINANCE_USER_TRADE'', er_requested_quantity = 2,
     er_guard_exchange_order_id = None, er_guard_client_order_id = None\<rparr>"

definition demo_served :: "unit \<times> db" where
  "demo_served = snd (persist_entry_and_protection id demo_ids demo_facts 3 demo_fill_result ''p1'' None (Some 90) None None None
     (Some 20) True False ((), empty_db))"

lemma demo_served_position:
  "map (\<lambda>p. (vp_position_id p, vp_quantity p, vp_state p)) (db_positions (snd demo_served))
    = [(''p1'', 2, V2PositionState.POSITION_PROJECTED)]"
proof -
  have num: "quantize8 (ddiv 2 1) = Inr 2" "ddiv 0 1 = 0" "dsub 2 0 = 2" "dadd 0 2 = 2" "dmul 2 100 = 200" "dadd 0 200 = 200"
     "ddiv 200 2 = 100" "dadd 0 0 = 0"
    "validate_intent_transition V2IntentState.INTENT_CREATED V2IntentState.EXCHANGE_SUBMITTING = Inr ()"
    "validate_intent_transition V2IntentState.EXCHANGE_SUBMITTING V2IntentState.EXCHANGE_ACKNOWLEDGED = Inr ()"
    "validate_intent_transition V2IntentState.EXCHANGE_ACKNOWLEDGED V2IntentState.FILLED = Inr ()" by code_simp+
  show ?thesis unfolding demo_served_def
    by (simp add: num persist_entry_and_protection_def run_simps ensure_cycle_def ensure_decision_def ensure_entry_intent_def
      acknowledge_entry_def ensure_order_def save_entry_fills_def save_trade_fills_def numbered_def trade_row_def
      open_intent_def create_cycle_def create_intent_def entry_intent_row_def transition_intent_def append_event_def
      save_order_submission_def save_exchange_order_receipt_def save_exchange_fill_receipt_def get_exchange_fill_by_trade_def
      refresh_order_aggregate_from_fills_def aggregate_rows_def with_aggregate_def fills_of_def unit_call_def
      reconcile_intent_from_confirmed_fill_def project_position_from_confirmed_fills_def save_entry_protection_def
      open_position_def reconstructed_risk_def position_projectable_def submitted_states_def stamp_of_def dsum_def
      constraint_simps demo_simps Let_def demo_facts_def demo_fill_result_def side_of_def)
qed

theorem services_keep_ledger_witness:
  "served demo_served \<and> (\<exists>p. db_positions (snd demo_served) = [p] \<and> vp_quantity p = 2 \<and> position_evidence (snd demo_served) p)"
proof -
  have srv: "served demo_served" unfolding demo_served_def by (intro served.entry_fill served.start)
  obtain p where p: "db_positions (snd demo_served) = [p]" "vp_quantity p = 2" using demo_served_position by auto
  obtain w d where d: "demo_served = (w, d)" by (cases demo_served)
  have "position_evidence d p"
    using services_keep_ledger [of w d] srv p(1) unfolding d by (metis list.set_intros(1) snd_conv)
  with srv p show ?thesis unfolding d by auto
qed

end
