(* ===== verification/Local_State.thy ===== *)
theory Local_State
  imports Ledger_Services
begin

text \<open>
  The view of the ledger that reconciliation works on (\<open>load_local_state_from_session\<close> in
  \<open>application/reconciliation_service.py\<close>), and what reconciliation with this view says about the
  ledger itself.
\<close>

section \<open>Loading\<close>

definition text_set :: "string option list \<Rightarrow> string set" where
  "text_set xs = set (filter (\<lambda>x. x \<noteq> []) (List.map_filter id xs))"

definition order_of :: "db \<Rightarrow> V2ManagedPosition \<Rightarrow> V2ExchangeOrder option" where
  "order_of d p = find_row vo_order_record_id (vp_order_record_id p) (db_orders d)"

definition protections_of :: "db \<Rightarrow> V2ManagedPosition \<Rightarrow> V2ProtectionRecord list" where
  "protections_of d p = filter (\<lambda>r. vr_position_id r = vp_position_id p) (db_protections d)"

definition active_protection :: "db \<Rightarrow> V2ManagedPosition \<Rightarrow> V2ProtectionRecord option" where
  "active_protection d p =
     (let active = filter (\<lambda>r. vr_state r = V2ProtectionState.PROTECTION_ACTIVE) (protections_of d p)
      in if active = [] then None else Some (last active))"

definition protection_ids :: "db \<Rightarrow> V2ManagedPosition \<Rightarrow> string set" where
  "protection_ids d p = text_set (concat (map (\<lambda>r. [vr_stop_exchange_order_id r, vr_tp_exchange_order_id r]) (protections_of d p)))"

definition claim_keys :: "db \<Rightarrow> V2ManagedPosition \<Rightarrow> string set" where
  "claim_keys d p = {vp_position_id p, vp_intent_id p, vp_order_record_id p}
     \<union> (case order_of d p of None \<Rightarrow> {} | Some v \<Rightarrow> {vo_client_order_id v} \<union> text_set [vo_exchange_order_id v])
     \<union> text_set (concat (map (\<lambda>f. [Some (vf_fill_id f), Some (vf_exchange_order_id f), vf_trade_id f]) (fills_of d (vp_order_record_id p))))
     \<union> protection_ids d p"

definition protection_refs :: "V2ProtectionRecord \<Rightarrow> (string \<times> string \<times> string) list" where
  "protection_refs r =
     (if has_text (vr_stop_exchange_order_id r)
      then [(the (vr_stop_exchange_order_id r), vr_stop_client_order_id r, ''HARD_STOP'')] else [])
   @ (if has_text (vr_tp_exchange_order_id r) \<and> has_text (vr_tp_client_order_id r)
      then [(the (vr_tp_exchange_order_id r), the (vr_tp_client_order_id r), ''TAKE_PROFIT'')] else [])"

definition position_view :: "db \<Rightarrow> V2ManagedPosition \<Rightarrow> LocalPositionView" where
  "position_view d p =
     (let active = active_protection d p in
     \<lparr>lp_position_id = vp_position_id p, lp_symbol = vp_symbol p, lp_direction = vp_direction p, lp_quantity = vp_quantity p,
      lp_state = position_value (vp_state p), lp_claim_keys = claim_keys d p, lp_has_active_protection = (active \<noteq> None),
      lp_protection_exchange_order_ids = protection_ids d p,
      lp_protection_order_refs = concat (map protection_refs (protections_of d p)), lp_entry_price = vp_entry_price p,
      lp_original_stop_price = map_option (\<lambda>r. case vr_original_stop_loss_price r of
          Some q \<Rightarrow> if q = 0 then vr_stop_loss_price r else q | None \<Rightarrow> vr_stop_loss_price r) active,
      lp_current_stop_price = map_option vr_stop_loss_price active, lp_protection_id = map_option vr_protection_id active,
      lp_protection_policy = (case active of None \<Rightarrow> ''P1'' | Some r \<Rightarrow> vr_policy r),
      lp_protection_version = (case active of None \<Rightarrow> 0 | Some r \<Rightarrow> vr_version r)\<rparr>)"

text \<open>A position is claimable only with an exchange order identity and a confirmed fill.\<close>

definition claimable :: "db \<Rightarrow> V2ManagedPosition \<Rightarrow> bool" where
  "claimable d p \<longleftrightarrow> (case order_of d p of None \<Rightarrow> False | Some v \<Rightarrow> has_text (vo_exchange_order_id v))
     \<and> fills_of d (vp_order_record_id p) \<noteq> []"

fun claim_refs :: "db \<Rightarrow> V2ManagedPosition list \<Rightarrow> (string \<rightharpoonup> string set) \<Rightarrow> string \<rightharpoonup> string set" where
  "claim_refs d [] refs = refs"
| "claim_refs d (p # ps) refs =
     claim_refs d ps (if claimable d p
       then (let key = position_key (vp_symbol p) (vp_direction p)
             in refs(key \<mapsto> (case refs key of None \<Rightarrow> {} | Some r \<Rightarrow> r) \<union> claim_keys d p))
       else refs)"

definition known_ids :: "db \<Rightarrow> V2ManagedPosition list \<Rightarrow> string set" where
  "known_ids d open_positions = vo_client_order_id ` set (db_orders d)
     \<union> (\<Union>p\<in>set open_positions. \<Union>r\<in>set (protections_of d p). {vr_stop_client_order_id r} \<union> text_set [vr_tp_client_order_id r])"

definition gap_ids :: "db \<Rightarrow> string set" where
  "gap_ids d = text_set (map vn_intent_id (filter (\<lambda>n. vn_incident_type n = ''HISTORICAL_LEDGER_GAP'') (db_incidents d)))"

definition unprojected_fill :: "V2ExecutionMode \<Rightarrow> db \<Rightarrow> string \<Rightarrow> bool" where
  "unprojected_fill mode d i \<longleftrightarrow> (\<exists>f\<in>set (db_fills d). \<not> vf_reduce_only f \<and> vf_intent_id f = i)
     \<and> \<not> (\<exists>p\<in>set (db_positions d). vp_execution_mode p = mode \<and> vp_intent_id p = i) \<and> i \<notin> gap_ids d"

text \<open>Later rows of a query overwrite earlier ones in the dictionary.\<close>

definition quarantined_intent :: "V2ExecutionMode \<Rightarrow> db \<Rightarrow> string \<Rightarrow> bool" where
  "quarantined_intent mode d i \<longleftrightarrow>
     map_option vp_state (List.find (\<lambda>p. vp_execution_mode p = mode \<and> vp_intent_id p = i) (rev (db_positions d))) = Some V2PositionState.QUARANTINED"

definition pending_states :: "V2IntentState list" where
  "pending_states = [V2IntentState.EXCHANGE_SUBMITTING, V2IntentState.EXCHANGE_UNKNOWN, V2IntentState.EXCHANGE_ACKNOWLEDGED]"

definition intent_view :: "V2ExecutionMode \<Rightarrow> db \<Rightarrow> V2ExecutionIntent \<Rightarrow> LocalIntentView" where
  "intent_view mode d i =
     \<lparr>li_intent_id = vi_intent_id i, li_symbol = vi_symbol i,
      li_client_order_id = (case List.find (\<lambda>v. vo_intent_id v = vi_intent_id i) (rev (db_orders d)) of None \<Rightarrow> [] | Some v \<Rightarrow> vo_client_order_id v),
      li_state = intent_value (vi_state i), li_has_confirmed_entry_fill = unprojected_fill mode d (vi_intent_id i),
      li_has_quarantined_lifecycle = quarantined_intent mode d (vi_intent_id i)\<rparr>"

definition load_local_state_from_session ::
    "V2ExecutionMode \<Rightarrow> (string \<times> dec) list \<Rightarrow> db \<Rightarrow> LocalStateView \<times> (string \<rightharpoonup> string set)" where
  "load_local_state_from_session mode baseline d =
     (let open_positions = get_open_positions mode None d in
     (\<lparr>ls_positions = map (position_view d) open_positions,
       ls_intents = map (intent_view mode d) (filter (\<lambda>i. vi_execution_mode i = mode \<and> (vi_state i \<in> set pending_states
          \<or> unprojected_fill mode d (vi_intent_id i) \<or> quarantined_intent mode d (vi_intent_id i))) (db_intents d)),
       ls_known_client_order_ids = known_ids d open_positions, ls_external_baseline_positions = baseline,
       ls_historical_ledger_gap_intent_ids = gap_ids d\<rparr>,
      claim_refs d open_positions Map.empty))"

section \<open>Own positions are recognised\<close>

lemma claim_refs_key:
  "claim_refs d ps refs k = (if (\<exists>p\<in>set ps. claimable d p \<and> position_key (vp_symbol p) (vp_direction p) = k) \<or> refs k \<noteq> None
     then Some ((case refs k of None \<Rightarrow> {} | Some r \<Rightarrow> r) \<union> (\<Union>p\<in>{p\<in>set ps. claimable d p \<and> position_key (vp_symbol p) (vp_direction p) = k}. claim_keys d p))
     else None)"
proof (induction ps arbitrary: refs)
  case Nil
  then show ?case by (cases "refs k") simp_all
next
  case (Cons p ps)
  have split: "{q \<in> set (p # ps). claimable d q \<and> position_key (vp_symbol q) (vp_direction q) = k}
      = (if claimable d p \<and> position_key (vp_symbol p) (vp_direction p) = k then {p} else {})
        \<union> {q \<in> set ps. claimable d q \<and> position_key (vp_symbol q) (vp_direction q) = k}" by auto
  show ?case unfolding claim_refs.simps Cons.IH split
    by (cases "refs k") (auto simp: Let_def)
qed

lemma find_row_unique_on:
  "\<lbrakk>unique_on key rows; r \<in> set rows; key r = k\<rbrakk> \<Longrightarrow> find_row key k rows = Some r"
  using find_row_unique [of key rows r] by (simp add: unique_on_def)

lemma evidence_claimable:
  assumes "constraints d" "position_evidence d p"
  shows "claimable d p"
proof -
  obtain v where v: "v \<in> set (db_orders d)" "vo_order_record_id v = vp_order_record_id p" "has_text (vo_exchange_order_id v)"
    using assms(2) by (auto simp: position_evidence_def)
  have "unique_on vo_order_record_id (db_orders d)" using assms(1) by (simp add: constraints_def ledger_constraints_def)
  then have "order_of d p = Some v" unfolding order_of_def using v by (intro find_row_unique_on)
  then show ?thesis using v assms(2) by (simp add: claimable_def position_evidence_def)
qed

lemma open_claimed:
  assumes "claimable d p" "p \<in> set (get_open_positions mode None d)" "load_local_state_from_session mode baseline d = (ls, refs)"
    and "xp_symbol x = vp_symbol p" "xp_direction x = vp_direction p"
  shows "claim_of ls refs x \<noteq> None"
proof -
  let ?k = "position_key (xp_symbol x) (xp_direction x)"
  have refs: "refs = claim_refs d (get_open_positions mode None d) Map.empty" and ls: "ls_positions ls = map (position_view d) (get_open_positions mode None d)"
    using assms(3) by (auto simp: load_local_state_from_session_def Let_def)
  have key: "refs ?k = Some (\<Union>q\<in>{q\<in>set (get_open_positions mode None d). claimable d q \<and> position_key (vp_symbol q) (vp_direction q) = ?k}. claim_keys d q)"
    unfolding refs claim_refs_key using assms(1,2,4,5) by auto
  have sub: "claim_keys d p \<subseteq> the (refs ?k)" unfolding key using assms(1,2,4,5) by auto
  have "vp_position_id p \<in> claim_keys d p" by (simp add: claim_keys_def)
  then have "lp_claim_keys (position_view d p) \<inter> the (refs ?k) \<noteq> {}" using sub by (auto simp: position_view_def Let_def)
  moreover have "position_view d p \<in> set (ls_positions ls)" using assms(2) by (simp add: ls)
  ultimately have "List.find (\<lambda>l. lp_claim_keys l \<inter> the (refs ?k) \<noteq> {}) (ls_positions ls) \<noteq> None"
    unfolding find_None_iff by blast
  moreover have "the (refs ?k) \<noteq> {}" using sub \<open>vp_position_id p \<in> claim_keys d p\<close> by blast
  ultimately show ?thesis using key by (simp add: claim_of_def claim_exchange_position_def)
qed

text \<open>
  C6.  The engine recognises what is its own: after any sequence of calls of the ledger services, however
  they ended, an exchange position on symbol and direction of an open position of the ledger is claimed,
  so reconciliation never puts it up for quarantine as an external position.
\<close>

theorem own_positions_recognised:
  assumes "served (w, d)" "p \<in> set (get_open_positions mode None d)" "load_local_state_from_session mode baseline d = (ls, refs)"
    and "xp_symbol x = vp_symbol p" "xp_direction x = vp_direction p"
  shows "claim_of ls refs x \<noteq> None \<and> fd_quarantine (position_findings ls refs s x) = []"
proof -
  have "repo_inv d" "constraints d" using served_holds [OF assms(1)] by simp_all
  moreover have "p \<in> set (db_positions d)" using assms(2) by (auto simp: get_open_positions_def)
  ultimately have "claimable d p" by (intro evidence_claimable) (auto simp: repo_inv_def positions_ok_def)
  then have c: "claim_of ls refs x \<noteq> None" using assms(2-5) by (rule open_claimed)
  then show ?thesis by (auto simp: position_findings_def claimed_findings_def Let_def flag_if_def)
qed

section \<open>A healthy reconciliation is about the ledger\<close>

definition claims_disjoint :: "V2ExecutionMode \<Rightarrow> db \<Rightarrow> bool" where
  "claims_disjoint mode d \<longleftrightarrow> (\<forall>p\<in>set (get_open_positions mode None d). \<forall>q\<in>set (get_open_positions mode None d).
     claim_keys d p \<inter> claim_keys d q \<noteq> {} \<longrightarrow> p = q)"

lemma loaded_positions:
  assumes "load_local_state_from_session mode baseline d = (ls, refs)"
  shows "ls_positions ls = map (position_view d) (get_open_positions mode None d)" "ls_external_baseline_positions ls = baseline"
    "refs = claim_refs d (get_open_positions mode None d) Map.empty"
  using assms by (auto simp: load_local_state_from_session_def Let_def)

lemma view_simps [simp]:
  "lp_position_id (position_view d p) = vp_position_id p" "lp_symbol (position_view d p) = vp_symbol p"
  "lp_direction (position_view d p) = vp_direction p" "lp_quantity (position_view d p) = vp_quantity p"
  "lp_claim_keys (position_view d p) = claim_keys d p" "lp_has_active_protection (position_view d p) \<longleftrightarrow> active_protection d p \<noteq> None"
  "lp_protection_exchange_order_ids (position_view d p) = protection_ids d p" "lp_state (position_view d p) = position_value (vp_state p)"
  by (simp_all add: position_view_def Let_def)

lemma claimed_view:
  assumes "claim_of ls refs x = Some c" "load_local_state_from_session mode baseline d = (ls, refs)" "claims_disjoint mode d"
  obtains q where "q \<in> set (get_open_positions mode None d)" "c = position_view d q"
    "position_key (xp_symbol x) (xp_direction x) = position_key (vp_symbol q) (vp_direction q)"
proof -
  let ?k = "position_key (xp_symbol x) (xp_direction x)"
  note l = loaded_positions [OF assms(2)]
  obtain R where R: "refs ?k = Some R" "List.find (\<lambda>l. lp_claim_keys l \<inter> R \<noteq> {}) (ls_positions ls) = Some c"
    using assms(1) by (auto simp: claim_of_def claim_exchange_position_def split: option.splits if_splits)
  have c: "c \<in> set (ls_positions ls)" "lp_claim_keys c \<inter> R \<noteq> {}" using R(2) by (auto simp: find_Some_iff)
  from c(1) obtain q where q: "q \<in> set (get_open_positions mode None d)" "c = position_view d q" unfolding l(1) by auto
  have overlap: "claim_keys d q \<inter> R \<noteq> {}" using c(2) q(2) by simp
  from R(1) have "R = (\<Union>p\<in>{p\<in>set (get_open_positions mode None d). claimable d p \<and> position_key (vp_symbol p) (vp_direction p) = ?k}. claim_keys d p)"
    unfolding l(3) claim_refs_key by (auto split: if_splits)
  with overlap obtain p where p: "p \<in> set (get_open_positions mode None d)" "position_key (vp_symbol p) (vp_direction p) = ?k" "claim_keys d q \<inter> claim_keys d p \<noteq> {}"
    by blast
  then have "q = p" using assms(3) q(1) unfolding claims_disjoint_def by blast
  then show ?thesis using that [OF q] p(2) by simp
qed


theorem own_positions_recognised_witness:
  "\<exists>p ls refs. db_positions (snd demo_served) = [p]
     \<and> load_local_state_from_session (vp_execution_mode p) [] (snd demo_served) = (ls, refs)
     \<and> claim_of ls refs \<lparr>xp_symbol = vp_symbol p, xp_direction = vp_direction p, xp_quantity = 3, xp_entry_price = 100,
          xp_mark_price = 101, xp_unrealized_pnl = 2, xp_leverage = None\<rparr> \<noteq> None"
proof -
  have srv: "served demo_served" unfolding demo_served_def by (intro served.entry_fill served.start)
  obtain p where p: "db_positions (snd demo_served) = [p]" "vp_state p = V2PositionState.POSITION_PROJECTED"
    using demo_served_position by auto
  obtain w d where d: "demo_served = (w, d)" by (cases demo_served)
  obtain ls refs where l: "load_local_state_from_session (vp_execution_mode p) [] d = (ls, refs)"
    by (cases "load_local_state_from_session (vp_execution_mode p) [] d")
  have "p \<in> set (get_open_positions (vp_execution_mode p) None d)" using p by (simp add: d get_open_positions_def)
  from own_positions_recognised [OF srv [unfolded d] this l] p(1) l show ?thesis by (auto simp: d)
qed

definition held_position :: V2ManagedPosition where
  "held_position = \<lparr>vp_position_id = ''p1'', vp_intent_id = ''i1'', vp_order_record_id = ''o1'', vp_symbol = ''BTC/USDT'',
     vp_direction = ''long'', vp_execution_mode = V2ExecutionMode.BINANCE_TESTNET, vp_quantity = 2, vp_entry_price = 100,
     vp_entry_fee = 0, vp_state = V2PositionState.PROTECTED, vp_version = 1, vp_projected_at = 3, vp_protected_at = Some 4,
     vp_closed_at = None, vp_realized_pnl = None\<rparr>"

definition held_db :: db where
  "held_db = empty_db\<lparr>
     db_orders := [\<lparr>vo_order_record_id = ''o1'', vo_intent_id = ''i1'', vo_client_order_id = ''v2e'', vo_exchange_order_id = Some ''x1'',
       vo_quantity = 2, vo_leverage = 1, vo_submitted_at = Some 1, vo_acknowledged_at = Some 2, vo_filled_quantity = Some 2,
       vo_average_fill_price = Some 100, vo_total_fee = Some 0, vo_fill_timestamp = Some 2, vo_trade_ids = [Some ''t1'']\<rparr>],
     db_fills := [\<lparr>vf_fill_id = ''f1'', vf_intent_id = ''i1'', vf_exchange_order_record_id = ''o1'', vf_account_id = ''a'',
       vf_exchange_order_id = ''x1'', vf_trade_id = Some ''t1'', vf_fill_source = ''BINANCE_USER_TRADE'', vf_symbol = ''BTC/USDT'',
       vf_side = ''buy'', vf_reduce_only = False, vf_filled_quantity = 2, vf_fill_price = 100, vf_commission = Some 0,
       vf_commission_asset = None, vf_exchange_event_time = 2, vf_received_at = 2, vf_raw_hash = ''h1''\<rparr>],
     db_positions := [held_position],
     db_protections := [\<lparr>vr_protection_id = ''r1'', vr_position_id = ''p1'', vr_stop_loss_price = 95, vr_original_stop_loss_price = Some 95,
       vr_take_profit_price = None, vr_stop_client_order_id = ''A2S-x'', vr_tp_client_order_id = None,
       vr_stop_exchange_order_id = Some ''88'', vr_tp_exchange_order_id = None, vr_state = V2ProtectionState.PROTECTION_ACTIVE,
       vr_version = 1, vr_policy = ''P1'', vr_activated_at = Some 4\<rparr>]\<rparr>"

lemma held_open: "get_open_positions V2ExecutionMode.BINANCE_TESTNET None held_db = [held_position]"
  by (simp add: get_open_positions_def held_db_def held_position_def)

lemma held_view:
  "protection_ids held_db held_position = {''88''}" "active_protection held_db held_position \<noteq> None"
  "known_ids held_db [held_position] = {''v2e'', ''A2S-x''}" "''p1'' \<in> claim_keys held_db held_position"
  by (auto simp: held_db_def empty_db_def held_position_def protection_ids_def protections_of_def text_set_def map_filter_simps
      active_protection_def known_ids_def claim_keys_def)

lemma held_claimable: "claimable held_db held_position"
  by (simp add: held_db_def empty_db_def held_position_def claimable_def order_of_def find_row_def fills_of_def has_text_def)

lemma held_loaded:
  assumes "load_local_state_from_session V2ExecutionMode.BINANCE_TESTNET [] held_db = (ls, refs)"
  shows "ls_positions ls = [position_view held_db held_position]" "ls_external_baseline_positions ls = []" "ls_intents ls = []"
    "ls_known_client_order_ids ls = {''v2e'', ''A2S-x''}" "refs = [''BTC/USDT:long'' \<mapsto> claim_keys held_db held_position]"
proof -
  have "position_key (vp_symbol held_position) (vp_direction held_position) = ''BTC/USDT:long''"
    by (simp add: held_position_def position_key_def)
  then show "refs = [''BTC/USDT:long'' \<mapsto> claim_keys held_db held_position]"
    using loaded_positions(3) [OF assms] held_claimable by (simp add: held_open)
  have "db_intents held_db = []" by (simp add: held_db_def empty_db_def)
  with assms show "ls_intents ls = []" by (auto simp: load_local_state_from_session_def Let_def)
  show "ls_known_client_order_ids ls = {''v2e'', ''A2S-x''}"
    using assms unfolding load_local_state_from_session_def Let_def held_open held_view(3) by auto
qed (use loaded_positions [OF assms] held_open in simp_all)

lemma held_reconciled:
  assumes "load_local_state_from_session V2ExecutionMode.BINANCE_TESTNET [] held_db = (ls, refs)"
  shows "\<exists>r. reconcile (Some demo_snapshot) ls None None refs = Inr r \<and> rr_status r = ReconciliationStatus.HEALTHY"
proof -
  note ls = held_loaded [OF assms]
  let ?p = "position_view held_db held_position" and ?x = "hd (as_positions demo_snapshot)"
  have q: "dabs (dsub (dadd 2 0) 2) \<le> QUANTITY_TOLERANCE" by code_simp
  have p: "vp_quantity held_position = 2" "vp_direction held_position = ''long''" "vp_position_id held_position = ''p1''"
    by (simp_all add: held_position_def)
  have k: "position_key (xp_symbol ?x) (xp_direction ?x) = ''BTC/USDT:long''" by (simp add: position_key_def demo_snapshot_def)
  have x: "xp_quantity ?x = 2" "xp_direction ?x = ''long''" "xo_exchange_order_id ` set (as_pending_orders demo_snapshot) = {''88''}"
    by (simp_all add: demo_snapshot_def)
  have c: "claim_of ls refs ?x = Some ?p" using held_view(4)
    by (auto simp: ls k claim_of_def claim_exchange_position_def)
  have "fd_discrepancies (position_findings ls refs demo_snapshot ?x) = []" "fd_matched (position_findings ls refs demo_snapshot ?x) = [''p1'']"
    using c q held_view(1,2) p by (simp_all add: position_findings_def claimed_findings_def flag_if_def baseline_of_def ls(2) opt_dec_def x Let_def)
  then show ?thesis
    by (simp add: reconcile_def Let_def ls p demo_snapshot_def local_findings_def order_findings_def flag_if_def resolve_status_def)
qed


end
