(* ===== verification/Decision.thy ===== *)
theory Decision
  imports Candidates Funnel "HOL-Library.Sublist"
begin

text \<open>
  The decision service (\<open>application/decision_service.py\<close>): pure indicators on closed bars, the
  rules of the sampling lane, and the evaluation of one symbol for one bar, which walks the stages
  of the funnel and ends in one terminal outcome.  The text of a metric, the clock of the funnel and
  fresh identifiers are parameters; a \<open>return\<close> before the end is the left side of a sum.
\<close>

section \<open>Bars and contexts\<close>

record BarView =
  bar_timestamp :: int
  bar_open :: dec
  bar_high :: dec
  bar_low :: dec
  bar_close :: dec
  bar_volume :: dec

record TimeframeView =
  tf_timeframe :: string
  tf_bars :: "BarView list"

definition last_closed :: "TimeframeView \<Rightarrow> BarView option" where
  "last_closed tf = (if tf_bars tf = [] then None else Some (last (tf_bars tf)))"

datatype metric = MDec dec | MInt int | MText string | MTexts "string list" | MBool bool | MTime int | MSeconds int | MNone

text \<open>\<open>{**metrics, key: value}\<close> and \<open>metrics.setdefault(key, value)\<close>\<close>

fun put :: "string \<Rightarrow> metric \<Rightarrow> (string \<times> metric) list \<Rightarrow> (string \<times> metric) list" where
  "put k v [] = [(k, v)]"
| "put k v ((k', v') # m) = (if k' = k then (k, v) # m else (k', v') # put k v m)"

definition set_default :: "string \<Rightarrow> metric \<Rightarrow> (string \<times> metric) list \<Rightarrow> (string \<times> metric) list" where
  "set_default k v m = (if map_of m k = None then m @ [(k, v)] else m)"

definition opt_dec :: "dec option \<Rightarrow> metric" where
  "opt_dec x = (case x of None \<Rightarrow> MNone | Some q \<Rightarrow> MDec q)"

fun side_value :: "CandidateSide \<Rightarrow> string" where
  "side_value CandidateSide.LONG = ''LONG''"
| "side_value CandidateSide.SHORT = ''SHORT''"

record SignalEvaluation =
  se_side :: "CandidateSide option"
  se_confidence :: dec
  se_reason_code :: "DecisionReasonCode option"
  se_metrics :: "(string \<times> metric) list"

record DecisionContext =
  dx_cycle_id :: string
  dx_symbol :: string
  dx_lane :: CandidateLane
  dx_strategy_id :: string
  dx_strategy_version :: string
  dx_entry_timeframe :: TimeframeView
  dx_direction_timeframe :: "TimeframeView option"
  dx_state_timeframe :: "TimeframeView option"
  dx_strict_sampling_alignment :: bool
  dx_sampling_confirmation_bars :: int
  dx_now :: int
  dx_data_stale_after_seconds :: int
  dx_already_evaluated_bars :: "int set"
  dx_max_entry_drift_bps :: dec
  dx_candidate_ttl_seconds :: int
  dx_meta_label_min_win_rate :: "dec option"
  dx_meta_label_predictor :: "(TradeCandidate \<Rightarrow> dec) option"
  dx_manifest_eligible :: bool
  dx_manifest_reason :: "DecisionReasonCode option"
  dx_candidate_id :: string

record DecisionOutcome =
  do_cycle_id :: string
  do_symbol :: string
  do_lane :: CandidateLane
  do_terminal_stage :: FunnelStage
  do_reason_code :: DecisionReasonCode
  do_funnel :: DecisionFunnelRecord
  do_candidate :: "TradeCandidate option"

definition has_candidate :: "DecisionOutcome \<Rightarrow> bool" where
  "has_candidate r \<longleftrightarrow> do_candidate r \<noteq> None"

section \<open>Indicators\<close>

definition closes :: "BarView list \<Rightarrow> dec list" where
  "closes bars = map bar_close bars"

text \<open>The periods are positive constants at every call.\<close>

definition ema :: "dec list \<Rightarrow> nat \<Rightarrow> dec option" where
  "ema values period =
     (if length values < period then None
      else (let multiplier = ddiv 2 (of_nat (period + 1));
                seed = ddiv (dsum (take period values)) (of_nat period)
            in Some (foldl (\<lambda>current value. dadd (dmul (dsub value current) multiplier) current) seed (drop period values))))"

definition rsi :: "dec list \<Rightarrow> nat \<Rightarrow> dec option" where
  "rsi values period =
     (if length values < period + 1 then None
      else (let window = drop (length values - (period + 1)) values;
                deltas = map (\<lambda>(previous, current). dsub current previous) (zip (butlast window) (tl window));
                gains = foldl (\<lambda>g delta. if delta \<ge> 0 then dadd g delta else g) 0 deltas;
                losses = foldl (\<lambda>l delta. if delta \<ge> 0 then l else dadd l (dneg delta)) 0 deltas
            in if losses = 0 then Some 100
               else (let rs = ddiv (ddiv gains (of_nat period)) (ddiv losses (of_nat period))
                     in Some (dsub 100 (ddiv 100 (dadd 1 rs))))))"

definition macd_series :: "dec list \<Rightarrow> nat \<Rightarrow> nat \<Rightarrow> dec list option" where
  "macd_series values fast slow =
     those (map (\<lambda>n. case (ema (take n values) fast, ema (take n values) slow) of
        (Some f, Some s) \<Rightarrow> Some (dsub f s) | _ \<Rightarrow> None) [slow..<length values + 1])"

definition macd_histogram :: "dec list \<Rightarrow> nat \<Rightarrow> nat \<Rightarrow> nat \<Rightarrow> dec option" where
  "macd_histogram values fast slow signal =
     (if length values < slow + signal then None
      else Option.bind (macd_series values fast slow) (\<lambda>series.
           Option.bind (ema series signal) (\<lambda>signal_line. Some (dsub (last series) signal_line))))"

definition true_range :: "BarView \<Rightarrow> BarView \<Rightarrow> dec" where
  "true_range previous current =
     max (max (dsub (bar_high current) (bar_low current)) (dabs (dsub (bar_high current) (bar_close previous))))
       (dabs (dsub (bar_low current) (bar_close previous)))"

definition atr :: "BarView list \<Rightarrow> nat \<Rightarrow> dec option" where
  "atr bars period =
     (if length bars < period + 1 then None
      else (let window = drop (length bars - (period + 1)) bars
            in Some (ddiv (dsum (map (\<lambda>(previous, current). true_range previous current) (zip (butlast window) (tl window))))
                 (of_nat period))))"

section \<open>The sampling lane\<close>

definition no_signal :: "DecisionReasonCode \<Rightarrow> (string \<times> metric) list \<Rightarrow> SignalEvaluation" where
  "no_signal reason metrics = \<lparr>se_side = None, se_confidence = 0, se_reason_code = Some reason, se_metrics = metrics\<rparr>"

text \<open>The literal confidence of a sampling signal.\<close>

definition sampling_confidence :: dec where
  "sampling_confidence = 55 / 100"

definition evaluate_sampling_signal :: "TimeframeView \<Rightarrow> SignalEvaluation" where
  "evaluate_sampling_signal entry =
     (case last_closed entry of
        None \<Rightarrow> no_signal DecisionReasonCode.NO_ENTRY_SIGNAL []
      | Some bar \<Rightarrow>
     let cs = closes (tf_bars entry); price = bar_close bar;
         ema50 = ema cs 50; hist = macd_histogram cs 12 26 9; rsi14 = rsi cs 14; atr14 = atr (tf_bars entry) 14;
         metrics = [(''close'', MDec price), (''ema50'', opt_dec ema50), (''macd_histogram'', opt_dec hist),
           (''rsi14'', opt_dec rsi14), (''atr14'', opt_dec atr14)]
     in case (ema50, hist, rsi14, atr14) of
          (Some e, Some h, Some r, Some a) \<Rightarrow>
            if a \<le> 0 then no_signal DecisionReasonCode.ATR_NOT_POSITIVE metrics
            else if price > e \<and> h > 0 \<and> 50 \<le> r \<and> r \<le> 72
            then \<lparr>se_side = Some CandidateSide.LONG, se_confidence = sampling_confidence, se_reason_code = None, se_metrics = metrics\<rparr>
            else if price < e \<and> h < 0 \<and> 28 \<le> r \<and> r \<le> 50
            then \<lparr>se_side = Some CandidateSide.SHORT, se_confidence = sampling_confidence, se_reason_code = None, se_metrics = metrics\<rparr>
            else if (price > e \<and> h \<le> 0) \<or> (price < e \<and> h \<ge> 0)
            then no_signal DecisionReasonCode.MACD_DIRECTION_MISMATCH metrics
            else if 72 < r \<or> r < 28 then no_signal DecisionReasonCode.RSI_OUTSIDE_RANGE metrics
            else no_signal DecisionReasonCode.NO_ENTRY_SIGNAL metrics
        | _ \<Rightarrow> no_signal DecisionReasonCode.INSUFFICIENT_HISTORY metrics)"

definition sampling_stop_distance :: "dec \<Rightarrow> dec \<Rightarrow> dec" where
  "sampling_stop_distance atr14 reference_price = max (dmul (12 / 10) atr14) (dmul reference_price (35 / 10000))"

definition sampling_trend_aligned :: "CandidateSide \<Rightarrow> TimeframeView \<Rightarrow> bool" where
  "sampling_trend_aligned side tf =
     (case (ema (closes (tf_bars tf)) 20, ema (closes (tf_bars tf)) 50, last_closed tf) of
        (Some fast, Some slow, Some bar) \<Rightarrow>
          if side = CandidateSide.LONG then bar_close bar > slow \<and> fast \<ge> slow
          else bar_close bar < slow \<and> fast \<le> slow
      | _ \<Rightarrow> False)"

section \<open>The evaluation of one bar\<close>

definition candidate_type_for_lane :: "CandidateLane \<Rightarrow> V2CandidateType" where
  "candidate_type_for_lane lane =
     (if lane = CandidateLane.TESTNET_SAMPLING then V2CandidateType.SAMPLING else V2CandidateType.PRIMARY)"

text \<open>What the funnel draws from outside: the text of a metric, its clock and its identifier.\<close>

record funnel_env =
  fe_text :: "metric \<Rightarrow> string"
  fe_clock :: "nat \<Rightarrow> int"
  fe_id :: string

definition log_stage ::
    "funnel_env \<Rightarrow> FunnelStage \<Rightarrow> StageOutcome \<Rightarrow> DecisionReasonCode \<Rightarrow> (string \<times> metric) list
      \<Rightarrow> DecisionFunnelBuilder \<Rightarrow> DecisionFunnelBuilder" where
  "log_stage env stage outcome reason metrics b =
     snd (record_stage stage outcome reason [] (map (\<lambda>(k, v). (k, fe_text env v)) metrics)
       (fe_clock env (Suc (length (fb_stages b)))) b)"

definition passed :: "funnel_env \<Rightarrow> FunnelStage \<Rightarrow> (string \<times> metric) list \<Rightarrow> DecisionFunnelBuilder \<Rightarrow> DecisionFunnelBuilder" where
  "passed env stage metrics = log_stage env stage StageOutcome.PASSED DecisionReasonCode.OK metrics"

definition outcome_of ::
    "DecisionContext \<Rightarrow> FunnelStage \<Rightarrow> DecisionReasonCode \<Rightarrow> TradeCandidate option \<Rightarrow> DecisionFunnelBuilder \<Rightarrow> DecisionOutcome res" where
  "outcome_of ctx stage reason candidate b =
     bindR (fst (build_funnel stage reason b)) (\<lambda>funnel. Inr
       \<lparr>do_cycle_id = dx_cycle_id ctx, do_symbol = dx_symbol ctx, do_lane = dx_lane ctx, do_terminal_stage = stage,
        do_reason_code = reason, do_funnel = funnel, do_candidate = candidate\<rparr>)"

definition terminate ::
    "funnel_env \<Rightarrow> DecisionContext \<Rightarrow> FunnelStage \<Rightarrow> DecisionReasonCode \<Rightarrow> StageOutcome \<Rightarrow> (string \<times> metric) list
      \<Rightarrow> DecisionFunnelBuilder \<Rightarrow> DecisionOutcome res" where
  "terminate env ctx stage reason outcome metrics b = outcome_of ctx stage reason None (log_stage env stage outcome reason metrics b)"

text \<open>A step that may return from the whole evaluation.\<close>

definition stepping :: "'o + 'a \<Rightarrow> ('a \<Rightarrow> 'o + 'b) \<Rightarrow> 'o + 'b" where
  "stepping m f = (case m of Inl r \<Rightarrow> Inl r | Inr x \<Rightarrow> f x)"

type_synonym 'a stage = "DecisionFunnelBuilder \<Rightarrow> DecisionOutcome res + DecisionFunnelBuilder \<times> 'a"

definition data_available :: "funnel_env \<Rightarrow> DecisionContext \<Rightarrow> BarView stage" where
  "data_available env ctx b =
     (let bars = tf_bars (dx_entry_timeframe ctx) in
      if bars = [] then Inl (terminate env ctx FunnelStage.DATA_AVAILABLE DecisionReasonCode.NO_MARKET_DATA StageOutcome.REJECTED [] b)
      else Inr (set_decision_bar (bar_timestamp (last bars))
        (passed env FunnelStage.DATA_AVAILABLE [(''entry_bar_count'', MInt (int (length bars)))] b), last bars))"

definition candle_closed :: "funnel_env \<Rightarrow> DecisionContext \<Rightarrow> BarView \<Rightarrow> unit stage" where
  "candle_closed env ctx bar b =
     (let metrics = [(''bar_timestamp'', MTime (bar_timestamp bar))] in
      if bar_timestamp bar \<in> dx_already_evaluated_bars ctx
      then Inl (terminate env ctx FunnelStage.CANDLE_CLOSED DecisionReasonCode.DUPLICATE_DECISION StageOutcome.SKIPPED metrics b)
      else Inr (passed env FunnelStage.CANDLE_CLOSED metrics b, ()))"

definition data_fresh :: "funnel_env \<Rightarrow> DecisionContext \<Rightarrow> BarView \<Rightarrow> unit stage" where
  "data_fresh env ctx bar b =
     (let age = dx_now ctx - bar_timestamp bar in
      if age > dx_data_stale_after_seconds ctx * 10 ^ 6
      then Inl (terminate env ctx FunnelStage.DATA_FRESH DecisionReasonCode.MARKET_DATA_STALE StageOutcome.REJECTED
        [(''bar_age_seconds'', MSeconds age), (''stale_after_seconds'', MInt (dx_data_stale_after_seconds ctx))] b)
      else Inr (passed env FunnelStage.DATA_FRESH [(''bar_age_seconds'', MSeconds age)] b, ()))"

definition timeframes_aligned :: "funnel_env \<Rightarrow> DecisionContext \<Rightarrow> unit stage" where
  "timeframes_aligned env ctx b =
     (let reject = (\<lambda>metrics. Inl (terminate env ctx FunnelStage.TIMEFRAMES_ALIGNED DecisionReasonCode.NO_MARKET_DATA
            StageOutcome.REJECTED metrics b)) in
      if dx_strict_sampling_alignment ctx \<and> (dx_direction_timeframe ctx = None \<or> dx_state_timeframe ctx = None)
      then reject [(''required_timeframes'', MTexts [''1h'', ''4h''])]
      else (case dx_direction_timeframe ctx of
          Some tf \<Rightarrow>
            if last_closed tf = None then reject [(''missing_timeframe'', MText (tf_timeframe tf))]
            else Inr (passed env FunnelStage.TIMEFRAMES_ALIGNED [(''direction_timeframe'', MText (tf_timeframe tf))] b, ())
        | None \<Rightarrow> Inr (log_stage env FunnelStage.TIMEFRAMES_ALIGNED StageOutcome.SKIPPED DecisionReasonCode.SINGLE_TIMEFRAME_LANE [] b, ())))"

definition regime_evaluated :: "funnel_env \<Rightarrow> DecisionContext \<Rightarrow> dec stage" where
  "regime_evaluated env ctx b =
     (let bars = tf_bars (dx_entry_timeframe ctx);
          reject = (\<lambda>reason metrics. Inl (terminate env ctx FunnelStage.REGIME_EVALUATED reason StageOutcome.REJECTED metrics b)) in
      case atr bars 14 of
        None \<Rightarrow> reject DecisionReasonCode.INSUFFICIENT_HISTORY [(''entry_bar_count'', MInt (int (length bars)))]
      | Some atr14 \<Rightarrow>
          if atr14 \<le> 0 then reject DecisionReasonCode.ATR_NOT_POSITIVE [(''atr14'', MDec atr14)]
          else Inr (passed env FunnelStage.REGIME_EVALUATED [(''atr14'', MDec atr14)] b, atr14))"

text \<open>The first of the earlier windows whose signal is not on the same side.\<close>

definition failed_confirmation :: "DecisionContext \<Rightarrow> CandidateSide \<Rightarrow> nat option" where
  "failed_confirmation ctx side =
     (let entry = dx_entry_timeframe ctx; bars = tf_bars entry in
      List.find (\<lambda>offset. se_side (evaluate_sampling_signal (entry\<lparr>tf_bars := take (length bars - offset) bars\<rparr>)) \<noteq> Some side)
        [1..<nat (max (dx_sampling_confirmation_bars ctx) 0) + 1])"

definition signal_metrics :: "SignalEvaluation \<Rightarrow> (string \<times> metric) list" where
  "signal_metrics ev =
     set_default ''confirmation_bars_passed'' MNone (set_default ''mtf_alignment_passed'' MNone
       (set_default ''base_signal_side'' (case se_side ev of None \<Rightarrow> MNone | Some s \<Rightarrow> MText (side_value s))
         (set_default ''base_signal_detected'' (MBool (se_side ev \<noteq> None)) (se_metrics ev))))"

definition entry_signal_evaluated :: "funnel_env \<Rightarrow> DecisionContext \<Rightarrow> (CandidateSide \<times> dec) stage" where
  "entry_signal_evaluated env ctx b =
     (let ev = evaluate_sampling_signal (dx_entry_timeframe ctx); sm = signal_metrics ev;
          reject = (\<lambda>reason metrics. Inl (terminate env ctx FunnelStage.ENTRY_SIGNAL_EVALUATED reason StageOutcome.REJECTED metrics b)) in
      case se_side ev of
        None \<Rightarrow> reject (case se_reason_code ev of None \<Rightarrow> DecisionReasonCode.NO_ENTRY_SIGNAL | Some r \<Rightarrow> r) sm
      | Some side \<Rightarrow>
      let confirmations = max (dx_sampling_confirmation_bars ctx) 0;
          ready = Inr (passed env FunnelStage.ENTRY_SIGNAL_EVALUATED
            (put ''confirmation_bars'' (MInt (dx_sampling_confirmation_bars ctx))
            (put ''strict_alignment'' (MBool (dx_strict_sampling_alignment ctx)) (put ''confirmation_bars_passed'' (MBool True)
            (put ''mtf_alignment_passed'' (MBool True) (put ''side'' (MText (side_value side)) sm))))) b, (side, se_confidence ev)) in
      if \<not> dx_strict_sampling_alignment ctx then ready
      else if \<not> (sampling_trend_aligned side (the (dx_direction_timeframe ctx)) \<and> sampling_trend_aligned side (the (dx_state_timeframe ctx)))
      then reject DecisionReasonCode.MULTI_TIMEFRAME_DISAGREEMENT
        (put ''strict_alignment'' (MBool False) (put ''mtf_alignment_passed'' (MBool False) (put ''side'' (MText (side_value side)) sm)))
      else (case failed_confirmation ctx side of
          Some offset \<Rightarrow> reject DecisionReasonCode.MULTI_TIMEFRAME_DISAGREEMENT
            (put ''failed_confirmation_offset'' (MInt (int offset)) (put ''confirmation_bars'' (MInt confirmations)
            (put ''strict_alignment'' (MBool True) (put ''confirmation_bars_passed'' (MBool False)
            (put ''mtf_alignment_passed'' (MBool True) (put ''side'' (MText (side_value side)) sm))))))
        | None \<Rightarrow> ready))"

definition decided_candidate :: "DecisionContext \<Rightarrow> BarView \<Rightarrow> dec \<Rightarrow> CandidateSide \<Rightarrow> dec \<Rightarrow> TradeCandidate" where
  "decided_candidate ctx bar atr14 side confidence =
     (let stop_distance = sampling_stop_distance atr14 (bar_close bar) in
     \<lparr>tc_candidate_id = dx_candidate_id ctx, tc_cycle_id = dx_cycle_id ctx, tc_strategy_id = dx_strategy_id ctx,
      tc_strategy_version = dx_strategy_version ctx, tc_lane = dx_lane ctx,
      tc_candidate_type = candidate_type_for_lane (dx_lane ctx), tc_symbol = dx_symbol ctx, tc_side = side_value side,
      tc_signal_candle_close_time = bar_timestamp bar, tc_signal_reference_price = bar_close bar, tc_confidence = confidence,
      tc_stop_distance = stop_distance, tc_take_profit_distance = Some (dmul (15 / 10) stop_distance),
      tc_max_entry_drift_bps = dx_max_entry_drift_bps ctx,
      tc_expires_at = dx_now ctx + dx_candidate_ttl_seconds ctx * 10 ^ 6,
      tc_non_promotable = (dx_lane ctx = CandidateLane.TESTNET_SAMPLING), tc_signal_context = []\<rparr>)"

definition candidate_created ::
    "funnel_env \<Rightarrow> DecisionContext \<Rightarrow> BarView \<Rightarrow> dec \<Rightarrow> CandidateSide \<Rightarrow> dec \<Rightarrow> TradeCandidate stage" where
  "candidate_created env ctx bar atr14 side confidence b =
     (case TradeCandidate_post_init (lane_value (dx_lane ctx)) (decided_candidate ctx bar atr14 side confidence) of
        Inl e \<Rightarrow> Inl (Inl e)
      | Inr candidate \<Rightarrow>
          Inr (passed env FunnelStage.CANDIDATE_CREATED [(''candidate_id'', MText (tc_candidate_id candidate)),
            (''side'', MText (tc_side candidate)), (''stop_distance'', MDec (tc_stop_distance candidate)),
            (''take_profit_distance'', opt_dec (tc_take_profit_distance candidate)),
            (''non_promotable'', MBool (tc_non_promotable candidate))]
            (set_candidate (tc_candidate_id candidate) b), candidate))"

definition meta_label_evaluated :: "funnel_env \<Rightarrow> DecisionContext \<Rightarrow> TradeCandidate \<Rightarrow> unit stage" where
  "meta_label_evaluated env ctx candidate b =
     (case (dx_meta_label_predictor ctx, dx_meta_label_min_win_rate ctx) of
        (Some predictor, Some min_win_rate) \<Rightarrow>
          let predicted = predictor candidate in
          if predicted < min_win_rate
          then Inl (terminate env ctx FunnelStage.META_LABEL_EVALUATED DecisionReasonCode.META_LABEL_BET_SKIPPED StageOutcome.REJECTED
            [(''predicted_win_rate'', MDec predicted), (''min_win_rate'', MDec min_win_rate)] b)
          else Inr (passed env FunnelStage.META_LABEL_EVALUATED [(''predicted_win_rate'', MDec predicted)] b, ())
      | _ \<Rightarrow> Inr (log_stage env FunnelStage.META_LABEL_EVALUATED StageOutcome.SKIPPED DecisionReasonCode.META_LABEL_NOT_CONFIGURED [] b, ()))"

definition manifest_evaluated :: "funnel_env \<Rightarrow> DecisionContext \<Rightarrow> unit stage" where
  "manifest_evaluated env ctx b =
     (if \<not> dx_manifest_eligible ctx
      then Inl (terminate env ctx FunnelStage.MANIFEST_EVALUATED
        (case dx_manifest_reason ctx of None \<Rightarrow> DecisionReasonCode.MANIFEST_NOT_ELIGIBLE | Some r \<Rightarrow> r) StageOutcome.REJECTED [] b)
      else Inr (passed env FunnelStage.MANIFEST_EVALUATED [] b, ()))"

definition walk_decision ::
    "funnel_env \<Rightarrow> DecisionContext \<Rightarrow> DecisionFunnelBuilder \<Rightarrow> DecisionOutcome res + DecisionFunnelBuilder \<times> TradeCandidate" where
  "walk_decision env ctx b =
     stepping (data_available env ctx b) (\<lambda>(b, bar).
     stepping (candle_closed env ctx bar b) (\<lambda>(b, _).
     stepping (data_fresh env ctx bar b) (\<lambda>(b, _).
     stepping (timeframes_aligned env ctx b) (\<lambda>(b, _).
     stepping (regime_evaluated env ctx b) (\<lambda>(b, atr14).
     stepping (entry_signal_evaluated env ctx b) (\<lambda>(b, side, confidence).
     stepping (candidate_created env ctx bar atr14 side confidence b) (\<lambda>(b, candidate).
     stepping (meta_label_evaluated env ctx candidate b) (\<lambda>(b, _).
     stepping (manifest_evaluated env ctx b) (\<lambda>(b, _). Inr (b, candidate))))))))))"

definition evaluate_symbol :: "funnel_env \<Rightarrow> DecisionContext \<Rightarrow> DecisionOutcome res" where
  "evaluate_symbol env ctx =
     (case walk_decision env ctx (passed env FunnelStage.CYCLE_STARTED [] (build_funnel_record (dx_cycle_id ctx) (dx_symbol ctx)
            (lane_value (dx_lane ctx)) (dx_strategy_id ctx) (dx_strategy_version ctx) None (fe_id env) (fe_clock env 0))) of
        Inl returned \<Rightarrow> returned
      | Inr (b, candidate) \<Rightarrow>
          outcome_of ctx FunnelStage.MANIFEST_EVALUATED DecisionReasonCode.CANDIDATE_READY (Some candidate) b)"

section \<open>The walk through the funnel\<close>

definition decision_stages :: "FunnelStage list" where
  "decision_stages = [FunnelStage.CYCLE_STARTED, FunnelStage.DATA_AVAILABLE, FunnelStage.CANDLE_CLOSED, FunnelStage.DATA_FRESH,
     FunnelStage.TIMEFRAMES_ALIGNED, FunnelStage.REGIME_EVALUATED, FunnelStage.ENTRY_SIGNAL_EVALUATED,
     FunnelStage.CANDIDATE_CREATED, FunnelStage.META_LABEL_EVALUATED, FunnelStage.MANIFEST_EVALUATED]"

definition at_stage :: "nat \<Rightarrow> DecisionFunnelBuilder \<Rightarrow> bool" where
  "at_stage k b \<longleftrightarrow> \<not> fb_built b \<and> map sr_stage (fb_stages b) = take k decision_stages"

text \<open>The outcome of a sealed funnel: the stages up to the terminal one, and no other candidate.\<close>

definition sealed :: "TradeCandidate option \<Rightarrow> DecisionOutcome \<Rightarrow> bool" where
  "sealed c r \<longleftrightarrow> (\<exists>k < length decision_stages. map sr_stage (fn_stages (do_funnel r)) = take (Suc k) decision_stages
       \<and> do_terminal_stage r = decision_stages ! k)
     \<and> fn_terminal_stage (do_funnel r) = do_terminal_stage r \<and> fn_reason_code (do_funnel r) = do_reason_code r
     \<and> do_candidate r = c"

definition walks :: "nat \<Rightarrow> DecisionOutcome res + DecisionFunnelBuilder \<times> 'a \<Rightarrow> bool" where
  "walks k m \<longleftrightarrow> (\<forall>r. m = Inl (Inr r) \<longrightarrow> sealed None r) \<and> (\<forall>b x. m = Inr (b, x) \<longrightarrow> at_stage k b)"

lemma walks_stepping:
  "\<lbrakk>walks k m; \<And>b x. at_stage k b \<Longrightarrow> walks n (f b x)\<rbrakk> \<Longrightarrow> walks n (stepping m (\<lambda>(b, x). f b x))"
  unfolding stepping_def by (cases m; fastforce simp: walks_def)

lemma walks_prod: "(\<And>a c. walks n (f a c)) \<Longrightarrow> walks n (case x of (a, c) \<Rightarrow> f a c)"
  by (cases x) simp

lemma at_stage_log:
  assumes "at_stage k b" "k < length decision_stages" "stage = decision_stages ! k"
  shows "at_stage (Suc k) (log_stage env stage oc rc ms b)"
  using assms by (simp add: at_stage_def log_stage_def record_stage_def Let_def take_Suc_conv_app_nth)

lemma at_stage_set [simp]:
  "at_stage k (set_decision_bar t b) = at_stage k b" "at_stage k (set_candidate i b) = at_stage k b"
  by (simp_all add: at_stage_def set_decision_bar_def set_candidate_def)

lemma outcome_sealed:
  assumes "at_stage (Suc k) b" "k < length decision_stages" "stage = decision_stages ! k"
  shows "\<exists>r. outcome_of ctx stage reason c b = Inr r \<and> sealed c r \<and> do_reason_code r = reason"
  using assms
  by (auto simp: outcome_of_def build_funnel_def at_stage_def sealed_def decision_stages_def)

lemma walks_ends:
  assumes "at_stage k b" "n = Suc k" "k < length decision_stages" "stage = decision_stages ! k"
  shows "walks n (Inl (terminate env ctx stage reason oc ms b))"
    and "walks n (Inr (passed env stage ms b, x))" and "walks n (Inr (log_stage env stage oc reason ms b, x))"
    and "walks n (Inr (set_decision_bar t (passed env stage ms b), x))"
    and "walks n (Inr (passed env stage ms (set_candidate i b), x))"
proof -
  note log = at_stage_log [OF assms(1,3,4)]
  obtain r where "terminate env ctx stage reason oc ms b = Inr r" "sealed None r"
    using outcome_sealed [OF log assms(3,4)] unfolding terminate_def by blast
  then show "walks n (Inl (terminate env ctx stage reason oc ms b))" by (auto simp: walks_def)
  have "at_stage (Suc k) (passed env stage ms (set_candidate i b))"
    unfolding passed_def using assms by (intro at_stage_log) simp_all
  then show "walks n (Inr (passed env stage ms b, x))" "walks n (Inr (log_stage env stage oc reason ms b, x))"
    "walks n (Inr (set_decision_bar t (passed env stage ms b), x))"
    "walks n (Inr (passed env stage ms (set_candidate i b), x))"
    using log assms(2) by (auto simp: walks_def passed_def)
qed

lemma walks_raise: "walks k (Inl (Inl e))"
  by (simp add: walks_def)

lemma stages_walk:
  "at_stage 1 b \<Longrightarrow> walks 2 (data_available env ctx b)"
  "at_stage 2 b \<Longrightarrow> walks 3 (candle_closed env ctx bar b)"
  "at_stage 3 b \<Longrightarrow> walks 4 (data_fresh env ctx bar b)"
  "at_stage 4 b \<Longrightarrow> walks 5 (timeframes_aligned env ctx b)"
  "at_stage 5 b \<Longrightarrow> walks 6 (regime_evaluated env ctx b)"
  "at_stage 6 b \<Longrightarrow> walks 7 (entry_signal_evaluated env ctx b)"
  "at_stage 7 b \<Longrightarrow> walks 8 (candidate_created env ctx bar a side conf b)"
  "at_stage 8 b \<Longrightarrow> walks 9 (meta_label_evaluated env ctx c b)"
  "at_stage 9 b \<Longrightarrow> walks 10 (manifest_evaluated env ctx b)"
  unfolding data_available_def candle_closed_def data_fresh_def timeframes_aligned_def regime_evaluated_def
      entry_signal_evaluated_def candidate_created_def meta_label_evaluated_def manifest_evaluated_def Let_def
  by (auto intro: walks_ends walks_raise simp: decision_stages_def split: option.split sum.split)

lemma walk_decision_walks:
  assumes "at_stage 1 b"
  shows "walks 10 (walk_decision env ctx b)"
proof -
  have "walks 10 (Inr (b, c))" if "at_stage 10 b" for b and c :: TradeCandidate using that by (simp add: walks_def)
  with assms show ?thesis unfolding walk_decision_def
    by (intro stages_walk [THEN walks_stepping] walks_prod; blast?)
qed

lemma sealed_stages:
  assumes "sealed c r"
  shows "prefix (map sr_stage (fn_stages (do_funnel r))) decision_stages
    \<and> last (map sr_stage (fn_stages (do_funnel r))) = do_terminal_stage r \<and> fn_stages (do_funnel r) \<noteq> []"
proof -
  obtain k where k: "k < length decision_stages" "map sr_stage (fn_stages (do_funnel r)) = take (Suc k) decision_stages"
    "do_terminal_stage r = decision_stages ! k" using assms by (auto simp: sealed_def)
  then have "last (take (Suc k) decision_stages) = decision_stages ! k" by (simp add: take_Suc_conv_app_nth)
  moreover have "fn_stages (do_funnel r) \<noteq> []" using k(1,2) by (cases "fn_stages (do_funnel r)") (auto simp: decision_stages_def)
  ultimately show ?thesis using k by (simp add: take_is_prefix)
qed

definition started :: "funnel_env \<Rightarrow> DecisionContext \<Rightarrow> DecisionFunnelBuilder" where
  "started env ctx = passed env FunnelStage.CYCLE_STARTED [] (build_funnel_record (dx_cycle_id ctx) (dx_symbol ctx)
     (lane_value (dx_lane ctx)) (dx_strategy_id ctx) (dx_strategy_version ctx) None (fe_id env) (fe_clock env 0))"

lemma at_stage_started: "at_stage 1 (started env ctx)"
proof -
  have "at_stage 0 (build_funnel_record (dx_cycle_id ctx) (dx_symbol ctx) (lane_value (dx_lane ctx)) (dx_strategy_id ctx)
      (dx_strategy_version ctx) None (fe_id env) (fe_clock env 0))"
    by (simp add: at_stage_def build_funnel_record_def)
  then show ?thesis unfolding started_def passed_def using at_stage_log [of 0] by (simp add: decision_stages_def)
qed

lemma evaluate_symbol_cases:
  assumes "evaluate_symbol env ctx = Inr r"
  shows "walk_decision env ctx (started env ctx) = Inl (Inr r) \<and> sealed None r
    \<or> (\<exists>b c. walk_decision env ctx (started env ctx) = Inr (b, c) \<and> sealed (Some c) r
        \<and> do_reason_code r = DecisionReasonCode.CANDIDATE_READY \<and> map sr_stage (fn_stages (do_funnel r)) = decision_stages)"
proof -
  note walk = walk_decision_walks [OF at_stage_started, of env ctx env ctx]
  show ?thesis
  proof (cases "walk_decision env ctx (started env ctx)")
    case (Inl y)
    then show ?thesis using assms walk by (simp add: evaluate_symbol_def walks_def started_def)
  next
    case (Inr y)
    then obtain b c where y: "walk_decision env ctx (started env ctx) = Inr (b, c)" by (cases y) auto
    then have b: "at_stage 10 b" using walk by (simp add: walks_def)
    have out: "outcome_of ctx FunnelStage.MANIFEST_EVALUATED DecisionReasonCode.CANDIDATE_READY (Some c) b = Inr r"
      using assms y by (simp add: evaluate_symbol_def started_def)
    with outcome_sealed [of 9 b FunnelStage.MANIFEST_EVALUATED ctx DecisionReasonCode.CANDIDATE_READY "Some c"] b
    have "sealed (Some c) r" "do_reason_code r = DecisionReasonCode.CANDIDATE_READY" by (auto simp: decision_stages_def)
    moreover have "map sr_stage (fn_stages (do_funnel r)) = decision_stages"
      using out b by (auto simp: outcome_of_def build_funnel_def at_stage_def decision_stages_def)
    ultimately show ?thesis using y by blast
  qed
qed

lemma evaluate_symbol_candidate:
  assumes "walk_decision env ctx (started env ctx) = Inr (b, c)"
  shows "\<exists>r. evaluate_symbol env ctx = Inr r \<and> do_candidate r = Some c"
proof -
  have "at_stage 10 b" using walk_decision_walks [OF at_stage_started, of env ctx env ctx] assms by (simp add: walks_def)
  with outcome_sealed [of 9 b FunnelStage.MANIFEST_EVALUATED ctx DecisionReasonCode.CANDIDATE_READY "Some c"] assms
  show ?thesis by (auto simp: evaluate_symbol_def started_def decision_stages_def sealed_def)
qed

text \<open>
  C10.  Every evaluation that returns is one walk through the funnel: the recorded stages are those of the
  decision in order, without a gap and without a repetition, up to the terminal stage; the funnel
  carries the same terminal stage and reason as the outcome; and a candidate is only ever returned
  after all stages, as ready.
\<close>

theorem decision_walks_funnel:
  assumes "evaluate_symbol env ctx = Inr r"
  shows "prefix (map sr_stage (fn_stages (do_funnel r))) decision_stages
    \<and> last (map sr_stage (fn_stages (do_funnel r))) = do_terminal_stage r \<and> fn_stages (do_funnel r) \<noteq> []
    \<and> fn_terminal_stage (do_funnel r) = do_terminal_stage r \<and> fn_reason_code (do_funnel r) = do_reason_code r
    \<and> (has_candidate r \<longrightarrow> map sr_stage (fn_stages (do_funnel r)) = decision_stages
        \<and> do_reason_code r = DecisionReasonCode.CANDIDATE_READY)"
  using evaluate_symbol_cases [OF assms]
proof (elim disjE exE conjE)
  assume "sealed None r"
  then show ?thesis using sealed_stages [of None r] by (auto simp: sealed_def has_candidate_def)
next
  fix b c assume "sealed (Some c) r" "do_reason_code r = DecisionReasonCode.CANDIDATE_READY"
    "map sr_stage (fn_stages (do_funnel r)) = decision_stages"
  then show ?thesis using sealed_stages [of "Some c" r] by (auto simp: sealed_def)
qed

section \<open>What a candidate means\<close>

text \<open>The rules of the sampling lane, read off the indicators.\<close>

definition sampling_rule :: "CandidateSide \<Rightarrow> TimeframeView \<Rightarrow> bool" where
  "sampling_rule side tf \<longleftrightarrow> tf_bars tf \<noteq> [] \<and> (\<exists>e h r a. ema (closes (tf_bars tf)) 50 = Some e
     \<and> macd_histogram (closes (tf_bars tf)) 12 26 9 = Some h \<and> rsi (closes (tf_bars tf)) 14 = Some r
     \<and> atr (tf_bars tf) 14 = Some a \<and> 0 < a
     \<and> (case side of
          CandidateSide.LONG \<Rightarrow> bar_close (last (tf_bars tf)) > e \<and> h > 0 \<and> 50 \<le> r \<and> r \<le> 72
        | CandidateSide.SHORT \<Rightarrow> bar_close (last (tf_bars tf)) < e \<and> h < 0 \<and> 28 \<le> r \<and> r \<le> 50))"

lemma signal_exact: "se_side (evaluate_sampling_signal tf) = Some side \<longleftrightarrow> sampling_rule side tf"
  by (cases side)
    (auto simp: evaluate_sampling_signal_def sampling_rule_def last_closed_def no_signal_def Let_def split: option.splits)

lemma signal_confidence: "se_side (evaluate_sampling_signal tf) = Some side \<Longrightarrow> se_confidence (evaluate_sampling_signal tf) = sampling_confidence"
  by (auto simp: evaluate_sampling_signal_def no_signal_def Let_def split: option.splits if_splits)

definition strictly_aligned :: "DecisionContext \<Rightarrow> CandidateSide \<Rightarrow> bool" where
  "strictly_aligned ctx side \<longleftrightarrow> (\<exists>d s. dx_direction_timeframe ctx = Some d \<and> dx_state_timeframe ctx = Some s
     \<and> sampling_trend_aligned side d \<and> sampling_trend_aligned side s)
     \<and> (\<forall>offset\<in>{1..nat (dx_sampling_confirmation_bars ctx)}. sampling_rule side ((dx_entry_timeframe ctx)\<lparr>tf_bars :=
          take (length (tf_bars (dx_entry_timeframe ctx)) - offset) (tf_bars (dx_entry_timeframe ctx))\<rparr>))"

definition ready :: "DecisionContext \<Rightarrow> CandidateSide \<Rightarrow> TradeCandidate \<Rightarrow> bool" where
  "ready ctx side c \<longleftrightarrow>
     (let entry = dx_entry_timeframe ctx; bar = last (tf_bars entry) in
     sampling_rule side entry \<and> bar_timestamp bar \<notin> dx_already_evaluated_bars ctx
   \<and> dx_now ctx - bar_timestamp bar \<le> dx_data_stale_after_seconds ctx * 10 ^ 6
   \<and> (\<forall>d. dx_direction_timeframe ctx = Some d \<longrightarrow> tf_bars d \<noteq> [])
   \<and> (dx_strict_sampling_alignment ctx \<longrightarrow> strictly_aligned ctx side)
   \<and> TradeCandidate_post_init (lane_value (dx_lane ctx)) (decided_candidate ctx bar (the (atr (tf_bars entry) 14)) side (sampling_confidence)) = Inr c
   \<and> (\<forall>predictor rate. dx_meta_label_predictor ctx = Some predictor \<longrightarrow> dx_meta_label_min_win_rate ctx = Some rate \<longrightarrow> rate \<le> predictor c)
   \<and> dx_manifest_eligible ctx)"

lemma stepping_Inr: "stepping m f = Inr y \<longleftrightarrow> (\<exists>x. m = Inr x \<and> f x = Inr y)"
  by (auto simp: stepping_def split: sum.splits)

lemma failed_confirmation_None:
  "failed_confirmation ctx side = None \<longleftrightarrow> (\<forall>offset\<in>{1..nat (dx_sampling_confirmation_bars ctx)}.
     sampling_rule side ((dx_entry_timeframe ctx)\<lparr>tf_bars :=
       take (length (tf_bars (dx_entry_timeframe ctx)) - offset) (tf_bars (dx_entry_timeframe ctx))\<rparr>))"
proof -
  have "set [1..<nat (max (dx_sampling_confirmation_bars ctx) 0) + 1] = {1..nat (dx_sampling_confirmation_bars ctx)}" by auto
  then show ?thesis unfolding failed_confirmation_def Let_def find_None_iff signal_exact by auto
qed

lemma data_available_Inr:
  "(\<exists>b'. data_available env ctx b = Inr (b', bar)) \<longleftrightarrow> tf_bars (dx_entry_timeframe ctx) \<noteq> [] \<and> bar = last (tf_bars (dx_entry_timeframe ctx))"
  by (auto simp: data_available_def Let_def)

lemma entry_signal_Inr:
  "(\<exists>b'. entry_signal_evaluated env ctx b = Inr (b', (side, conf))) \<longleftrightarrow> sampling_rule side (dx_entry_timeframe ctx) \<and> conf = sampling_confidence
     \<and> (dx_strict_sampling_alignment ctx \<longrightarrow> sampling_trend_aligned side (the (dx_direction_timeframe ctx))
        \<and> sampling_trend_aligned side (the (dx_state_timeframe ctx)) \<and> failed_confirmation ctx side = None)"
  unfolding entry_signal_evaluated_def Let_def signal_exact [symmetric]
  by (auto dest: signal_confidence split: option.splits if_splits)

lemma stage_conditions:
  "(\<exists>b'. candle_closed env ctx bar b = Inr (b', u)) \<longleftrightarrow> bar_timestamp bar \<notin> dx_already_evaluated_bars ctx"
  "(\<exists>b'. data_fresh env ctx bar b = Inr (b', u)) \<longleftrightarrow> dx_now ctx - bar_timestamp bar \<le> dx_data_stale_after_seconds ctx * 10 ^ 6"
  "(\<exists>b'. timeframes_aligned env ctx b = Inr (b', u)) \<longleftrightarrow> (\<forall>d. dx_direction_timeframe ctx = Some d \<longrightarrow> tf_bars d \<noteq> [])
     \<and> (dx_strict_sampling_alignment ctx \<longrightarrow> dx_direction_timeframe ctx \<noteq> None \<and> dx_state_timeframe ctx \<noteq> None)"
  "(\<exists>b'. regime_evaluated env ctx b = Inr (b', a)) \<longleftrightarrow> atr (tf_bars (dx_entry_timeframe ctx)) 14 = Some a \<and> 0 < a"
  "(\<exists>b'. candidate_created env ctx bar a side conf b = Inr (b', c)) \<longleftrightarrow>
     TradeCandidate_post_init (lane_value (dx_lane ctx)) (decided_candidate ctx bar a side conf) = Inr c"
  "(\<exists>b'. meta_label_evaluated env ctx c b = Inr (b', u)) \<longleftrightarrow> (\<forall>predictor rate. dx_meta_label_predictor ctx = Some predictor
     \<longrightarrow> dx_meta_label_min_win_rate ctx = Some rate \<longrightarrow> rate \<le> predictor c)"
  "(\<exists>b'. manifest_evaluated env ctx b = Inr (b', u)) \<longleftrightarrow> dx_manifest_eligible ctx"
  by (auto simp: candle_closed_def data_fresh_def timeframes_aligned_def regime_evaluated_def candidate_created_def
      meta_label_evaluated_def manifest_evaluated_def last_closed_def Let_def split: option.splits sum.splits if_splits)

lemma stepping_iff:
  assumes "\<And>b x. (\<exists>b'. f b x = Inr (b', c)) \<longleftrightarrow> P x"
  shows "(\<exists>b'. stepping m (\<lambda>(b, x). f b x) = Inr (b', c)) \<longleftrightarrow> (\<exists>x. (\<exists>b1. m = Inr (b1, x)) \<and> P x)"
  using assms by (auto simp: stepping_Inr)

lemma walk_exact: "(\<exists>b'. walk_decision env ctx b = Inr (b', c)) \<longleftrightarrow> (\<exists>side. ready ctx side c)"
proof -
  let ?manifest = "\<lambda>b cand. stepping (manifest_evaluated env ctx b) (\<lambda>(b, _). Inr (b, cand))"
  let ?meta = "\<lambda>b cand. stepping (meta_label_evaluated env ctx cand b) (\<lambda>(b, _). ?manifest b cand)"
  let ?create = "\<lambda>b bar a side conf. stepping (candidate_created env ctx bar a side conf b) (\<lambda>(b, cand). ?meta b cand)"
  let ?signal = "\<lambda>b bar a. stepping (entry_signal_evaluated env ctx b) (\<lambda>(b, side, conf). ?create b bar a side conf)"
  let ?regime = "\<lambda>b bar. stepping (regime_evaluated env ctx b) (\<lambda>(b, a). ?signal b bar a)"
  let ?frames = "\<lambda>b bar. stepping (timeframes_aligned env ctx b) (\<lambda>(b, _). ?regime b bar)"
  let ?fresh = "\<lambda>b bar. stepping (data_fresh env ctx bar b) (\<lambda>(b, _). ?frames b bar)"
  let ?closed = "\<lambda>b bar. stepping (candle_closed env ctx bar b) (\<lambda>(b, _). ?fresh b bar)"
  let ?accepts = "\<lambda>cand. (\<forall>predictor rate. dx_meta_label_predictor ctx = Some predictor
     \<longrightarrow> dx_meta_label_min_win_rate ctx = Some rate \<longrightarrow> rate \<le> predictor cand) \<and> dx_manifest_eligible ctx \<and> cand = c"
  have manifest: "(\<exists>b'. ?manifest b cand = Inr (b', c)) \<longleftrightarrow> dx_manifest_eligible ctx \<and> cand = c" for b cand
    by (subst stepping_iff [where P = "\<lambda>_. cand = c"]) (auto simp: stage_conditions)
  have meta: "(\<exists>b'. ?meta b cand = Inr (b', c)) \<longleftrightarrow> ?accepts cand" for b cand
    by (subst stepping_iff [OF manifest]) (auto simp: stage_conditions)
  have create: "(\<exists>b'. ?create b bar a side conf = Inr (b', c)) \<longleftrightarrow>
      TradeCandidate_post_init (lane_value (dx_lane ctx)) (decided_candidate ctx bar a side conf) = Inr c \<and> ?accepts c" for b bar a side conf
    by (subst stepping_iff [OF meta]) (auto simp: stage_conditions)
  have signal: "(\<exists>b'. ?signal b bar a = Inr (b', c)) \<longleftrightarrow> (\<exists>side. sampling_rule side (dx_entry_timeframe ctx)
     \<and> (dx_strict_sampling_alignment ctx \<longrightarrow> sampling_trend_aligned side (the (dx_direction_timeframe ctx))
        \<and> sampling_trend_aligned side (the (dx_state_timeframe ctx)) \<and> failed_confirmation ctx side = None)
     \<and> TradeCandidate_post_init (lane_value (dx_lane ctx)) (decided_candidate ctx bar a side (sampling_confidence)) = Inr c \<and> ?accepts c)" for b bar a
    by (subst stepping_iff [where P = "\<lambda>(side, conf). TradeCandidate_post_init (lane_value (dx_lane ctx))
          (decided_candidate ctx bar a side conf) = Inr c \<and> ?accepts c"])
      (auto simp: create entry_signal_Inr split: prod.splits)
  note regime = stepping_iff [OF signal, where m = "regime_evaluated env ctx b" for b, unfolded stage_conditions]
  note frames = stepping_iff [OF regime, where m = "timeframes_aligned env ctx b" for b, unfolded stage_conditions]
  note fresh = stepping_iff [OF frames, where m = "data_fresh env ctx bar b" for b bar, unfolded stage_conditions]
  note closed = stepping_iff [OF fresh, where m = "candle_closed env ctx bar b" for b bar, unfolded stage_conditions]
  have strict: "(dx_strict_sampling_alignment ctx \<longrightarrow> strictly_aligned ctx side) \<longleftrightarrow>
      (dx_strict_sampling_alignment ctx \<longrightarrow> dx_direction_timeframe ctx \<noteq> None \<and> dx_state_timeframe ctx \<noteq> None)
      \<and> (dx_strict_sampling_alignment ctx \<longrightarrow> sampling_trend_aligned side (the (dx_direction_timeframe ctx))
        \<and> sampling_trend_aligned side (the (dx_state_timeframe ctx)) \<and> failed_confirmation ctx side = None)" for side
    unfolding strictly_aligned_def failed_confirmation_None by auto
  have pos: "sampling_rule side tf \<Longrightarrow> \<exists>a. atr (tf_bars tf) 14 = Some a \<and> 0 < a" "sampling_rule side tf \<Longrightarrow> tf_bars tf \<noteq> []" for side tf
    by (auto simp: sampling_rule_def)
  note all = stepping_iff [OF closed, where m = "data_available env ctx b", unfolded data_available_Inr]
  show ?thesis unfolding walk_decision_def all ready_def Let_def strict
    using pos by fastforce
qed

text \<open>
  C9.  A candidate is returned exactly when every rule of the lane holds: the last closed bar is new and
  fresh, the indicators are on one side, with strict alignment both higher timeframes and the
  required earlier windows agree, the candidate passes its own checks, the predictor does not fall
  short of its floor and the manifest allows it; and the candidate is the one these inputs
  determine.
\<close>

theorem candidate_exactly_when_ready:
  "(\<exists>r. evaluate_symbol env ctx = Inr r \<and> do_candidate r = Some c) \<longleftrightarrow> (\<exists>side. ready ctx side c)"
proof
  assume "\<exists>r. evaluate_symbol env ctx = Inr r \<and> do_candidate r = Some c"
  then obtain r where "evaluate_symbol env ctx = Inr r" "do_candidate r = Some c" by blast
  then have "\<exists>b. walk_decision env ctx (started env ctx) = Inr (b, c)"
    using evaluate_symbol_cases [of env ctx r] by (auto simp: sealed_def)
  then show "\<exists>side. ready ctx side c" unfolding walk_exact .
next
  assume "\<exists>side. ready ctx side c"
  then obtain b where "walk_decision env ctx (started env ctx) = Inr (b, c)" using walk_exact by metis
  then show "\<exists>r. evaluate_symbol env ctx = Inr r \<and> do_candidate r = Some c" by (rule evaluate_symbol_candidate)
qed


section \<open>Evaluations that raise\<close>

lemma terminate_returns:
  assumes "at_stage k b" "k < length decision_stages" "stage = decision_stages ! k"
  shows "terminate env ctx stage reason oc ms b \<noteq> Inl e"
  using outcome_sealed [OF at_stage_log [OF assms] assms(2,3)] unfolding terminate_def by (metis sum.distinct(1))

lemma stages_quiet:
  "at_stage 1 b \<Longrightarrow> data_available env ctx b \<noteq> Inl (Inl e)"
  "at_stage 2 b \<Longrightarrow> candle_closed env ctx bar b \<noteq> Inl (Inl e)"
  "at_stage 3 b \<Longrightarrow> data_fresh env ctx bar b \<noteq> Inl (Inl e)"
  "at_stage 4 b \<Longrightarrow> timeframes_aligned env ctx b \<noteq> Inl (Inl e)"
  "at_stage 5 b \<Longrightarrow> regime_evaluated env ctx b \<noteq> Inl (Inl e)"
  "at_stage 6 b \<Longrightarrow> entry_signal_evaluated env ctx b \<noteq> Inl (Inl e)"
  "at_stage 8 b \<Longrightarrow> meta_label_evaluated env ctx c b \<noteq> Inl (Inl e)"
  "at_stage 9 b \<Longrightarrow> manifest_evaluated env ctx b \<noteq> Inl (Inl e)"
  unfolding data_available_def candle_closed_def data_fresh_def timeframes_aligned_def regime_evaluated_def
      entry_signal_evaluated_def meta_label_evaluated_def manifest_evaluated_def Let_def
  using terminate_returns [of 1 b FunnelStage.DATA_AVAILABLE] terminate_returns [of 2 b FunnelStage.CANDLE_CLOSED]
    terminate_returns [of 3 b FunnelStage.DATA_FRESH] terminate_returns [of 4 b FunnelStage.TIMEFRAMES_ALIGNED]
    terminate_returns [of 5 b FunnelStage.REGIME_EVALUATED] terminate_returns [of 6 b FunnelStage.ENTRY_SIGNAL_EVALUATED]
    terminate_returns [of 8 b FunnelStage.META_LABEL_EVALUATED] terminate_returns [of 9 b FunnelStage.MANIFEST_EVALUATED]
  by (simp_all add: decision_stages_def split: option.split)

lemma quiet_stepping:
  assumes "walks k m" "m \<noteq> Inl (Inl e)" "\<And>b x. m = Inr (b, x) \<Longrightarrow> at_stage k b \<Longrightarrow> f b x \<noteq> Inl (Inl e)"
  shows "stepping m (\<lambda>(b, x). f b x) \<noteq> Inl (Inl e)"
  using assms by (auto simp: stepping_def walks_def split: sum.splits)

lemma sampling_stop_distance_pos: "0 < a \<Longrightarrow> 0 < sampling_stop_distance a p"
  by (simp add: sampling_stop_distance_def less_max_iff_disj dmul_pos)

lemma decided_candidate_accepted:
  assumes "dx_lane ctx \<noteq> CandidateLane.SHADOW" "0 < dx_max_entry_drift_bps ctx" "0 < bar_close bar" "0 < a"
    and "bar_timestamp bar < dx_now ctx + dx_candidate_ttl_seconds ctx * 10 ^ 6"
  shows "\<exists>c. TradeCandidate_post_init (lane_value (dx_lane ctx)) (decided_candidate ctx bar a side sampling_confidence) = Inr c"
  using assms sampling_stop_distance_pos [of a "bar_close bar"]
    dmul_pos [of "15 / 10" "sampling_stop_distance a (bar_close bar)"]
  by (cases "dx_lane ctx"; cases side)
    (simp_all add: TradeCandidate_post_init_def decided_candidate_def guardR_def Let_def candidate_type_for_lane_def
      sampling_confidence_def not_le)

lemma walk_quiet:
  assumes b0: "at_stage 1 b0"
    and accepted: "\<And>bar a side. bar \<in> set (tf_bars (dx_entry_timeframe ctx)) \<Longrightarrow> 0 < a \<Longrightarrow>
      \<exists>c. TradeCandidate_post_init (lane_value (dx_lane ctx)) (decided_candidate ctx bar a side sampling_confidence) = Inr c"
  shows "walk_decision env ctx b0 \<noteq> Inl (Inl e)"
  unfolding walk_decision_def
proof (rule quiet_stepping [OF stages_walk(1) stages_quiet(1), OF b0 b0])
  fix b1 bar assume "data_available env ctx b0 = Inr (b1, bar)" and b1: "at_stage 2 b1"
  then have bar: "bar \<in> set (tf_bars (dx_entry_timeframe ctx))" using data_available_Inr [of env ctx b0 bar] by auto
  have created: "candidate_created env ctx bar a side conf b \<noteq> Inl (Inl e)" if "0 < a" "conf = sampling_confidence" for a side conf b
    using accepted [OF bar that(1), of side] that(2) by (auto simp: candidate_created_def)
  show "stepping (candle_closed env ctx bar b1) (\<lambda>(b, _). stepping (data_fresh env ctx bar b) (\<lambda>(b, _).
      stepping (timeframes_aligned env ctx b) (\<lambda>(b, _). stepping (regime_evaluated env ctx b) (\<lambda>(b, a).
      stepping (entry_signal_evaluated env ctx b) (\<lambda>(b, side, conf). stepping (candidate_created env ctx bar a side conf b)
      (\<lambda>(b, cand). stepping (meta_label_evaluated env ctx cand b) (\<lambda>(b, _). stepping (manifest_evaluated env ctx b)
      (\<lambda>(b, _). Inr (b, cand))))))))) \<noteq> Inl (Inl e)"
  proof (rule quiet_stepping [OF stages_walk(2) stages_quiet(2), OF b1 b1],
      rule quiet_stepping [OF stages_walk(3) stages_quiet(3)], assumption, assumption,
      rule quiet_stepping [OF stages_walk(4) stages_quiet(4)], assumption, assumption,
      rule quiet_stepping [OF stages_walk(5) stages_quiet(5)], assumption, assumption,
      rule quiet_stepping [OF stages_walk(6) stages_quiet(6)], assumption, assumption)
    fix b4 a b5 b6 and x :: "CandidateSide \<times> dec"
    assume "regime_evaluated env ctx b4 = Inr (b5, a)" "entry_signal_evaluated env ctx b5 = Inr (b6, x)" and b6: "at_stage 7 b6"
    then have x: "0 < a" "snd x = sampling_confidence"
      using stage_conditions(4) [of env ctx b4 a] entry_signal_Inr [of env ctx b5 "fst x" "snd x"] by auto
    have "stepping (candidate_created env ctx bar a (fst x) (snd x) b6)
        (\<lambda>(b, cand). stepping (meta_label_evaluated env ctx cand b) (\<lambda>(b, _). stepping (manifest_evaluated env ctx b)
        (\<lambda>(b, _). Inr (b, cand)))) \<noteq> Inl (Inl e)"
      by (rule quiet_stepping [OF stages_walk(7), OF b6], rule created [OF x],
        rule quiet_stepping [OF stages_walk(8) stages_quiet(7)], assumption, assumption,
        rule quiet_stepping [OF stages_walk(9) stages_quiet(8)], assumption, assumption, simp)
    then show "(case x of (side, conf) \<Rightarrow> stepping (candidate_created env ctx bar a side conf b6)
        (\<lambda>(b, cand). stepping (meta_label_evaluated env ctx cand b) (\<lambda>(b, _). stepping (manifest_evaluated env ctx b)
        (\<lambda>(b, _). Inr (b, cand))))) \<noteq> Inl (Inl e)"
      by (cases x) simp
  qed
qed

text \<open>
  C11.  Silence is never allowed: outside the shadow lane, with a positive drift tolerance, positive
  prices and a lifetime that reaches past the bar, the evaluation of a bar always returns an outcome.
\<close>

theorem decision_always_concludes:
  assumes "dx_lane ctx \<noteq> CandidateLane.SHADOW" "0 < dx_max_entry_drift_bps ctx"
    and "\<forall>bar\<in>set (tf_bars (dx_entry_timeframe ctx)). 0 < bar_close bar
      \<and> bar_timestamp bar < dx_now ctx + dx_candidate_ttl_seconds ctx * 10 ^ 6"
  shows "\<exists>r. evaluate_symbol env ctx = Inr r"
proof (cases "walk_decision env ctx (started env ctx)")
  case (Inl y)
  have "walk_decision env ctx (started env ctx) \<noteq> Inl (Inl e)" for e
  proof (rule walk_quiet [OF at_stage_started])
    fix bar side and a :: dec assume "bar \<in> set (tf_bars (dx_entry_timeframe ctx))" "0 < a"
    with assms show "\<exists>c. TradeCandidate_post_init (lane_value (dx_lane ctx))
        (decided_candidate ctx bar a side sampling_confidence) = Inr c"
      by (intro decided_candidate_accepted) auto
  qed
  then show ?thesis using Inl by (cases y) (auto simp: evaluate_symbol_def started_def)
next
  case (Inr y)
  then show ?thesis using evaluate_symbol_candidate [of env ctx "fst y" "snd y"] by auto
qed


section \<open>Witnesses\<close>

text \<open>Three bars of five minutes around a price of one hundred: fresh, and too few for the average range.\<close>

definition demo_bar :: "nat \<Rightarrow> BarView" where
  "demo_bar i = \<lparr>bar_timestamp = 300 * 10 ^ 6 * int i, bar_open = 100, bar_high = 101, bar_low = 99, bar_close = 100, bar_volume = 5\<rparr>"

definition demo_decision :: DecisionContext where
  "demo_decision = \<lparr>dx_cycle_id = ''cycle'', dx_symbol = ''BTCUSDT'', dx_lane = CandidateLane.TESTNET_SAMPLING,
     dx_strategy_id = ''sampling'', dx_strategy_version = ''1'', dx_entry_timeframe = \<lparr>tf_timeframe = ''5m'', tf_bars = map demo_bar [0..<3]\<rparr>,
     dx_direction_timeframe = None, dx_state_timeframe = None, dx_strict_sampling_alignment = False,
     dx_sampling_confirmation_bars = 0, dx_now = 660 * 10 ^ 6, dx_data_stale_after_seconds = 900, dx_already_evaluated_bars = {},
     dx_max_entry_drift_bps = 25, dx_candidate_ttl_seconds = 120, dx_meta_label_min_win_rate = None, dx_meta_label_predictor = None,
     dx_manifest_eligible = True, dx_manifest_reason = None, dx_candidate_id = ''candidate''\<rparr>"

definition demo_env :: funnel_env where
  "demo_env = \<lparr>fe_text = (\<lambda>_. []), fe_clock = int, fe_id = ''funnel''\<rparr>"

lemma demo_returns: "evaluate_symbol demo_env demo_decision = Inr (projr (evaluate_symbol demo_env demo_decision))"
proof -
  have "\<not> isl (evaluate_symbol demo_env demo_decision)" by code_simp
  then show ?thesis by (metis sum.collapse(2))
qed

theorem decision_walks_funnel_witness:
  "do_terminal_stage (projr (evaluate_symbol demo_env demo_decision)) = FunnelStage.REGIME_EVALUATED
    \<and> prefix (map sr_stage (fn_stages (do_funnel (projr (evaluate_symbol demo_env demo_decision))))) decision_stages
    \<and> length (fn_stages (do_funnel (projr (evaluate_symbol demo_env demo_decision)))) = 6"
proof -
  have "do_terminal_stage (projr (evaluate_symbol demo_env demo_decision)) = FunnelStage.REGIME_EVALUATED"
    "length (fn_stages (do_funnel (projr (evaluate_symbol demo_env demo_decision)))) = 6" by code_simp+
  then show ?thesis using decision_walks_funnel [OF demo_returns] by blast
qed

theorem decision_always_concludes_witness:
  "(\<exists>r. evaluate_symbol demo_env demo_decision = Inr r) \<and> length (tf_bars (dx_entry_timeframe demo_decision)) = 3"
proof -
  have "dx_lane demo_decision \<noteq> CandidateLane.SHADOW" "0 < dx_max_entry_drift_bps demo_decision"
    by (simp_all add: demo_decision_def)
  moreover have "\<forall>bar\<in>set (tf_bars (dx_entry_timeframe demo_decision)). 0 < bar_close bar
      \<and> bar_timestamp bar < dx_now demo_decision + dx_candidate_ttl_seconds demo_decision * 10 ^ 6"
    by (simp add: demo_decision_def demo_bar_def)
  ultimately show ?thesis using decision_always_concludes [of demo_decision demo_env] by (simp add: demo_decision_def)
qed

end
