(* ===== verification/Lane_Controls.thy ===== *)
theory Lane_Controls
  imports Py_Decimal
begin

text \<open>
  The controls of the sampling lane: the cost gate (\<open>application/risk_controls.py\<close>) and the throttle
  that caps the entries of a day and spaces the entries of a symbol
  (\<open>application/sampling_service.py\<close>).  Times are microseconds since the epoch, in UTC.
\<close>

section \<open>The cost gate\<close>

definition R2_MIN_THEORETICAL_NET_PAYOFF :: dec where
  "R2_MIN_THEORETICAL_NET_PAYOFF = 115 / 100"

definition resolve_effective_funding_bps :: "dec \<Rightarrow> string \<Rightarrow> dec res" where
  "resolve_effective_funding_bps raw_funding_bps side =
     guardR (side \<notin> {''LONG'', ''SHORT''}) (ValueError ''side must be LONG or SHORT'')
       (Inr (if side = ''LONG'' then raw_funding_bps else dneg raw_funding_bps))"

record CostGateResult =
  cg_cost_r :: dec
  cg_theoretical_net_payoff :: dec
  cg_planned_target_r :: dec
  cg_commission_r :: dec
  cg_funding_r :: dec
  cg_slippage_r :: dec
  cg_passed :: bool
  cg_reason :: string

text \<open>Basis points of the notional in units of the risk.\<close>

definition in_r :: "dec \<Rightarrow> dec \<Rightarrow> dec \<Rightarrow> dec" where
  "in_r bps entry_price stop_distance = ddiv (dmul (ddiv bps 10000) entry_price) stop_distance"

definition calculate_cost_gate ::
    "dec \<Rightarrow> dec \<Rightarrow> dec option \<Rightarrow> dec \<Rightarrow> dec option \<Rightarrow> dec option \<Rightarrow> dec \<Rightarrow> dec \<Rightarrow> CostGateResult res" where
  "calculate_cost_gate entry_price stop_distance take_profit_distance commission_bps effective_funding_bps funding_bps
      slippage_bps minimum_net_payoff =
     guardR (entry_price \<le> 0 \<or> stop_distance \<le> 0) (ValueError ''entry_price and stop_distance must be positive'')
     (guardR (effective_funding_bps \<noteq> None \<and> funding_bps \<noteq> None) (ValueError ''provide only effective_funding_bps or funding_bps'')
     (let effective_funding = (case effective_funding_bps of Some f \<Rightarrow> f | None \<Rightarrow> (case funding_bps of Some f \<Rightarrow> f | None \<Rightarrow> 0));
          planned_target_r = (case take_profit_distance of None \<Rightarrow> 0 | Some t \<Rightarrow> ddiv t stop_distance);
          commission_r = in_r commission_bps entry_price stop_distance;
          funding_r = in_r effective_funding entry_price stop_distance;
          slippage_r = in_r slippage_bps entry_price stop_distance;
          cost_r = dadd (dadd commission_r funding_r) slippage_r
      in bindR (ddivR (dsub planned_target_r cost_r) (dadd 1 cost_r)) (\<lambda>theoretical_net_payoff.
         let passed = (theoretical_net_payoff \<ge> minimum_net_payoff) in Inr
         \<lparr>cg_cost_r = cost_r, cg_theoretical_net_payoff = theoretical_net_payoff, cg_planned_target_r = planned_target_r,
          cg_commission_r = commission_r, cg_funding_r = funding_r, cg_slippage_r = slippage_r, cg_passed = passed,
          cg_reason = (if passed then ''OK'' else ''NO_TRADE_COST_INEFFICIENT'')\<rparr>)))"

section \<open>The throttle\<close>

record SamplingState =
  ss_daily_symbol_counts :: "string \<rightharpoonup> int"
  ss_last_entry_at :: "string \<rightharpoonup> int"
  ss_last_reset_date :: "int option"
  ss_daily_total_count :: int

definition new_sampling_state :: SamplingState where
  "new_sampling_state = \<lparr>ss_daily_symbol_counts = Map.empty, ss_last_entry_at = Map.empty, ss_last_reset_date = None,
     ss_daily_total_count = 0\<rparr>"

definition date :: "int \<Rightarrow> int" where
  "date t = t div (86400 * 10 ^ 6)"

definition count_of :: "SamplingState \<Rightarrow> string \<Rightarrow> int" where
  "count_of st symbol = (case ss_daily_symbol_counts st symbol of None \<Rightarrow> 0 | Some n \<Rightarrow> n)"

definition maybe_reset :: "int \<Rightarrow> SamplingState \<Rightarrow> SamplingState" where
  "maybe_reset now st =
     (if (case ss_last_reset_date st of None \<Rightarrow> True | Some r \<Rightarrow> date r \<noteq> date now)
      then st\<lparr>ss_daily_symbol_counts := Map.empty, ss_daily_total_count := 0, ss_last_reset_date := Some now\<rparr>
      else st)"

definition record_entry :: "string \<Rightarrow> int \<Rightarrow> SamplingState \<Rightarrow> SamplingState" where
  "record_entry symbol entered st =
     (let st = maybe_reset entered st in
      st\<lparr>ss_daily_symbol_counts := (ss_daily_symbol_counts st)(symbol \<mapsto> count_of st symbol + 1),
         ss_daily_total_count := ss_daily_total_count st + 1, ss_last_entry_at := (ss_last_entry_at st)(symbol \<mapsto> entered)\<rparr>)"

record SamplingThrottleResult =
  th_allowed :: bool
  th_reason :: string

text \<open>The limits, keyword arguments of the check.\<close>

record throttle_limits =
  max_daily_trades_per_symbol :: int
  max_daily_trades_total :: int
  cooldown_seconds :: int

definition default_limits :: throttle_limits where
  "default_limits = \<lparr>max_daily_trades_per_symbol = 3, max_daily_trades_total = 6, cooldown_seconds = 900\<rparr>"

definition check_sampling_throttle ::
    "throttle_limits \<Rightarrow> string \<Rightarrow> int \<Rightarrow> SamplingState \<Rightarrow> SamplingThrottleResult \<times> SamplingState" where
  "check_sampling_throttle limits symbol now state =
     (let st = maybe_reset now state;
          refuse = (\<lambda>reason. (\<lparr>th_allowed = False, th_reason = reason\<rparr>, st)) in
      if count_of st symbol \<ge> max_daily_trades_per_symbol limits then refuse ''daily sampling cap reached''
      else if ss_daily_total_count st \<ge> max_daily_trades_total limits then refuse ''total daily sampling cap reached''
      else case ss_last_entry_at st symbol of
          Some last_at \<Rightarrow> if now - last_at < cooldown_seconds limits * 10 ^ 6 then refuse ''in cooldown''
            else (\<lparr>th_allowed = True, th_reason = []\<rparr>, st)
        | None \<Rightarrow> (\<lparr>th_allowed = True, th_reason = []\<rparr>, st))"

section \<open>Cheaper never fails where dearer passes\<close>

lemma in_r_mono: "\<lbrakk>a \<le> b; 0 < entry; 0 < stop\<rbrakk> \<Longrightarrow> in_r a entry stop \<le> in_r b entry stop"
  unfolding in_r_def ddiv_def dmul_def
  by (intro ctx_round_mono divide_right_mono mult_right_mono) simp_all

lemma payoff_antitone:
  assumes "c \<le> c'" "0 < dadd 1 c" "0 < m" "m \<le> ddiv (dsub t c') (dadd 1 c')"
  shows "m \<le> ddiv (dsub t c) (dadd 1 c)"
proof -
  have den: "dadd 1 c \<le> dadd 1 c'" and num: "dsub t c' \<le> dsub t c"
    unfolding dadd_def dsub_def using assms(1) by (auto intro: ctx_round_mono)
  have "0 < ddiv (dsub t c') (dadd 1 c')" using assms(3,4) by simp
  then have "0 < dsub t c' / dadd 1 c'" by (simp only: ddiv_def ctx.rnd_pos_iff)
  then have pos: "0 < dsub t c'" using den assms(2) by (simp add: zero_less_divide_iff)
  have "dsub t c' / dadd 1 c' \<le> dsub t c / dadd 1 c"
    using num den pos assms(2) by (intro frac_le order_trans [OF less_imp_le [OF pos] num]) simp_all
  then have "ddiv (dsub t c') (dadd 1 c') \<le> ddiv (dsub t c) (dadd 1 c)" unfolding ddiv_def by (rule ctx_round_mono)
  then show ?thesis using assms(4) by simp
qed

definition total_cost_r :: "dec \<Rightarrow> dec \<Rightarrow> dec \<Rightarrow> dec \<Rightarrow> dec \<Rightarrow> dec" where
  "total_cost_r entry stop com f slip = dadd (dadd (in_r com entry stop) (in_r f entry stop)) (in_r slip entry stop)"

lemma cost_gate_Inr:
  assumes "calculate_cost_gate entry stop tp com (Some f) None slip m = Inr r"
  shows "0 < entry" "0 < stop" "cg_cost_r r = total_cost_r entry stop com f slip"
    "cg_planned_target_r r = (case tp of None \<Rightarrow> 0 | Some t \<Rightarrow> ddiv t stop)"
    "cg_passed r \<longleftrightarrow> m \<le> ddiv (dsub (cg_planned_target_r r) (cg_cost_r r)) (dadd 1 (cg_cost_r r))"
  using assms
  by (auto simp: calculate_cost_gate_def guardR_def Let_def bindR_Inr_iff total_cost_r_def split: if_splits)

lemma total_cost_mono:
  "\<lbrakk>0 < entry; 0 < stop; com \<le> com'; f \<le> f'; slip \<le> slip'\<rbrakk> \<Longrightarrow> total_cost_r entry stop com f slip \<le> total_cost_r entry stop com' f' slip'"
  unfolding total_cost_r_def dadd_def by (intro ctx_round_mono add_mono in_r_mono)

text \<open>
  The cost gate is antitone in every cost: a trade that passes with some commission, funding and
  slippage also passes with lower ones, as long as the total cost is not a credit of a whole risk unit.
\<close>

theorem cost_gate_antitone:
  assumes "calculate_cost_gate entry stop tp com (Some f) None slip m = Inr r"
    and "calculate_cost_gate entry stop tp com' (Some f') None slip' m = Inr r'"
    and "com \<le> com'" "f \<le> f'" "slip \<le> slip'" "0 < m" "0 < dadd 1 (cg_cost_r r)" "cg_passed r'"
  shows "cg_passed r"
proof -
  note r = cost_gate_Inr [OF assms(1)] and r' = cost_gate_Inr [OF assms(2)]
  have "cg_cost_r r \<le> cg_cost_r r'" unfolding r(3) r'(3) by (rule total_cost_mono [OF r(1,2) assms(3-5)])
  moreover have "m \<le> ddiv (dsub (cg_planned_target_r r) (cg_cost_r r')) (dadd 1 (cg_cost_r r'))" using r(4) r'(4,5) assms(8) by simp
  ultimately show ?thesis unfolding r(5) using payoff_antitone assms(6,7) by blast
qed

section \<open>The throttle keeps its limits\<close>

text \<open>
  A lane that enters only when the check allows it, at the same time, on a clock that never runs
  backwards: the entries made so far and the state of the throttle.
\<close>

inductive sampled :: "throttle_limits \<Rightarrow> int \<Rightarrow> (string \<times> int) list \<Rightarrow> SamplingState \<Rightarrow> bool" for limits where
  start: "sampled limits now [] new_sampling_state"
| tick: "\<lbrakk>sampled limits now hist st; now \<le> now'\<rbrakk> \<Longrightarrow> sampled limits now' hist st"
| check: "sampled limits now hist st \<Longrightarrow> sampled limits now hist (snd (check_sampling_throttle limits symbol now st))"
| enter: "\<lbrakk>sampled limits now hist st; check_sampling_throttle limits symbol now st = (r, st'); th_allowed r\<rbrakk>
    \<Longrightarrow> sampled limits now (hist @ [(symbol, now)]) (record_entry symbol now st')"

definition entries_on :: "int \<Rightarrow> (string \<times> int) list \<Rightarrow> int" where
  "entries_on day hist = int (length (filter (\<lambda>e. date (snd e) = day) hist))"

definition entries_of :: "string \<Rightarrow> int \<Rightarrow> (string \<times> int) list \<Rightarrow> int" where
  "entries_of symbol day hist = int (length (filter (\<lambda>e. fst e = symbol \<and> date (snd e) = day) hist))"

definition spaced :: "int \<Rightarrow> (string \<times> int) list \<Rightarrow> bool" where
  "spaced gap hist = sorted_wrt (\<lambda>e e'. fst e = fst e' \<longrightarrow> snd e + gap \<le> snd e') hist"

text \<open>What the state knows of the entries.\<close>

definition follows :: "int \<Rightarrow> (string \<times> int) list \<Rightarrow> SamplingState \<Rightarrow> bool" where
  "follows now hist st \<longleftrightarrow> (\<forall>e\<in>set hist. snd e \<le> now)
     \<and> (\<forall>e\<in>set hist. \<exists>t. ss_last_entry_at st (fst e) = Some t \<and> snd e \<le> t)
     \<and> (case ss_last_reset_date st of
          None \<Rightarrow> hist = [] \<and> ss_daily_total_count st = 0 \<and> (\<forall>s. count_of st s = 0)
        | Some r \<Rightarrow> r \<le> now \<and> (\<forall>e\<in>set hist. date (snd e) \<le> date r)
            \<and> ss_daily_total_count st = entries_on (date r) hist \<and> (\<forall>s. count_of st s = entries_of s (date r) hist))"

lemma date_mono: "t \<le> u \<Longrightarrow> date t \<le> date u"
  unfolding date_def by (rule zdiv_mono1) simp_all

lemma none_on: "(\<And>e. e \<in> set hist \<Longrightarrow> date (snd e) < day) \<Longrightarrow> entries_on day hist = 0 \<and> entries_of s day hist = 0"
  by (fastforce simp: entries_on_def entries_of_def filter_empty_conv)

lemma follows_reset:
  assumes "follows now hist st"
  shows "follows now hist (maybe_reset now st)" "\<exists>r. ss_last_reset_date (maybe_reset now st) = Some r \<and> date r = date now"
proof -
  show "\<exists>r. ss_last_reset_date (maybe_reset now st) = Some r \<and> date r = date now"
    by (auto simp: maybe_reset_def split: option.splits)
  show "follows now hist (maybe_reset now st)"
  proof (cases "\<exists>r. ss_last_reset_date st = Some r \<and> date r = date now")
    case True
    then show ?thesis using assms by (auto simp: maybe_reset_def)
  next
    case False
    have "date (snd e) < date now" if e: "e \<in> set hist" for e
    proof -
      obtain r where r: "ss_last_reset_date st = Some r" "r \<le> now" "date (snd e) \<le> date r"
        using assms e by (cases "ss_last_reset_date st") (auto simp: follows_def)
      then have "date r \<noteq> date now" using False by blast
      with r date_mono [of r now] show ?thesis by simp
    qed
    then have "entries_on (date now) hist = 0" "entries_of s (date now) hist = 0" for s using none_on [of hist "date now" s] by blast+
    moreover have "maybe_reset now st = st\<lparr>ss_daily_symbol_counts := Map.empty, ss_daily_total_count := 0, ss_last_reset_date := Some now\<rparr>"
      using False by (auto simp: maybe_reset_def split: option.splits)
    ultimately show ?thesis using assms by (auto simp: follows_def count_of_def intro: date_mono)
  qed
qed

lemma check_state: "snd (check_sampling_throttle limits symbol now st) = maybe_reset now st"
  by (simp add: check_sampling_throttle_def Let_def split: option.split)

lemma check_allowed:
  assumes "check_sampling_throttle limits symbol now st = (r, st')" "th_allowed r"
  shows "st' = maybe_reset now st" "count_of st' symbol < max_daily_trades_per_symbol limits"
    "ss_daily_total_count st' < max_daily_trades_total limits"
    "\<And>t. ss_last_entry_at st' symbol = Some t \<Longrightarrow> t + cooldown_seconds limits * 10 ^ 6 \<le> now"
  using assms by (auto simp: check_sampling_throttle_def Let_def split: option.splits if_splits)

lemma entries_snoc:
  "entries_on day (hist @ [(s, t)]) = entries_on day hist + (if date t = day then 1 else 0)"
  "entries_of s' day (hist @ [(s, t)]) = entries_of s' day hist + (if s = s' \<and> date t = day then 1 else 0)"
  by (simp_all add: entries_on_def entries_of_def)

lemma follows_entry:
  assumes "follows now hist st" "ss_last_reset_date st = Some r" "date r = date now"
  shows "follows now (hist @ [(symbol, now)]) (record_entry symbol now st)"
proof -
  have same: "maybe_reset now st = st" using assms(2,3) by (simp add: maybe_reset_def)
  have upd: "record_entry symbol now st = st\<lparr>ss_daily_symbol_counts := (ss_daily_symbol_counts st)(symbol \<mapsto> count_of st symbol + 1),
      ss_daily_total_count := ss_daily_total_count st + 1, ss_last_entry_at := (ss_last_entry_at st)(symbol \<mapsto> now)\<rparr>"
    by (simp add: record_entry_def same Let_def)
  have "count_of (record_entry symbol now st) s = count_of st s + (if s = symbol then 1 else 0)" for s
    by (simp add: upd count_of_def)
  moreover have "\<exists>t. ss_last_entry_at (record_entry symbol now st) (fst e) = Some t \<and> snd e \<le> t" if "e \<in> set (hist @ [(symbol, now)])" for e
    using assms(1) that by (auto simp: upd follows_def)
  ultimately show ?thesis using assms unfolding follows_def
    by (simp add: upd entries_snoc date_mono)
qed

lemma sampled_follows:
  assumes "sampled limits now hist st" "0 \<le> max_daily_trades_per_symbol limits" "0 \<le> max_daily_trades_total limits"
  shows "follows now hist st \<and> (\<forall>day. entries_on day hist \<le> max_daily_trades_total limits)
    \<and> (\<forall>s day. entries_of s day hist \<le> max_daily_trades_per_symbol limits) \<and> spaced (cooldown_seconds limits * 10 ^ 6) hist"
  using assms(1)
proof (induction rule: sampled.induct)
  case (start now)
  then show ?case using assms(2,3)
    by (simp add: follows_def new_sampling_state_def count_of_def entries_on_def entries_of_def spaced_def)
next
  case (tick now hist st now')
  then show ?case by (fastforce simp: follows_def split: option.splits)
next
  case (check now hist st symbol)
  then show ?case using follows_reset(1) by (simp add: check_state)
next
  case (enter now hist st symbol r st')
  note ok = check_allowed [OF enter.hyps(2,3)]
  have f: "follows now hist st'" unfolding ok(1) using enter.IH follows_reset(1) by blast
  obtain d where d: "ss_last_reset_date st' = Some d" "date d = date now" unfolding ok(1) using enter.IH follows_reset(2) by blast
  have counts: "entries_on (date now) hist < max_daily_trades_total limits" "entries_of symbol (date now) hist < max_daily_trades_per_symbol limits"
    using f d ok(2,3) by (simp_all add: follows_def)
  have "snd e + cooldown_seconds limits * 10 ^ 6 \<le> now" if "e \<in> set hist" "fst e = symbol" for e
    using f that ok(4) unfolding follows_def by fastforce
  then have "spaced (cooldown_seconds limits * 10 ^ 6) (hist @ [(symbol, now)])"
    using enter.IH by (auto simp: spaced_def sorted_wrt_append)
  then show ?case using follows_entry [OF f d] enter.IH counts by (auto simp: entries_snoc add.commute zless_iff_Suc_zadd)
qed

text \<open>
  The throttle keeps its limits on a whole run: no day has more entries than the total cap, no symbol
  more than its own, and two entries of a symbol are at least the cooldown apart, also across
  midnight.
\<close>

theorem throttle_keeps_limits:
  assumes "sampled limits now hist st" "0 \<le> max_daily_trades_per_symbol limits" "0 \<le> max_daily_trades_total limits"
  shows "entries_on day hist \<le> max_daily_trades_total limits \<and> entries_of s day hist \<le> max_daily_trades_per_symbol limits
    \<and> spaced (cooldown_seconds limits * 10 ^ 6) hist"
  using sampled_follows [OF assms] by blast

section \<open>Runs\<close>

lemma demo_costs:
  "in_r 19 100 1 = 19 / 100" "in_r 50 100 1 = 1 / 2" "in_r 0 100 1 = 0" "in_r 4 100 1 = 1 / 25" "in_r 6 100 1 = 3 / 50"
  "dadd (19 / 100) 0 = 19 / 100" "dadd (19 / 100) (3 / 50) = 1 / 4" "dadd (1 / 2) (1 / 25) = 27 / 50" "dadd (27 / 50) (3 / 50) = 3 / 5"
  "ddiv (11 / 4) 1 = 11 / 4" "dsub (11 / 4) (1 / 4) = 5 / 2" "dsub (11 / 4) (3 / 5) = 43 / 20" "dadd 1 (1 / 4) = 5 / 4" "dadd 1 (3 / 5) = 8 / 5"
  "ddiv (5 / 2) (5 / 4) = 2" "ddiv (43 / 20) (8 / 5) = 43 / 32"
  by code_simp+

theorem cost_gate_antitone_witness:
  "\<exists>r r'. calculate_cost_gate 100 1 (Some (11 / 4)) 19 (Some 0) None 6 (115 / 100) = Inr r \<and> cg_passed r
     \<and> calculate_cost_gate 100 1 (Some (11 / 4)) 50 (Some 4) None 6 (115 / 100) = Inr r' \<and> cg_passed r' \<and> cg_cost_r r < cg_cost_r r'"
proof -
  obtain r where r: "calculate_cost_gate 100 1 (Some (11 / 4)) 19 (Some 0) None 6 (115 / 100) = Inr r" "cg_cost_r r = 1 / 4"
    by (simp add: calculate_cost_gate_def demo_costs)
  obtain r' where r': "calculate_cost_gate 100 1 (Some (11 / 4)) 50 (Some 4) None 6 (115 / 100) = Inr r'" "cg_passed r'" "cg_cost_r r' = 3 / 5"
    by (simp add: calculate_cost_gate_def demo_costs)
  have "0 < dadd 1 (cg_cost_r r)" unfolding r(2) by (simp add: demo_costs)
  then have "cg_passed r" by (intro cost_gate_antitone [OF r(1) r'(1)]) (use r'(2) in simp_all)
  with r r' show ?thesis by (intro exI [of _ r] exI [of _ r']) simp
qed

definition demo_first :: SamplingState where
  "demo_first = record_entry ''BTC/USDT'' 0 (maybe_reset 0 new_sampling_state)"

lemma demo_sampled:
  "sampled default_limits (900 * 10 ^ 6) [(''BTC/USDT'', 0), (''BTC/USDT'', 900 * 10 ^ 6)]
     (record_entry ''BTC/USDT'' (900 * 10 ^ 6) (maybe_reset (900 * 10 ^ 6) demo_first))"
proof -
  have "check_sampling_throttle default_limits ''BTC/USDT'' 0 new_sampling_state = (\<lparr>th_allowed = True, th_reason = []\<rparr>, maybe_reset 0 new_sampling_state)"
    by (simp add: check_sampling_throttle_def Let_def default_limits_def new_sampling_state_def maybe_reset_def count_of_def)
  from sampled.enter [OF sampled.start this] have "sampled default_limits 0 [(''BTC/USDT'', 0)] demo_first" by (simp add: demo_first_def)
  then have one: "sampled default_limits (900 * 10 ^ 6) [(''BTC/USDT'', 0)] demo_first" by (rule sampled.tick) simp
  have "check_sampling_throttle default_limits ''BTC/USDT'' (900 * 10 ^ 6) demo_first
      = (\<lparr>th_allowed = True, th_reason = []\<rparr>, maybe_reset (900 * 10 ^ 6) demo_first)"
    by (simp add: check_sampling_throttle_def Let_def default_limits_def new_sampling_state_def maybe_reset_def count_of_def demo_first_def
        record_entry_def date_def)
  from sampled.enter [OF one this] show ?thesis by simp
qed

theorem throttle_keeps_limits_witness:
  "entries_on 0 [(''BTC/USDT'', 0), (''BTC/USDT'', 900 * 10 ^ 6)] = 2
     \<and> spaced (cooldown_seconds default_limits * 10 ^ 6) [(''BTC/USDT'', 0), (''BTC/USDT'', 900 * 10 ^ 6)]"
  using throttle_keeps_limits [OF demo_sampled, of 0 "''BTC/USDT''"] by (simp add: default_limits_def entries_on_def date_def)

end
