(* ===== verification/Fencing.thy ===== *)
theory Fencing
  imports Ledger_Calls
begin

text \<open>
  Fencing tokens of cycles (\<open>application/fencing.py\<close>): the token a cycle registers, the check for a
  concurrent cycle of the same symbol and mode, and the guard that keeps the older writer from
  starting beside open positions.  The clock, the fresh identifier and the start time of a cycle,
  which the database fills in, are parameters.
\<close>

fun mode_text :: "V2ExecutionMode \<Rightarrow> string" where
  "mode_text V2ExecutionMode.BINANCE_TESTNET = ''BINANCE_TESTNET''"
| "mode_text V2ExecutionMode.LOCAL_PAPER = ''LOCAL_PAPER''"

definition generate_fencing_token ::
    "string \<Rightarrow> string \<Rightarrow> string \<Rightarrow> V2ExecutionMode \<Rightarrow> string option \<Rightarrow> string" where
  "generate_fencing_token stamp uuid symbol mode instance_id =
     (let inst = (case instance_id of None \<Rightarrow> ''default'' | Some i \<Rightarrow> if i = [] then ''default'' else i)
      in filter (\<lambda>c. c \<noteq> CHR ''/'') symbol @ ''@'' @ mode_text mode @ ''@'' @ inst @ ''@'' @ stamp @ ''@'' @ take 8 uuid)"

text \<open>The newest row; the query leaves open which one when two started at the same time.\<close>

fun newest :: "('r \<Rightarrow> int) \<Rightarrow> 'r list \<Rightarrow> 'r option" where
  "newest started [] = None"
| "newest started (r # rs) = (case newest started rs of
     None \<Rightarrow> Some r
   | Some q \<Rightarrow> if started q > started r then Some q else Some r)"

definition check_fencing_conflict ::
    "(V2ExecutionCycle \<Rightarrow> int) \<Rightarrow> int \<Rightarrow> string \<Rightarrow> V2ExecutionMode \<Rightarrow> string \<Rightarrow> int \<Rightarrow> db \<Rightarrow> bool \<times> string option" where
  "check_fencing_conflict started_at now symbol mode current_token lookback_minutes d =
     (let cutoff = now - lookback_minutes * 60 * 10 ^ 6 in
      case newest started_at (filter (\<lambda>c. vy_symbol c = symbol \<and> vy_execution_mode c = mode \<and> vy_fencing_token c \<noteq> current_token)
             (db_cycles d)) of
        Some c \<Rightarrow> if started_at c \<ge> cutoff then (True, Some (vy_fencing_token c)) else (False, None)
      | None \<Rightarrow> (False, None))"

definition assert_no_active_v2_positions :: "V2ExecutionMode \<Rightarrow> db \<Rightarrow> unit res" where
  "assert_no_active_v2_positions mode d =
     (let active_positions = filter (\<lambda>p. vp_execution_mode p = mode
            \<and> vp_state p \<in> {V2PositionState.POSITION_PROJECTED, V2PositionState.PROTECTED, V2PositionState.REDUCING}) (db_positions d)
      in guardR (active_positions \<noteq> []) (RuntimeError ''Cannot start Legacy Writer'') (Inr ()))"

section \<open>The writer lease\<close>

record WriterLease =
  wl_engine_id :: string
  wl_symbol :: string
  wl_execution_mode :: V2ExecutionMode
  wl_fencing_token :: string
  wl_acquired_at :: int

definition acquire_testnet_writer ::
    "(V2ExecutionCycle \<Rightarrow> int) \<Rightarrow> int \<Rightarrow> string \<Rightarrow> string \<Rightarrow> V2ExecutionMode \<Rightarrow> string \<Rightarrow> (db, WriterLease) call" where
  "acquire_testnet_writer started_at now engine_id symbol mode fencing_token = readC (\<lambda>d.
     guardC (fst (check_fencing_conflict started_at now symbol mode fencing_token 5 d)) (RuntimeError ''Cannot acquire writer lease'')
       (returnC \<lparr>wl_engine_id = engine_id, wl_symbol = symbol, wl_execution_mode = mode, wl_fencing_token = fencing_token,
          wl_acquired_at = now\<rparr>))"

section \<open>Properties\<close>

lemma newest_None [simp]: "newest started rs = None \<longleftrightarrow> rs = []"
  by (cases rs) (auto split: option.splits if_splits)

lemma newest_Some: "newest started rs = Some r \<Longrightarrow> r \<in> set rs \<and> (\<forall>q\<in>set rs. started q \<le> started r)"
proof (induction rs arbitrary: r)
  case (Cons a rs)
  show ?case
  proof (cases "newest started rs")
    case None
    then show ?thesis using Cons.prems by simp
  next
    case (Some q)
    then show ?thesis using Cons.prems Cons.IH [OF Some] by (force split: if_splits)
  qed
qed simp

text \<open>The check looks at the newest foreign cycle only, and that is enough.\<close>

lemma fencing_conflict_exact:
  "(fst (check_fencing_conflict started now symbol mode token mins d) \<longleftrightarrow>
     (\<exists>c\<in>set (db_cycles d). vy_symbol c = symbol \<and> vy_execution_mode c = mode \<and> vy_fencing_token c \<noteq> token
        \<and> now - mins * 60 * 10 ^ 6 \<le> started c))
   \<and> (fst (check_fencing_conflict started now symbol mode token mins d) \<longleftrightarrow>
     (\<exists>c\<in>set (db_cycles d). snd (check_fencing_conflict started now symbol mode token mins d) = Some (vy_fencing_token c)
        \<and> vy_symbol c = symbol \<and> vy_execution_mode c = mode \<and> vy_fencing_token c \<noteq> token))"
proof -
  let ?rows = "filter (\<lambda>c. vy_symbol c = symbol \<and> vy_execution_mode c = mode \<and> vy_fencing_token c \<noteq> token) (db_cycles d)"
  show ?thesis
  proof (cases "newest started ?rows")
    case None
    then show ?thesis by (auto simp: check_fencing_conflict_def filter_empty_conv)
  next
    case (Some c)
    from newest_Some [OF Some] have c: "c \<in> set (db_cycles d)" "vy_symbol c = symbol" "vy_execution_mode c = mode"
      "vy_fencing_token c \<noteq> token" and max: "\<forall>q\<in>set ?rows. started q \<le> started c" by auto
    then have window: "(\<exists>q\<in>set (db_cycles d). vy_symbol q = symbol \<and> vy_execution_mode q = mode \<and> vy_fencing_token q \<noteq> token
        \<and> now - mins * 60 * 10 ^ 6 \<le> started q) \<longleftrightarrow> now - mins * 60 * 10 ^ 6 \<le> started c" by (auto intro: order_trans)
    show ?thesis unfolding window using c by (auto simp: check_fencing_conflict_def Let_def Some)
  qed
qed

text \<open>
  A writer lease is granted exactly when no cycle of the symbol and mode with another token started
  in the last five minutes; otherwise the call raises, and in neither case does it write anything.
\<close>

theorem lease_granted_exactly:
  "acquire_testnet_writer started now e symbol mode token d =
     (if \<exists>c\<in>set (db_cycles d). vy_symbol c = symbol \<and> vy_execution_mode c = mode \<and> vy_fencing_token c \<noteq> token
           \<and> now - 5 * 60 * 10 ^ 6 \<le> started c
      then (Inl (RuntimeError ''Cannot acquire writer lease''), d)
      else (Inr \<lparr>wl_engine_id = e, wl_symbol = symbol, wl_execution_mode = mode, wl_fencing_token = token, wl_acquired_at = now\<rparr>, d))"
  using fencing_conflict_exact [of started now symbol mode token 5 d]
  by (auto simp: acquire_testnet_writer_def readC_def guardC_def)

text \<open>Nothing is registered by the acquisition: on a quiet database two writers both get the lease.\<close>

lemma lease_not_exclusive:
  assumes "acquire_testnet_writer started now e symbol mode token d = (Inr l, d')" "db_cycles d = []"
  shows "\<exists>l'. acquire_testnet_writer started now e' symbol mode token' d' = (Inr l', d')"
  using assms by (auto simp: acquire_testnet_writer_def readC_def guardC_def check_fencing_conflict_def)

text \<open>Tokens drawn with different identifiers differ, whatever their other parts are.\<close>

lemma fencing_token_tail: "\<exists>p. generate_fencing_token s u y m i = p @ take 8 u"
  unfolding generate_fencing_token_def Let_def append_assoc [symmetric] by blast

lemma fencing_tokens_differ:
  assumes "length u \<ge> 8" "length v \<ge> 8" "take 8 u \<noteq> take 8 v"
  shows "generate_fencing_token s u y m i \<noteq> generate_fencing_token s' v y' m' i'"
  using fencing_token_tail [of s u y m i] fencing_token_tail [of s' v y' m' i'] assms by (auto simp: append_eq_append_conv)

text \<open>
  The older writer may start exactly when the mode has no open position, that is none that the
  uniqueness of open positions counts.
\<close>

lemma legacy_writer_excluded:
  "assert_no_active_v2_positions mode d = Inr () \<longleftrightarrow> (\<forall>p\<in>set (db_positions d). vp_execution_mode p = mode \<longrightarrow> \<not> pos_open p)"
proof -
  have "vp_state p \<in> {V2PositionState.POSITION_PROJECTED, V2PositionState.PROTECTED, V2PositionState.REDUCING} \<longleftrightarrow> pos_open p" for p
    by (cases "vp_state p") auto
  then show ?thesis by (auto simp: assert_no_active_v2_positions_def guardR_def filter_empty_conv)
qed

end
