(* ===== verification/Adjudication.thy ===== *)
theory Adjudication
  imports Ledger_Calls Exchange "HOL-Library.List_Lexorder" "HOL-Library.Char_ord" "HOL-Library.Product_Lexorder"
begin

text \<open>
  The attribution of one aggregate exit of the exchange to positions of several databases
  (\<open>application/adjudication.py\<close>): every participating database prepares the same manifest, and only
  when all of them have, the quarantined positions are closed.  The digest of a canonical JSON text, the
  text of decimals and times, and fresh identifiers are parameters.
\<close>

section \<open>Evidence and manifests\<close>

definition normalized_quantity :: "dec \<Rightarrow> dec res" where
  "normalized_quantity value = quantize8 value"

text \<open>\<open>hashlib.sha256(json.dumps(payload, sort_keys=True, \<dots>).encode()).hexdigest()\<close>, \<open>str\<close> of a decimal, \<open>isoformat\<close>.\<close>

record hashing =
  hx_digest :: "json \<Rightarrow> string"
  hx_dec :: "dec \<Rightarrow> string"
  hx_iso :: "int \<Rightarrow> string"

record ExchangeAggregateExitEvidence =
  ag_exchange_order_id :: string
  ag_exchange_trade_id :: string
  ag_symbol :: string
  ag_side :: string
  ag_reduce_only :: bool
  ag_executed_quantity :: dec
  ag_trade_quantity :: dec
  ag_price :: dec
  ag_exchange_event_time :: int
  ag_verification_reference :: string

definition evidence_hash :: "hashing \<Rightarrow> ExchangeAggregateExitEvidence \<Rightarrow> string" where
  "evidence_hash h e = hx_digest h (JObj
     [(''exchange_order_id'', JStr (ag_exchange_order_id e)), (''exchange_trade_id'', JStr (ag_exchange_trade_id e)),
      (''symbol'', JStr (ag_symbol e)), (''side'', JStr (upper (ag_side e))), (''reduce_only'', JBool (ag_reduce_only e)),
      (''executed_quantity'', JStr (hx_dec h (ag_executed_quantity e))), (''trade_quantity'', JStr (hx_dec h (ag_trade_quantity e))),
      (''price'', JStr (hx_dec h (ag_price e))), (''exchange_event_time'', JStr (hx_iso h (ag_exchange_event_time e)))])"

record AllocationSpec =
  al_database_identity :: string
  al_position_id :: string
  al_allocated_quantity :: dec

datatype allocation = Spec AllocationSpec | Triple string string dec

record AdjudicationManifest =
  am_adjudication_id :: string
  am_symbol :: string
  am_exchange_order_id :: string
  am_exchange_trade_id :: string
  am_exchange_fill_quantity :: dec
  am_exchange_fill_side :: string
  am_exchange_fill_price :: dec
  am_exchange_fill_timestamp :: int
  am_operator_identity :: string
  am_operator_reason :: string
  am_allocations :: "allocation list"
  am_account_scope_key :: string

definition case_key :: "hashing \<Rightarrow> AdjudicationManifest \<Rightarrow> string" where
  "case_key h m = hx_digest h (JObj
     [(''account_scope_key'', JStr (am_account_scope_key m)), (''symbol'', JStr (am_symbol m)),
      (''exchange_order_id'', JStr (am_exchange_order_id m)), (''exchange_trade_id'', JStr (am_exchange_trade_id m))])"

fun as_spec :: "allocation \<Rightarrow> AllocationSpec" where
  "as_spec (Spec s) = s"
| "as_spec (Triple database_identity position_id quantity) =
     \<lparr>al_database_identity = database_identity, al_position_id = position_id, al_allocated_quantity = quantity\<rparr>"

definition normalized_allocations :: "AdjudicationManifest \<Rightarrow> AllocationSpec list" where
  "normalized_allocations m = map as_spec (am_allocations m)"

definition manifest_hash :: "hashing \<Rightarrow> AdjudicationManifest \<Rightarrow> string" where
  "manifest_hash h m = hx_digest h (JObj
     [(''symbol'', JStr (am_symbol m)), (''account_scope_key'', JStr (am_account_scope_key m)),
      (''exchange_order_id'', JStr (am_exchange_order_id m)), (''exchange_trade_id'', JStr (am_exchange_trade_id m)),
      (''exchange_fill_quantity'', JStr (hx_dec h (am_exchange_fill_quantity m))),
      (''exchange_fill_side'', JStr (upper (am_exchange_fill_side m))), (''exchange_fill_price'', JStr (hx_dec h (am_exchange_fill_price m))),
      (''exchange_fill_timestamp'', JStr (hx_iso h (am_exchange_fill_timestamp m))), (''operator_identity'', JStr (am_operator_identity m)),
      (''operator_reason'', JStr (am_operator_reason m)),
      (''allocations'', JList (map (\<lambda>i. JObj [(''database_identity'', JStr (al_database_identity i)), (''position_id'', JStr (al_position_id i)),
          (''allocated_quantity'', JStr (hx_dec h (al_allocated_quantity i)))])
        (sort_key (\<lambda>i. (al_database_identity i, al_position_id i)) (normalized_allocations m))))])"

text \<open>The provider that reads one order and one trade through the adapter, and sends nothing.\<close>

record 'w evidence_source =
  es_query_filled_order_by_id :: "string \<Rightarrow> string \<Rightarrow> ('w, ExchangeOrderReceipt option) call"
  es_fetch_fills :: "string \<Rightarrow> string \<Rightarrow> ('w, ExchangeFillReceipt list) call"

definition read_evidence :: "'w evidence_source \<Rightarrow> string \<Rightarrow> string \<Rightarrow> string \<Rightarrow> ('w, ExchangeAggregateExitEvidence) call" where
  "read_evidence a exchange_order_id exchange_trade_id symbol =
     bindC (es_query_filled_order_by_id a symbol exchange_order_id) (\<lambda>found.
     someC (case found of Some r \<Rightarrow> if or_exchange_order_id r \<noteq> exchange_order_id \<or> or_status r \<noteq> ''filled'' then None else Some r | None \<Rightarrow> None)
       (ValueError ''ADJUDICATION_EXCHANGE_ORDER_NOT_CONFIRMED'') (\<lambda>order.
     bindC (es_fetch_fills a symbol exchange_order_id) (\<lambda>fills.
     case filter (\<lambda>f. ef_trade_id f = exchange_trade_id) fills of
       [fill] \<Rightarrow>
         guardC (ef_exchange_order_id fill \<noteq> exchange_order_id) (ValueError ''ADJUDICATION_EXCHANGE_ID_MISMATCH'') (returnC
           \<lparr>ag_exchange_order_id = or_exchange_order_id order, ag_exchange_trade_id = ef_trade_id fill, ag_symbol = or_symbol order,
            ag_side = or_side order, ag_reduce_only = or_reduce_only order, ag_executed_quantity = or_quantity order,
            ag_trade_quantity = ef_filled_quantity fill, ag_price = ef_fill_price fill, ag_exchange_event_time = ef_fill_timestamp fill,
            ag_verification_reference = ''binance-read:'' @ exchange_order_id @ ''/'' @ exchange_trade_id\<rparr>)
     | _ \<Rightarrow> pureC (Inl (ValueError ''ADJUDICATION_EXCHANGE_TRADE_NOT_CONFIRMED'')))))"

definition validate_manifest :: "AdjudicationManifest \<Rightarrow> ExchangeAggregateExitEvidence \<Rightarrow> unit res" where
  "validate_manifest m e =
     guardR (strip (ag_verification_reference e) = []) (ValueError ''UNVERIFIED_EXCHANGE_EVIDENCE'')
     (guardR (strip (am_operator_identity m) = [] \<or> strip (am_operator_reason m) = [])
       (ValueError ''operator identity and reason are mandatory'')
     (guardR (am_symbol m \<noteq> ag_symbol e) (ValueError ''ADJUDICATION_SYMBOL_MISMATCH'')
     (guardR (am_exchange_order_id m \<noteq> ag_exchange_order_id e \<or> am_exchange_trade_id m \<noteq> ag_exchange_trade_id e)
       (ValueError ''ADJUDICATION_EXCHANGE_ID_MISMATCH'')
     (guardR (upper (am_exchange_fill_side m) \<noteq> upper (ag_side e) \<or> \<not> ag_reduce_only e)
       (ValueError ''ADJUDICATION_SIDE_OR_REDUCE_ONLY_MISMATCH'')
     (guardR (am_exchange_fill_price m \<noteq> ag_price e \<or> am_exchange_fill_timestamp m \<noteq> ag_exchange_event_time e)
       (ValueError ''ADJUDICATION_RECEIPT_MISMATCH'')
     (bindR (normalized_quantity (ag_executed_quantity e)) (\<lambda>executed.
      bindR (normalized_quantity (ag_trade_quantity e)) (\<lambda>traded.
      guardR (executed \<noteq> traded) (ValueError ''AMBIGUOUS_AGGREGATE_FILL'')
     (bindR (normalized_quantity (am_exchange_fill_quantity m)) (\<lambda>declared.
      guardR (declared \<noteq> executed) (ValueError ''ADJUDICATION_QUANTITY_MISMATCH'')
     (let allocations = normalized_allocations m in
      guardR (allocations = [] \<or> (\<exists>i\<in>set allocations. al_allocated_quantity i \<le> 0)) (ValueError ''INVALID_ALLOCATION_QUANTITY'')
     (bindR (normalized_quantity (dsum (map al_allocated_quantity allocations))) (\<lambda>total.
      guardR (total < executed) (ValueError ''UNALLOCATED_EXCHANGE_QUANTITY'')
     (guardR (total > executed) (ValueError ''OVER_ALLOCATED_EXCHANGE_QUANTITY'')
     (guardR (\<not> distinct (map (\<lambda>i. (al_database_identity i, al_position_id i)) allocations)) (ValueError ''DUPLICATE_ALLOCATION'')
     (Inr ()))))))))))))))))"

section \<open>A participating database\<close>

record V2AdjudicationCase =
  vk_adjudication_id :: string
  vk_case_key :: string
  vk_exchange_account_identity :: string
  vk_manifest_hash :: string
  vk_evidence_hash :: string
  vk_symbol :: string
  vk_exchange_order_id :: string
  vk_exchange_trade_id :: string
  vk_exchange_fill_quantity :: dec
  vk_exchange_fill_side :: string
  vk_exchange_fill_price :: dec
  vk_exchange_fill_timestamp :: int
  vk_operator_identity :: string
  vk_operator_reason :: string

record V2AdjudicationAllocation =
  vl_allocation_id :: string
  vl_adjudication_id :: string
  vl_manifest_hash :: string
  vl_evidence_hash :: string
  vl_database_identity :: string
  vl_position_id :: string
  vl_allocated_quantity :: dec
  vl_before_state :: string

text \<open>The view of the session of one database: the ledger and the two tables of the protocol.\<close>

record participant =
  pa_db :: db
  pa_cases :: "V2AdjudicationCase list"
  pa_allocations :: "V2AdjudicationAllocation list"

definition adjudication_constraints :: "participant \<Rightarrow> bool" where
  "adjudication_constraints p \<longleftrightarrow> unique_on vk_adjudication_id (pa_cases p) \<and> unique_on vk_case_key (pa_cases p)
     \<and> unique_on vk_manifest_hash (pa_cases p) \<and> unique_on (\<lambda>c. (vk_exchange_order_id c, vk_exchange_trade_id c)) (pa_cases p)
     \<and> list_all (\<lambda>c. 0 < vk_exchange_fill_quantity c) (pa_cases p)
     \<and> unique_on vl_allocation_id (pa_allocations p)
     \<and> unique_on (\<lambda>a. (vl_adjudication_id a, vl_database_identity a, vl_position_id a)) (pa_allocations p)
     \<and> list_all (\<lambda>a. 0 < vl_allocated_quantity a) (pa_allocations p)"

definition flush_participant :: "(participant, unit) call" where
  "flush_participant p = (if adjudication_constraints p \<and> constraints (pa_db p) then Inr () else Inl (IntegrityError ''constraint failed''), p)"

definition existing_case :: "hashing \<Rightarrow> AdjudicationManifest \<Rightarrow> participant \<Rightarrow> V2AdjudicationCase option" where
  "existing_case h m p = List.find (\<lambda>c. vk_case_key c = case_key h m) (pa_cases p)"

fun validate_participant :: "AdjudicationManifest \<Rightarrow> participant \<Rightarrow> AllocationSpec list \<Rightarrow> unit res" where
  "validate_participant m p [] = Inr ()"
| "validate_participant m p (item # items) =
     (case find_row vp_position_id (al_position_id item) (db_positions (pa_db p)) of
        None \<Rightarrow> Inl (ValueError ''adjudication requires a QUARANTINED lifecycle'')
      | Some position \<Rightarrow>
          guardR (vp_state position \<noteq> V2PositionState.QUARANTINED) (ValueError ''adjudication requires a QUARANTINED lifecycle'')
          (guardR (vp_symbol position \<noteq> am_symbol m) (ValueError ''ADJUDICATION_SYMBOL_MISMATCH'')
          (guardR (upper (am_exchange_fill_side m) \<noteq> (if vp_direction position = ''short'' then ''BUY'' else ''SELL''))
            (ValueError ''ADJUDICATION_SIDE_OR_DIRECTION_MISMATCH'')
          (guardR (vp_quantity position \<noteq> al_allocated_quantity item) (ValueError ''AMBIGUOUS_AGGREGATE_FILL'')
          (guardR (\<exists>f\<in>set (db_fills (pa_db p)). vf_trade_id f = Some (am_exchange_trade_id m)) (ValueError ''AMBIGUOUS_AGGREGATE_FILL'')
          (guardR (\<exists>a\<in>set (pa_allocations p). vl_position_id a = al_position_id item \<and> vl_adjudication_id a \<noteq> am_adjudication_id m)
            (ValueError ''lifecycle allocation is already consumed'')
          (validate_participant m p items)))))))"

definition allocation_rows ::
    "hashing \<Rightarrow> (nat \<Rightarrow> string) \<Rightarrow> AdjudicationManifest \<Rightarrow> ExchangeAggregateExitEvidence \<Rightarrow> string \<Rightarrow> AllocationSpec list \<Rightarrow> V2AdjudicationAllocation list" where
  "allocation_rows h ids m e adjudication_id items =
     map (\<lambda>(n, i). \<lparr>vl_allocation_id = ids n, vl_adjudication_id = adjudication_id, vl_manifest_hash = manifest_hash h m,
        vl_evidence_hash = evidence_hash h e, vl_database_identity = al_database_identity i, vl_position_id = al_position_id i,
        vl_allocated_quantity = al_allocated_quantity i, vl_before_state = ''QUARANTINED''\<rparr>) (enumerate 0 items)"

definition new_case :: "hashing \<Rightarrow> AdjudicationManifest \<Rightarrow> ExchangeAggregateExitEvidence \<Rightarrow> V2AdjudicationCase" where
  "new_case h m e = \<lparr>vk_adjudication_id = am_adjudication_id m, vk_case_key = case_key h m,
     vk_exchange_account_identity = am_account_scope_key m, vk_manifest_hash = manifest_hash h m, vk_evidence_hash = evidence_hash h e,
     vk_symbol = am_symbol m, vk_exchange_order_id = am_exchange_order_id m, vk_exchange_trade_id = am_exchange_trade_id m,
     vk_exchange_fill_quantity = am_exchange_fill_quantity m, vk_exchange_fill_side = upper (am_exchange_fill_side m),
     vk_exchange_fill_price = am_exchange_fill_price m, vk_exchange_fill_timestamp = am_exchange_fill_timestamp m,
     vk_operator_identity = am_operator_identity m, vk_operator_reason = am_operator_reason m\<rparr>"

definition add_allocations :: "V2AdjudicationAllocation list \<Rightarrow> (participant, unit) call" where
  "add_allocations rows = bindC (modifyC (\<lambda>p. p\<lparr>pa_allocations := pa_allocations p @ rows\<rparr>)) (\<lambda>_. flush_participant)"

text \<open>What \<open>prepare_adjudication\<close> does with evidence that was read and found valid.\<close>

definition prepare_with ::
    "hashing \<Rightarrow> (nat \<Rightarrow> string) \<Rightarrow> AdjudicationManifest \<Rightarrow> string \<Rightarrow> ExchangeAggregateExitEvidence \<Rightarrow> (participant, V2AdjudicationCase) call" where
  "prepare_with h ids m database_identity e =
     (let items = filter (\<lambda>i. al_database_identity i = database_identity) (normalized_allocations m) in
      guardC (items = []) (ValueError ''database identity is not declared in adjudication manifest'') (readC (\<lambda>p.
      case existing_case h m p of
        Some existing \<Rightarrow>
          guardC (vk_manifest_hash existing \<noteq> manifest_hash h m) (ValueError ''ADJUDICATION_MANIFEST_CONFLICT'') (
          guardC (vk_evidence_hash existing \<noteq> evidence_hash h e) (ValueError ''ADJUDICATION_EVIDENCE_CHANGED'') (
          let declared = set (map (\<lambda>i. (al_position_id i, al_allocated_quantity i)) items);
              actual = set (map (\<lambda>a. (vl_position_id a, vl_allocated_quantity a)) (filter (\<lambda>a. vl_adjudication_id a = vk_adjudication_id existing
                \<and> vl_database_identity a = database_identity) (pa_allocations p))) in
          if actual = declared then returnC existing
          else guardC (actual \<noteq> {}) (ValueError ''adjudication manifest conflicts with prepared allocation'') (
          bindC (pureC (validate_participant m p items)) (\<lambda>_.
          bindC (add_allocations (allocation_rows h ids m e (vk_adjudication_id existing) items)) (\<lambda>_. returnC existing)))))
      | None \<Rightarrow>
          bindC (pureC (validate_participant m p items)) (\<lambda>_.
          bindC (modifyC (\<lambda>p. p\<lparr>pa_cases := pa_cases p @ [new_case h m e]\<rparr>)) (\<lambda>_.
          bindC flush_participant (\<lambda>_.
          bindC (raise_as (\<lambda>x. case x of IntegrityError _ \<Rightarrow> ValueError ''ADJUDICATION_MANIFEST_CONFLICT'' | _ \<Rightarrow> x)
            (add_allocations (allocation_rows h ids m e (am_adjudication_id m) items))) (\<lambda>_. returnC (new_case h m e))))))))"

definition prepare_adjudication ::
    "hashing \<Rightarrow> (nat \<Rightarrow> string) \<Rightarrow> AdjudicationManifest \<Rightarrow> string \<Rightarrow>
     (string \<Rightarrow> string \<Rightarrow> string \<Rightarrow> ('w, ExchangeAggregateExitEvidence) call) option \<Rightarrow> ('w \<times> participant, V2AdjudicationCase) call" where
  "prepare_adjudication h ids m database_identity evidence_provider = (\<lambda>(w, p).
     case evidence_provider of
       None \<Rightarrow> (Inl (ValueError ''UNVERIFIED_EXCHANGE_EVIDENCE''), (w, p))
     | Some provider \<Rightarrow>
         (case provider (am_exchange_order_id m) (am_exchange_trade_id m) (am_symbol m) w of
            (Inl x, w') \<Rightarrow> (Inl x, (w', p))
          | (Inr e, w') \<Rightarrow>
              (case bindC (pureC (validate_manifest m e)) (\<lambda>_. prepare_with h ids m database_identity e) p of (r, p') \<Rightarrow> (r, (w', p')))))"

section \<open>Finalisation\<close>

text \<open>A loop that normalises the quantities of a list.\<close>

fun normalized_pairs :: "(string \<times> dec) list \<Rightarrow> (string \<times> dec) list res" where
  "normalized_pairs [] = Inr []"
| "normalized_pairs ((k, q) # rest) = bindR (normalized_quantity q) (\<lambda>q'. bindR (normalized_pairs rest) (\<lambda>qs. Inr ((k, q') # qs)))"

definition preflight ::
    "hashing \<Rightarrow> AdjudicationManifest \<Rightarrow> ExchangeAggregateExitEvidence \<Rightarrow> string \<Rightarrow> participant \<Rightarrow> string res" where
  "preflight h m e database_identity p =
     guardR (\<exists>c\<in>set (pa_cases p). vk_case_key c = case_key h m \<and> vk_manifest_hash c \<noteq> manifest_hash h m)
       (ValueError ''FINALIZABLE exchange trade is already prepared by a different adjudication'')
     (case existing_case h m p of
        None \<Rightarrow> Inl (ValueError ''FINALIZABLE requires every participant prepared with the same manifest'')
      | Some c \<Rightarrow>
          guardR (vk_manifest_hash c \<noteq> manifest_hash h m \<or> vk_evidence_hash c \<noteq> evidence_hash h e
              \<or> vk_exchange_order_id c \<noteq> am_exchange_order_id m \<or> vk_exchange_trade_id c \<noteq> am_exchange_trade_id m)
            (ValueError ''FINALIZABLE requires every participant prepared with the same manifest'')
          (bindR (normalized_quantity (vk_exchange_fill_quantity c)) (\<lambda>q.
           bindR (normalized_quantity (am_exchange_fill_quantity m)) (\<lambda>q'.
           guardR (q \<noteq> q') (ValueError ''FINALIZABLE requires every participant prepared with the same manifest'')
          (let rows = filter (\<lambda>a. vl_adjudication_id a = vk_adjudication_id c \<and> vl_database_identity a = database_identity) (pa_allocations p);
               items = filter (\<lambda>i. al_database_identity i = database_identity) (normalized_allocations m) in
           bindR (normalized_pairs (map (\<lambda>a. (vl_position_id a, vl_allocated_quantity a)) rows)) (\<lambda>prepared.
           bindR (normalized_pairs (map (\<lambda>i. (al_position_id i, al_allocated_quantity i)) items)) (\<lambda>expected.
           guardR (set (map (\<lambda>i. (i, manifest_hash h m, evidence_hash h e)) expected)
               \<noteq> set (zip prepared (map (\<lambda>a. (vl_manifest_hash a, vl_evidence_hash a)) rows)))
             (ValueError ''FINALIZABLE requires every declared allocation to be prepared'')
           (Inr (vk_adjudication_id c)))))))))"

fun preflight_all ::
    "hashing \<Rightarrow> AdjudicationManifest \<Rightarrow> ExchangeAggregateExitEvidence \<Rightarrow> (string \<times> participant) list \<Rightarrow> string list res" where
  "preflight_all h m e [] = Inr []"
| "preflight_all h m e ((database_identity, p) # sessions) =
     bindR (preflight h m e database_identity p) (\<lambda>c. bindR (preflight_all h m e sessions) (\<lambda>cs. Inr (c # cs)))"

definition finalization_row ::
    "hashing \<Rightarrow> string \<Rightarrow> AdjudicationManifest \<Rightarrow> ExchangeAggregateExitEvidence \<Rightarrow> string \<Rightarrow> AllocationSpec \<Rightarrow> V2AdjudicationFinalization" where
  "finalization_row h row_id m e adjudication_id item =
     \<lparr>vz_finalization_id = row_id, vz_adjudication_id = adjudication_id, vz_manifest_hash = manifest_hash h m,
      vz_evidence_hash = evidence_hash h e, vz_database_identity = al_database_identity item, vz_position_id = al_position_id item,
      vz_exchange_order_id = am_exchange_order_id m, vz_exchange_trade_id = am_exchange_trade_id m,
      vz_aggregate_quantity = am_exchange_fill_quantity m, vz_allocated_quantity = al_allocated_quantity item,
      vz_before_state = ''QUARANTINED'', vz_after_state = ''CLOSED'', vz_operator_identity = am_operator_identity m,
      vz_operator_reason = am_operator_reason m, vz_finalized_at = am_exchange_fill_timestamp m\<rparr>"

definition finalization_of :: "string \<Rightarrow> AllocationSpec \<Rightarrow> db \<Rightarrow> V2AdjudicationFinalization option" where
  "finalization_of adjudication_id item d =
     List.find (\<lambda>z. vz_adjudication_id z = adjudication_id \<and> vz_position_id z = al_position_id item) (db_finalizations d)"

text \<open>The identifiers of the row and of the event are drawn per allocation.\<close>

definition finalize_item ::
    "hashing \<Rightarrow> draws \<Rightarrow> AdjudicationManifest \<Rightarrow> ExchangeAggregateExitEvidence \<Rightarrow> string \<Rightarrow> AllocationSpec \<Rightarrow> (db, unit) call" where
  "finalize_item h u m e adjudication_id item = readC (\<lambda>d.
     someC (find_row vp_position_id (al_position_id item) (db_positions d)) (ValueError ''RECOVERY_FINALIZATION_INCOMPLETE'') (\<lambda>position.
     case finalization_of adjudication_id item d of
       Some z \<Rightarrow>
         guardC (vz_manifest_hash z \<noteq> manifest_hash h m \<or> vz_evidence_hash z \<noteq> evidence_hash h e
             \<or> vz_exchange_trade_id z \<noteq> am_exchange_trade_id m \<or> vz_allocated_quantity z \<noteq> al_allocated_quantity item)
           (ValueError ''RECOVERY_FINALIZATION_CONFLICT'') (returnC ())
     | None \<Rightarrow>
         guardC (vp_state position \<noteq> V2PositionState.QUARANTINED) (ValueError ''RECOVERY_FINALIZATION_INCOMPLETE'')
         (finalize_quarantined_historical_attribution (dr_id u 1) (finalization_row h (dr_id u 0) m e adjudication_id item))))"

fun finalize_items ::
    "hashing \<Rightarrow> (nat \<Rightarrow> draws) \<Rightarrow> AdjudicationManifest \<Rightarrow> ExchangeAggregateExitEvidence \<Rightarrow> string \<Rightarrow> nat \<Rightarrow> AllocationSpec list \<Rightarrow> (db, unit) call" where
  "finalize_items h us m e adjudication_id n [] = returnC ()"
| "finalize_items h us m e adjudication_id n (item # items) =
     bindC (finalize_item h (us n) m e adjudication_id item) (\<lambda>_. finalize_items h us m e adjudication_id (Suc n) items)"

definition finalize_session ::
    "hashing \<Rightarrow> (nat \<Rightarrow> draws) \<Rightarrow> AdjudicationManifest \<Rightarrow> ExchangeAggregateExitEvidence \<Rightarrow> string \<Rightarrow> string \<Rightarrow> (participant, unit) call" where
  "finalize_session h us m e database_identity adjudication_id =
     bindC (\<lambda>p. case finalize_items h us m e adjudication_id 0
         (filter (\<lambda>i. al_database_identity i = database_identity) (normalized_allocations m)) (pa_db p) of (r, d) \<Rightarrow> (r, p\<lparr>pa_db := d\<rparr>))
       (\<lambda>_. flush_participant)"

text \<open>The second loop: a session that raises leaves the later ones untouched, the earlier ones changed.\<close>

fun finalize_sessions ::
    "hashing \<Rightarrow> (string \<Rightarrow> nat \<Rightarrow> draws) \<Rightarrow> AdjudicationManifest \<Rightarrow> ExchangeAggregateExitEvidence \<Rightarrow> string list
      \<Rightarrow> ((string \<times> participant) list, unit) call" where
  "finalize_sessions h us m e cs [] = (Inr (), [])"
| "finalize_sessions h us m e [] ss = (Inr (), ss)"
| "finalize_sessions h us m e (c # cs) ((database_identity, p) # ss) =
     (case finalize_session h (us database_identity) m e database_identity c p of
        (Inl x, p') \<Rightarrow> (Inl x, (database_identity, p') # ss)
      | (Inr _, p') \<Rightarrow> (case finalize_sessions h us m e cs ss of (r, ss') \<Rightarrow> (r, (database_identity, p') # ss')))"

definition finalize_adjudication ::
    "hashing \<Rightarrow> (string \<Rightarrow> nat \<Rightarrow> draws) \<Rightarrow> AdjudicationManifest \<Rightarrow>
     (string \<Rightarrow> string \<Rightarrow> string \<Rightarrow> ('w, ExchangeAggregateExitEvidence) call) \<Rightarrow> ('w \<times> (string \<times> participant) list, unit) call" where
  "finalize_adjudication h us m provider = (\<lambda>(w, ss).
     case provider (am_exchange_order_id m) (am_exchange_trade_id m) (am_symbol m) w of
       (Inl x, w') \<Rightarrow> (Inl x, (w', ss))
     | (Inr e, w') \<Rightarrow>
         (case bindR (validate_manifest m e) (\<lambda>_.
              guardR (set (map fst ss) \<noteq> al_database_identity ` set (normalized_allocations m))
                (ValueError ''FINALIZABLE requires one session per declared database'') (preflight_all h m e ss)) of
            Inl x \<Rightarrow> (Inl x, (w', ss))
          | Inr cs \<Rightarrow> (case finalize_sessions h us m e cs ss of (r, ss') \<Rightarrow> (r, (w', ss')))))"

section \<open>Nothing is finalised before everything is prepared\<close>

lemma preflight_all_each:
  "preflight_all h m e ss = Inr cs \<Longrightarrow> (i, p) \<in> set ss \<Longrightarrow> \<exists>c. preflight h m e i p = Inr c"
  by (induction ss arbitrary: cs) (auto simp: bindR_Inr_iff)

lemma normalized_pairs_Inr:
  "normalized_pairs xs = Inr ys \<Longrightarrow> map fst ys = map fst xs \<and> list_all2 (\<lambda>x y. normalized_quantity (snd x) = Inr (snd y)) xs ys"
  by (induction xs arbitrary: ys rule: normalized_pairs.induct) (auto simp: bindR_Inr_iff)

lemma normalized_pairs_at:
  assumes "normalized_pairs xs = Inr ys" "n < length xs"
  shows "n < length ys" "fst (ys ! n) = fst (xs ! n)" "normalized_quantity (snd (xs ! n)) = Inr (snd (ys ! n))"
proof -
  note p = normalized_pairs_Inr [OF assms(1)]
  then have len: "length ys = length xs" by (metis length_map)
  then show "n < length ys" using assms(2) by simp
  show "fst (ys ! n) = fst (xs ! n)" using p assms(2) len by (metis nth_map)
  show "normalized_quantity (snd (xs ! n)) = Inr (snd (ys ! n))" using p assms(2) by (auto dest: list_all2_nthD)
qed

text \<open>An allocation the manifest declares is prepared under the case c.\<close>

definition prepared :: "hashing \<Rightarrow> AdjudicationManifest \<Rightarrow> ExchangeAggregateExitEvidence \<Rightarrow> V2AdjudicationCase \<Rightarrow> participant \<Rightarrow> AllocationSpec \<Rightarrow> bool" where
  "prepared h m e c p item \<longleftrightarrow> (\<exists>a\<in>set (pa_allocations p). vl_adjudication_id a = vk_adjudication_id c
     \<and> vl_database_identity a = al_database_identity item \<and> vl_position_id a = al_position_id item
     \<and> vl_manifest_hash a = manifest_hash h m \<and> vl_evidence_hash a = evidence_hash h e
     \<and> normalized_quantity (vl_allocated_quantity a) = normalized_quantity (al_allocated_quantity item))"

lemma preflight_prepared:
  assumes "preflight h m e i p = Inr x"
  shows "\<exists>c\<in>set (pa_cases p). vk_case_key c = case_key h m \<and> vk_manifest_hash c = manifest_hash h m \<and> vk_evidence_hash c = evidence_hash h e
    \<and> vk_adjudication_id c = x \<and> list_all (prepared h m e c p) (filter (\<lambda>s. al_database_identity s = i) (normalized_allocations m))"
proof -
  obtain c where c: "existing_case h m p = Some c" using assms by (auto simp: preflight_def guardR_def split: option.splits if_splits)
  let ?rows = "filter (\<lambda>a. vl_adjudication_id a = vk_adjudication_id c \<and> vl_database_identity a = i) (pa_allocations p)"
  let ?items = "filter (\<lambda>s. al_database_identity s = i) (normalized_allocations m)"
  from assms c obtain ps xs where hashes: "vk_manifest_hash c = manifest_hash h m" "vk_evidence_hash c = evidence_hash h e" "vk_adjudication_id c = x"
    and ps: "normalized_pairs (map (\<lambda>a. (vl_position_id a, vl_allocated_quantity a)) ?rows) = Inr ps"
    and xs: "normalized_pairs (map (\<lambda>s. (al_position_id s, al_allocated_quantity s)) ?items) = Inr xs"
    and eq: "set (map (\<lambda>y. (y, manifest_hash h m, evidence_hash h e)) xs) = set (zip ps (map (\<lambda>a. (vl_manifest_hash a, vl_evidence_hash a)) ?rows))"
    by (auto simp: preflight_def guardR_def Let_def bindR_Inr_iff split: if_splits)
  have c': "c \<in> set (pa_cases p)" "vk_case_key c = case_key h m" using c by (auto simp: existing_case_def find_Some_iff)
  have "prepared h m e c p s" if s: "s \<in> set ?items" for s
  proof -
    obtain n where n: "n < length ?items" "s = ?items ! n" using s by (metis in_set_conv_nth)
    then have x: "n < length xs" "fst (xs ! n) = al_position_id s" "normalized_quantity (al_allocated_quantity s) = Inr (snd (xs ! n))"
      using normalized_pairs_at [OF xs, of n] by simp_all
    then have "(xs ! n, manifest_hash h m, evidence_hash h e) \<in> set (zip ps (map (\<lambda>a. (vl_manifest_hash a, vl_evidence_hash a)) ?rows))"
      unfolding eq [symmetric] by simp
    then obtain k where k: "k < length ps" "k < length ?rows" "ps ! k = xs ! n"
      "vl_manifest_hash (?rows ! k) = manifest_hash h m" "vl_evidence_hash (?rows ! k) = evidence_hash h e" by (auto simp: set_zip)
    note at = normalized_pairs_at(2,3) [OF ps, of k]
    have "?rows ! k \<in> set ?rows" using k(2) by (rule nth_mem)
    then show ?thesis unfolding prepared_def using k at x(2,3) s by (intro bexI [of _ "?rows ! k"]) auto
  qed
  with hashes c' show ?thesis by (auto simp: list_all_iff)
qed

text \<open>
  C14.  No database changes before every one is prepared: when the finalisation touches anything, however it
  ends, the sessions are those of the declared databases, each holds the case of this very trade with the
  hashes of this manifest and of the evidence read now, and every declared allocation is prepared under it.
\<close>

theorem finalization_needs_every_participant:
  assumes "finalize_adjudication h us m provider (w, ss) = (r, (w', ss'))" "ss' \<noteq> ss"
  shows "\<exists>e. provider (am_exchange_order_id m) (am_exchange_trade_id m) (am_symbol m) w = (Inr e, w') \<and> validate_manifest m e = Inr ()
    \<and> set (map fst ss) = al_database_identity ` set (normalized_allocations m)
    \<and> (\<forall>(i, p)\<in>set ss. \<exists>c\<in>set (pa_cases p). vk_case_key c = case_key h m \<and> vk_manifest_hash c = manifest_hash h m
        \<and> vk_evidence_hash c = evidence_hash h e
        \<and> list_all (prepared h m e c p) (filter (\<lambda>s. al_database_identity s = i) (normalized_allocations m)))"
proof -
  from assms obtain e cs where e: "provider (am_exchange_order_id m) (am_exchange_trade_id m) (am_symbol m) w = (Inr e, w')"
      "validate_manifest m e = Inr ()" "set (map fst ss) = al_database_identity ` set (normalized_allocations m)"
    and cs: "preflight_all h m e ss = Inr cs"
    by (auto simp: finalize_adjudication_def bindR_Inr_iff guardR_def split: prod.splits sum.splits if_splits)
  have "\<exists>c\<in>set (pa_cases p). vk_case_key c = case_key h m \<and> vk_manifest_hash c = manifest_hash h m \<and> vk_evidence_hash c = evidence_hash h e
      \<and> list_all (prepared h m e c p) (filter (\<lambda>s. al_database_identity s = i) (normalized_allocations m))" if "(i, p) \<in> set ss" for i p
    using preflight_all_each [OF cs that] preflight_prepared by blast
  with e show ?thesis by blast
qed

section \<open>A finalisation is complete and can be repeated\<close>

definition settled :: "hashing \<Rightarrow> AdjudicationManifest \<Rightarrow> ExchangeAggregateExitEvidence \<Rightarrow> string \<Rightarrow> db \<Rightarrow> AllocationSpec \<Rightarrow> bool" where
  "settled h m e c d item \<longleftrightarrow> find_row vp_position_id (al_position_id item) (db_positions d) \<noteq> None
     \<and> (\<exists>z. finalization_of c item d = Some z \<and> vz_manifest_hash z = manifest_hash h m \<and> vz_evidence_hash z = evidence_hash h e
          \<and> vz_exchange_trade_id z = am_exchange_trade_id m \<and> vz_allocated_quantity z = al_allocated_quantity item)"

lemma settled_again: "settled h m e c d item \<Longrightarrow> finalize_item h u m e c item d = (Inr (), d)"
  by (auto simp: settled_def finalize_item_def readC_def someC_def)

lemma find_append_Some: "List.find P xs = Some z \<Longrightarrow> List.find P (xs @ ys) = Some z"
  by (induction xs) (auto split: if_splits)

lemma find_append_None: "List.find P xs = None \<Longrightarrow> List.find P (xs @ ys) = List.find P ys"
  by (induction xs) (auto split: if_splits)

lemma find_row_ids: "find_row key k rows = None \<longleftrightarrow> k \<notin> set (map key rows)"
  by (auto simp: find_row_None)

lemma finalize_item_fresh:
  assumes "finalize_item h u m e c item d = (Inr x, d')" "finalization_of c item d = None"
  shows "db_finalizations d' = db_finalizations d @ [finalization_row h (dr_id u 0) m e c item]"
    "map vp_position_id (db_positions d') = map vp_position_id (db_positions d)"
    "find_row vp_position_id (al_position_id item) (db_positions d) \<noteq> None" "db_fills d' = db_fills d" "db_orders d' = db_orders d"
  using assms
  by (auto simp: finalize_item_def finalize_quarantined_historical_attribution_def finalization_of_def finalization_row_def append_event_def
      store_def readC_def someC_iff guardC_iff bindC_Inr_iff Let_def)

lemma finalize_item_settles:
  assumes "finalize_item h u m e c item d = (Inr x, d')"
  shows "settled h m e c d' item \<and> (settled h m e c d other \<longrightarrow> settled h m e c d' other) \<and> db_fills d' = db_fills d \<and> db_orders d' = db_orders d"
proof (cases "finalization_of c item d")
  case None
  note f = finalize_item_fresh [OF assms None]
  have row: "vz_adjudication_id (finalization_row h (dr_id u 0) m e c item) = c"
    "vz_position_id (finalization_row h (dr_id u 0) m e c item) = al_position_id item" by (simp_all add: finalization_row_def)
  have "finalization_of c item d' = Some (finalization_row h (dr_id u 0) m e c item)"
    using None row unfolding finalization_of_def f(1) by (simp add: find_append_None)
  moreover have "find_row vp_position_id (al_position_id item) (db_positions d') \<noteq> None" using f(3) unfolding find_row_ids f(2) .
  ultimately have this_one: "settled h m e c d' item" unfolding settled_def by (simp add: finalization_row_def)
  have "settled h m e c d' other" if o: "settled h m e c d other"
  proof -
    obtain z where z: "finalization_of c other d = Some z" "vz_manifest_hash z = manifest_hash h m" "vz_evidence_hash z = evidence_hash h e"
      "vz_exchange_trade_id z = am_exchange_trade_id m" "vz_allocated_quantity z = al_allocated_quantity other"
      using o by (auto simp: settled_def)
    have "finalization_of c other d' = Some z" using z(1) unfolding finalization_of_def f(1) by (rule find_append_Some)
    moreover have "find_row vp_position_id (al_position_id other) (db_positions d') \<noteq> None"
      using o unfolding settled_def find_row_ids f(2) by blast
    ultimately show ?thesis using z by (simp add: settled_def)
  qed
  with this_one show ?thesis using f by simp
next
  case (Some z)
  then have "d' = d" "settled h m e c d item" using assms
    by (auto simp: finalize_item_def settled_def readC_def someC_iff guardC_iff)
  then show ?thesis by simp
qed

lemma finalize_items_settle:
  "finalize_items h us m e c n items d = (Inr x, d') \<Longrightarrow> (\<forall>i\<in>set items. settled h m e c d' i)
     \<and> (\<forall>o'. settled h m e c d o' \<longrightarrow> settled h m e c d' o') \<and> db_fills d' = db_fills d \<and> db_orders d' = db_orders d"
proof (induction items arbitrary: n d)
  case (Cons item items)
  then obtain y d1 where one: "finalize_item h (us n) m e c item d = (Inr y, d1)" and rest: "finalize_items h us m e c (Suc n) items d1 = (Inr x, d')"
    by (auto simp: bindC_Inr_iff)
  from Cons.IH [OF rest] finalize_item_settles [OF one] show ?case by simp
qed simp

lemma finalize_items_again: "\<forall>i\<in>set items. settled h m e c d i \<Longrightarrow> finalize_items h us m e c n items d = (Inr (), d)"
  by (induction items arbitrary: n) (simp_all add: settled_again bindC_def)

abbreviation items_for :: "AdjudicationManifest \<Rightarrow> string \<Rightarrow> AllocationSpec list" where
  "items_for m i \<equiv> filter (\<lambda>s. al_database_identity s = i) (normalized_allocations m)"

lemma finalize_session_settles:
  assumes "finalize_session h us m e i c p = (Inr x, p')"
  shows "\<forall>s\<in>set (items_for m i). settled h m e c (pa_db p') s" "pa_cases p' = pa_cases p" "pa_allocations p' = pa_allocations p"
    "db_fills (pa_db p') = db_fills (pa_db p)" "db_orders (pa_db p') = db_orders (pa_db p)" "finalize_session h us' m e i c p' = (Inr (), p')"
proof -
  obtain d where d: "finalize_items h us m e c 0 (items_for m i) (pa_db p) = (Inr (), d)" "p' = p\<lparr>pa_db := d\<rparr>"
    and fl: "adjudication_constraints p'" "constraints (pa_db p')"
    using assms by (auto simp: finalize_session_def bindC_Inr_iff flush_participant_def split: prod.splits if_splits)
  from finalize_items_settle [OF d(1)] show set: "\<forall>s\<in>set (items_for m i). settled h m e c (pa_db p') s"
    "pa_cases p' = pa_cases p" "pa_allocations p' = pa_allocations p"
    "db_fills (pa_db p') = db_fills (pa_db p)" "db_orders (pa_db p') = db_orders (pa_db p)" by (simp_all add: d(2))
  have "finalize_items h us' m e c 0 (items_for m i) (pa_db p') = (Inr (), pa_db p')" using set(1) by (rule finalize_items_again)
  then show "finalize_session h us' m e i c p' = (Inr (), p')" using fl by (simp add: finalize_session_def bindC_def flush_participant_def)
qed

lemma finalize_sessions_settle:
  "\<lbrakk>finalize_sessions h us m e cs ss = (Inr x, ss'); preflight_all h m e ss = Inr cs\<rbrakk> \<Longrightarrow>
     finalize_sessions h us' m e cs ss' = (Inr (), ss') \<and> preflight_all h m e ss' = Inr cs
     \<and> list_all2 (\<lambda>(i, p) (i', p'). i' = i \<and> (\<forall>s\<in>set (items_for m i). \<exists>c. settled h m e c (pa_db p') s)
          \<and> db_fills (pa_db p') = db_fills (pa_db p) \<and> db_orders (pa_db p') = db_orders (pa_db p)) ss ss'"
proof (induction ss arbitrary: cs ss')
  case (Cons ip ss)
  obtain i p where ip: "ip = (i, p)" by (cases ip)
  from Cons.prems(2) obtain c cs0 where cs: "cs = c # cs0" "preflight h m e i p = Inr c" "preflight_all h m e ss = Inr cs0"
    by (auto simp: ip bindR_Inr_iff)
  from Cons.prems(1) obtain p' ss0 where one: "finalize_session h (us i) m e i c p = (Inr (), p')"
    and rest: "finalize_sessions h us m e cs0 ss = (Inr x, ss0)" and ss': "ss' = (i, p') # ss0"
    by (auto simp: ip cs(1) split: prod.splits sum.splits)
  note s = finalize_session_settles [OF one]
  have "preflight h m e i p' = preflight h m e i p" unfolding preflight_def existing_case_def s(2,3) by (rule refl)
  then show ?case using Cons.IH [OF rest cs(3)] s(1,4,5) s(6) [of "us' i"] cs by (auto simp: ip ss')
qed simp


section \<open>A run over two databases\<close>

definition demo_hashing :: hashing where
  "demo_hashing = \<lparr>hx_digest = (\<lambda>j. case j of JObj ((k, _) # _) \<Rightarrow> k | _ \<Rightarrow> []), hx_dec = (\<lambda>_. ''q''), hx_iso = (\<lambda>_. ''t'')\<rparr>"

definition demo_manifest :: AdjudicationManifest where
  "demo_manifest = \<lparr>am_adjudication_id = ''adj'', am_symbol = ''ETH/USDT'', am_exchange_order_id = ''x9'', am_exchange_trade_id = ''t9'',
     am_exchange_fill_quantity = 3, am_exchange_fill_side = ''sell'', am_exchange_fill_price = 100, am_exchange_fill_timestamp = 7,
     am_operator_identity = ''op'', am_operator_reason = ''why'', am_allocations = [Triple ''A'' ''p1'' 1, Triple ''B'' ''p2'' 2],
     am_account_scope_key = ''acct''\<rparr>"

definition demo_evidence :: ExchangeAggregateExitEvidence where
  "demo_evidence = \<lparr>ag_exchange_order_id = ''x9'', ag_exchange_trade_id = ''t9'', ag_symbol = ''ETH/USDT'', ag_side = ''SELL'',
     ag_reduce_only = True, ag_executed_quantity = 3, ag_trade_quantity = 3, ag_price = 100, ag_exchange_event_time = 7,
     ag_verification_reference = ''ref''\<rparr>"

definition demo_quarantined :: "string \<Rightarrow> dec \<Rightarrow> V2ManagedPosition" where
  "demo_quarantined i q = \<lparr>vp_position_id = i, vp_intent_id = ''i1'', vp_order_record_id = ''o1'', vp_symbol = ''ETH/USDT'', vp_direction = ''long'',
     vp_execution_mode = V2ExecutionMode.BINANCE_TESTNET, vp_quantity = q, vp_entry_price = 90, vp_entry_fee = 0,
     vp_state = V2PositionState.QUARANTINED, vp_version = 1, vp_projected_at = 1, vp_protected_at = None, vp_closed_at = None, vp_realized_pnl = None\<rparr>"

definition demo_participant :: "string \<Rightarrow> string \<Rightarrow> dec \<Rightarrow> participant" where
  "demo_participant i pos q = \<lparr>pa_db = empty_db\<lparr>db_positions := [demo_quarantined pos q]\<rparr>,
     pa_cases = [new_case demo_hashing demo_manifest demo_evidence],
     pa_allocations = allocation_rows demo_hashing (\<lambda>_. ''a'') demo_manifest demo_evidence ''adj''
       [\<lparr>al_database_identity = i, al_position_id = pos, al_allocated_quantity = q\<rparr>]\<rparr>"

definition demo_sessions :: "(string \<times> participant) list" where
  "demo_sessions = [(''A'', demo_participant ''A'' ''p1'' 1), (''B'', demo_participant ''B'' ''p2'' 2)]"

definition demo_finalize :: "(unit \<times> (string \<times> participant) list) \<Rightarrow> unit res \<times> unit \<times> (string \<times> participant) list" where
  "demo_finalize = finalize_adjudication demo_hashing (\<lambda>i n. \<lparr>dr_id = (\<lambda>k. if k = 0 then ''z'' else ''e''), dr_now = (\<lambda>_. 0)\<rparr>) demo_manifest
     (\<lambda>_ _ _ w. (Inr demo_evidence, w))"

lemma demo_finalized:
  "fst (demo_finalize ((), demo_sessions)) = Inr ()"
  "map (\<lambda>(i, p). (i, map vp_state (db_positions (pa_db p)), length (db_finalizations (pa_db p)))) (snd (snd (demo_finalize ((), demo_sessions))))
    = [(''A'', [V2PositionState.CLOSED], 1), (''B'', [V2PositionState.CLOSED], 1)]"
  by code_simp+

theorem finalization_needs_every_participant_witness:
  "\<exists>ss'. demo_finalize ((), demo_sessions) = (Inr (), ((), ss')) \<and> ss' \<noteq> demo_sessions
     \<and> set (map fst demo_sessions) = al_database_identity ` set (normalized_allocations demo_manifest)"
proof -
  let ?ss = "snd (snd (demo_finalize ((), demo_sessions)))"
  have run: "demo_finalize ((), demo_sessions) = (Inr (), ((), ?ss))"
    using demo_finalized(1) by (cases "demo_finalize ((), demo_sessions)") auto
  have "map (\<lambda>(i, p). (i, map vp_state (db_positions (pa_db p)), length (db_finalizations (pa_db p)))) demo_sessions \<noteq>
      [(''A'', [V2PositionState.CLOSED], 1), (''B'', [V2PositionState.CLOSED], 1)]"
    by (simp add: demo_sessions_def demo_participant_def empty_db_def)
  then have changed: "?ss \<noteq> demo_sessions" using demo_finalized(2) by metis
  from finalization_needs_every_participant [OF run [unfolded demo_finalize_def] changed [unfolded demo_finalize_def]] run changed
  show ?thesis by blast
qed


end
