(* ===== verification/Spec2Isabelle.thy ===== *)
theory Spec2Isabelle
  imports Entry Exit Protection Recovery Portfolio_Risk Receipts Execution_State_Machine
    Account_Writer Fill_Normalizer Binance_Adapter Binance_Engine Ledger_Services Local_State Decision Lane_Controls Fencing Adjudication
begin

text \<open>
  A verification library for the automated trading engine V2 (\<open>services/automated_trading/\<close>): the
  part of the repository that decides on trades, sends orders to the Binance futures testnet and
  keeps the ledger of what happened.  Paths below are relative to \<open>services/automated_trading/\<close> unless they
  start at \<open>services/\<close> or \<open>shared/\<close>.

  \<^bold>\<open>The program.\<close>  A cycle evaluates one closed bar of one symbol.  The decision service walks the bar
  through a funnel of stages and may return a trade candidate.  The entry gate and the portfolio budget
  admit it; the fact persistence reserves its risk in the database; the entry coordinator submits one
  market order and projects a position only on confirmed fills; the protection coordinator places the
  stop and closes the position when it cannot; the profit protection step moves the stop in favour of
  the position; the exit coordinator only reduces.  Reconciliation compares the account at the exchange
  with the ledger, recovery plans and executes reduce-only repairs.  A writer fence on the machine and
  fencing tokens in the database keep a second writer out.  The exchange is reached through an adapter.

  \<^bold>\<open>Foundations.\<close>
  \<^item> Prelude: exceptions as the values of \<open>exn\<close>, results \<open>'a res\<close> as a sum, calls that change a world
    (\<open>('w, 'a) call\<close>) with their sequencing and handlers, strings.
  \<^item> Py\_Decimal: \<open>decimal.Decimal\<close> as rationals, every operation rounded half-even to 28 digits as the
    default context does; the locale \<open>dec_context\<close> states what the proofs use of rounding, \<open>scaled\<close>
    quantities are those on which the step arithmetic is exact.
  \<^item> Py\_Json, Sha256, Uuid5: decoded payloads (a float is the text Python prints for it), the hash and the
    name-based identifiers of the standard library, on bytes and 32-bit words.  Strings are UTF-8 bytes.
  \<^item> Enums, State\_Tables: \<open>domain/enums.py\<close>, \<open>domain/state.py\<close> and the older order tables.  The locales
    \<open>lifecycle\<close> and \<open>ranked_lifecycle\<close> give reachability and bounded lives for every table once.

  \<^bold>\<open>Decisions.\<close>
  \<^item> Candidates (\<open>domain/candidates.py\<close>), Funnel (\<open>observability/decision_funnel.py\<close>): the candidate contract and
    the builder of the stage record.
  \<^item> Decision (\<open>application/decision_service.py\<close>): indicators, the sampling rules, one definition per stage and
    \<open>evaluate_symbol\<close>.  Shown: the recorded stages are a prefix of the funnel up to the terminal one; a
    candidate is returned exactly when every rule holds; outside the shadow lane an evaluation concludes.
  \<^item> Lane\_Controls (\<open>application/risk_controls.py\<close>, \<open>application/sampling_service.py\<close>): the cost gate, antitone in every
    cost, and the throttle, which keeps its caps and its cooldown on every run of the lane.
  \<^item> Portfolio\_Risk (\<open>domain/portfolio_risk.py\<close>), Runtime\_Lock (\<open>infrastructure/runtime_lock.py\<close>): budget and activation.

  \<^bold>\<open>The exchange.\<close>
  \<^item> Client\_Order\_Id, Receipts: \<open>domain/client_order_id.py\<close>; \<open>domain/receipts.py\<close> and \<open>domain/invariants.py\<close>.
  \<^item> Exchange: commands, snapshots and the record \<open>'w adapter\<close> of the calls the services make, each a
    function of the world it runs in; \<open>logged\<close> wraps an adapter and writes down what was sent, so
    statements about orders are statements about this log, for every behaviour of the exchange.
  \<^item> Fill\_Normalizer (\<open>infrastructure/fill_normalizer.py\<close>): deduplicated fills do not depend on delivery.
  \<^item> Account\_Writer (\<open>infrastructure/account_writer.py\<close>): registry, lock file and lease as a step machine; the locale
    \<open>generation_fence\<close> gives that an overtaken capability is refused for ever.
  \<^item> Binance\_Adapter (\<open>infrastructure/binance_adapter.py\<close>): the adapter over the calls of the client library, which are
    a parameter; no mutation without a current capability.  Binance\_Engine states what its exceptions mean
    for the services, in the locale \<open>unified_errors\<close>.
  \<^item> Execution\_State\_Machine: the reducer of exchange events of \<open>services/execution/state_machine.py\<close>.

  \<^bold>\<open>Services.\<close>
  \<^item> Entry, Exit, Protection, Reconciliation, Recovery: the files \<open>entry_service.py\<close>, \<open>exit_service.py\<close>,
    \<open>protection_service.py\<close>, \<open>reconciliation_service.py\<close> and \<open>recovery_service.py\<close> of \<open>application/\<close>.  Shown: what each may send,
    that nothing is projected, protected or closed without evidence from the exchange, that blocked is
    the default, and that recovery plans cover what reconciliation found.
  \<^item> Recovery\_Executor (\<open>application/recovery_executor.py\<close>): one handler per action on exchange and database.
  \<^item> Profit\_Protection (\<open>risk_controls.py\<close> and \<open>_apply_profit_protection\<close> of \<open>application/cycle_service.py\<close>): levels P1 to P3 and
    the replacement of stops.  Shown: P1 locks a profit short of the mark; every replacement is
    strictly better than the stop in force and comes before the cancellation; a failed step commits nothing.
  \<^item> Fencing (\<open>application/fencing.py\<close> and the lease of \<open>runtime_lock.py\<close>): a lease is granted exactly when no foreign cycle
    started in the window.

  \<^bold>\<open>The ledger.\<close>
  \<^item> Database (\<open>infrastructure/models.py\<close>): rows as records, tables as lists in insertion order, the declared
    constraints as a predicate every flush checks, and the session with its committed and its visible
    database.  Repository (\<open>infrastructure/repository.py\<close>): every operation.  Transactions: sessions beside the exchange,
    and the calculus \<open>stays\<close> for what every step keeps however it ends; \<open>keeps\<close> is the same for one call.
  \<^item> Event\_Log, Repository\_Invariants, Repository\_Facts: the locale \<open>versioned_rows\<close> and the invariant \<open>repo_inv\<close>, kept by
    every call: replaying the events of a row gives its state and version, positions rest on fills, cached
    totals are those of the fills.
  \<^item> Fact\_Persistence, Exit\_Persistence (\<open>application/fact_persistence.py\<close>), with Persistence\_Facts and Exit\_Facts: reservation
    within the budget, settlement of exits, immutability of closed receipts, cleaning of protections.
  \<^item> Historical\_Ledger (\<open>application/historical_ledger.py\<close>): the cutover of old entries adds one incident, once.
  \<^item> Adjudication (\<open>application/adjudication.py\<close>): an operator attributes one aggregate exit to quarantined positions of
    several databases.  Shown: nothing is finalised before every database is prepared with the same manifest,
    and a finalisation that returned is complete and can be repeated.
  \<^item> Ledger\_Calls, Ledger\_Services: the invariant after any sequence of calls of all these services, with any
    answers of the exchange in between and however each call ends.
  \<^item> Local\_State (\<open>load_local_state_from_session\<close> of \<open>application/reconciliation_service.py\<close>): the view of the ledger that
    reconciliation compares with the account.  Shown: positions of the ledger are always recognised as
    own, and a healthy status means every open position of the ledger is at the exchange and protected.
  \<^item> This theory: the outcomes the coordinators report are legal in the state tables.

  \<^bold>\<open>How code is modelled.\<close>  A dataclass is a record, an enumeration a datatype, a method one definition with
  the guards and early returns of the code.  Exceptions are values; the interpolated part of a message
  is left out, and so are log lines and the text of reasons and details where nothing is computed from
  them; where such a text reaches a column it is a parameter.  Fresh identifiers and clock readings are
  the arguments \<open>draws\<close>, \<open>moment\<close> and \<open>funnel_env\<close>; times are microseconds.  A float written to a column is the
  parameter \<open>flt\<close>.  The database has no foreign keys (their enforcement is off), no columns
  filled in by the server (where one is read it is a parameter), and numeric columns keep the value given.

  \<^bold>\<open>Bounds.\<close>  All functions are total.  The retry loop of the protection coordinator recurses on the number
  of attempts left, which is the bound of the loop in the code; loops over lists recurse on the list.
  Statements on exact step arithmetic ask for quantities with at most k decimals and fewer than 27
  digits (\<open>scaled\<close>), statements on P1 for prices with fewer than 24 (\<open>priced\<close>); the exchange sends far fewer.

  \<^bold>\<open>Not modelled.\<close>  The rest of \<open>cycle_service.py\<close>, which calls the services above in turn and is mostly
  logging, result payloads and the selection of strategies outside this package; \<open>production_strategy.py\<close>, \<open>canonical_strategy_manifest.py\<close> and \<open>strategy_package_identity.py\<close>, which
  compare manifests with files and hashes of the strategy library; the audits under \<open>audit/\<close>, the advisory
  review and operator profiles, which send no orders; serialisation of funnels to dictionaries and the reading of
  the JSON snapshot of the runtime interface.  Outside the package: the
  older gateway and scheduler under \<open>services/execution/\<close> except its reducer, the HTTP interface, research,
  agents, data and validation services, none of which belongs to the engine.
\<close>

section \<open>Outcomes and the state tables\<close>

lemma entry_outcome_states:
  assumes "execute_entry c g s a i q lev act mg w = (Inr r, w')"
  shows "er_intent_state r \<in> {V2IntentState.INTENT_CREATED, V2IntentState.EXCHANGE_UNKNOWN,
    V2IntentState.EXCHANGE_ACKNOWLEDGED, V2IntentState.FILLED, V2IntentState.REJECTED}
    \<and> (er_intent_state r = V2IntentState.INTENT_CREATED \<longrightarrow> w' = w)"
proof (cases "\<exists>n cid. submits c g s i q act n cid")
  case True
  then obtain n cid where sub: "submits c g s i q act n cid" by metis
  let ?m = "submit_market_order a (entry_command i n lev cid) (tc_symbol c) (entry_side c) w"
  obtain x w1 where m: "?m = (x, w1)" by (cases ?m) auto
  show ?thesis
  proof (cases x)
    case (Inl e)
    with assms m show ?thesis unfolding execute_entry_submits [OF sub]
      by (auto simp: entry_result_def split: if_splits)
  next
    case (Inr rc)
    then have "after_acknowledgement a c i cid n lev mg rc w1 = (Inr r, w')"
      using assms m unfolding execute_entry_submits [OF sub] by simp
    then show ?thesis
      by (auto simp: after_acknowledgement_def entry_result_def
          split: option.splits if_splits sum.splits prod.splits bool.splits)
  qed
next
  case False
  with assms execute_entry_not_submitted [OF False, of a lev mg w] show ?thesis by simp
qed

text \<open>
  C31.  The entry coordinator only reports outcomes that the intent state table can take: either
  the intent stays INTENT_CREATED and the exchange was not called, or the reported state is a
  legal successor of EXCHANGE_SUBMITTING, so the sequence created, submitting, outcome is
  accepted by the transition validator.
\<close>

theorem entry_outcome_is_legal:
  assumes "execute_entry c g s a i q lev act mg w = (Inr r, w')"
  shows "(er_intent_state r = V2IntentState.INTENT_CREATED \<and> w' = w)
    \<or> accepted validate_intent_transition V2IntentState.INTENT_CREATED
        [V2IntentState.EXCHANGE_SUBMITTING, er_intent_state r]"
  using entry_outcome_states [OF assms] by (auto simp: intent_lc.validate_ok_iff)

theorem entry_outcome_is_legal_witness:
  "\<exists>r. execute_entry demo_candidate demo_gate demo_market
         (scripted None [scripted_fill 1] (Inl ExchangeTimeout)) ''i1'' 1 3
         EngineActivation.ACTIVE no_guard () = (Inr r, ())
     \<and> position_projectable r \<and> (er_intent_state r = V2IntentState.INTENT_CREATED
       \<or> accepted validate_intent_transition V2IntentState.INTENT_CREATED
           [V2IntentState.EXCHANGE_SUBMITTING, er_intent_state r])"
proof -
  let ?a = "scripted None [scripted_fill 1] (Inl ExchangeTimeout)"
  obtain r where r: "execute_entry demo_candidate demo_gate demo_market ?a ''i1'' 1 3
       EngineActivation.ACTIVE no_guard () = (Inr r, ())" "position_projectable r"
    using demo_entry_filled by blast
  with entry_outcome_is_legal [OF r(1)] show ?thesis by blast
qed

text \<open>
  An exit can never reopen or invent a position state: whatever the exchange answers, the
  reported state is REDUCING or CLOSED, both legal from PROTECTED, and from REDUCING; and an
  exit that reports CLOSED leaves the position in a state with no further transition.
\<close>

theorem exit_outcome_is_legal:
  assumes "execute_reduce_only_exit d a aq st pids w = (Inr r, w')"
    and "current \<in> {V2PositionState.PROTECTED, V2PositionState.REDUCING}"
  shows "is_ok (validate_position_transition current (xr_position_state r))
    \<and> (xr_position_state r = V2PositionState.CLOSED \<longleftrightarrow> position_closed r)
    \<and> (position_closed r \<longrightarrow> (\<forall>ns. accepted validate_position_transition (xr_position_state r) ns \<longrightarrow>
          set ns \<subseteq> {V2PositionState.CLOSED}))"
proof -
  have st: "xr_position_state r = V2PositionState.REDUCING \<and> \<not> position_closed r
      \<or> xr_position_state r = V2PositionState.CLOSED \<and> position_closed r"
    using assms(1)
    by (auto simp: execute_reduce_only_exit_def on_already_flat_def after_exit_acknowledged_def Let_def
        exit_result_def position_closed_def split: if_splits sum.splits prod.splits)
  moreover have "set ns \<subseteq> {V2PositionState.CLOSED}"
    if "accepted validate_position_transition V2PositionState.CLOSED ns" for ns
    using position_lc.absorbing [OF that] by simp
  ultimately show ?thesis using assms(2) by (elim disjE) (auto simp: position_lc.validate_ok_iff)
qed

theorem exit_outcome_is_legal_witness:
  "\<exists>r. execute_reduce_only_exit demo_exit (scripted (Some ExitTimeout) [] (Inl ExitTimeout)) 2
      (1 / 1000) [] () = (Inr r, ())
    \<and> is_ok (validate_position_transition V2PositionState.PROTECTED (xr_position_state r))"
proof -
  obtain r where r: "execute_reduce_only_exit demo_exit (scripted (Some ExitTimeout) [] (Inl ExitTimeout)) 2
      (1 / 1000) [] () = (Inr r, ())"
    by (simp add: execute_reduce_only_exit_def demo_exit_def ed_approved_def)
  from exit_outcome_is_legal [OF r, of V2PositionState.PROTECTED] r show ?thesis by simp
qed

end
